(* ===== verification/Js_Prelude.thy ===== *)
theory Js_Prelude
  imports Main "HOL-Library.Sublist"
begin

text \<open>
  What every component shares: the parts of the JavaScript language and library that the
  sources use (truthiness, \<open>??\<close>, \<open>Array.find\<close>, \<open>String.startsWith\<close>, \<open>split\<close>, \<open>join\<close>, \<open>trim\<close>,
  \<open>charAt(0).toUpperCase()\<close>), the result of an awaited call, labelled transition systems with
  their reachable states, and the named collections the component theories fill.

  Strings are lists of code units below 256, the type \<^typ>\<open>string\<close>. A JavaScript value that may be
  \<open>undefined\<close> or \<open>null\<close> where the code treats both alike (\<open>?.\<close>, \<open>??\<close>, \<open>!x\<close>) is an option.
\<close>

named_theorems store_simps "updates of the client-side stores, one per operation"
named_theorems route_simps "the responses of the route handlers, one per branch"
named_theorems view_simps "what the components show, one per branch"

subsection \<open>Types named after their use\<close>

type_synonym id = string
type_synonym 'a dict = "string \<rightharpoonup> 'a"

subsection \<open>Truthiness and nullish coalescing\<close>

text \<open>\<open>!!s\<close> for \<open>s : string | null | undefined\<close>: absent and empty strings are falsy.\<close>

fun truthy :: "string option \<Rightarrow> bool" where
  "truthy None = False"
| "truthy (Some s) = (s \<noteq> [])"

text \<open>\<open>a ?? b\<close>.\<close>

fun nullish :: "'a option \<Rightarrow> 'a \<Rightarrow> 'a" where
  "nullish None d = d"
| "nullish (Some x) d = x"

lemma truthy_iff: "truthy v \<longleftrightarrow> (\<exists>s. v = Some s \<and> s \<noteq> [])"
  by (cases v) auto

lemma nullish_conv: "nullish v d = (case v of None \<Rightarrow> d | Some x \<Rightarrow> x)"
  by (cases v) auto

subsection \<open>Strings\<close>

definition starts_with :: "string \<Rightarrow> string \<Rightarrow> bool" where
  "starts_with p s \<longleftrightarrow> take (length p) s = p"

lemma starts_with_append [simp]: "starts_with p (p @ s)"
  by (simp add: starts_with_def)

lemma starts_with_iff: "starts_with p s \<longleftrightarrow> (\<exists>r. s = p @ r)"
proof
  assume "starts_with p s"
  then have "s = p @ drop (length p) s"
    unfolding starts_with_def by (metis append_take_drop_id)
  then show "\<exists>r. s = p @ r" by blast
qed auto

text \<open>\<open>s.split(c)\<close> for a one-character separator, and \<open>parts.join(c)\<close>.\<close>

fun js_split :: "char \<Rightarrow> string \<Rightarrow> string list" where
  "js_split c [] = [[]]"
| "js_split c (x # xs) =
     (if x = c then [] # js_split c xs
      else (case js_split c xs of [] \<Rightarrow> [[x]] | p # ps \<Rightarrow> (x # p) # ps))"

fun js_join :: "string \<Rightarrow> string list \<Rightarrow> string" where
  "js_join sep [] = []"
| "js_join sep [p] = p"
| "js_join sep (p # q # ps) = p @ sep @ js_join sep (q # ps)"

lemma js_split_nonempty [simp]: "js_split c s \<noteq> []"
  by (induction s) (auto split: list.splits)

lemma js_join_Cons: "ps \<noteq> [] \<Longrightarrow> js_join sep (p # ps) = p @ sep @ js_join sep ps"
  by (cases ps) auto

lemma js_join_split [simp]: "js_join [c] (js_split c s) = s"
proof (induction s)
  case (Cons x xs)
  then show ?case
    by (cases "js_split c xs") (auto simp: js_join_Cons split: list.splits, cases "tl (js_split c xs)", auto)
qed simp

lemma js_split_no_sep: "c \<notin> set s \<Longrightarrow> js_split c s = [s]"
  by (induction s) auto

lemma js_split_append:
  "c \<notin> set s \<Longrightarrow> js_split c (s @ c # t) = s # js_split c t"
  by (induction s) auto

text \<open>\<open>s.trim()\<close>: the white space of the language among code units below 256.\<close>

definition js_space :: "char \<Rightarrow> bool" where
  "js_space c \<longleftrightarrow> of_char c \<in> {9, 10, 11, 12, 13, 32, 160 :: nat}"

definition js_trim :: "string \<Rightarrow> string" where
  "js_trim s = rev (dropWhile js_space (rev (dropWhile js_space s)))"

lemma js_trim_Nil [simp]: "js_trim [] = []"
  by (simp add: js_trim_def)

lemma dropWhile_rev_idem:
  "dropWhile P (rev (dropWhile P (rev xs))) = rev (dropWhile P (rev (dropWhile P xs)))"
proof (induction xs)
  case (Cons x xs)
  show ?case
  proof (cases "P x")
    case True
    with Cons show ?thesis
      by (cases "dropWhile P (rev xs) = []") (auto simp: dropWhile_append)
  next
    case False
    then show ?thesis by (auto simp: dropWhile_append)
  qed
qed simp

lemma js_trim_idem [simp]: "js_trim (js_trim s) = js_trim s"
  by (simp add: js_trim_def dropWhile_rev_idem [symmetric])

lemma js_trim_hd: "js_trim s \<noteq> [] \<Longrightarrow> \<not> js_space (hd (js_trim s))"
  using hd_dropWhile [of js_space "rev (dropWhile js_space (rev s))"]
  by (metis dropWhile_rev_idem js_trim_def dropWhile_eq_Nil_conv)

text \<open>
  \<open>s.toUpperCase()\<close> on the letters whose upper case is again below 256 (the sharp s becomes two
  letters); the micro sign and y with diaeresis, whose upper case lies above, are kept.
\<close>

definition upper_char :: "char \<Rightarrow> string" where
  "upper_char c = (let n = of_char c :: nat in
     if 97 \<le> n \<and> n \<le> 122 \<or> 224 \<le> n \<and> n \<le> 254 \<and> n \<noteq> 247 then [char_of (n - 32)]
     else if n = 223 then ''SS'' else [c])"

definition js_upper :: "string \<Rightarrow> string" where
  "js_upper s = concat (map upper_char s)"

text \<open>\<open>s.charAt(0)\<close> is the empty string on the empty string.\<close>

definition char_at0 :: "string \<Rightarrow> string" where
  "char_at0 s = take 1 s"

definition lower_char :: "char \<Rightarrow> char" where
  "lower_char c = (let n = of_char c :: nat in
     if 65 \<le> n \<and> n \<le> 90 \<or> 192 \<le> n \<and> n \<le> 222 \<and> n \<noteq> 215 then char_of (n + 32) else c)"

definition js_lower :: "string \<Rightarrow> string" where
  "js_lower s = map lower_char s"

lemma js_lower_length [simp]: "length (js_lower s) = length s"
  by (simp add: js_lower_def)

text \<open>\<open>s.includes(t)\<close>.\<close>

fun js_includes :: "string \<Rightarrow> string \<Rightarrow> bool" where
  "js_includes [] t = (t = [])"
| "js_includes (c # s) t = (starts_with t (c # s) \<or> js_includes s t)"

lemma js_includes_iff: "js_includes s t \<longleftrightarrow> (\<exists>u v. s = u @ t @ v)"
proof (induction s)
  case (Cons c s)
  show ?case
  proof
    assume "js_includes (c # s) t"
    then consider "starts_with t (c # s)" | "js_includes s t" by auto
    then show "\<exists>u v. c # s = u @ t @ v"
    proof cases
      case 1
      then show ?thesis by (metis append_Nil starts_with_iff)
    next
      case 2
      with Cons.IH show ?thesis by (metis append_Cons)
    qed
  next
    assume "\<exists>u v. c # s = u @ t @ v"
    then obtain u v where uv: "c # s = u @ t @ v" by blast
    show "js_includes (c # s) t"
    proof (cases u)
      case Nil
      with uv have "starts_with t (c # s)" by (auto simp: starts_with_iff)
      then show ?thesis by simp
    next
      case (Cons d u')
      with uv Cons.IH show ?thesis by auto
    qed
  qed
qed simp

subsection \<open>Awaited calls\<close>

text \<open>
  What a rejected call of the HTTP client carries, as the handlers read it:
  \<open>err.response?.status\<close> and \<open>err.response?.data?.error\<close>. A request that never got a response
  and an error thrown by the code itself have no \<open>response\<close>.
\<close>

datatype api_error =
    No_Response
  | Http_Error (err_code: nat) (err_text: "string option")
  | Thrown string

fun err_status :: "api_error \<Rightarrow> nat option" where
  "err_status (Http_Error n t) = Some n"
| "err_status _ = None"

fun err_message :: "api_error \<Rightarrow> string option" where
  "err_message (Http_Error n t) = t"
| "err_message _ = None"

type_synonym 'a awaited = "api_error + 'a"

subsection \<open>Labelled transition systems\<close>

inductive reachable :: "('s \<Rightarrow> bool) \<Rightarrow> ('s \<Rightarrow> 'e \<Rightarrow> 's \<Rightarrow> bool) \<Rightarrow> 's \<Rightarrow> bool"
  for start :: "'s \<Rightarrow> bool" and step :: "'s \<Rightarrow> 'e \<Rightarrow> 's \<Rightarrow> bool" where
  reach_start: "start s \<Longrightarrow> reachable start step s"
| reach_step: "reachable start step s \<Longrightarrow> step s e t \<Longrightarrow> reachable start step t"

text \<open>The states a run over a list of labels passes through.\<close>

fun runs :: "('s \<Rightarrow> 'e \<Rightarrow> 's \<Rightarrow> bool) \<Rightarrow> 's \<Rightarrow> 'e list \<Rightarrow> 's \<Rightarrow> bool" where
  "runs step s [] t \<longleftrightarrow> t = s"
| "runs step s (e # es) t \<longleftrightarrow> (\<exists>u. step s e u \<and> runs step u es t)"

lemma runs_append: "runs step s (es @ fs) t \<longleftrightarrow> (\<exists>u. runs step s es u \<and> runs step u fs t)"
  by (induction es arbitrary: s) auto

lemma runs_snoc: "runs step s (es @ [e]) t \<longleftrightarrow> (\<exists>u. runs step s es u \<and> step u e t)"
  by (simp add: runs_append)

lemma runs_keeps:
  "runs step s es t \<Longrightarrow> P s \<Longrightarrow> (\<And>u e v. P u \<Longrightarrow> step u e v \<Longrightarrow> e \<in> set es \<Longrightarrow> P v) \<Longrightarrow> P t"
proof (induction es arbitrary: s)
  case (Cons e es)
  from Cons.prems(1) obtain u where u: "step s e u" "runs step u es t" by auto
  have "P u" by (rule Cons.prems(3) [OF Cons.prems(2) u(1)]) simp
  then show ?case
    by (rule Cons.IH [OF u(2)]) (erule Cons.prems(3), assumption, simp)
qed simp

lemma runs_reachable: "reachable start step s \<Longrightarrow> runs step s es t \<Longrightarrow> reachable start step t"
  by (induction es arbitrary: s) (auto intro: reach_step)

text \<open>
  The contract of a component whose state is guarded by an invariant: it holds at the start and
  every step keeps it. Proved once: it holds in every reachable state and along every run.
\<close>

locale guarded_system =
  fixes start :: "'s \<Rightarrow> bool"
    and step :: "'s \<Rightarrow> 'e \<Rightarrow> 's \<Rightarrow> bool"
    and inv :: "'s \<Rightarrow> bool"
  assumes inv_start: "start s \<Longrightarrow> inv s"
    and inv_step: "inv s \<Longrightarrow> step s e t \<Longrightarrow> inv t"
begin

lemma inv_reachable: "reachable start step s \<Longrightarrow> inv s"
  by (induction rule: reachable.induct) (auto intro: inv_start inv_step)

lemma inv_runs: "inv s \<Longrightarrow> runs step s es t \<Longrightarrow> inv t"
  by (induction es arbitrary: s) (auto intro: inv_step)

end

text \<open>
  A part of the state that a component shows to others, and the abstract machine it follows: every step
  changes what is observed as the machine does on the step's label. Proved once: after a run the observation is
  the machine's, and labels the machine ignores cannot be observed.
\<close>

locale observed_system =
  fixes step :: "'s \<Rightarrow> 'e \<Rightarrow> 's \<Rightarrow> bool"
    and observe :: "'s \<Rightarrow> 'a"
    and machine :: "'e \<Rightarrow> 'a \<Rightarrow> 'a"
  assumes observe_step: "step s e t \<Longrightarrow> observe t = machine e (observe s)"
begin

lemma observe_runs: "runs step s es t \<Longrightarrow> observe t = fold machine es (observe s)"
  by (induction es arbitrary: s) (auto dest: observe_step)

lemma observe_ignored: "runs step s es t \<Longrightarrow> (\<And>e a. e \<in> set es \<Longrightarrow> machine e a = a) \<Longrightarrow> observe t = observe s"
proof -
  have "(\<And>e a. e \<in> set es \<Longrightarrow> machine e a = a) \<Longrightarrow> fold machine es a = a" for a
    by (induction es) auto
  then show "runs step s es t \<Longrightarrow> (\<And>e a. e \<in> set es \<Longrightarrow> machine e a = a) \<Longrightarrow> ?thesis"
    using observe_runs by metis
qed

end

subsection \<open>Lists with a key\<close>

text \<open>
  The two list idioms of the stores. \<open>if (xs.some(y => key(y) === key(x))) return xs; [...xs, x]\<close>
  and \<open>xs.map(y => key(y) === k ? upd(y) : y)\<close>.
\<close>

definition append_absent :: "('a \<Rightarrow> 'k) \<Rightarrow> 'a \<Rightarrow> 'a list \<Rightarrow> 'a list" where
  "append_absent key x xs = (if list_ex (\<lambda>y. key y = key x) xs then xs else xs @ [x])"

definition update_where :: "('a \<Rightarrow> 'k) \<Rightarrow> 'k \<Rightarrow> ('a \<Rightarrow> 'a) \<Rightarrow> 'a list \<Rightarrow> 'a list" where
  "update_where key k upd xs = map (\<lambda>y. if key y = k then upd y else y) xs"

lemma append_absent_iff:
  "append_absent key x xs = (if key x \<in> key ` set xs then xs else xs @ [x])"
proof -
  have "list_ex (\<lambda>y. key y = key x) xs \<longleftrightarrow> key x \<in> key ` set xs"
    by (auto simp: list_ex_iff image_iff) (metis)
  then show ?thesis by (simp add: append_absent_def)
qed

lemma distinct_append_absent:
  "distinct (map key xs) \<Longrightarrow> distinct (map key (append_absent key x xs))"
  by (auto simp: append_absent_iff)

lemma keys_append_absent: "key ` set (append_absent key x xs) = insert (key x) (key ` set xs)"
  by (auto simp: append_absent_iff)

lemma append_absent_twice: "append_absent key x (append_absent key x xs) = append_absent key x xs"
  by (auto simp: append_absent_iff)

lemma append_absent_prefix: "\<exists>zs. append_absent key x xs = xs @ zs"
  by (auto simp: append_absent_iff)

lemma append_absent_fold:
  "\<exists>zs. fold (append_absent key) ys xs = xs @ zs \<and> subseq zs ys"
proof (induction ys arbitrary: xs)
  case (Cons y ys)
  show ?case
  proof (cases "key y \<in> key ` set xs")
    case True
    with Cons.IH [of xs] show ?thesis by (auto simp: append_absent_iff)
  next
    case False
    with Cons.IH [of "xs @ [y]"] show ?thesis by (auto simp: append_absent_iff)
  qed
qed simp

lemma length_update_where [simp]: "length (update_where key k upd xs) = length xs"
  by (simp add: update_where_def)

lemma keys_update_where:
  "(\<And>y. key (upd y) = key y) \<Longrightarrow> map key (update_where key k upd xs) = map key xs"
  by (simp add: update_where_def)

lemma nth_update_where:
  "i < length xs \<Longrightarrow>
   update_where key k upd xs ! i = (if key (xs ! i) = k then upd (xs ! i) else xs ! i)"
  by (simp add: update_where_def)

end
