(* ===== verification/Json_Codec.thy ===== *)
theory Json_Codec
  imports Js_Prelude
begin

text \<open>
  JSON values with \<open>JSON.stringify\<close> and \<open>JSON.parse\<close>, which the routes, the session cookie and the
  WebSocket frames go through. A number is kept as the literal it was written with: the sources never
  compute with one. An object is the list of its members in order; property access is the lookup of a
  key, absent for \<open>undefined\<close>, and raises a \<open>TypeError\<close> on \<open>null\<close>.

  \<open>json_codec\<close> states what the program relies on (parsing what was written gives it back);
  the interpretation at the end discharges it for the two functions.
\<close>

datatype json =
    JNull
  | JBool bool
  | JNum string
  | JStr string
  | JArr "json list"
  | JObj "(string \<times> json) list"

datatype js_error = TypeError | SyntaxError

subsection \<open>Reading a value\<close>

text \<open>\<open>v.k\<close>: an error on \<open>null\<close>, \<open>undefined\<close> (None) on a value that has no such property.\<close>

fun get_prop :: "json \<Rightarrow> string \<Rightarrow> js_error + json option" where
  "get_prop JNull k = Inl TypeError"
| "get_prop (JObj ms) k = Inr (map_of ms k)"
| "get_prop v k = Inr None"

text \<open>\<open>v?.k\<close> and the reads of the handlers that are known not to be \<open>null\<close>.\<close>

fun js_prop :: "json \<Rightarrow> string \<Rightarrow> json option" where
  "js_prop (JObj ms) k = map_of ms k"
| "js_prop v k = None"

lemma get_prop_js_prop: "v \<noteq> JNull \<Longrightarrow> get_prop v k = Inr (js_prop v k)"
  by (cases v) auto

text \<open>The truth value of a number: zero is falsy, whatever its literal.\<close>

definition zero_literal :: "string \<Rightarrow> bool" where
  "zero_literal s \<longleftrightarrow>
     list_all (\<lambda>c. c \<in> {CHR ''0'', CHR ''.'', CHR ''-''})
       (takeWhile (\<lambda>c. c \<noteq> CHR ''e'' \<and> c \<noteq> CHR ''E'') s)"

fun json_truthy :: "json \<Rightarrow> bool" where
  "json_truthy JNull = False"
| "json_truthy (JBool b) = b"
| "json_truthy (JNum s) = (\<not> zero_literal s)"
| "json_truthy (JStr s) = (s \<noteq> [])"
| "json_truthy (JArr vs) = True"
| "json_truthy (JObj ms) = True"

fun opt_truthy :: "json option \<Rightarrow> bool" where
  "opt_truthy None = False"
| "opt_truthy (Some v) = json_truthy v"

text \<open>\<open>v ?? d\<close>, where \<open>v\<close> may be \<open>undefined\<close> or \<open>null\<close>.\<close>

fun json_nullish :: "json option \<Rightarrow> json \<Rightarrow> json" where
  "json_nullish None d = d"
| "json_nullish (Some JNull) d = d"
| "json_nullish (Some v) d = v"

text \<open>
  \<open>JSON.stringify\<close> leaves out the members whose value is \<open>undefined\<close>: an object literal with
  optional values is the list of those that are there.
\<close>

fun present_members :: "(string \<times> json option) list \<Rightarrow> (string \<times> json) list" where
  "present_members [] = []"
| "present_members ((k, None) # ms) = present_members ms"
| "present_members ((k, Some v) # ms) = (k, v) # present_members ms"

definition json_obj :: "(string \<times> json option) list \<Rightarrow> json" where
  "json_obj ms = JObj (present_members ms)"

subsection \<open>Writing\<close>

definition hex_digit :: "nat \<Rightarrow> char" where
  "hex_digit n = (if n < 10 then char_of (48 + n) else char_of (87 + n))"

definition quote_char :: "char \<Rightarrow> string" where
  "quote_char c = (let n = of_char c :: nat in
     if n = 34 then [CHR 0x5C, CHR 0x22]
     else if n = 92 then [CHR 0x5C, CHR 0x5C]
     else if n = 8 then [CHR 0x5C, CHR ''b'']
     else if n = 9 then [CHR 0x5C, CHR ''t'']
     else if n = 10 then [CHR 0x5C, CHR ''n'']
     else if n = 12 then [CHR 0x5C, CHR ''f'']
     else if n = 13 then [CHR 0x5C, CHR ''r'']
     else if n < 32 then [CHR 0x5C, CHR ''u'', CHR ''0'', CHR ''0'', hex_digit (n div 16), hex_digit (n mod 16)]
     else [c])"

definition quote :: "string \<Rightarrow> string" where
  "quote s = CHR 0x22 # concat (map quote_char s) @ [CHR 0x22]"

fun stringify :: "json \<Rightarrow> string"
  and stringify_items :: "json list \<Rightarrow> string"
  and stringify_members :: "(string \<times> json) list \<Rightarrow> string" where
  "stringify JNull = ''null''"
| "stringify (JBool b) = (if b then ''true'' else ''false'')"
| "stringify (JNum s) = s"
| "stringify (JStr s) = quote s"
| "stringify (JArr vs) = CHR ''['' # stringify_items vs @ [CHR '']'']"
| "stringify (JObj ms) = CHR ''{'' # stringify_members ms @ [CHR ''}'']"
| "stringify_items [] = []"
| "stringify_items [v] = stringify v"
| "stringify_items (v # w # vs) = stringify v @ CHR '','' # stringify_items (w # vs)"
| "stringify_members [] = []"
| "stringify_members [(k, v)] = quote k @ CHR '':'' # stringify v"
| "stringify_members ((k, v) # m # ms) =
     quote k @ CHR '':'' # stringify v @ CHR '','' # stringify_members (m # ms)"

subsection \<open>Parsing\<close>

definition json_ws :: "char \<Rightarrow> bool" where
  "json_ws c \<longleftrightarrow> c \<in> {CHR 0x20, CHR 0x09, CHR 0x0A, CHR 0x0D}"

definition skip_ws :: "string \<Rightarrow> string" where
  "skip_ws s = dropWhile json_ws s"

definition is_digit :: "char \<Rightarrow> bool" where
  "is_digit c \<longleftrightarrow> 48 \<le> (of_char c :: nat) \<and> (of_char c :: nat) \<le> 57"

definition num_char :: "char \<Rightarrow> bool" where
  "num_char c \<longleftrightarrow> is_digit c \<or> c \<in> {CHR ''-'', CHR ''+'', CHR ''.'', CHR ''e'', CHR ''E''}"

text \<open>The literal grammar: sign, integer part without a leading zero, fraction, exponent.\<close>

definition digits1 :: "string \<Rightarrow> bool" where
  "digits1 s \<longleftrightarrow> s \<noteq> [] \<and> list_all is_digit s"

definition int_literal :: "string \<Rightarrow> bool" where
  "int_literal s \<longleftrightarrow> digits1 s \<and> (hd s = CHR ''0'' \<longrightarrow> length s = 1)"

fun exp_part :: "string \<Rightarrow> bool" where
  "exp_part [] = True"
| "exp_part (e # s) =
     ((e = CHR ''e'' \<or> e = CHR ''E'') \<and>
      digits1 (case s of [] \<Rightarrow> [] | c # r \<Rightarrow> if c = CHR ''+'' \<or> c = CHR ''-'' then r else s))"

fun frac_exp_part :: "string \<Rightarrow> bool" where
  "frac_exp_part [] = True"
| "frac_exp_part (c # s) =
     (if c = CHR ''.'' then digits1 (takeWhile is_digit s) \<and> exp_part (dropWhile is_digit s)
      else exp_part (c # s))"

definition num_literal :: "string \<Rightarrow> bool" where
  "num_literal s \<longleftrightarrow> (let u = (case s of [] \<Rightarrow> [] | c # r \<Rightarrow> if c = CHR ''-'' then r else s) in
     int_literal (takeWhile is_digit u) \<and> frac_exp_part (dropWhile is_digit u) \<and> list_all num_char s)"

definition hex_value :: "char \<Rightarrow> nat option" where
  "hex_value c = (let n = of_char c :: nat in
     if 48 \<le> n \<and> n \<le> 57 then Some (n - 48)
     else if 97 \<le> n \<and> n \<le> 102 then Some (n - 87)
     else if 65 \<le> n \<and> n \<le> 70 then Some (n - 55) else None)"

fun hex4 :: "char \<Rightarrow> char \<Rightarrow> char \<Rightarrow> char \<Rightarrow> char option" where
  "hex4 a b c d = (case (hex_value a, hex_value b, hex_value c, hex_value d) of
     (Some w, Some x, Some y, Some z) \<Rightarrow>
       (if w = 0 \<and> x = 0 then Some (char_of (16 * y + z)) else None)
   | _ \<Rightarrow> None)"

definition simple_escape :: "char \<Rightarrow> char option" where
  "simple_escape c = (let n = of_char c :: nat in
     if n = 34 \<or> n = 92 \<or> n = 47 then Some c
     else if n = 98 then Some CHR 0x08
     else if n = 102 then Some CHR 0x0C
     else if n = 110 then Some CHR 0x0A
     else if n = 114 then Some CHR 0x0D
     else if n = 116 then Some CHR 0x09 else None)"

text \<open>The rest of a string literal after its opening quote, and what follows the closing one.\<close>

fun parse_chars :: "string \<Rightarrow> (string \<times> string) option" where
  "parse_chars [] = None"
| "parse_chars (c # s) =
     (if c = CHR 0x22 then Some ([], s)
      else if c = CHR 0x5C then
        (case s of [] \<Rightarrow> None
         | e # r \<Rightarrow>
             (if e = CHR ''u'' then
                (case r of h1 # h2 # h3 # h4 # q \<Rightarrow>
                   (case (hex4 h1 h2 h3 h4, parse_chars q) of
                      (Some x, Some (t, rest)) \<Rightarrow> Some (x # t, rest) | _ \<Rightarrow> None)
                 | _ \<Rightarrow> None)
              else
                (case (simple_escape e, parse_chars r) of
                   (Some x, Some (t, rest)) \<Rightarrow> Some (x # t, rest) | _ \<Rightarrow> None)))
      else if (of_char c :: nat) < 32 then None
      else (case parse_chars s of Some (t, rest) \<Rightarrow> Some (c # t, rest) | None \<Rightarrow> None))"

text \<open>
  A member put in front of the members after it: of two members with one key the later value wins
  and the earlier position stays.
\<close>

definition add_member :: "string \<Rightarrow> json \<Rightarrow> (string \<times> json) list \<Rightarrow> (string \<times> json) list" where
  "add_member k v ms = (case map_of ms k of
     None \<Rightarrow> (k, v) # ms
   | Some w \<Rightarrow> (k, w) # filter (\<lambda>m. fst m \<noteq> k) ms)"

text \<open>
  The value parser. Each call spends one unit of fuel; \<open>json_parse\<close> gives twice the length of the
  text and some, which the round trip below shows to be enough.
\<close>

fun parse_value :: "nat \<Rightarrow> string \<Rightarrow> (json \<times> string) option"
  and parse_items :: "nat \<Rightarrow> string \<Rightarrow> (json list \<times> string) option"
  and parse_members :: "nat \<Rightarrow> string \<Rightarrow> ((string \<times> json) list \<times> string) option" where
  "parse_value 0 s = None"
| "parse_value (Suc n) s = (case skip_ws s of
     [] \<Rightarrow> None
   | c # r \<Rightarrow>
       if c = CHR 0x22 then map_option (\<lambda>(t, q). (JStr t, q)) (parse_chars r)
       else if c = CHR ''['' then
         (case skip_ws r of d # q \<Rightarrow> if d = CHR '']'' then Some (JArr [], q)
            else map_option (\<lambda>(vs, q). (JArr vs, q)) (parse_items n r)
          | [] \<Rightarrow> None)
       else if c = CHR ''{'' then
         (case skip_ws r of d # q \<Rightarrow> if d = CHR ''}'' then Some (JObj [], q)
            else map_option (\<lambda>(ms, q). (JObj ms, q)) (parse_members n r)
          | [] \<Rightarrow> None)
       else if starts_with ''null'' (c # r) then Some (JNull, drop 3 r)
       else if starts_with ''true'' (c # r) then Some (JBool True, drop 3 r)
       else if starts_with ''false'' (c # r) then Some (JBool False, drop 4 r)
       else (let l = takeWhile num_char (c # r) in
         if num_literal l then Some (JNum l, dropWhile num_char (c # r)) else None))"
| "parse_items 0 s = None"
| "parse_items (Suc n) s = (case parse_value n s of
     None \<Rightarrow> None
   | Some (v, q) \<Rightarrow> (case skip_ws q of
       [] \<Rightarrow> None
     | d # q' \<Rightarrow>
         if d = CHR '']'' then Some ([v], q')
         else if d = CHR '','' then map_option (\<lambda>(vs, r). (v # vs, r)) (parse_items n q')
         else None))"
| "parse_members 0 s = None"
| "parse_members (Suc n) s = (case skip_ws s of
     [] \<Rightarrow> None
   | c # r \<Rightarrow> if c \<noteq> CHR 0x22 then None else (case parse_chars r of
       None \<Rightarrow> None
     | Some (k, q) \<Rightarrow> (case skip_ws q of
         [] \<Rightarrow> None
       | d # q1 \<Rightarrow> if d \<noteq> CHR '':'' then None else (case parse_value n q1 of
           None \<Rightarrow> None
         | Some (v, q2) \<Rightarrow> (case skip_ws q2 of
             [] \<Rightarrow> None
           | e # q3 \<Rightarrow>
               if e = CHR ''}'' then Some ([(k, v)], q3)
               else if e = CHR '','' then
                 map_option (\<lambda>(ms, t). (add_member k v ms, t)) (parse_members n q3)
               else None)))))"

definition json_parse :: "string \<Rightarrow> json option" where
  "json_parse s = (case parse_value (2 * length s + 2) s of
     Some (v, r) \<Rightarrow> if skip_ws r = [] then Some v else None
   | None \<Rightarrow> None)"

subsection \<open>Round trip\<close>

text \<open>The values a program can hold: number literals are literals, keys are unique.\<close>

fun wf_json :: "json \<Rightarrow> bool" where
  "wf_json (JNum s) = num_literal s"
| "wf_json (JArr vs) = list_all wf_json vs"
| "wf_json (JObj ms) = (distinct (map fst ms) \<and> list_all (\<lambda>m. wf_json (snd m)) ms)"
| "wf_json _ = True"

lemma present_members_keys: "fst ` set (present_members ms) \<subseteq> fst ` set ms"
  by (induction ms rule: present_members.induct) auto

lemma wf_present_members:
  "distinct (map fst ms) \<Longrightarrow> (\<And>k v. (k, Some v) \<in> set ms \<Longrightarrow> wf_json v) \<Longrightarrow>
   distinct (map fst (present_members ms)) \<and> list_all (\<lambda>m. wf_json (snd m)) (present_members ms)"
proof (induction ms rule: present_members.induct)
  case (3 k v ms)
  then have "k \<notin> fst ` set (present_members ms)" using present_members_keys [of ms] by auto
  with 3 show ?case by auto
qed auto

lemma wf_json_obj:
  "distinct (map fst ms) \<Longrightarrow> (\<And>k v. (k, Some v) \<in> set ms \<Longrightarrow> wf_json v) \<Longrightarrow> wf_json (json_obj ms)"
  using wf_present_members [of ms] by (simp add: json_obj_def)

lemma hex_value_digit: "d < 16 \<Longrightarrow> hex_value (hex_digit d) = Some d"
  by (auto simp: hex_value_def hex_digit_def Let_def)

lemma of_char_eq_iff: "(of_char c :: nat) = of_char d \<longleftrightarrow> c = d"
  by (metis char_of_char)

lemma char_nat_eq: "c = d \<longleftrightarrow> (of_char c :: nat) = of_char d"
  by (simp add: of_char_eq_iff)

lemma parse_quote_special:
  assumes "c = CHR 0x22 \<or> c = CHR 0x5C \<or> c = CHR 0x08 \<or> c = CHR 0x09 \<or> c = CHR 0x0A \<or>
    c = CHR 0x0C \<or> c = CHR 0x0D"
  shows "parse_chars (quote_char c @ t) = map_option (\<lambda>(x, r). (c # x, r)) (parse_chars t)"
  using assms
  by (elim disjE) (simp_all add: quote_char_def simple_escape_def split: option.split)

text \<open>A character written by its number.\<close>

definition unicode_escape :: "nat \<Rightarrow> string" where
  "unicode_escape n = [CHR 0x5C, CHR ''u'', CHR ''0'', CHR ''0'', hex_digit (n div 16), hex_digit (n mod 16)]"

lemma parse_unicode_escape:
  assumes "n < 256" "c = char_of n"
  shows "parse_chars (unicode_escape n @ t) = map_option (\<lambda>(x, r). (c # x, r)) (parse_chars t)"
proof -
  have "hex_value (hex_digit (n div 16)) = Some (n div 16)"
    and "hex_value (hex_digit (n mod 16)) = Some (n mod 16)"
    and "hex_value CHR ''0'' = Some 0"
    using assms(1) by (auto intro!: hex_value_digit) (simp add: hex_value_def)
  then have "hex4 CHR ''0'' CHR ''0'' (hex_digit (n div 16)) (hex_digit (n mod 16)) = Some c"
    using assms(1,2) by simp
  then show ?thesis
    by (simp add: unicode_escape_def split: option.split del: hex4.simps)
qed

lemma parse_quote_char:
  "parse_chars (quote_char c @ t) = map_option (\<lambda>(x, r). (c # x, r)) (parse_chars t)"
proof -
  define n where "n = (of_char c :: nat)"
  have c: "c = char_of n" by (simp add: n_def)
  consider "c = CHR 0x22 \<or> c = CHR 0x5C \<or> c = CHR 0x08 \<or> c = CHR 0x09 \<or> c = CHR 0x0A \<or>
      c = CHR 0x0C \<or> c = CHR 0x0D"
    | "n < 32" "n \<notin> {8, 9, 10, 12, 13}"
    | "32 \<le> n" "c \<noteq> CHR 0x22" "c \<noteq> CHR 0x5C"
    by (simp add: char_nat_eq n_def) (metis not_less)
  then show ?thesis
  proof cases
    case 1
    then show ?thesis by (rule parse_quote_special)
  next
    case 2
    then have "quote_char c = unicode_escape n"
      unfolding quote_char_def unicode_escape_def Let_def n_def [symmetric] by simp
    with 2 c show ?thesis by (simp add: parse_unicode_escape)
  next
    case 3
    then have "quote_char c = [c]"
      unfolding quote_char_def Let_def n_def [symmetric] by (simp add: char_nat_eq n_def)
    with 3 show ?thesis by (simp add: n_def split: option.split)
  qed
qed

lemma parse_quoted: "parse_chars (concat (map quote_char s) @ CHR 0x22 # rest) = Some (s, rest)"
  by (induction s) (simp_all add: parse_quote_char del: parse_chars.simps(2), simp)

lemma skip_ws_cons [simp]: "\<not> json_ws c \<Longrightarrow> skip_ws (c # s) = c # s"
  by (simp add: skip_ws_def)

lemma not_json_ws_punct [simp]:
  "\<not> json_ws CHR 0x22" "\<not> json_ws CHR '',''" "\<not> json_ws CHR '']''" "\<not> json_ws CHR ''}''"
  "\<not> json_ws CHR ''[''" "\<not> json_ws CHR ''{''" "\<not> json_ws CHR '':''"
  "\<not> json_ws CHR ''n''" "\<not> json_ws CHR ''t''" "\<not> json_ws CHR ''f''"
  by (auto simp: json_ws_def)

lemma num_literal_hd:
  assumes "num_literal s"
  obtains c r where "s = c # r" "is_digit c \<or> c = CHR ''-''"
proof (cases s)
  case Nil
  with assms show ?thesis by (simp add: num_literal_def int_literal_def digits1_def)
next
  case (Cons c r)
  with assms have "is_digit c \<or> c = CHR ''-''"
    by (auto simp: num_literal_def Let_def int_literal_def digits1_def split: if_splits)
  with Cons that show ?thesis by blast
qed

lemma digit_facts:
  "is_digit c \<or> c = CHR ''-'' \<Longrightarrow> \<not> json_ws c \<and> c \<noteq> CHR 0x22 \<and> c \<noteq> CHR ''['' \<and> c \<noteq> CHR ''{'' \<and>
     c \<noteq> CHR '']'' \<and> c \<noteq> CHR ''}'' \<and> c \<noteq> CHR ''n'' \<and> c \<noteq> CHR ''t'' \<and> c \<noteq> CHR ''f''"
  by (auto simp: is_digit_def json_ws_def)

lemma stringify_hd:
  assumes "wf_json v"
  obtains c r where "stringify v = c # r" "\<not> json_ws c" "c \<noteq> CHR '']''" "c \<noteq> CHR ''}''"
proof (cases v)
  case (JNum s)
  with assms have "num_literal s" by simp
  then obtain c r where "s = c # r" "is_digit c \<or> c = CHR ''-''" by (rule num_literal_hd)
  with digit_facts [of c] JNum that show ?thesis by auto
next
  case (JBool b)
  with that show ?thesis by (cases b) auto
qed (use that in \<open>auto simp: quote_def\<close>)

lemma stringify_length: "wf_json v \<Longrightarrow> 1 \<le> length (stringify v)"
  by (erule stringify_hd) simp


text \<open>What may follow a value without being read as part of it.\<close>

definition ends_value :: "string \<Rightarrow> bool" where
  "ends_value s \<longleftrightarrow> s = [] \<or> \<not> num_char (hd s)"

lemma ends_value_simps [simp]:
  "ends_value []" "ends_value (CHR '','' # s)" "ends_value (CHR '']'' # s)" "ends_value (CHR ''}'' # s)"
  by (auto simp: ends_value_def num_char_def is_digit_def)

lemma num_literal_chars: "num_literal s \<Longrightarrow> list_all num_char s"
  by (simp add: num_literal_def Let_def)

lemma takeWhile_literal:
  assumes "num_literal s" "ends_value r"
  shows "takeWhile num_char (s @ r) = s" "dropWhile num_char (s @ r) = r"
proof -
  have all: "\<forall>c \<in> set s. num_char c"
    using num_literal_chars [OF assms(1)] by (simp add: list_all_iff)
  have "takeWhile num_char r = []" "dropWhile num_char r = r"
    using assms(2) by (cases r; simp add: ends_value_def)+
  with all show "takeWhile num_char (s @ r) = s" "dropWhile num_char (s @ r) = r"
    by (simp_all add: takeWhile_append dropWhile_append)
qed

lemma parse_number:
  assumes "num_literal s" "ends_value r"
  shows "parse_value (Suc n) (s @ r) = Some (JNum s, r)"
proof -
  from assms(1) obtain c s' where s: "s = c # s'" and c: "is_digit c \<or> c = CHR ''-''"
    by (rule num_literal_hd)
  note tw = takeWhile_literal [OF assms, unfolded s append_Cons]
  from digit_facts [OF c] tw assms(1) s show ?thesis
    by (simp add: starts_with_def Let_def)
qed

lemma quote_cons: "quote s @ r = CHR 0x22 # (concat (map quote_char s) @ CHR 0x22 # r)"
  by (simp add: quote_def)

lemma parse_string: "parse_value (Suc n) (quote s @ r) = Some (JStr s, r)"
  unfolding quote_cons by (simp add: parse_quoted)

lemma length_quote: "2 \<le> length (quote s)"
  by (simp add: quote_def)

lemma add_member_new: "k \<notin> fst ` set ms \<Longrightarrow> add_member k v ms = (k, v) # ms"
  by (auto simp: add_member_def map_of_eq_None_iff [THEN iffD2])

lemma parse_member_step:
  "parse_members (Suc n) (quote k @ CHR '':'' # s) =
     (case parse_value n s of None \<Rightarrow> None
      | Some (v, q) \<Rightarrow> (case skip_ws q of [] \<Rightarrow> None
        | e # q' \<Rightarrow> if e = CHR ''}'' then Some ([(k, v)], q')
            else if e = CHR '','' then map_option (\<lambda>(ms, t). (add_member k v ms, t)) (parse_members n q')
            else None))"
  unfolding quote_cons by (simp add: parse_quoted)

declare parse_value.simps [simp del] parse_items.simps [simp del] parse_members.simps [simp del]

lemma parse_open_array:
  assumes "\<not> json_ws c" "c \<noteq> CHR '']''"
  shows "parse_value (Suc n) (CHR ''['' # c # s) = map_option (\<lambda>(vs, q). (JArr vs, q)) (parse_items n (c # s))"
  using assms by (simp add: parse_value.simps)

lemma parse_open_object:
  "parse_value (Suc n) (CHR ''{'' # quote k @ s) =
     map_option (\<lambda>(ms, q). (JObj ms, q)) (parse_members n (quote k @ s))"
  by (simp add: parse_value.simps quote_cons)

lemma parse_empty:
  "parse_value (Suc n) (CHR ''['' # CHR '']'' # r) = Some (JArr [], r)"
  "parse_value (Suc n) (CHR ''{'' # CHR ''}'' # r) = Some (JObj [], r)"
  by (simp_all add: parse_value.simps)

lemma parse_atom:
  "parse_value (Suc n) (''null'' @ r) = Some (JNull, r)"
  "parse_value (Suc n) (''true'' @ r) = Some (JBool True, r)"
  "parse_value (Suc n) (''false'' @ r) = Some (JBool False, r)"
  by (simp_all add: parse_value.simps starts_with_def)

lemma parse_stringify_aux:
  "wf_json v \<Longrightarrow> ends_value r \<Longrightarrow> 2 * length (stringify v) \<le> n \<Longrightarrow>
     parse_value n (stringify v @ r) = Some (v, r)"
  "list_all wf_json vs \<Longrightarrow> vs \<noteq> [] \<Longrightarrow> 2 * length (stringify_items vs) < n \<Longrightarrow>
     parse_items n (stringify_items vs @ CHR '']'' # r) = Some (vs, r)"
  "list_all (\<lambda>m. wf_json (snd m)) ms \<Longrightarrow> distinct (map fst ms) \<Longrightarrow> ms \<noteq> [] \<Longrightarrow>
     2 * length (stringify_members ms) < n \<Longrightarrow>
     parse_members n (stringify_members ms @ CHR ''}'' # r) = Some (ms, r)"
proof (induction v and vs and ms arbitrary: n r and n r and n r
    rule: stringify_stringify_items_stringify_members.induct)
  case 1
  then show ?case by (cases n) (auto simp: parse_atom [unfolded append.simps])
next
  case (2 b)
  then show ?case by (cases n; cases b) (auto simp: parse_atom [unfolded append.simps])
next
  case (3 s)
  then have "0 < n" using stringify_length [of "JNum s"] by simp
  with 3 show ?case by (cases n) (auto simp: parse_number)
next
  case (4 s)
  then have "0 < n" using length_quote [of s] by simp
  then show ?case by (cases n) (auto simp: parse_string)
next
  case (5 vs)
  then obtain m where n: "n = Suc m" by (cases n) auto
  show ?case
  proof (cases vs)
    case Nil
    then show ?thesis by (simp add: n parse_empty)
  next
    case (Cons v ws)
    with 5 have wf: "wf_json v" by simp
    obtain c t where ct: "stringify v = c # t" "\<not> json_ws c" "c \<noteq> CHR '']''"
      using stringify_hd [OF wf] by metis
    then obtain t' where t': "stringify_items vs = c # t'"
      using Cons by (cases ws) auto
    have "parse_items m (stringify_items vs @ CHR '']'' # r) = Some (vs, r)"
      using 5 Cons n by auto
    then show ?thesis using ct t' by (simp add: n parse_open_array)
  qed
next
  case (6 ms)
  then obtain m where n: "n = Suc m" by (cases n) auto
  show ?case
  proof (cases ms)
    case Nil
    then show ?thesis by (simp add: n parse_empty)
  next
    case (Cons kv ws)
    then obtain t k where t: "stringify_members ms = quote k @ t"
      by (cases kv; cases ws) auto
    have "parse_members m (stringify_members ms @ CHR ''}'' # r) = Some (ms, r)"
      using 6 Cons n by auto
    then show ?thesis using t by (simp add: n parse_open_object)
  qed
next
  case (8 v)
  then obtain m where n: "n = Suc m" by (cases n) auto
  with 8 have "parse_value m (stringify v @ CHR '']'' # r) = Some (v, CHR '']'' # r)" by auto
  then show ?case by (simp add: n parse_items.simps)
next
  case (9 v w vs)
  then obtain m where n: "n = Suc m" by (cases n) auto
  have a: "parse_value m (stringify v @ CHR '','' # stringify_items (w # vs) @ CHR '']'' # r) =
      Some (v, CHR '','' # stringify_items (w # vs) @ CHR '']'' # r)"
    using 9 n by auto
  have b: "parse_items m (stringify_items (w # vs) @ CHR '']'' # r) = Some (w # vs, r)"
    using 9 n by auto
  show ?case using a b by (simp add: n parse_items.simps(2) [of m])
next
  case (11 k v)
  then obtain m where n: "n = Suc m" by (cases n) auto
  with 11 have "parse_value m (stringify v @ CHR ''}'' # r) = Some (v, CHR ''}'' # r)" by auto
  then show ?case by (simp add: n parse_member_step)
next
  case (12 k v m' ms)
  then obtain m where n: "n = Suc m" by (cases n) auto
  let ?rest = "stringify_members (m' # ms) @ CHR ''}'' # r"
  have a: "parse_value m (stringify v @ CHR '','' # ?rest) = Some (v, CHR '','' # ?rest)"
    using 12 n by auto
  have b: "parse_members m ?rest = Some (m' # ms, r)"
    using 12 n by auto
  have "k \<notin> fst ` set (m' # ms)" using 12 by auto
  with a b show ?case by (simp add: n parse_member_step add_member_new)
qed auto

theorem parse_stringify: "wf_json v \<Longrightarrow> json_parse (stringify v) = Some v"
  using parse_stringify_aux(1) [of v "[]" "2 * length (stringify v) + 2"]
  by (simp add: json_parse_def skip_ws_def)

text \<open>What \<open>JSON.parse\<close> returns is a value of the program: its keys are unique.\<close>

lemma add_member_keys: "fst ` set (add_member k v ms) = insert k (fst ` set ms)"
proof (cases "map_of ms k")
  case None
  then show ?thesis by (simp add: add_member_def)
next
  case (Some w)
  then have "k \<in> fst ` set ms" by (metis fst_conv image_eqI map_of_SomeD)
  with Some show ?thesis by (auto simp: add_member_def)
qed

lemma distinct_add_member: "distinct (map fst ms) \<Longrightarrow> distinct (map fst (add_member k v ms))"
proof (induction ms)
  case (Cons m ms)
  then show ?case
    by (auto simp: add_member_def map_of_eq_None_iff distinct_map_filter split: option.splits)
qed (simp add: add_member_def)

lemma wf_add_member:
  "list_all (\<lambda>m. wf_json (snd m)) ms \<Longrightarrow> wf_json v \<Longrightarrow> list_all (\<lambda>m. wf_json (snd m)) (add_member k v ms)"
  by (auto simp: add_member_def list_all_iff split: option.split dest!: map_of_SomeD)

lemma parse_wf:
  "parse_value n s = Some (v, r) \<Longrightarrow> wf_json v"
  "parse_items n s = Some (vs, r) \<Longrightarrow> list_all wf_json vs"
  "parse_members n s = Some (ms, r) \<Longrightarrow> distinct (map fst ms) \<and> list_all (\<lambda>m. wf_json (snd m)) ms"
proof (induction n s and n s and n s arbitrary: v r and vs r and ms r
    rule: parse_value_parse_items_parse_members.induct)
  case (2 n s)
  then show ?case
    by (auto simp: parse_value.simps(2) Let_def split: list.splits if_splits)
next
  case (4 n s)
  then show ?case
    by (auto simp: parse_items.simps(2) split: option.splits list.splits if_splits prod.splits)
next
  case (6 n s)
  then show ?case
    by (auto simp: parse_members.simps(2) intro!: distinct_add_member wf_add_member
        split: option.splits list.splits if_splits prod.splits)
qed (auto simp: parse_value.simps parse_items.simps parse_members.simps)

lemma json_parse_wf: "json_parse s = Some v \<Longrightarrow> wf_json v"
  by (auto simp: json_parse_def parse_wf split: option.splits if_splits)

subsection \<open>The interface the components use\<close>

locale json_codec =
  fixes encode :: "json \<Rightarrow> string"
    and decode :: "string \<Rightarrow> json option"
    and valid :: "json \<Rightarrow> bool"
  assumes decode_encode: "valid v \<Longrightarrow> decode (encode v) = Some v"
begin

lemma encode_inject: "valid v \<Longrightarrow> valid w \<Longrightarrow> encode v = encode w \<Longrightarrow> v = w"
  by (metis decode_encode option.inject)

lemma decode_encode_prop:
  "valid v \<Longrightarrow> map_option (\<lambda>w. js_prop w k) (decode (encode v)) = Some (js_prop v k)"
  by (simp add: decode_encode)

end

interpretation js: json_codec stringify json_parse wf_json
proof
  fix v assume "wf_json v"
  then show "json_parse (stringify v) = Some v" by (rule parse_stringify)
qed

end
