(* ===== verification/Entities.thy ===== *)
theory Entities
  imports Json_Codec
begin

text \<open>
  The entities of \<open>src/frontend/src/domain/entities\<close>, one record per interface with the fields in
  the source's order (each with a prefix of its record), and the JSON form of those that cross a
  text boundary. Role fields are strings: the code compares them with literals and never validates
  what the backend sent. A chat conversation's \<open>type\<close> is one of two literals.
\<close>

record auth_user =
  au_personId :: id
  au_buId :: id
  au_companyId :: id
  au_role :: string
  au_firstName :: string
  au_lastName :: string

record bu_choice =
  ch_buId :: id
  ch_buName :: string

record business_unit =
  bu_id :: id
  bu_companyId :: id
  bu_name :: string
  bu_createdAt :: string

datatype conv_type = Group | Dm

record participant =
  pt_personId :: id
  pt_firstName :: string
  pt_lastName :: string

record chat_conversation =
  cv_conversationId :: id
  cv_type :: conv_type
  cv_workspaceId :: id
  cv_participants :: "participant list"

record chat_message =
  ms_messageId :: id
  ms_conversationId :: id
  ms_personId :: id
  ms_senderName :: string
  ms_content :: string
  ms_createdAt :: string

record chat_member =
  mb_personId :: id
  mb_firstName :: string
  mb_lastName :: string
  mb_role :: string
  mb_hasAccess :: bool

record chat_workspace =
  ws_workspaceId :: id
  ws_buId :: id
  ws_buName :: string
  ws_members :: "chat_member list"

record create_staff_input =
  cs_firstName :: string
  cs_lastName :: string
  cs_buId :: id
  cs_email :: string
  cs_role :: string

record enroll_existing_input =
  en_personId :: id
  en_buId :: id
  en_email :: string
  en_role :: string

record person_option =
  po_personId :: id
  po_firstName :: string
  po_lastName :: string

record staff_member =
  sm_personId :: id
  sm_profileId :: id
  sm_buId :: id
  sm_buName :: string
  sm_firstName :: string
  sm_lastName :: string
  sm_email :: string
  sm_role :: string
  sm_createdAt :: string

text \<open>\<open>UserRole\<close>: the three literals the code compares with.\<close>

datatype user_role = Owner | Admin | Staff

fun role_name :: "user_role \<Rightarrow> string" where
  "role_name Owner = ''Owner''"
| "role_name Admin = ''Admin''"
| "role_name Staff = ''Staff''"

lemma role_name_inject [simp]: "role_name a = role_name b \<longleftrightarrow> a = b"
  by (cases a; cases b) auto

text \<open>The roles are ordered by what they may see; the order is the one of the guards.\<close>

fun role_rank :: "user_role \<Rightarrow> nat" where
  "role_rank Staff = 0"
| "role_rank Admin = 1"
| "role_rank Owner = 2"

lemma role_rank_inject: "role_rank a = role_rank b \<Longrightarrow> a = b"
  by (cases a; cases b) auto

instantiation user_role :: linorder
begin

definition less_eq_user_role :: "user_role \<Rightarrow> user_role \<Rightarrow> bool" where
  "less_eq_user_role a b \<longleftrightarrow> role_rank a \<le> role_rank b"

definition less_user_role :: "user_role \<Rightarrow> user_role \<Rightarrow> bool" where
  "less_user_role a b \<longleftrightarrow> role_rank a < role_rank b"

instance
  by standard (auto simp: less_eq_user_role_def less_user_role_def intro: role_rank_inject)

end

lemma role_order [simp]: "Staff < Admin" "Admin < Owner" "Staff < Owner" "Staff \<le> r" "r \<le> Owner"
  by (cases r; simp add: less_user_role_def less_eq_user_role_def)+

text \<open>The JSON of a signed-in user, as the login route writes it into the cookie.\<close>

definition auth_user_json :: "auth_user \<Rightarrow> json" where
  "auth_user_json u = JObj
     [(''personId'', JStr (au_personId u)), (''buId'', JStr (au_buId u)),
      (''companyId'', JStr (au_companyId u)), (''role'', JStr (au_role u)),
      (''firstName'', JStr (au_firstName u)), (''lastName'', JStr (au_lastName u))]"

fun json_string :: "json option \<Rightarrow> string option" where
  "json_string (Some (JStr s)) = Some s"
| "json_string _ = None"

lemma json_string_Some: "json_string x = Some s \<longleftrightarrow> x = Some (JStr s)"
  by (cases x rule: json_string.cases) auto

text \<open>The values on which the cast \<open>JSON.parse(raw) as AuthUser\<close> tells the truth.\<close>

definition as_auth_user :: "json \<Rightarrow> auth_user option" where
  "as_auth_user v =
     (case (json_string (js_prop v ''personId''), json_string (js_prop v ''buId''),
            json_string (js_prop v ''companyId''), json_string (js_prop v ''role''),
            json_string (js_prop v ''firstName''), json_string (js_prop v ''lastName'')) of
        (Some p, Some b, Some c, Some r, Some f, Some l) \<Rightarrow>
          Some \<lparr>au_personId = p, au_buId = b, au_companyId = c, au_role = r,
                au_firstName = f, au_lastName = l\<rparr>
      | _ \<Rightarrow> None)"

lemma as_auth_user_json [simp]: "as_auth_user (auth_user_json u) = Some u"
  by (simp add: as_auth_user_def auth_user_json_def)

lemma wf_auth_user_json [simp]: "wf_json (auth_user_json u)"
  by (simp add: auth_user_json_def)

end
