(* ===== verification/Http_Model.thy ===== *)
theory Http_Model
  imports Json_Codec
begin

text \<open>
  Requests, responses and the browser's cookie jar, as the route handlers use them. The backend is
  an argument of every handler that calls it: a function from requests to responses, \<open>None\<close> where
  \<open>fetch\<close> rejects. A handler that throws (\<open>req.json()\<close> on a malformed body) is an \<open>Inl\<close>.
\<close>

record http_request =
  rq_method :: string
  rq_url :: string
  rq_headers :: "(string \<times> string) list"
  rq_body :: "string option"

record http_response =
  rs_status :: nat
  rs_body :: string

type_synonym backend = "http_request \<Rightarrow> http_response option"

definition is_ok :: "http_response \<Rightarrow> bool" where
  "is_ok r \<longleftrightarrow> 200 \<le> rs_status r \<and> rs_status r \<le> 299"

text \<open>\<open>await res.json()\<close>.\<close>

definition body_json :: "string \<Rightarrow> js_error + json" where
  "body_json s = (case json_parse s of None \<Rightarrow> Inl SyntaxError | Some v \<Rightarrow> Inr v)"

text \<open>\<open>String(v)\<close>, for a cookie value; \<open>undefined\<close> and \<open>null\<close> are written as the empty value.\<close>

fun json_text :: "json \<Rightarrow> string"
  and json_texts :: "json list \<Rightarrow> string list" where
  "json_text JNull = []"
| "json_text (JBool b) = (if b then ''true'' else ''false'')"
| "json_text (JNum s) = s"
| "json_text (JStr s) = s"
| "json_text (JArr vs) = js_join '','' (json_texts vs)"
| "json_text (JObj ms) = ''[object Object]''"
| "json_texts [] = []"
| "json_texts (v # vs) = json_text v # json_texts vs"

fun cookie_text :: "json option \<Rightarrow> string" where
  "cookie_text None = []"
| "cookie_text (Some v) = json_text v"

record set_cookie =
  ck_name :: string
  ck_value :: string
  ck_httpOnly :: bool
  ck_secure :: bool
  ck_sameSite :: "string option"
  ck_path :: string
  ck_maxAge :: nat

text \<open>A response of a handler: \<open>NextResponse.json(data, ...)\<close>, or no body.\<close>

record next_response =
  nr_status :: nat
  nr_data :: "json option"
  nr_cookies :: "set_cookie list"

definition json_response :: "json \<Rightarrow> nat \<Rightarrow> next_response" where
  "json_response v n = \<lparr>nr_status = n, nr_data = Some v, nr_cookies = []\<rparr>"

definition empty_response :: "nat \<Rightarrow> next_response" where
  "empty_response n = \<lparr>nr_status = n, nr_data = None, nr_cookies = []\<rparr>"

definition set_cookies :: "set_cookie list \<Rightarrow> next_response \<Rightarrow> next_response" where
  "set_cookies cs r = r\<lparr>nr_cookies := nr_cookies r @ cs\<rparr>"

definition error_json :: "string \<Rightarrow> json" where
  "error_json s = JObj [(''error'', JStr s)]"

lemma json_response_simps [simp]:
  "nr_status (json_response v n) = n" "nr_data (json_response v n) = Some v"
  "nr_cookies (json_response v n) = []" "nr_status (empty_response n) = n"
  "nr_data (empty_response n) = None" "nr_cookies (empty_response n) = []"
  "nr_status (set_cookies cs r) = nr_status r" "nr_data (set_cookies cs r) = nr_data r"
  "nr_cookies (set_cookies cs r) = nr_cookies r @ cs"
  by (simp_all add: json_response_def empty_response_def set_cookies_def)

subsection \<open>The cookie jar\<close>

text \<open>
  A jar maps a name to its value and the second at which it expires. \<open>Max-Age=0\<close> removes the
  cookie; cookies of one path only, the path all handlers use.
\<close>

type_synonym jar = "string \<rightharpoonup> (string \<times> nat)"

definition store_cookie :: "nat \<Rightarrow> set_cookie \<Rightarrow> jar \<Rightarrow> jar" where
  "store_cookie now c j =
     (if ck_maxAge c = 0 then j(ck_name c := None)
      else j(ck_name c \<mapsto> (ck_value c, now + ck_maxAge c)))"

definition store_cookies :: "nat \<Rightarrow> set_cookie list \<Rightarrow> jar \<Rightarrow> jar" where
  "store_cookies now cs j = fold (store_cookie now) cs j"

text \<open>\<open>cookies.get(name)?.value\<close> on a request sent at second \<open>now\<close>.\<close>

definition cookie_value :: "nat \<Rightarrow> jar \<Rightarrow> string \<Rightarrow> string option" where
  "cookie_value now j n = (case j n of
     None \<Rightarrow> None
   | Some (v, e) \<Rightarrow> if now < e then Some v else None)"

lemma store_cookies_simps [simp]:
  "store_cookies now [] j = j"
  "store_cookies now (c # cs) j = store_cookies now cs (store_cookie now c j)"
  by (simp_all add: store_cookies_def)

subsection \<open>Addresses\<close>

text \<open>
  Addresses are kept as they are written. Browser and framework do so for segments of the characters below, of
  which all names in the code and the identifiers of the backend consist; of other characters they escape some,
  cut the address at \<open>#\<close> and resolve segments of dots.
\<close>

definition plain_char :: "char \<Rightarrow> bool" where
  "plain_char c \<longleftrightarrow> (let n = of_char (lower_char c) :: nat in
     48 \<le> n \<and> n \<le> 57 \<or> 97 \<le> n \<and> n \<le> 122 \<or> n \<in> {45, 46, 95, 126})"

definition plain_segment :: "string \<Rightarrow> bool" where
  "plain_segment s \<longleftrightarrow> s \<notin> {[], ''.'', ''..''} \<and> list_all plain_char s"

fun plain_path :: "string \<Rightarrow> bool" where
  "plain_path [] = False"
| "plain_path (c # p) = (c = CHR ''/'' \<and> list_all plain_segment (js_split CHR ''/'' p))"

text \<open>An escaped word of a query.\<close>

definition query_word :: "string \<Rightarrow> bool" where
  "query_word s \<longleftrightarrow> list_all (\<lambda>c. plain_char c \<or> c \<in> {CHR ''%'', CHR ''+'', CHR '':''}) s"

lemma plain_segment_no_query: "plain_segment s \<Longrightarrow> CHR ''?'' \<notin> set s"
  by (auto simp: plain_segment_def list_all_iff plain_char_def lower_char_def Let_def dest!: bspec)

lemma plain_path_no_query: "plain_path p \<Longrightarrow> CHR ''?'' \<notin> set p"
proof (cases p)
  case (Cons c r)
  assume "plain_path p"
  with Cons have c: "c = CHR ''/''" and segs: "\<forall>s \<in> set (js_split CHR ''/'' r). plain_segment s"
    by (auto simp: list_all_iff)
  have "set (js_join ''/'' ss) \<subseteq> insert CHR ''/'' (\<Union> (set ` set ss))" for ss
    by (induction ss rule: induct_list012) auto
  from this [of "js_split CHR ''/'' r"] segs plain_segment_no_query c Cons show ?thesis by fastforce
qed simp

text \<open>The path and the query of a request address; a lone question mark is no query.\<close>

definition url_path :: "string \<Rightarrow> string" where
  "url_path u = takeWhile (\<lambda>c. c \<noteq> CHR ''?'') u"

definition url_search :: "string \<Rightarrow> string" where
  "url_search u = (let q = dropWhile (\<lambda>c. c \<noteq> CHR ''?'') u in if q = ''?'' then [] else q)"

lemma url_parts: "CHR ''?'' \<notin> set p \<Longrightarrow> url_path (p @ CHR ''?'' # q) = p"
  "CHR ''?'' \<notin> set p \<Longrightarrow> q \<noteq> [] \<Longrightarrow> url_search (p @ CHR ''?'' # q) = CHR ''?'' # q"
  "CHR ''?'' \<notin> set p \<Longrightarrow> url_path p = p"
  "CHR ''?'' \<notin> set p \<Longrightarrow> url_search p = []"
proof -
  assume "CHR ''?'' \<notin> set p"
  then have "\<forall>c \<in> set p. c \<noteq> CHR ''?''" by metis
  then have t: "takeWhile (\<lambda>c. c \<noteq> CHR ''?'') (p @ r) = p @ takeWhile (\<lambda>c. c \<noteq> CHR ''?'') r"
    and d: "dropWhile (\<lambda>c. c \<noteq> CHR ''?'') (p @ r) = dropWhile (\<lambda>c. c \<noteq> CHR ''?'') r" for r
    by simp_all
  show "url_path (p @ CHR ''?'' # q) = p" by (simp add: url_path_def t)
  show "url_path p = p" using t [of "[]"] by (simp add: url_path_def)
  show "url_search p = []" using d [of "[]"] by (simp add: url_search_def Let_def)
  show "q \<noteq> [] \<Longrightarrow> url_search (p @ CHR ''?'' # q) = CHR ''?'' # q" by (simp add: url_search_def d Let_def)
qed

end
