(* ===== verification/Bff_Routes.thy ===== *)
theory Bff_Routes
  imports Entities Http_Model
begin

text \<open>
  The route handlers of \<open>src/frontend/src/app/api\<close>: login, logout, onboarding and the catch-all
  proxy to the backend. Each is a function of the configuration, the backend and the request; the
  response says which cookies it sets. The last part follows a browser's cookie jar through any
  sequence of these responses: the two session cookies always come and go together.
\<close>

record bff_env =
  env_backendUrl :: string
  env_production :: bool

definition backend_default :: string where
  "backend_default = ''http://localhost:5239''"

subsection \<open>Login\<close>

definition cookie_max_age :: nat where
  "cookie_max_age = 60 * 60"

definition session_cookie :: "bff_env \<Rightarrow> string \<Rightarrow> string \<Rightarrow> nat \<Rightarrow> set_cookie" where
  "session_cookie env n v age =
     \<lparr>ck_name = n, ck_value = v, ck_httpOnly = True, ck_secure = env_production env,
      ck_sameSite = Some ''lax'', ck_path = ''/'', ck_maxAge = age\<rparr>"

definition login_request :: "bff_env \<Rightarrow> json \<Rightarrow> http_request" where
  "login_request env body =
     \<lparr>rq_method = ''POST'', rq_url = env_backendUrl env @ ''/api/auth/login'',
      rq_headers = [(''Content-Type'', ''application/json'')], rq_body = Some (stringify body)\<rparr>"

definition login_user :: "json \<Rightarrow> json" where
  "login_user data = json_obj
     [(''personId'', js_prop data ''personId''), (''buId'', js_prop data ''buId''),
      (''companyId'', js_prop data ''companyId''), (''role'', js_prop data ''role''),
      (''firstName'', js_prop data ''firstName''), (''lastName'', js_prop data ''lastName'')]"

definition login_reply :: "bff_env \<Rightarrow> http_response \<Rightarrow> js_error + next_response" where
  "login_reply env res = (case body_json (rs_body res) of
     Inl e \<Rightarrow> Inl e
   | Inr data \<Rightarrow>
       if \<not> is_ok res then
         (case get_prop data ''error'' of
            Inl e \<Rightarrow> Inl e
          | Inr m \<Rightarrow> Inr (json_response
              (JObj [(''error'', json_nullish m (JStr ''Invalid credentials.''))]) (rs_status res)))
       else
         (case get_prop data ''requiresBuSelection'' of
            Inl e \<Rightarrow> Inl e
          | Inr sel \<Rightarrow>
              if opt_truthy sel then Inr (json_response data 200)
              else
                (let user = login_user data in
                 Inr (set_cookies
                   [session_cookie env ''auth_token'' (cookie_text (js_prop data ''token'')) cookie_max_age,
                    session_cookie env ''user_info'' (stringify user) cookie_max_age]
                   (json_response (JObj [(''user'', user)]) 200)))))"

definition login_post :: "bff_env \<Rightarrow> backend \<Rightarrow> string \<Rightarrow> js_error + next_response" where
  "login_post env backend text = (case body_json text of
     Inl e \<Rightarrow> Inl e
   | Inr body \<Rightarrow> (case backend (login_request env body) of
       None \<Rightarrow> Inr (json_response (error_json ''Backend unreachable.'') 503)
     | Some res \<Rightarrow> login_reply env res))"

subsection \<open>Logout\<close>

definition logout_post :: "bff_env \<Rightarrow> next_response" where
  "logout_post env = set_cookies
     [session_cookie env ''auth_token'' [] 0, session_cookie env ''user_info'' [] 0]
     (json_response (JObj [(''success'', JBool True)]) 200)"

subsection \<open>Onboarding\<close>

definition onboard_request :: "bff_env \<Rightarrow> json \<Rightarrow> http_request" where
  "onboard_request env body =
     \<lparr>rq_method = ''POST'', rq_url = env_backendUrl env @ ''/api/companies/onboard'',
      rq_headers = [(''Content-Type'', ''application/json'')], rq_body = Some (stringify body)\<rparr>"

definition onboard_post :: "bff_env \<Rightarrow> backend \<Rightarrow> string \<Rightarrow> js_error + next_response" where
  "onboard_post env backend text = (case body_json text of
     Inl e \<Rightarrow> Inl e
   | Inr body \<Rightarrow> (case backend (onboard_request env body) of
       None \<Rightarrow> Inr (json_response (error_json ''Backend unreachable.'') 503)
     | Some res \<Rightarrow>
         if \<not> is_ok res then
           Inr (json_response (case json_parse (rs_body res) of None \<Rightarrow> JObj [] | Some v \<Rightarrow> v) (rs_status res))
         else Inr (json_response (JObj [(''success'', JBool True)]) 200)))"

subsection \<open>The proxy\<close>

text \<open>An incoming request: method, address with its query, body text.\<close>

record in_request =
  in_method :: string
  in_url :: string
  in_text :: string

definition proxy_backend_request :: "bff_env \<Rightarrow> string \<Rightarrow> in_request \<Rightarrow> string list \<Rightarrow> http_request" where
  "proxy_backend_request env token req path =
     \<lparr>rq_method = in_method req,
      rq_url = env_backendUrl env @ ''/api/'' @ js_join ''/'' path @ url_search (in_url req),
      rq_headers = [(''Content-Type'', ''application/json''), (''Authorization'', ''Bearer '' @ token)],
      rq_body = (if in_method req \<noteq> ''GET'' \<and> in_method req \<noteq> ''HEAD'' then Some (in_text req) else None)\<rparr>"

definition expired_cookie :: "string \<Rightarrow> set_cookie" where
  "expired_cookie n =
     \<lparr>ck_name = n, ck_value = [], ck_httpOnly = False, ck_secure = False,
      ck_sameSite = None, ck_path = ''/'', ck_maxAge = 0\<rparr>"

definition proxy_reply :: "http_response \<Rightarrow> js_error + next_response" where
  "proxy_reply res =
     (if rs_status res = 401 then
        Inr (set_cookies [expired_cookie ''auth_token'', expired_cookie ''user_info'']
          (json_response (error_json ''Session expired.'') 401))
      else if rs_status res = 204 then Inr (empty_response 204)
      else if rs_body res = [] then Inr (empty_response (rs_status res))
      else (case body_json (rs_body res) of
          Inl e \<Rightarrow> Inl e
        | Inr v \<Rightarrow> Inr (json_response v (rs_status res))))"

definition proxyRequest ::
  "bff_env \<Rightarrow> backend \<Rightarrow> string option \<Rightarrow> in_request \<Rightarrow> string list \<Rightarrow> js_error + next_response" where
  "proxyRequest env backend cookie req path = (case cookie of
     None \<Rightarrow> Inr (json_response (error_json ''Unauthorized'') 401)
   | Some token \<Rightarrow>
       if token = [] then Inr (json_response (error_json ''Unauthorized'') 401)
       else (case backend (proxy_backend_request env token req path) of
           None \<Rightarrow> Inr (json_response (error_json ''Backend unreachable.'') 503)
         | Some res \<Rightarrow> proxy_reply res))"

text \<open>
  The exported methods; the framework answers HEAD with the GET handler, OPTIONS itself with 204, and any
  other method with 405.
\<close>

definition proxy_methods :: "string list" where
  "proxy_methods = [''GET'', ''POST'', ''PUT'', ''DELETE'', ''HEAD'']"

definition proxy_route ::
  "bff_env \<Rightarrow> backend \<Rightarrow> string option \<Rightarrow> in_request \<Rightarrow> string list \<Rightarrow> js_error + next_response" where
  "proxy_route env backend cookie req path =
     (if in_method req \<in> set proxy_methods then proxyRequest env backend cookie req path
      else if in_method req = ''OPTIONS'' then Inr (empty_response 204)
      else Inr (empty_response 405))"


subsection \<open>The branches\<close>

lemma body_json_simps [simp]:
  "json_parse s = Some v \<Longrightarrow> body_json s = Inr v"
  "json_parse s = None \<Longrightarrow> body_json s = Inl SyntaxError"
  by (simp_all add: body_json_def)

lemma body_json_cases: "body_json s = Inr v \<longleftrightarrow> json_parse s = Some v"
  by (simp add: body_json_def split: option.split)

lemma login_unreachable [route_simps]:
  "json_parse text = Some body \<Longrightarrow> backend (login_request env body) = None \<Longrightarrow>
   login_post env backend text = Inr (json_response (error_json ''Backend unreachable.'') 503)"
  by (simp add: login_post_def)

lemma login_answered [route_simps]:
  "json_parse text = Some body \<Longrightarrow> backend (login_request env body) = Some res \<Longrightarrow>
   login_post env backend text = login_reply env res"
  by (simp add: login_post_def)

lemma login_reply_token [route_simps]:
  assumes "json_parse (rs_body res) = Some data" "is_ok res" "data \<noteq> JNull"
    and "\<not> opt_truthy (js_prop data ''requiresBuSelection'')"
  shows "login_reply env res = Inr (set_cookies
     [session_cookie env ''auth_token'' (cookie_text (js_prop data ''token'')) cookie_max_age,
      session_cookie env ''user_info'' (stringify (login_user data)) cookie_max_age]
     (json_response (JObj [(''user'', login_user data)]) 200))"
  using assms by (simp add: login_reply_def get_prop_js_prop Let_def)

text \<open>A reply either sets no cookie or is the successful branch with both of them.\<close>

lemma login_reply_cases:
  assumes "login_reply env res = Inr r"
  obtains (plain) "nr_cookies r = []"
  | (session) data where "json_parse (rs_body res) = Some data" "is_ok res" "data \<noteq> JNull"
      "\<not> opt_truthy (js_prop data ''requiresBuSelection'')"
      "nr_data r = Some (JObj [(''user'', login_user data)])" "nr_status r = 200"
      "nr_cookies r = [session_cookie env ''auth_token'' (cookie_text (js_prop data ''token'')) cookie_max_age,
        session_cookie env ''user_info'' (stringify (login_user data)) cookie_max_age]"
proof (cases "json_parse (rs_body res)")
  case None
  with assms show ?thesis by (simp add: login_reply_def)
next
  case (Some data)
  show ?thesis
  proof (cases "data = JNull")
    case True
    with assms Some show ?thesis by (auto simp: login_reply_def split: if_splits)
  next
    case False
    show ?thesis
    proof (cases "is_ok res \<and> \<not> opt_truthy (js_prop data ''requiresBuSelection'')")
      case True
      with assms Some False session show ?thesis by (auto simp: login_reply_token)
    next
      case False
      with assms Some \<open>data \<noteq> JNull\<close> plain show ?thesis
        by (auto simp: login_reply_def get_prop_js_prop split: if_splits)
    qed
  qed
qed

lemma proxy_reply_cases:
  assumes "proxy_reply res = Inr r"
  obtains (plain) "nr_cookies r = []"
  | (expired) "rs_status res = 401" "nr_status r = 401"
      "nr_cookies r = [expired_cookie ''auth_token'', expired_cookie ''user_info'']"
  using assms
  by (auto simp: proxy_reply_def body_json_def split: if_splits option.splits)

lemma proxyRequest_cookies:
  assumes "proxyRequest env backend cookie req path = Inr r"
  shows "nr_cookies r \<in> {[], [expired_cookie ''auth_token'', expired_cookie ''user_info'']}"
  using assms
  by (auto simp: proxyRequest_def split: option.splits if_splits elim: proxy_reply_cases)

lemma proxyRequest_unauthorized [route_simps]:
  "\<not> truthy cookie \<Longrightarrow>
   proxyRequest env backend cookie req path = Inr (json_response (error_json ''Unauthorized'') 401)"
  by (cases cookie) (auto simp: proxyRequest_def)

lemma proxyRequest_forwarded [route_simps]:
  "token \<noteq> [] \<Longrightarrow>
   proxyRequest env backend (Some token) req path =
     (case backend (proxy_backend_request env token req path) of
        None \<Rightarrow> Inr (json_response (error_json ''Backend unreachable.'') 503)
      | Some res \<Rightarrow> proxy_reply res)"
  by (simp add: proxyRequest_def)

text \<open>What the login route writes into the cookie is a valid object.\<close>

lemma wf_js_prop: "wf_json v \<Longrightarrow> js_prop v k = Some w \<Longrightarrow> wf_json w"
  by (cases v) (auto simp: list_all_iff dest: map_of_SomeD)

lemma login_user_object: "\<exists>ms. login_user data = JObj ms"
  by (simp add: login_user_def json_obj_def)

lemma wf_login_user: "wf_json data \<Longrightarrow> wf_json (login_user data)"
  unfolding login_user_def
  by (rule wf_json_obj) (simp, auto dest: wf_js_prop [OF _ sym])

lemma login_user_typed:
  assumes "as_auth_user data = Some u"
  shows "login_user data = auth_user_json u"
  using assms unfolding as_auth_user_def
  by (simp add: login_user_def json_obj_def auth_user_json_def json_string_Some
      split: option.splits) (auto simp: json_string_Some)

end
