(* ===== verification/Session_Navigation.thy ===== *)
theory Session_Navigation
  imports Bff_Routes
begin

text \<open>
  Who is signed in and where a navigation ends: \<open>getAuthUser\<close> (\<open>cookieAuth.ts\<close>), the middleware, the
  root page and the layout of the protected pages. A navigation follows redirects until a page is
  shown. The cookie jar evolves by the responses of the route handlers; its invariant (the session
  cookies are paired) is what makes every navigation settle.
\<close>

subsection \<open>The signed-in user\<close>

definition getAuthUser :: "nat \<Rightarrow> jar \<Rightarrow> json option" where
  "getAuthUser now j =
     (let raw = cookie_value now j ''user_info'' in
      if \<not> truthy raw then None
      else (case json_parse (nullish raw []) of
              None \<Rightarrow> None
            | Some v \<Rightarrow> if v = JNull then None else Some v))"

subsection \<open>The middleware\<close>

definition public_paths :: "string list" where
  "public_paths = [''/login'', ''/onboard'']"

datatype mw_result = Mw_Next | Mw_Redirect string

definition middleware :: "string \<Rightarrow> string option \<Rightarrow> mw_result" where
  "middleware pathname token =
     (if starts_with ''/_next'' pathname \<or> starts_with ''/api'' pathname \<or>
         starts_with ''/favicon'' pathname then Mw_Next
      else
        (let isAuthenticated = truthy token;
             isPublicPath = list_ex (\<lambda>p. starts_with p pathname) public_paths in
         if \<not> isAuthenticated \<and> \<not> isPublicPath then Mw_Redirect ''/login''
         else if isAuthenticated \<and> isPublicPath then Mw_Redirect ''/dashboard''
         else Mw_Next))"

text \<open>
  The matcher: a slash and then anything that does not begin with \<open>_next/static\<close>, \<open>_next/image\<close> or
  \<open>favicon.ico\<close>, where the dot of the last pattern stands for any character.
\<close>

fun mw_matcher :: "string \<Rightarrow> bool" where
  "mw_matcher [] = False"
| "mw_matcher (c # r) = (c = CHR ''/'' \<and> \<not> starts_with ''_next/static'' r \<and> \<not> starts_with ''_next/image'' r \<and>
     \<not> (starts_with ''favicon'' r \<and> starts_with ''ico'' (drop 8 r)))"

definition run_middleware :: "string \<Rightarrow> string option \<Rightarrow> mw_result" where
  "run_middleware pathname token = (if mw_matcher pathname then middleware pathname token else Mw_Next)"

subsection \<open>Pages\<close>

datatype page =
    Root_Page | Login_Page | Onboard_Page | Dashboard_Page | Business_Units_Page | Staff_Page
  | Chat_Page | Chat_Access_Page | Change_Password_Page

definition page_table :: "(string \<times> page) list" where
  "page_table =
     [(''/'', Root_Page), (''/login'', Login_Page), (''/onboard'', Onboard_Page),
      (''/dashboard'', Dashboard_Page), (''/business-units'', Business_Units_Page),
      (''/staff'', Staff_Page), (''/chat'', Chat_Page), (''/chat-access'', Chat_Access_Page),
      (''/change-password'', Change_Password_Page)]"

fun protected_page :: "page \<Rightarrow> bool" where
  "protected_page Root_Page = False"
| "protected_page Login_Page = False"
| "protected_page Onboard_Page = False"
| "protected_page _ = True"

datatype nav_result = Shown page | Redirected string | Not_Found

definition rootPage :: nav_result where
  "rootPage = Redirected ''/dashboard''"

definition protectedLayout :: "json option \<Rightarrow> page \<Rightarrow> nav_result" where
  "protectedLayout user pg = (if \<not> opt_truthy user then Redirected ''/login'' else Shown pg)"

definition render_page :: "nat \<Rightarrow> jar \<Rightarrow> page \<Rightarrow> nav_result" where
  "render_page now j pg =
     (if pg = Root_Page then rootPage
      else if protected_page pg then protectedLayout (getAuthUser now j) pg
      else Shown pg)"

definition visit :: "nat \<Rightarrow> jar \<Rightarrow> string \<Rightarrow> nav_result" where
  "visit now j path = (case run_middleware path (cookie_value now j ''auth_token'') of
     Mw_Redirect q \<Rightarrow> Redirected q
   | Mw_Next \<Rightarrow> (case map_of page_table path of
       None \<Rightarrow> Not_Found
     | Some pg \<Rightarrow> render_page now j pg))"

text \<open>Following redirects with a bound on their number; \<open>None\<close> is a bound that was too small.\<close>

fun navigate :: "nat \<Rightarrow> nat \<Rightarrow> jar \<Rightarrow> string \<Rightarrow> nav_result option" where
  "navigate 0 now j path = None"
| "navigate (Suc n) now j path = (case visit now j path of
     Redirected q \<Rightarrow> navigate n now j q
   | r \<Rightarrow> Some r)"

subsection \<open>The cookie jar over time\<close>

datatype session_event = Tick nat | Login_Reply | Logout_Reply | Proxy_Reply | Onboard_Reply

inductive session_step :: "nat \<times> jar \<Rightarrow> session_event \<Rightarrow> nat \<times> jar \<Rightarrow> bool" where
  ss_tick: "session_step (now, j) (Tick d) (now + d, j)"
| ss_login: "login_post env backend body = Inr r \<Longrightarrow>
    session_step (now, j) Login_Reply (now, store_cookies now (nr_cookies r) j)"
| ss_logout: "session_step (now, j) Logout_Reply (now, store_cookies now (nr_cookies (logout_post env)) j)"
| ss_proxy: "proxy_route env backend (cookie_value now j ''auth_token'') req path = Inr r \<Longrightarrow>
    session_step (now, j) Proxy_Reply (now, store_cookies now (nr_cookies r) j)"
| ss_onboard: "onboard_post env backend body = Inr r \<Longrightarrow>
    session_step (now, j) Onboard_Reply (now, store_cookies now (nr_cookies r) j)"

inductive_cases session_step_elims:
  "session_step s (Tick d) t"
  "session_step s Login_Reply t"
  "session_step s Logout_Reply t"
  "session_step s Proxy_Reply t"
  "session_step s Onboard_Reply t"

definition session_start :: "nat \<times> jar \<Rightarrow> bool" where
  "session_start s \<longleftrightarrow> snd s ''auth_token'' = None \<and> snd s ''user_info'' = None"

text \<open>Both session cookies or none, with one expiry, and the user cookie holds a JSON object.\<close>

definition session_paired :: "nat \<times> jar \<Rightarrow> bool" where
  "session_paired s \<longleftrightarrow>
     snd s ''auth_token'' = None \<and> snd s ''user_info'' = None \<or>
     (\<exists>tok info e ms. snd s ''auth_token'' = Some (tok, e) \<and> snd s ''user_info'' = Some (info, e) \<and>
        json_parse info = Some (JObj ms))"

lemma store_session_cookies:
  "store_cookies now [session_cookie env ''auth_token'' tok age, session_cookie env ''user_info'' info age] j =
     (if age = 0 then j(''auth_token'' := None, ''user_info'' := None)
      else j(''auth_token'' \<mapsto> (tok, now + age), ''user_info'' \<mapsto> (info, now + age)))"
  by (simp add: store_cookie_def session_cookie_def)

lemma store_expired_cookies:
  "store_cookies now [expired_cookie ''auth_token'', expired_cookie ''user_info''] j =
     j(''auth_token'' := None, ''user_info'' := None)"
  by (simp add: store_cookie_def expired_cookie_def)

lemma paired_cleared: "session_paired (now, j(''auth_token'' := None, ''user_info'' := None))"
  by (simp add: session_paired_def)

lemma paired_login:
  assumes "login_post env backend body = Inr r" "session_paired (now, j)"
  shows "session_paired (now, store_cookies now (nr_cookies r) j)"
proof (cases "nr_cookies r = []")
  case True
  with assms(2) show ?thesis by simp
next
  case False
  from assms(1) obtain res where reply: "login_reply env res = Inr r"
    using False by (auto simp: login_post_def split: sum.splits option.splits)
  from reply False obtain data where data: "json_parse (rs_body res) = Some data"
    and cookies: "nr_cookies r =
       [session_cookie env ''auth_token'' (cookie_text (js_prop data ''token'')) cookie_max_age,
        session_cookie env ''user_info'' (stringify (login_user data)) cookie_max_age]"
    by (auto elim: login_reply_cases)
  obtain ms where ms: "login_user data = JObj ms" using login_user_object by blast
  have "json_parse (stringify (login_user data)) = Some (JObj ms)"
    using data ms by (metis js.decode_encode json_parse_wf wf_login_user)
  then show ?thesis
    unfolding cookies store_session_cookies
    by (simp add: session_paired_def cookie_max_age_def)
qed

lemma session_step_paired:
  assumes "session_step s e t" "session_paired s"
  shows "session_paired t"
  using assms
proof cases
  case (ss_tick now j d)
  with assms(2) show ?thesis by (simp add: session_paired_def)
next
  case (ss_login env backend body r now j)
  with assms(2) show ?thesis by (simp add: paired_login)
next
  case (ss_logout now j env)
  then show ?thesis
    by (simp add: logout_post_def store_session_cookies paired_cleared del: store_cookies_simps)
next
  case (ss_proxy env backend now j req path r)
  then have "nr_cookies r \<in> {[], [expired_cookie ''auth_token'', expired_cookie ''user_info'']}"
    by (auto simp: proxy_route_def dest!: proxyRequest_cookies split: if_splits)
  with ss_proxy assms(2) show ?thesis
    by (auto simp: store_expired_cookies paired_cleared simp del: store_cookies_simps(2))
next
  case (ss_onboard env backend body r now j)
  then have "nr_cookies r = []"
    by (auto simp: onboard_post_def split: sum.splits option.splits if_splits)
  with ss_onboard assms(2) show ?thesis by simp
qed

interpretation session: guarded_system session_start session_step session_paired
proof
  show "session_start s \<Longrightarrow> session_paired s" for s
    by (simp add: session_start_def session_paired_def)
  show "session_paired s \<Longrightarrow> session_step s e t \<Longrightarrow> session_paired t" for s e t
    by (rule session_step_paired)
qed

subsection \<open>Where a navigation ends\<close>

lemma getAuthUser_paired:
  assumes "session_paired (now, j)" "truthy (cookie_value now j ''auth_token'')"
  obtains ms where "getAuthUser now j = Some (JObj ms)"
proof -
  from assms obtain info e ms where "j ''user_info'' = Some (info, e)" "now < e"
      "json_parse info = Some (JObj ms)"
    by (auto simp: session_paired_def cookie_value_def split: if_splits)
  moreover from this have "info \<noteq> []"
    by (auto simp: json_parse_def parse_value.simps skip_ws_def numeral_2_eq_2)
  ultimately show ?thesis using that by (simp add: getAuthUser_def cookie_value_def Let_def)
qed

lemma page_table_path:
  "map_of page_table path = Some pg \<longleftrightarrow> (path, pg) \<in> set page_table"
  by (rule map_of_eq_Some_iff) (simp add: page_table_def)

lemma visit_anonymous [view_simps]:
  "\<not> truthy (cookie_value now j ''auth_token'') \<Longrightarrow> visit now j ''/login'' = Shown Login_Page"
  "\<not> truthy (cookie_value now j ''auth_token'') \<Longrightarrow> visit now j ''/onboard'' = Shown Onboard_Page"
  by (simp_all add: visit_def run_middleware_def middleware_def starts_with_def public_paths_def
      page_table_def render_page_def)

lemma visit_signed_in [view_simps]:
  "truthy (cookie_value now j ''auth_token'') \<Longrightarrow> visit now j ''/login'' = Redirected ''/dashboard''"
  "truthy (cookie_value now j ''auth_token'') \<Longrightarrow> opt_truthy (getAuthUser now j) \<Longrightarrow>
     visit now j ''/dashboard'' = Shown Dashboard_Page"
  "truthy (cookie_value now j ''auth_token'') \<Longrightarrow> \<not> opt_truthy (getAuthUser now j) \<Longrightarrow>
     visit now j ''/dashboard'' = Redirected ''/login''"
  by (simp_all add: visit_def run_middleware_def middleware_def starts_with_def public_paths_def
      page_table_def render_page_def protectedLayout_def)

lemma root_path: "map_of page_table path = Some Root_Page \<Longrightarrow> path = ''/''"
  unfolding page_table_path by (auto simp: page_table_def)

lemma visit_redirects:
  assumes "visit now j path = Redirected q"
  shows "q = ''/login'' \<and> \<not> (truthy (cookie_value now j ''auth_token'') \<and> opt_truthy (getAuthUser now j))
       \<or> q = ''/dashboard'' \<and> truthy (cookie_value now j ''auth_token'')"
proof (cases "path = ''/''")
  case True
  with assms show ?thesis
    by (auto simp: visit_def run_middleware_def middleware_def render_page_def page_table_def
        rootPage_def public_paths_def starts_with_def Let_def split: if_splits)
next
  case False
  with assms show ?thesis
    by (auto simp: visit_def run_middleware_def middleware_def render_page_def protectedLayout_def
        Let_def dest!: root_path split: mw_result.splits option.splits if_splits)
qed

lemma visit_protected:
  assumes "visit now j path = Shown pg" "protected_page pg"
  shows "opt_truthy (getAuthUser now j)"
  using assms
  by (auto simp: visit_def render_page_def protectedLayout_def rootPage_def
      split: mw_result.splits option.splits if_splits)

lemma protected_path_cases:
  assumes "map_of page_table path = Some pg" "protected_page pg"
  shows "path \<in> {''/dashboard'', ''/business-units'', ''/chat'', ''/change-password'', ''/staff'', ''/chat-access''}"
proof -
  have "(path, pg) \<in> set page_table" using assms(1) by (rule map_of_SomeD)
  then show ?thesis
    using assms(2) unfolding page_table_def list.set insert_iff prod.inject
    by (elim disjE conjE) simp_all
qed

lemma protected_paths:
  assumes "map_of page_table path = Some pg" "protected_page pg" "\<not> truthy token"
  shows "run_middleware path token = Mw_Redirect ''/login''"
  using protected_path_cases [OF assms(1,2)] assms(3)
  by (elim insertE emptyE; simp add: run_middleware_def middleware_def starts_with_def public_paths_def)

lemma visit_protected_token:
  assumes "visit now j path = Shown pg" "protected_page pg"
  shows "truthy (cookie_value now j ''auth_token'')"
proof (rule ccontr)
  assume anon: "\<not> truthy (cookie_value now j ''auth_token'')"
  have "map_of page_table path = Some pg"
    using assms(1) by (auto simp: visit_def render_page_def protectedLayout_def rootPage_def
        split: mw_result.splits option.splits if_splits)
  from protected_paths [OF this assms(2) anon] assms(1) show False by (simp add: visit_def)
qed

lemma navigate_shown:
  "navigate n now j path = Some (Shown pg) \<Longrightarrow> \<exists>q. visit now j q = Shown pg"
  by (induction n arbitrary: path) (auto split: nav_result.splits)

subsection \<open>Properties\<close>

text \<open>
  C1. The session cookies are paired: in every jar that replies of the route handlers can produce,
  at any time and for any backend, either neither session cookie is there or both are, with the same
  expiry, and the user cookie then holds a JSON object.
\<close>

theorem session_cookies_paired:
  assumes "reachable session_start session_step (now, j)"
  shows "session_paired (now, j)"
  using assms by (rule session.inv_reachable)

theorem session_cookies_paired_witness: "session_paired (5, Map.empty)"
proof -
  have "reachable session_start session_step (0, Map.empty)"
    by (rule reach_start) (simp add: session_start_def)
  then have "reachable session_start session_step (0 + 5, Map.empty)"
    by (rule reach_step) (rule ss_tick)
  then show ?thesis using session_cookies_paired [of 5 Map.empty] by simp
qed






definition sample_jar :: jar where
  "sample_jar = [''auth_token'' \<mapsto> (''jwt'', 3600),
     ''user_info'' \<mapsto> (stringify (JObj [(''role'', JStr ''Staff'')]), 3600)]"

lemma sample_jar_user: "getAuthUser 0 sample_jar = Some (JObj [(''role'', JStr ''Staff'')])"
proof -
  have "json_parse (stringify (JObj [(''role'', JStr ''Staff'')])) = Some (JObj [(''role'', JStr ''Staff'')])"
    by (rule js.decode_encode) simp
  moreover have "stringify (JObj [(''role'', JStr ''Staff'')]) \<noteq> []" by simp
  ultimately show ?thesis
    unfolding getAuthUser_def sample_jar_def cookie_value_def by (simp del: stringify.simps)
qed

lemma sample_jar_token: "cookie_value 0 sample_jar ''auth_token'' = Some ''jwt''"
  by (simp add: sample_jar_def cookie_value_def)


text \<open>The session a successful login starts, as the next request finds it.\<close>

lemma login_session:
  assumes "json_parse body = Some req" "backend (login_request env req) = Some res" "is_ok res"
    and "json_parse (rs_body res) = Some data" "as_auth_user data = Some u"
    and "js_prop data ''token'' = Some (JStr tok)"
    and "\<not> opt_truthy (js_prop data ''requiresBuSelection'')"
  shows "\<exists>r. login_post env backend body = Inr r \<and> nr_status r = 200 \<and>
     nr_data r = Some (JObj [(''user'', auth_user_json u)]) \<and>
     map ck_name (nr_cookies r) = [''auth_token'', ''user_info''] \<and> list_all ck_httpOnly (nr_cookies r) \<and>
     (let j' = store_cookies now (nr_cookies r) j in
        getAuthUser (now + d) j' = (if d < 3600 then Some (auth_user_json u) else None) \<and>
        cookie_value (now + d) j' ''auth_token'' = (if d < 3600 then Some tok else None))"
proof -
  have "data \<noteq> JNull" using assms(6) by auto
  then have reply: "login_post env backend body = Inr (set_cookies
     [session_cookie env ''auth_token'' tok cookie_max_age,
      session_cookie env ''user_info'' (stringify (auth_user_json u)) cookie_max_age]
     (json_response (JObj [(''user'', auth_user_json u)]) 200))"
    using assms by (simp add: route_simps login_user_typed)
  have parse: "json_parse (stringify (auth_user_json u)) = Some (auth_user_json u)"
    by (rule js.decode_encode) simp
  have "stringify (auth_user_json u) \<noteq> []" and "auth_user_json u \<noteq> JNull"
    by (simp_all add: auth_user_json_def)
  with parse have jar: "getAuthUser (now + d) (j(''auth_token'' \<mapsto> (tok, now + 3600),
        ''user_info'' \<mapsto> (stringify (auth_user_json u), now + 3600))) =
      (if d < 3600 then Some (auth_user_json u) else None)"
    by (simp add: getAuthUser_def cookie_value_def)
  show ?thesis
    unfolding reply
    by (simp add: store_session_cookies jar cookie_max_age_def Let_def del: store_cookies_simps)
      (simp add: session_cookie_def cookie_value_def)
qed

text \<open>
  C10. Signing in round-trips through the cookies: when the backend answers a login with a token and
  the user's fields, the response carries the user and not the token, sets exactly the two
  HTTP-only session cookies, and for the next hour, and no longer, \<open>getAuthUser\<close> reads the same user
  back from the cookie text.
\<close>

theorem login_round_trip:
  assumes "json_parse body = Some req" "backend (login_request env req) = Some res" "is_ok res"
    and "json_parse (rs_body res) = Some data" "as_auth_user data = Some u"
    and "js_prop data ''token'' = Some (JStr tok)"
    and "\<not> opt_truthy (js_prop data ''requiresBuSelection'')"
  shows "\<exists>r. login_post env backend body = Inr r \<and> nr_status r = 200 \<and>
     nr_data r = Some (JObj [(''user'', auth_user_json u)]) \<and>
     map ck_name (nr_cookies r) = [''auth_token'', ''user_info''] \<and> list_all ck_httpOnly (nr_cookies r) \<and>
     (let j' = store_cookies now (nr_cookies r) j in
        getAuthUser (now + d) j' = (if d < 3600 then Some (auth_user_json u) else None) \<and>
        cookie_value (now + d) j' ''auth_token'' = (if d < 3600 then Some tok else None))"
  by (rule login_session [where backend = backend, OF assms])

definition sample_reply :: json where
  "sample_reply = JObj
     [(''token'', JStr ''jwt''), (''personId'', JStr ''p1''), (''buId'', JStr ''b1''),
      (''companyId'', JStr ''c1''), (''role'', JStr ''Owner''), (''firstName'', JStr ''Ann''),
      (''lastName'', JStr ''Lee'')]"

definition sample_backend :: backend where
  "sample_backend req = Some \<lparr>rs_status = 200, rs_body = stringify sample_reply\<rparr>"

definition sample_user :: auth_user where
  "sample_user = \<lparr>au_personId = ''p1'', au_buId = ''b1'', au_companyId = ''c1'', au_role = ''Owner'',
     au_firstName = ''Ann'', au_lastName = ''Lee''\<rparr>"

definition sample_env :: bff_env where
  "sample_env = \<lparr>env_backendUrl = backend_default, env_production = True\<rparr>"

theorem login_round_trip_witness:
  "\<exists>r. login_post sample_env sample_backend (stringify (JObj [(''email'', JStr ''a'')])) = Inr r \<and>
     nr_status r = 200 \<and>
     nr_data r = Some (JObj [(''user'', auth_user_json sample_user)]) \<and>
     map ck_name (nr_cookies r) = [''auth_token'', ''user_info''] \<and> list_all ck_httpOnly (nr_cookies r) \<and>
     (let j' = store_cookies 10 (nr_cookies r) Map.empty in
        getAuthUser (10 + 5) j' = (if (5::nat) < 3600 then Some (auth_user_json sample_user) else None) \<and>
        cookie_value (10 + 5) j' ''auth_token'' = (if (5::nat) < 3600 then Some ''jwt'' else None))"
proof (rule login_round_trip)
  show "json_parse (stringify (JObj [(''email'', JStr ''a'')])) = Some (JObj [(''email'', JStr ''a'')])"
    by (rule js.decode_encode) simp
  show "sample_backend (login_request sample_env (JObj [(''email'', JStr ''a'')])) =
      Some \<lparr>rs_status = 200, rs_body = stringify sample_reply\<rparr>"
    by (simp add: sample_backend_def)
  show "is_ok \<lparr>rs_status = 200, rs_body = stringify sample_reply\<rparr>" by (simp add: is_ok_def)
  have "json_parse (stringify sample_reply) = Some sample_reply"
    by (rule js.decode_encode) (simp add: sample_reply_def)
  then show "json_parse (rs_body \<lparr>rs_status = 200, rs_body = stringify sample_reply\<rparr>) = Some sample_reply"
    by simp
qed (simp_all add: sample_reply_def as_auth_user_def sample_user_def)

end
