(* ===== verification/Api_Client.thy ===== *)
theory Api_Client
  imports Session_Navigation
begin

text \<open>
  The client side of the HTTP interface: the axios instance with its interceptor
  (\<open>infrastructure/http/axiosClient.ts\<close>), the repositories (\<open>domain/repositories\<close>) as records of the
  calls they make, their implementations (\<open>infrastructure/api\<close>), the use cases
  (\<open>application/use-cases\<close>), the container that wires them, and \<open>serverFetch\<close> of the server
  components. A call is the request handed to axios; what comes back is an \<open>awaited\<close> value.
\<close>

record api_call =
  ac_method :: string
  ac_path :: string
  ac_params :: "(string \<times> string) list"
  ac_body :: "json option"

definition axios_get :: "string \<Rightarrow> (string \<times> string) list \<Rightarrow> api_call" where
  "axios_get p ps = \<lparr>ac_method = ''GET'', ac_path = p, ac_params = ps, ac_body = None\<rparr>"

definition axios_post :: "string \<Rightarrow> json option \<Rightarrow> api_call" where
  "axios_post p b = \<lparr>ac_method = ''POST'', ac_path = p, ac_params = [], ac_body = b\<rparr>"

definition axios_put :: "string \<Rightarrow> json \<Rightarrow> api_call" where
  "axios_put p b = \<lparr>ac_method = ''PUT'', ac_path = p, ac_params = [], ac_body = Some b\<rparr>"

lemma axios_call_simps [simp]:
  "ac_method (axios_get p ps) = ''GET''" "ac_path (axios_get p ps) = p"
  "ac_params (axios_get p ps) = ps" "ac_body (axios_get p ps) = None"
  "ac_method (axios_post p b) = ''POST''" "ac_path (axios_post p b) = p"
  "ac_params (axios_post p b) = []" "ac_body (axios_post p b) = b"
  "ac_method (axios_put p v) = ''PUT''" "ac_path (axios_put p v) = p"
  "ac_params (axios_put p v) = []" "ac_body (axios_put p v) = Some v"
  by (simp_all add: axios_get_def axios_post_def axios_put_def)

subsection \<open>The axios instance\<close>

definition axios_baseURL :: string where
  "axios_baseURL = ''/api/proxy''"

text \<open>
  The request the browser sends: base address, path, and the parameters as a query. How axios
  escapes a parameter is its own affair and an argument here.
\<close>

definition query_text :: "(string \<Rightarrow> string) \<Rightarrow> (string \<times> string) list \<Rightarrow> string" where
  "query_text enc ps = (if ps = [] then []
     else CHR ''?'' # js_join ''&'' (map (\<lambda>(k, v). enc k @ ''='' @ enc v) ps))"

definition axios_request :: "(string \<Rightarrow> string) \<Rightarrow> api_call \<Rightarrow> in_request" where
  "axios_request enc c =
     \<lparr>in_method = ac_method c, in_url = axios_baseURL @ ac_path c @ query_text enc (ac_params c),
      in_text = (case ac_body c of None \<Rightarrow> [] | Some b \<Rightarrow> stringify b)\<rparr>"

text \<open>
  How the promise settles: a status from 200 to 299 resolves with the data, any other rejects with
  the response; no response at all rejects without one.
\<close>

definition axios_settle :: "next_response option \<Rightarrow> json option awaited" where
  "axios_settle res = (case res of
     None \<Rightarrow> Inl No_Response
   | Some r \<Rightarrow>
       if 200 \<le> nr_status r \<and> nr_status r \<le> 299 then Inr (nr_data r)
       else Inl (Http_Error (nr_status r)
         (case nr_data r of None \<Rightarrow> None | Some v \<Rightarrow> json_string (js_prop v ''error''))))"

text \<open>The response interceptor: on 401 the browser is sent to the login page; the error is passed on.\<close>

definition axios_interceptor :: "'a awaited \<Rightarrow> 'a awaited \<times> string option" where
  "axios_interceptor r = (case r of
     Inr x \<Rightarrow> (Inr x, None)
   | Inl e \<Rightarrow> (Inl e, if err_status e = Some 401 then Some ''/login'' else None))"

subsection \<open>Repositories\<close>

record auth_repository =
  ar_changePassword :: "string \<Rightarrow> string \<Rightarrow> api_call"

record business_unit_repository =
  br_getAll :: api_call
  br_create :: "string \<Rightarrow> api_call"

record staff_repository =
  sr_getAll :: api_call
  sr_getPersons :: api_call
  sr_create :: "create_staff_input \<Rightarrow> api_call"
  sr_enrollExisting :: "enroll_existing_input \<Rightarrow> api_call"
  sr_updateRole :: "id \<Rightarrow> id \<Rightarrow> string \<Rightarrow> api_call"

record chat_repository =
  cr_getWorkspace :: "id \<Rightarrow> api_call"
  cr_updateAccess :: "id \<Rightarrow> id \<Rightarrow> bool \<Rightarrow> api_call"

record chat_message_repository =
  mr_getMessages :: "id \<Rightarrow> string option \<Rightarrow> string option \<Rightarrow> api_call"
  mr_sendMessage :: "id \<Rightarrow> string \<Rightarrow> api_call"

record chat_conversation_repository =
  cvr_listConversations :: "id \<Rightarrow> api_call"
  cvr_getOrCreateDM :: "id \<Rightarrow> id \<Rightarrow> api_call"
  cvr_getMessages :: "id \<Rightarrow> id \<Rightarrow> string option \<Rightarrow> string option \<Rightarrow> api_call"
  cvr_sendMessage :: "id \<Rightarrow> id \<Rightarrow> string \<Rightarrow> api_call"

subsection \<open>Their implementations\<close>

definition authApi :: auth_repository where
  "authApi = \<lparr>ar_changePassword = (\<lambda>currentPassword newPassword.
     axios_put ''/auth/password''
       (JObj [(''currentPassword'', JStr currentPassword), (''newPassword'', JStr newPassword)]))\<rparr>"

definition businessUnitApi :: business_unit_repository where
  "businessUnitApi = \<lparr>br_getAll = axios_get ''/business-units'' [],
     br_create = (\<lambda>name. axios_post ''/business-units'' (Some (JObj [(''name'', JStr name)])))\<rparr>"

definition create_staff_json :: "create_staff_input \<Rightarrow> json" where
  "create_staff_json d = JObj [(''firstName'', JStr (cs_firstName d)), (''lastName'', JStr (cs_lastName d)),
     (''email'', JStr (cs_email d)), (''buId'', JStr (cs_buId d)), (''role'', JStr (cs_role d))]"

definition enroll_existing_json :: "enroll_existing_input \<Rightarrow> json" where
  "enroll_existing_json d = JObj [(''personId'', JStr (en_personId d)), (''buId'', JStr (en_buId d)),
     (''email'', JStr (en_email d)), (''role'', JStr (en_role d))]"

definition staffApi :: staff_repository where
  "staffApi = \<lparr>sr_getAll = axios_get ''/staff'' [], sr_getPersons = axios_get ''/staff/persons'' [],
     sr_create = (\<lambda>d. axios_post ''/staff'' (Some (create_staff_json d))),
     sr_enrollExisting = (\<lambda>d. axios_post ''/staff/enroll'' (Some (enroll_existing_json d))),
     sr_updateRole = (\<lambda>personId buId role. axios_put (''/staff/'' @ personId @ ''/role'')
       (JObj [(''role'', JStr role), (''buId'', JStr buId)]))\<rparr>"

definition chatApi :: chat_repository where
  "chatApi = \<lparr>cr_getWorkspace = (\<lambda>buId. axios_get (''/chat/workspace/'' @ buId) []),
     cr_updateAccess = (\<lambda>buId personId hasAccess.
       axios_put (''/chat/workspace/'' @ buId @ ''/members/'' @ personId @ ''/access'')
         (JObj [(''hasAccess'', JBool hasAccess)]))\<rparr>"

text \<open>The default of \<open>limit\<close> is 50; \<open>before\<close> is sent when it is truthy.\<close>

definition page_params :: "string option \<Rightarrow> string option \<Rightarrow> (string \<times> string) list" where
  "page_params limit before =
     (''limit'', nullish limit ''50'') # (if truthy before then [(''before'', nullish before [])] else [])"

definition chatMessageApi :: chat_message_repository where
  "chatMessageApi = \<lparr>mr_getMessages = (\<lambda>buId limit before.
       axios_get (''/chat/workspace/'' @ buId @ ''/messages'') (page_params limit before)),
     mr_sendMessage = (\<lambda>buId content.
       axios_post (''/chat/workspace/'' @ buId @ ''/messages'') (Some (JObj [(''content'', JStr content)])))\<rparr>"

definition chatConversationApi :: chat_conversation_repository where
  "chatConversationApi = \<lparr>
     cvr_listConversations = (\<lambda>buId. axios_get (''/chat/workspace/'' @ buId @ ''/conversations'') []),
     cvr_getOrCreateDM = (\<lambda>buId targetPersonId.
       axios_post (''/chat/workspace/'' @ buId @ ''/conversations/dm'')
         (Some (JObj [(''targetPersonId'', JStr targetPersonId)]))),
     cvr_getMessages = (\<lambda>buId conversationId limit before.
       axios_get (''/chat/workspace/'' @ buId @ ''/conversations/'' @ conversationId @ ''/messages'')
         (page_params limit before)),
     cvr_sendMessage = (\<lambda>buId conversationId content.
       axios_post (''/chat/workspace/'' @ buId @ ''/conversations/'' @ conversationId @ ''/messages'')
         (Some (JObj [(''content'', JStr content)])))\<rparr>"

subsection \<open>Use cases\<close>

definition ChangePasswordUseCase :: "auth_repository \<Rightarrow> string \<Rightarrow> string \<Rightarrow> api_call" where
  "ChangePasswordUseCase repo currentPassword newPassword = ar_changePassword repo currentPassword newPassword"

definition GetBusinessUnitsUseCase :: "business_unit_repository \<Rightarrow> api_call" where
  "GetBusinessUnitsUseCase repo = br_getAll repo"

definition CreateBusinessUnitUseCase :: "business_unit_repository \<Rightarrow> string \<Rightarrow> api_call" where
  "CreateBusinessUnitUseCase repo name = br_create repo name"

definition GetStaffUseCase :: "staff_repository \<Rightarrow> api_call" where
  "GetStaffUseCase repo = sr_getAll repo"

definition GetPersonsUseCase :: "staff_repository \<Rightarrow> api_call" where
  "GetPersonsUseCase repo = sr_getPersons repo"

definition CreateStaffUseCase :: "staff_repository \<Rightarrow> create_staff_input \<Rightarrow> api_call" where
  "CreateStaffUseCase repo data = sr_create repo data"

definition EnrollExistingUseCase :: "staff_repository \<Rightarrow> enroll_existing_input \<Rightarrow> api_call" where
  "EnrollExistingUseCase repo data = sr_enrollExisting repo data"

definition UpdateStaffRoleUseCase :: "staff_repository \<Rightarrow> id \<Rightarrow> id \<Rightarrow> string \<Rightarrow> api_call" where
  "UpdateStaffRoleUseCase repo personId buId role = sr_updateRole repo personId buId role"

definition GetChatWorkspaceUseCase :: "chat_repository \<Rightarrow> id \<Rightarrow> api_call" where
  "GetChatWorkspaceUseCase repo buId = cr_getWorkspace repo buId"

definition UpdateChatAccessUseCase :: "chat_repository \<Rightarrow> id \<Rightarrow> id \<Rightarrow> bool \<Rightarrow> api_call" where
  "UpdateChatAccessUseCase repo buId personId hasAccess = cr_updateAccess repo buId personId hasAccess"

definition GetMessagesUseCase :: "chat_message_repository \<Rightarrow> id \<Rightarrow> api_call" where
  "GetMessagesUseCase repo buId = mr_getMessages repo buId None None"

definition SendMessageUseCase :: "chat_message_repository \<Rightarrow> id \<Rightarrow> string \<Rightarrow> api_call" where
  "SendMessageUseCase repo buId content = mr_sendMessage repo buId content"

definition GetConversationsUseCase :: "chat_conversation_repository \<Rightarrow> id \<Rightarrow> api_call" where
  "GetConversationsUseCase repo buId = cvr_listConversations repo buId"

definition CreateDMUseCase :: "chat_conversation_repository \<Rightarrow> id \<Rightarrow> id \<Rightarrow> api_call" where
  "CreateDMUseCase repo buId targetPersonId = cvr_getOrCreateDM repo buId targetPersonId"

definition GetConversationMessagesUseCase :: "chat_conversation_repository \<Rightarrow> id \<Rightarrow> id \<Rightarrow> api_call" where
  "GetConversationMessagesUseCase repo buId conversationId =
     cvr_getMessages repo buId conversationId None None"

definition SendConversationMessageUseCase ::
  "chat_conversation_repository \<Rightarrow> id \<Rightarrow> id \<Rightarrow> string \<Rightarrow> api_call" where
  "SendConversationMessageUseCase repo buId conversationId content =
     cvr_sendMessage repo buId conversationId content"

subsection \<open>The container\<close>

text \<open>Every call the stores and pages can make, by the name it has in the container.\<close>

datatype container_call =
    Staff_getAll
  | Staff_getPersons
  | Staff_create create_staff_input
  | Staff_enrollExisting enroll_existing_input
  | Staff_updateRole id id string
  | BusinessUnits_getAll
  | BusinessUnits_create string
  | Auth_changePassword string string
  | Chat_getWorkspace id
  | Chat_updateAccess id id bool
  | Chat_getMessages id
  | Chat_sendMessage id string
  | Chat_getConversations id
  | Chat_createDM id id
  | Chat_getConversationMessages id id
  | Chat_sendConversationMessage id id string

fun container :: "container_call \<Rightarrow> api_call" where
  "container Staff_getAll = GetStaffUseCase staffApi"
| "container Staff_getPersons = GetPersonsUseCase staffApi"
| "container (Staff_create d) = CreateStaffUseCase staffApi d"
| "container (Staff_enrollExisting d) = EnrollExistingUseCase staffApi d"
| "container (Staff_updateRole p b r) = UpdateStaffRoleUseCase staffApi p b r"
| "container BusinessUnits_getAll = GetBusinessUnitsUseCase businessUnitApi"
| "container (BusinessUnits_create n) = CreateBusinessUnitUseCase businessUnitApi n"
| "container (Auth_changePassword c n) = ChangePasswordUseCase authApi c n"
| "container (Chat_getWorkspace b) = GetChatWorkspaceUseCase chatApi b"
| "container (Chat_updateAccess b p h) = UpdateChatAccessUseCase chatApi b p h"
| "container (Chat_getMessages b) = GetMessagesUseCase chatMessageApi b"
| "container (Chat_sendMessage b c) = SendMessageUseCase chatMessageApi b c"
| "container (Chat_getConversations b) = GetConversationsUseCase chatConversationApi b"
| "container (Chat_createDM b t) = CreateDMUseCase chatConversationApi b t"
| "container (Chat_getConversationMessages b c) = GetConversationMessagesUseCase chatConversationApi b c"
| "container (Chat_sendConversationMessage b c t) =
     SendConversationMessageUseCase chatConversationApi b c t"

lemmas use_case_defs =
  ChangePasswordUseCase_def GetBusinessUnitsUseCase_def CreateBusinessUnitUseCase_def
  GetStaffUseCase_def GetPersonsUseCase_def CreateStaffUseCase_def EnrollExistingUseCase_def
  UpdateStaffRoleUseCase_def GetChatWorkspaceUseCase_def UpdateChatAccessUseCase_def
  GetMessagesUseCase_def SendMessageUseCase_def GetConversationsUseCase_def CreateDMUseCase_def
  GetConversationMessagesUseCase_def SendConversationMessageUseCase_def

lemmas api_defs =
  authApi_def businessUnitApi_def staffApi_def chatApi_def chatMessageApi_def chatConversationApi_def

subsection \<open>Server components\<close>

datatype fetch_error = Fetch_Failed | Backend_Error nat | Body_Error js_error

definition server_request :: "bff_env \<Rightarrow> string option \<Rightarrow> string \<Rightarrow> http_request" where
  "server_request env token path =
     \<lparr>rq_method = ''GET'', rq_url = env_backendUrl env @ ''/api/'' @ path,
      rq_headers = (''Content-Type'', ''application/json'') #
        (if truthy token then [(''Authorization'', ''Bearer '' @ nullish token [])] else []),
      rq_body = None\<rparr>"

definition serverFetch :: "bff_env \<Rightarrow> backend \<Rightarrow> string option \<Rightarrow> string \<Rightarrow> fetch_error + json option" where
  "serverFetch env backend token path = (case backend (server_request env token path) of
     None \<Rightarrow> Inl Fetch_Failed
   | Some res \<Rightarrow>
       if \<not> is_ok res then Inl (Backend_Error (rs_status res))
       else if rs_status res = 204 then Inr None
       else (case body_json (rs_body res) of Inl e \<Rightarrow> Inl (Body_Error e) | Inr v \<Rightarrow> Inr (Some v)))"


subsection \<open>From a call to the backend and back\<close>

text \<open>The path segments the router hands to the catch-all route.\<close>

definition next_segments :: "string \<Rightarrow> string list" where
  "next_segments u = js_split CHR ''/'' (drop (length (axios_baseURL @ ''/'')) (url_path u))"

lemma container_path_slash: "\<exists>p. ac_path (container c) = CHR ''/'' # p"
  by (cases c) (simp_all add: use_case_defs api_defs)

lemma container_method: "ac_method (container c) \<in> set [''GET'', ''POST'', ''PUT'']"
  by (cases c) (simp_all add: use_case_defs api_defs)

lemma container_body: "ac_method (container c) = ''GET'' \<longleftrightarrow> ac_body (container c) = None"
  by (cases c) (simp_all add: use_case_defs api_defs)

lemma container_no_post_params: "ac_method (container c) \<noteq> ''GET'' \<Longrightarrow> ac_params (container c) = []"
  by (cases c) (simp_all add: use_case_defs api_defs)

lemma query_text_cases: "query_text enc ps = [] \<or> (\<exists>q. query_text enc ps = CHR ''?'' # q \<and> q \<noteq> [])"
proof (cases ps)
  case (Cons kv ps')
  then show ?thesis by (cases ps') (auto simp: query_text_def split: prod.split)
qed (simp add: query_text_def)

lemma request_url_parts:
  assumes "CHR ''?'' \<notin> set p"
  shows "url_path (axios_baseURL @ p @ query_text enc ps) = axios_baseURL @ p"
    and "url_search (axios_baseURL @ p @ query_text enc ps) = query_text enc ps"
proof -
  have clean: "CHR ''?'' \<notin> set (axios_baseURL @ p)" using assms by (simp add: axios_baseURL_def)
  show "url_path (axios_baseURL @ p @ query_text enc ps) = axios_baseURL @ p"
    using query_text_cases [of enc ps] url_parts(1,3) [OF clean] by auto
  show "url_search (axios_baseURL @ p @ query_text enc ps) = query_text enc ps"
    using query_text_cases [of enc ps] url_parts(2,4) [OF clean] by auto
qed

lemma next_segments_join:
  assumes "CHR ''?'' \<notin> set p" "p = CHR ''/'' # p'"
  shows "CHR ''/'' # js_join ''/'' (next_segments (axios_baseURL @ p @ query_text enc ps)) = p"
  using assms request_url_parts(1) [OF assms(1), of enc ps]
  by (simp add: next_segments_def axios_baseURL_def)

lemma call_reaches:
  assumes "tok \<noteq> []" "CHR ''?'' \<notin> set (ac_path (container c))"
  shows "proxy_route env backend (Some tok) (axios_request enc (container c))
       (next_segments (in_url (axios_request enc (container c)))) =
     (case backend
        \<lparr>rq_method = ac_method (container c),
         rq_url = env_backendUrl env @ ''/api'' @ ac_path (container c) @ query_text enc (ac_params (container c)),
         rq_headers = [(''Content-Type'', ''application/json''), (''Authorization'', ''Bearer '' @ tok)],
         rq_body = map_option stringify (ac_body (container c))\<rparr>
      of None \<Rightarrow> Inr (json_response (error_json ''Backend unreachable.'') 503)
       | Some res \<Rightarrow> proxy_reply res)"
proof -
  define req where "req = axios_request enc (container c)"
  obtain p where p: "ac_path (container c) = CHR ''/'' # p" using container_path_slash by blast
  note join = next_segments_join [OF assms(2) p, of enc "ac_params (container c)"]
  have url: "''/api/'' @ js_join ''/'' (next_segments (in_url req)) @ url_search (in_url req) =
      ''/api'' @ ac_path (container c) @ query_text enc (ac_params (container c))"
    using join request_url_parts(2) [OF assms(2), of enc "ac_params (container c)"] p
    by (simp add: req_def axios_request_def)
  have "ac_method (container c) \<noteq> ''HEAD''" using container_method [of c] by auto
  then have body: "(if in_method req \<noteq> ''GET'' \<and> in_method req \<noteq> ''HEAD'' then Some (in_text req) else None)
      = map_option stringify (ac_body (container c))"
    using container_body [of c] by (cases "ac_body (container c)") (auto simp: req_def axios_request_def)
  have "in_method req \<in> set proxy_methods"
    using container_method [of c] by (auto simp: req_def axios_request_def proxy_methods_def)
  with assms(1) url body show ?thesis
    by (simp add: req_def [symmetric] proxy_route_def route_simps proxy_backend_request_def)
      (simp add: req_def axios_request_def)
qed

text \<open>
  C20. Every call of the container reaches the backend as written: through axios and the proxy route it
  becomes one request with the call's method, the backend's address followed by \<open>/api\<close>, the call's
  path and its query, the token as bearer, and the call's JSON as body exactly when it is not a GET. The
  identifiers in the path are words of letters, digits, dashes, dots, underscores and tildes, and the
  parameters are escaped, so that the address passes the browser and the framework unchanged.
\<close>

theorem container_call_reaches_backend:
  fixes enc :: "string \<Rightarrow> string"
  assumes "tok \<noteq> []" "plain_path (ac_path (container c))"
    and "\<forall>(k, v) \<in> set (ac_params (container c)). query_word (enc k) \<and> query_word (enc v)"
  defines "req \<equiv> axios_request enc (container c)"
  shows "proxy_route env backend (Some tok) req (next_segments (in_url req)) =
     (case backend
        \<lparr>rq_method = ac_method (container c),
         rq_url = env_backendUrl env @ ''/api'' @ ac_path (container c) @ query_text enc (ac_params (container c)),
         rq_headers = [(''Content-Type'', ''application/json''), (''Authorization'', ''Bearer '' @ tok)],
         rq_body = map_option stringify (ac_body (container c))\<rparr>
      of None \<Rightarrow> Inr (json_response (error_json ''Backend unreachable.'') 503)
       | Some res \<Rightarrow> proxy_reply res)"
  using call_reaches [OF assms(1) plain_path_no_query [OF assms(2)]] unfolding req_def .

theorem container_call_reaches_backend_witness:
  "proxy_route sample_env (\<lambda>r. None) (Some ''jwt'')
      (axios_request id (container (Chat_getConversationMessages ''b1'' ''c1'')))
      (next_segments (in_url (axios_request id (container (Chat_getConversationMessages ''b1'' ''c1''))))) =
   Inr (json_response (error_json ''Backend unreachable.'') 503)"
proof -
  let ?c = "Chat_getConversationMessages ''b1'' ''c1''"
  have "plain_path ''/chat/workspace/b1/conversations/c1/messages''" by code_simp
  then have 1: "plain_path (ac_path (container ?c))" by (simp add: use_case_defs api_defs)
  have "query_word ''limit''" "query_word ''50''" by (simp_all add: query_word_def plain_char_def lower_char_def Let_def)
  then have 2: "\<forall>(k, v) \<in> set (ac_params (container ?c)). query_word (id k) \<and> query_word (id v)"
    by (simp add: use_case_defs api_defs page_params_def)
  show ?thesis
    by (subst container_call_reaches_backend [OF _ 1 2]) simp_all
qed

text \<open>
  C38. An expired session ends at the login page: when the backend answers any call with 401, the call
  rejects, both cookies are gone from the jar, the interceptor sends the browser to the login page,
  and that navigation shows it at once.
\<close>

theorem expired_session_reaches_login:
  assumes "proxy_reply res = Inr r" "rs_status res = 401"
  shows "\<exists>e target. axios_interceptor (axios_settle (Some r)) = (Inl e, Some target) \<and>
     err_status e = Some 401 \<and> err_message e = Some ''Session expired.'' \<and>
     (let j' = store_cookies now (nr_cookies r) j in
        cookie_value now j' ''auth_token'' = None \<and> getAuthUser now j' = None \<and>
        navigate 1 now j' target = Some (Shown Login_Page))"
proof -
  have r: "r = set_cookies [expired_cookie ''auth_token'', expired_cookie ''user_info'']
      (json_response (error_json ''Session expired.'') 401)"
    using assms by (simp add: proxy_reply_def)
  show ?thesis
    by (simp add: r axios_settle_def axios_interceptor_def error_json_def store_expired_cookies
        cookie_value_def getAuthUser_def view_simps del: store_cookies_simps)
qed

theorem expired_session_reaches_login_witness:
  "\<exists>r e target. proxy_reply \<lparr>rs_status = 401, rs_body = []\<rparr> = Inr r \<and>
     axios_interceptor (axios_settle (Some r)) = (Inl e, Some target) \<and>
     err_status e = Some 401 \<and> err_message e = Some ''Session expired.'' \<and>
     (let j' = store_cookies 7 (nr_cookies r) sample_jar in
        cookie_value 7 j' ''auth_token'' = None \<and> getAuthUser 7 j' = None \<and>
        navigate 1 7 j' target = Some (Shown Login_Page))"
proof -
  obtain r where r: "proxy_reply \<lparr>rs_status = 401, rs_body = []\<rparr> = Inr r"
    by (simp add: proxy_reply_def)
  with expired_session_reaches_login [OF r, of 7 sample_jar] show ?thesis by auto
qed

text \<open>
  The proxy acts for a signed-in user only: without a token it answers 401 itself and the reply
  does not depend on the backend at all; with one, it depends on the backend's answer to a single
  request that carries the token.
\<close>

lemma proxy_needs_token:
  "(\<not> truthy cookie \<longrightarrow>
      proxyRequest env backend cookie req path = Inr (json_response (error_json ''Unauthorized'') 401)) \<and>
   (\<forall>tok backend'. cookie = Some tok \<and>
      backend (proxy_backend_request env tok req path) = backend' (proxy_backend_request env tok req path) \<longrightarrow>
      proxyRequest env backend cookie req path = proxyRequest env backend' cookie req path) \<and>
   (\<forall>tok. (''Authorization'', ''Bearer '' @ tok) \<in> set (rq_headers (proxy_backend_request env tok req path)))"
  by (auto simp: proxyRequest_unauthorized) (auto simp: proxyRequest_def proxy_backend_request_def)

end
