(* ===== verification/Auth_Store.thy ===== *)
theory Auth_Store
  imports Api_Client
begin

text \<open>
  The store of the signed-in user (\<open>application/stores/authStore.ts\<close>) and the two layout effects that
  fill it (\<open>presentation/providers.tsx\<close>, \<open>ProtectedLayoutClient.tsx\<close>).
\<close>

record auth_state =
  as_user :: "auth_user option"
  as_isOwner :: bool
  as_isOwnerOrAdmin :: bool

definition auth_init :: auth_state where
  "auth_init = \<lparr>as_user = None, as_isOwner = False, as_isOwnerOrAdmin = False\<rparr>"

definition setUser :: "auth_user option \<Rightarrow> auth_state \<Rightarrow> auth_state" where
  "setUser user s = s\<lparr>as_user := user,
     as_isOwner := (map_option au_role user = Some ''Owner''),
     as_isOwnerOrAdmin := (map_option au_role user = Some ''Owner'' \<or> map_option au_role user = Some ''Admin'')\<rparr>"

text \<open>\<open>logout\<close>: the user is cleared once the logout route answered; a network failure is thrown before.\<close>

definition auth_logout :: "unit awaited \<Rightarrow> auth_state \<Rightarrow> unit awaited \<times> auth_state" where
  "auth_logout res s = (case res of
     Inl e \<Rightarrow> (Inl e, s)
   | Inr _ \<Rightarrow> (Inr (), s\<lparr>as_user := None, as_isOwner := False, as_isOwnerOrAdmin := False\<rparr>))"

text \<open>The effect of \<open>Providers\<close>, run once, and the one of the protected layout.\<close>

definition providers_effect :: "auth_user option \<Rightarrow> auth_state \<Rightarrow> auth_state" where
  "providers_effect initialUser s = (case initialUser of None \<Rightarrow> s | Some u \<Rightarrow> setUser (Some u) s)"

definition protected_layout_effect :: "auth_user \<Rightarrow> auth_state \<Rightarrow> auth_state" where
  "protected_layout_effect user s = setUser (Some user) s"

text \<open>On the first mount of a protected page the child's effect runs before the parent's.\<close>

definition first_mount :: "auth_user \<Rightarrow> auth_user option \<Rightarrow> auth_state \<Rightarrow> auth_state" where
  "first_mount user initialUser s = providers_effect initialUser (protected_layout_effect user s)"

datatype auth_event = Set_User "auth_user option" | Logout_Settled "unit awaited" | Providers_Mount "auth_user option"
  | Layout_Mount auth_user

fun auth_apply :: "auth_event \<Rightarrow> auth_state \<Rightarrow> auth_state" where
  "auth_apply (Set_User u) s = setUser u s"
| "auth_apply (Logout_Settled r) s = snd (auth_logout r s)"
| "auth_apply (Providers_Mount u) s = providers_effect u s"
| "auth_apply (Layout_Mount u) s = protected_layout_effect u s"

definition auth_step :: "auth_state \<Rightarrow> auth_event \<Rightarrow> auth_state \<Rightarrow> bool" where
  "auth_step s e t \<longleftrightarrow> t = auth_apply e s"

definition flags_agree :: "auth_state \<Rightarrow> bool" where
  "flags_agree s \<longleftrightarrow>
     (as_isOwner s \<longleftrightarrow> (\<exists>u. as_user s = Some u \<and> au_role u = role_name Owner)) \<and>
     (as_isOwnerOrAdmin s \<longleftrightarrow>
        (\<exists>u. as_user s = Some u \<and> (au_role u = role_name Owner \<or> au_role u = role_name Admin)))"

lemma setUser_user [simp]: "as_user (setUser u s) = u"
  by (simp add: setUser_def)

lemma flags_setUser: "flags_agree (setUser u s)"
  by (cases u) (auto simp: flags_agree_def setUser_def)

lemma flags_apply: "flags_agree s \<Longrightarrow> flags_agree (auth_apply e s)"
proof (cases e)
  case (Logout_Settled r)
  then show "flags_agree s \<Longrightarrow> ?thesis"
    by (cases r) (auto simp: auth_logout_def flags_agree_def)
next
  case (Providers_Mount u)
  then show "flags_agree s \<Longrightarrow> ?thesis"
    by (cases u) (auto simp: providers_effect_def flags_setUser)
qed (auto simp: flags_setUser protected_layout_effect_def)

interpretation auth: guarded_system "\<lambda>s. s = auth_init" auth_step flags_agree
proof
  show "s = auth_init \<Longrightarrow> flags_agree s" for s
    by (simp add: auth_init_def flags_agree_def)
  show "flags_agree s \<Longrightarrow> auth_step s e t \<Longrightarrow> flags_agree t" for s e t
    by (simp add: auth_step_def flags_apply)
qed

subsection \<open>Properties\<close>

text \<open>
  The role flags of the store never disagree with its user: after any sequence of sign-ins, layout
  effects and logouts, successful or not, \<open>isOwner\<close> holds exactly for an Owner and \<open>isOwnerOrAdmin\<close>
  exactly for an Owner or an Admin.
\<close>

lemma auth_flags_agree:
  assumes "runs auth_step auth_init es s"
  shows "flags_agree s"
  using assms auth.inv_start [of auth_init] by (blast intro: auth.inv_runs)

text \<open>
  A root layout cached from before the login does not sign the user out again: with no initial
  user, the first mount of a protected page leaves the user its server component supplied.
\<close>

lemma first_mount_keeps_user:
  "as_user (first_mount user None s) = Some user \<and> as_user (first_mount user (Some user) s) = Some user"
  by (simp add: first_mount_def providers_effect_def protected_layout_effect_def)

end
