(* ===== verification/Async_Resource.thy ===== *)
theory Async_Resource
  imports Api_Client
begin

text \<open>
  The contract shared by the loading operations of the stores
  (\<open>set({ isLoading: true, error: null }); try { ... set({ data, isLoading: false }) } catch {
  set({ error, isLoading: false }) }\<close>): one segment before the awaited call and one after it. A
  loader may be started again before the first call settles; the lemmas say what holds then.
\<close>

locale async_resource =
  fixes begin_load :: "'s \<Rightarrow> 's"
    and end_load :: "'r awaited \<Rightarrow> 's \<Rightarrow> 's"
    and loading :: "'s \<Rightarrow> bool"
    and failure :: "'s \<Rightarrow> string option"
    and content :: "'s \<Rightarrow> 'v"
    and absorb :: "'r \<Rightarrow> 'v \<Rightarrow> 'v"
  assumes begin_loading: "loading (begin_load s)"
    and begin_failure: "failure (begin_load s) = None"
    and begin_content: "content (begin_load s) = content s"
    and end_loading: "\<not> loading (end_load r s)"
    and end_failure: "failure (end_load r s) \<noteq> None \<longleftrightarrow> (\<exists>e. r = Inl e) \<or> failure s \<noteq> None"
    and end_content: "content (end_load r s) = (case r of Inl e \<Rightarrow> content s | Inr x \<Rightarrow> absorb x (content s))"
begin

text \<open>A load from start to end: no longer loading, an error exactly on failure, old data kept then.\<close>

lemma load_settles:
  "\<not> loading (end_load r (begin_load s))"
  "failure (end_load r (begin_load s)) = None \<longleftrightarrow> (\<exists>x. r = Inr x)"
  "content (end_load r (begin_load s)) = (case r of Inl e \<Rightarrow> content s | Inr x \<Rightarrow> absorb x (content s))"
proof -
  show "\<not> loading (end_load r (begin_load s))" by (rule end_loading)
  show "failure (end_load r (begin_load s)) = None \<longleftrightarrow> (\<exists>x. r = Inr x)"
    using end_failure [of r "begin_load s"] by (cases r) (auto simp: begin_failure)
  show "content (end_load r (begin_load s)) = (case r of Inl e \<Rightarrow> content s | Inr x \<Rightarrow> absorb x (content s))"
    by (cases r) (simp_all add: end_content begin_content)
qed

text \<open>Two overlapping loads: the data follow the order of the answers, not of the requests.\<close>

lemma overlapping_loads:
  "content (end_load (Inr y) (end_load (Inr x) (begin_load (begin_load s)))) = absorb y (absorb x (content s))"
  by (simp add: end_content begin_content)

text \<open>The first answer already clears the flag although a second one is pending.\<close>

lemma overlapping_flag: "\<not> loading (end_load r (begin_load (begin_load s)))"
  by (rule end_loading)

text \<open>An error survives a later success of an overlapping load.\<close>

lemma overlapping_failure:
  "failure (end_load (Inr y) (end_load (Inl e) (begin_load (begin_load s)))) \<noteq> None"
  using end_failure [of "Inr y"] end_failure [of "Inl e"] by simp

end

end
