(* ===== verification/Business_Unit_Store.thy ===== *)
theory Business_Unit_Store
  imports Async_Resource
begin

text \<open>
  The store of the company's business units (\<open>application/stores/businessUnitStore.ts\<close>). \<open>fetch\<close> is split at
  its \<open>await\<close>; \<open>create\<close> rejects without a change when the call fails and reloads the list otherwise.
\<close>

record bu_state =
  bs_businessUnits :: "business_unit list"
  bs_isLoading :: bool
  bs_error :: "string option"

definition bu_init :: bu_state where
  "bu_init = \<lparr>bs_businessUnits = [], bs_isLoading = False, bs_error = None\<rparr>"

definition bu_hydrate :: "business_unit list \<Rightarrow> bu_state \<Rightarrow> bu_state" where
  "bu_hydrate bus s = s\<lparr>bs_businessUnits := bus\<rparr>"

definition bu_clearError :: "bu_state \<Rightarrow> bu_state" where
  "bu_clearError s = s\<lparr>bs_error := None\<rparr>"

definition bu_fetch_begin :: "bu_state \<Rightarrow> bu_state" where
  "bu_fetch_begin s = s\<lparr>bs_isLoading := True, bs_error := None\<rparr>"

definition bu_fetch_end :: "business_unit list awaited \<Rightarrow> bu_state \<Rightarrow> bu_state" where
  "bu_fetch_end res s = (case res of
     Inr bus \<Rightarrow> s\<lparr>bs_businessUnits := bus, bs_isLoading := False\<rparr>
   | Inl _ \<Rightarrow> s\<lparr>bs_error := Some ''Failed to load business units.'', bs_isLoading := False\<rparr>)"

definition bu_fetch :: "business_unit list awaited \<Rightarrow> bu_state \<Rightarrow> bu_state" where
  "bu_fetch res s = bu_fetch_end res (bu_fetch_begin s)"

definition bu_create ::
  "business_unit awaited \<Rightarrow> business_unit list awaited \<Rightarrow> bu_state \<Rightarrow> unit awaited \<times> bu_state" where
  "bu_create created reloaded s = (case created of
     Inl e \<Rightarrow> (Inl e, s)
   | Inr _ \<Rightarrow> (Inr (), bu_fetch reloaded s))"

lemmas bu_defs = bu_hydrate_def bu_clearError_def bu_fetch_begin_def bu_fetch_end_def bu_fetch_def bu_create_def

interpretation bu_load: async_resource bu_fetch_begin bu_fetch_end bs_isLoading bs_error
  bs_businessUnits "\<lambda>bus _. bus"
  by unfold_locales (auto simp: bu_defs split: sum.split)

subsection \<open>Properties\<close>

text \<open>
  Creating a business unit: if the backend refuses, the error is thrown and the store is untouched; if
  it accepts, the store ends idle, showing the reloaded list, or the old list with an error when the
  reload fails. A failed reload is not reported to the caller as a failed creation.
\<close>

lemma bu_create_outcome:
  "bu_create (Inl e) reloaded s = (Inl e, s) \<and>
   (\<exists>t. bu_create (Inr b) (Inr bus) s = (Inr (), t) \<and> \<not> bs_isLoading t \<and> bs_error t = None \<and>
      bs_businessUnits t = bus) \<and>
   (\<exists>t. bu_create (Inr b) (Inl e) s = (Inr (), t) \<and> \<not> bs_isLoading t \<and> bs_error t \<noteq> None \<and>
      bs_businessUnits t = bs_businessUnits s)"
  using bu_load.load_settles [of "Inr bus" s] bu_load.load_settles [of "Inl e" s]
  by (simp add: bu_create_def bu_fetch_def)

end
