(* ===== verification/Staff_Store.thy ===== *)
theory Staff_Store
  imports Async_Resource
begin

text \<open>
  The staff store (\<open>application/stores/staffStore.ts\<close>), and what the backend keeps: one role per
  profile, that is per person and business unit. \<open>updateRole\<close> looks its row up by person alone and
  rewrites every row of that person; the lemmas say when the displayed list still agrees with the
  backend's and when it does not.
\<close>

record staff_state =
  ss_staff :: "staff_member list"
  ss_businessUnits :: "business_unit list"
  ss_persons :: "person_option list"
  ss_isLoading :: bool
  ss_error :: "string option"

definition staff_init :: staff_state where
  "staff_init = \<lparr>ss_staff = [], ss_businessUnits = [], ss_persons = [], ss_isLoading = False, ss_error = None\<rparr>"

definition staff_hydrate :: "staff_member list \<Rightarrow> business_unit list \<Rightarrow> staff_state \<Rightarrow> staff_state" where
  "staff_hydrate staff bus s = s\<lparr>ss_staff := staff, ss_businessUnits := bus\<rparr>"

definition staff_clearError :: "staff_state \<Rightarrow> staff_state" where
  "staff_clearError s = s\<lparr>ss_error := None\<rparr>"

text \<open>\<open>Promise.all\<close> of two calls: resolves with both values, rejects with a rejection.\<close>

fun promise_all2 :: "'a awaited \<Rightarrow> 'b awaited \<Rightarrow> ('a \<times> 'b) awaited" where
  "promise_all2 (Inr x) (Inr y) = Inr (x, y)"
| "promise_all2 (Inl e) _ = Inl e"
| "promise_all2 (Inr x) (Inl e) = Inl e"

definition staff_fetch_begin :: "staff_state \<Rightarrow> staff_state" where
  "staff_fetch_begin s = s\<lparr>ss_isLoading := True, ss_error := None\<rparr>"

definition staff_fetch_end :: "(staff_member list \<times> business_unit list) awaited \<Rightarrow> staff_state \<Rightarrow> staff_state" where
  "staff_fetch_end res s = (case res of
     Inr (staff, bus) \<Rightarrow> s\<lparr>ss_staff := staff, ss_businessUnits := bus, ss_isLoading := False\<rparr>
   | Inl _ \<Rightarrow> s\<lparr>ss_error := Some ''Failed to load staff data.'', ss_isLoading := False\<rparr>)"

definition staff_fetch ::
  "staff_member list awaited \<Rightarrow> business_unit list awaited \<Rightarrow> staff_state \<Rightarrow> staff_state" where
  "staff_fetch staff bus s = staff_fetch_end (promise_all2 staff bus) (staff_fetch_begin s)"

definition staff_fetchPersons :: "person_option list awaited \<Rightarrow> staff_state \<Rightarrow> unit awaited \<times> staff_state" where
  "staff_fetchPersons res s = (case res of
     Inl e \<Rightarrow> (Inl e, s)
   | Inr persons \<Rightarrow> (Inr (), s\<lparr>ss_persons := persons\<rparr>))"

text \<open>\<open>create\<close> and \<open>enrollExisting\<close>: a call, then a reload.\<close>

definition staff_create :: "staff_member awaited \<Rightarrow> staff_member list awaited \<Rightarrow> business_unit list awaited \<Rightarrow>
    staff_state \<Rightarrow> unit awaited \<times> staff_state" where
  "staff_create created staff bus s = (case created of
     Inl e \<Rightarrow> (Inl e, s)
   | Inr _ \<Rightarrow> (Inr (), staff_fetch staff bus s))"

definition staff_enrollExisting :: "staff_member awaited \<Rightarrow> staff_member list awaited \<Rightarrow> business_unit list awaited \<Rightarrow>
    staff_state \<Rightarrow> unit awaited \<times> staff_state" where
  "staff_enrollExisting enrolled staff bus s = (case enrolled of
     Inl e \<Rightarrow> (Inl e, s)
   | Inr _ \<Rightarrow> (Inr (), staff_fetch staff bus s))"

text \<open>\<open>updateRole\<close> up to its call: an unknown person is an error, else the call names the found row's unit.\<close>

definition updateRole_call :: "id \<Rightarrow> string \<Rightarrow> staff_state \<Rightarrow> container_call awaited" where
  "updateRole_call personId role s = (case find (\<lambda>m. sm_personId m = personId) (ss_staff s) of
     None \<Rightarrow> Inl (Thrown ''Staff member not found.'')
   | Some member \<Rightarrow> Inr (Staff_updateRole personId (sm_buId member) role))"

definition updateRole_end :: "id \<Rightarrow> string \<Rightarrow> staff_state \<Rightarrow> staff_state" where
  "updateRole_end personId role s =
     s\<lparr>ss_staff := map (\<lambda>m. if sm_personId m = personId then m\<lparr>sm_role := role\<rparr> else m) (ss_staff s)\<rparr>"

definition updateRole ::
  "id \<Rightarrow> string \<Rightarrow> (container_call \<Rightarrow> unit awaited) \<Rightarrow> staff_state \<Rightarrow> unit awaited \<times> staff_state" where
  "updateRole personId role answer s = (case updateRole_call personId role s of
     Inl e \<Rightarrow> (Inl e, s)
   | Inr c \<Rightarrow> (case answer c of
       Inl e \<Rightarrow> (Inl e, s)
     | Inr _ \<Rightarrow> (Inr (), updateRole_end personId role s)))"

lemmas staff_defs = staff_hydrate_def staff_clearError_def staff_fetch_begin_def staff_fetch_end_def
  staff_fetch_def staff_fetchPersons_def staff_create_def staff_enrollExisting_def

interpretation staff_load: async_resource staff_fetch_begin staff_fetch_end ss_isLoading ss_error
  "\<lambda>s. (ss_staff s, ss_businessUnits s)" "\<lambda>v _. v"
  by unfold_locales (auto simp: staff_defs split: sum.split)

lemma updateRole_end_update_where:
  "ss_staff (updateRole_end p r s) = update_where sm_personId p (\<lambda>m. m\<lparr>sm_role := r\<rparr>) (ss_staff s)"
  by (simp add: updateRole_end_def update_where_def)

subsection \<open>The backend's profiles\<close>

text \<open>
  What the role endpoint of the backend changes: the profile of that person in that unit
  (\<open>GetByPersonAndBuAsync\<close>, \<open>UpdateRole\<close>). The role is one of the names the page offers, Admin and Staff,
  which the backend keeps as they are; it refuses Owner and reads other spellings of the names as these.
\<close>

definition profile_key :: "staff_member \<Rightarrow> id \<times> id" where
  "profile_key m = (sm_personId m, sm_buId m)"

fun backend_rows :: "container_call \<Rightarrow> staff_member list \<Rightarrow> staff_member list" where
  "backend_rows (Staff_updateRole p b r) rows =
     update_where profile_key (p, b) (\<lambda>m. m\<lparr>sm_role := r\<rparr>) rows"
| "backend_rows _ rows = rows"

lemma find_person:
  "find (\<lambda>m. sm_personId m = p) xs = Some m \<Longrightarrow> m \<in> set xs \<and> sm_personId m = p"
  by (auto simp: find_Some_iff)

lemma updateRole_call_cases:
  obtains (unknown) "p \<notin> sm_personId ` set (ss_staff s)"
      "updateRole_call p r s = Inl (Thrown ''Staff member not found.'')"
  | (known) m where "m \<in> set (ss_staff s)" "sm_personId m = p"
      "find (\<lambda>m. sm_personId m = p) (ss_staff s) = Some m"
      "updateRole_call p r s = Inr (Staff_updateRole p (sm_buId m) r)"
proof (cases "find (\<lambda>m. sm_personId m = p) (ss_staff s)")
  case None
  then have "p \<notin> sm_personId ` set (ss_staff s)" by (auto simp: find_None_iff)
  with None unknown show ?thesis by (simp add: updateRole_call_def)
next
  case (Some m)
  then have "updateRole_call p r s = Inr (Staff_updateRole p (sm_buId m) r)"
    by (simp add: updateRole_call_def)
  with find_person [OF Some] Some known [of m] show ?thesis by blast
qed

text \<open>With one profile per person, selecting by person is selecting by profile.\<close>

lemma update_by_person_profile:
  assumes "distinct (map sm_personId xs)" "m \<in> set xs"
  shows "update_where sm_personId (sm_personId m) f xs = update_where profile_key (profile_key m) f xs"
  unfolding update_where_def
proof (rule map_cong [OF refl])
  fix y assume "y \<in> set xs"
  with assms have "sm_personId y = sm_personId m \<Longrightarrow> y = m"
    unfolding distinct_map by (blast dest: inj_onD)
  then have "sm_personId y = sm_personId m \<longleftrightarrow> profile_key y = profile_key m"
    by (auto simp: profile_key_def)
  then show "(if sm_personId y = sm_personId m then f y else y) =
      (if profile_key y = profile_key m then f y else y)"
    by simp
qed

lemma update_where_unchanged: "x \<in> set xs \<Longrightarrow> key x \<noteq> k \<Longrightarrow> x \<in> set (update_where key k f xs)"
  by (induction xs) (auto simp: update_where_def)

lemma update_where_changed: "x \<in> set xs \<Longrightarrow> key x = k \<Longrightarrow> f x \<in> set (update_where key k f xs)"
  by (induction xs) (auto simp: update_where_def)

subsection \<open>Properties\<close>

text \<open>
  Loading the staff page: after both calls settled the store is idle; it shows both new lists and no
  error when both succeeded, and otherwise keeps both old lists and has an error: the two lists are never
  mixed from different loads.
\<close>

lemma staff_fetch_atomic:
  "\<not> ss_isLoading (staff_fetch a b s) \<and>
   (case (a, b) of
      (Inr staff, Inr bus) \<Rightarrow> ss_error (staff_fetch a b s) = None \<and>
        (ss_staff (staff_fetch a b s), ss_businessUnits (staff_fetch a b s)) = (staff, bus)
    | _ \<Rightarrow> ss_error (staff_fetch a b s) \<noteq> None \<and>
        (ss_staff (staff_fetch a b s), ss_businessUnits (staff_fetch a b s)) = (ss_staff s, ss_businessUnits s))"
  using staff_load.load_settles [of "promise_all2 a b" s]
  by (cases a; cases b) (simp_all add: staff_fetch_def)

text \<open>
  C21. A role change follows the backend when every person has one profile: if the list shown is the
  backend's and the call succeeds, the list shown afterwards is the backend's list after that call; if it
  fails or the person is unknown, nothing changes and the error is thrown.
\<close>

theorem updateRole_refines_backend:
  assumes "distinct (map sm_personId (ss_staff s))"
  shows "(\<exists>c. updateRole_call p r s = Inr c \<and>
      updateRole p r (\<lambda>_. Inr ()) s = (Inr (), s\<lparr>ss_staff := backend_rows c (ss_staff s)\<rparr>) \<and>
      updateRole p r (\<lambda>_. Inl e) s = (Inl e, s)) \<or>
    p \<notin> sm_personId ` set (ss_staff s) \<and>
      updateRole p r answer s = (Inl (Thrown ''Staff member not found.''), s)"
proof (cases rule: updateRole_call_cases [of p s r])
  case unknown
  then show ?thesis by (simp add: updateRole_def)
next
  case (known m)
  have "update_where sm_personId p (\<lambda>m. m\<lparr>sm_role := r\<rparr>) (ss_staff s) =
      update_where profile_key (p, sm_buId m) (\<lambda>m. m\<lparr>sm_role := r\<rparr>) (ss_staff s)"
    using update_by_person_profile [OF assms known(1)] known(2) by (simp add: profile_key_def)
  with known show ?thesis
    by (simp add: updateRole_def updateRole_end_def update_where_def)
qed

definition row_a :: staff_member where
  "row_a = \<lparr>sm_personId = ''p1'', sm_profileId = ''f1'', sm_buId = ''b1'', sm_buName = ''HQ'',
     sm_firstName = ''Ann'', sm_lastName = ''Lee'', sm_email = ''a@x'', sm_role = ''Staff'', sm_createdAt = ''t''\<rparr>"

definition row_b :: staff_member where
  "row_b = row_a\<lparr>sm_profileId := ''f2'', sm_buId := ''b2'', sm_buName := ''Sales''\<rparr>"

theorem updateRole_refines_backend_witness:
  "(\<exists>c. updateRole_call ''p1'' ''Admin'' (staff_init\<lparr>ss_staff := [row_a]\<rparr>) = Inr c \<and>
      updateRole ''p1'' ''Admin'' (\<lambda>_. Inr ()) (staff_init\<lparr>ss_staff := [row_a]\<rparr>) =
        (Inr (), staff_init\<lparr>ss_staff := backend_rows c [row_a]\<rparr>))"
  using updateRole_refines_backend [of "staff_init\<lparr>ss_staff := [row_a]\<rparr>" "''p1''" "''Admin''" No_Response "\<lambda>_. Inr ()"]
  by (auto simp: row_a_def)

text \<open>
  C22. With two profiles of one person it does not: a successful role change shows the new role on the
  person's other row as well, while the backend's row there keeps its role; and the call always names the
  unit of the person's first row, whichever row was edited.
\<close>

theorem updateRole_diverges_for_two_profiles:
  assumes "find (\<lambda>m. sm_personId m = p) (ss_staff s) = Some m" "other \<in> set (ss_staff s)"
    and "sm_personId other = p" "sm_buId other \<noteq> sm_buId m" "sm_role other \<noteq> r"
  shows "updateRole_call p r s = Inr (Staff_updateRole p (sm_buId m) r) \<and>
    other \<in> set (backend_rows (Staff_updateRole p (sm_buId m) r) (ss_staff s)) \<and>
    other \<notin> set (ss_staff (snd (updateRole p r (\<lambda>_. Inr ()) s))) \<and>
    other\<lparr>sm_role := r\<rparr> \<in> set (ss_staff (snd (updateRole p r (\<lambda>_. Inr ()) s)))"
proof -
  have call: "updateRole_call p r s = Inr (Staff_updateRole p (sm_buId m) r)"
    using assms(1) by (simp add: updateRole_call_def)
  have shown: "ss_staff (snd (updateRole p r (\<lambda>_. Inr ()) s)) =
      map (\<lambda>m. if sm_personId m = p then m\<lparr>sm_role := r\<rparr> else m) (ss_staff s)"
    by (simp add: updateRole_def call updateRole_end_def)
  have "profile_key other \<noteq> (p, sm_buId m)" using assms(4) by (simp add: profile_key_def)
  with assms(2) have "other \<in> set (backend_rows (Staff_updateRole p (sm_buId m) r) (ss_staff s))"
    unfolding backend_rows.simps by (rule update_where_unchanged)
  moreover have "other \<notin> set (ss_staff (snd (updateRole p r (\<lambda>_. Inr ()) s)))"
  proof
    assume "other \<in> set (ss_staff (snd (updateRole p r (\<lambda>_. Inr ()) s)))"
    then obtain m' where m': "other = (if sm_personId m' = p then m'\<lparr>sm_role := r\<rparr> else m')"
      unfolding shown set_map by blast
    then have "sm_personId other = p \<Longrightarrow> sm_role other = r" by (cases "sm_personId m' = p") simp_all
    with assms(3,5) show False by simp
  qed
  moreover have "other\<lparr>sm_role := r\<rparr> \<in> set (ss_staff (snd (updateRole p r (\<lambda>_. Inr ()) s)))"
    using update_where_changed [of other "ss_staff s" sm_personId p "\<lambda>m. m\<lparr>sm_role := r\<rparr>"] assms(2,3)
    unfolding shown update_where_def by blast
  ultimately show ?thesis using call by blast
qed

theorem updateRole_diverges_for_two_profiles_witness:
  "row_b \<in> set (backend_rows (Staff_updateRole ''p1'' ''b1'' ''Admin'') [row_a, row_b]) \<and>
   row_b \<notin> set (ss_staff (snd (updateRole ''p1'' ''Admin'' (\<lambda>_. Inr ()) (staff_init\<lparr>ss_staff := [row_a, row_b]\<rparr>))))"
  using updateRole_diverges_for_two_profiles
    [of "''p1''" "staff_init\<lparr>ss_staff := [row_a, row_b]\<rparr>" row_a row_b "''Admin''"]
  by (simp add: row_a_def row_b_def)

end
