(* ===== verification/Chat_Store.thy ===== *)
theory Chat_Store
  imports Async_Resource
begin

text \<open>
  The chat store (\<open>application/stores/chatStore.ts\<close>): workspaces and conversations per business unit,
  messages per conversation, the selected conversation. Each asynchronous operation is the update it
  makes before its call, if any, and the update it makes when the call settles. A transition system
  interleaves any number of pending calls with messages arriving over the socket and with selections.
\<close>

record chat_state =
  ct_workspaces :: "chat_workspace dict"
  ct_conversations :: "chat_conversation list dict"
  ct_active :: "id option"
  ct_messages :: "chat_message list dict"
  ct_isLoading :: bool
  ct_error :: "string option"

definition chat_init :: chat_state where
  "chat_init = \<lparr>ct_workspaces = Map.empty, ct_conversations = Map.empty, ct_active = None,
     ct_messages = Map.empty, ct_isLoading = False, ct_error = None\<rparr>"

subsection \<open>Operations\<close>

definition fetchWorkspace_begin :: "chat_state \<Rightarrow> chat_state" where
  "fetchWorkspace_begin s = s\<lparr>ct_isLoading := True, ct_error := None\<rparr>"

definition fetchWorkspace_end :: "id \<Rightarrow> chat_workspace awaited \<Rightarrow> chat_state \<Rightarrow> chat_state" where
  "fetchWorkspace_end buId res s = (case res of
     Inr ws \<Rightarrow> s\<lparr>ct_workspaces := (ct_workspaces s)(buId \<mapsto> ws), ct_isLoading := False\<rparr>
   | Inl _ \<Rightarrow> s\<lparr>ct_error := Some ''Failed to load chat workspace.'', ct_isLoading := False\<rparr>)"

definition updateAccess_end :: "id \<Rightarrow> id \<Rightarrow> bool \<Rightarrow> unit awaited \<Rightarrow> chat_state \<Rightarrow> chat_state" where
  "updateAccess_end buId personId hasAccess res s = (case res of
     Inl _ \<Rightarrow> s
   | Inr _ \<Rightarrow> (case ct_workspaces s buId of
       None \<Rightarrow> s
     | Some ws \<Rightarrow> s\<lparr>ct_workspaces := (ct_workspaces s)(buId \<mapsto>
           ws\<lparr>ws_members := map (\<lambda>m. if mb_personId m = personId then m\<lparr>mb_hasAccess := hasAccess\<rparr> else m)
                (ws_members ws)\<rparr>)\<rparr>))"

definition auto_select :: "chat_conversation list \<Rightarrow> chat_state \<Rightarrow> chat_state" where
  "auto_select convs s =
     (if \<not> truthy (ct_active s) \<and> 0 < length convs then
        s\<lparr>ct_active := Some (cv_conversationId
            (nullish (find (\<lambda>c. cv_type c = Group) convs) (convs ! 0)))\<rparr>
      else s)"

definition fetchConversations_end :: "id \<Rightarrow> chat_conversation list awaited \<Rightarrow> chat_state \<Rightarrow> chat_state" where
  "fetchConversations_end buId res s = (case res of
     Inl _ \<Rightarrow> s
   | Inr convs \<Rightarrow> auto_select convs (s\<lparr>ct_conversations := (ct_conversations s)(buId \<mapsto> convs)\<rparr>))"

definition setActiveConversation :: "id \<Rightarrow> chat_state \<Rightarrow> chat_state" where
  "setActiveConversation conversationId s = s\<lparr>ct_active := Some conversationId\<rparr>"

definition createDM_end :: "id \<Rightarrow> chat_conversation awaited \<Rightarrow> chat_state \<Rightarrow> chat_state" where
  "createDM_end buId res s = (case res of
     Inl _ \<Rightarrow> s
   | Inr conv \<Rightarrow>
       (let existing = nullish (ct_conversations s buId) [] in
        if list_ex (\<lambda>c. cv_conversationId c = cv_conversationId conv) existing
        then s\<lparr>ct_active := Some (cv_conversationId conv)\<rparr>
        else s\<lparr>ct_conversations := (ct_conversations s)(buId \<mapsto> existing @ [conv]),
               ct_active := Some (cv_conversationId conv)\<rparr>))"

definition fetchConversationMessages_end :: "id \<Rightarrow> chat_message list awaited \<Rightarrow> chat_state \<Rightarrow> chat_state" where
  "fetchConversationMessages_end conversationId res s = (case res of
     Inl _ \<Rightarrow> s
   | Inr msgs \<Rightarrow> s\<lparr>ct_messages := (ct_messages s)(conversationId \<mapsto> msgs)\<rparr>)"

definition appendMessage :: "id \<Rightarrow> chat_message \<Rightarrow> chat_state \<Rightarrow> chat_state" where
  "appendMessage conversationId msg s =
     (let existing = nullish (ct_messages s conversationId) [] in
      if list_ex (\<lambda>m. ms_messageId m = ms_messageId msg) existing then s
      else s\<lparr>ct_messages := (ct_messages s)(conversationId \<mapsto> existing @ [msg])\<rparr>)"

definition fetchMessages_end :: "id \<Rightarrow> chat_message list awaited \<Rightarrow> chat_state \<Rightarrow> chat_state" where
  "fetchMessages_end buId res s = (case res of
     Inl _ \<Rightarrow> s
   | Inr msgs \<Rightarrow> s\<lparr>ct_messages := (ct_messages s)(buId \<mapsto> msgs)\<rparr>)"

subsection \<open>Logs with unique keys\<close>

text \<open>
  What the message lists and the conversation lists promise their readers: an insertion keeps keys
  unique, keeps what was there in its place, and does nothing when the key is present.
\<close>

locale keyed_log =
  fixes key :: "'a \<Rightarrow> 'k"
    and insert_entry :: "'a \<Rightarrow> 'a list \<Rightarrow> 'a list"
  assumes insert_keys: "key ` set (insert_entry x xs) = insert (key x) (key ` set xs)"
    and insert_unique: "distinct (map key xs) \<Longrightarrow> distinct (map key (insert_entry x xs))"
    and insert_present: "key x \<in> key ` set xs \<Longrightarrow> insert_entry x xs = xs"
    and insert_prefix: "\<exists>zs. insert_entry x xs = xs @ zs"
begin

lemma insert_idem: "insert_entry x (insert_entry x xs) = insert_entry x xs"
  by (rule insert_present) (simp add: insert_keys)

lemma insert_same_key: "key y = key x \<Longrightarrow> insert_entry y (insert_entry x xs) = insert_entry x xs"
  by (rule insert_present) (simp add: insert_keys)

lemma unique_fold: "distinct (map key xs) \<Longrightarrow> distinct (map key (fold insert_entry ys xs))"
  by (induction ys arbitrary: xs) (auto intro: insert_unique)

lemma keys_fold: "key ` set (fold insert_entry ys xs) = key ` set xs \<union> key ` set ys"
  by (induction ys arbitrary: xs) (auto simp: insert_keys)

lemma prefix_fold: "\<exists>zs. fold insert_entry ys xs = xs @ zs"
proof (induction ys arbitrary: xs)
  case (Cons y ys)
  obtain z where "insert_entry y xs = xs @ z" using insert_prefix by blast
  then show ?case using Cons.IH [of "xs @ z"] by auto
qed simp

text \<open>Delivering a batch that was already delivered changes nothing.\<close>

lemma fold_present: "key ` set ys \<subseteq> key ` set xs \<Longrightarrow> fold insert_entry ys xs = xs"
  by (induction ys) (auto simp: insert_present)

lemma fold_twice: "fold insert_entry ys (fold insert_entry ys xs) = fold insert_entry ys xs"
  by (rule fold_present) (simp add: keys_fold)

end

interpretation message_log: keyed_log ms_messageId "append_absent ms_messageId"
  by unfold_locales
    (auto simp: keys_append_absent distinct_append_absent append_absent_iff append_absent_prefix)

interpretation conversation_log: keyed_log cv_conversationId "append_absent cv_conversationId"
  by unfold_locales
    (auto simp: keys_append_absent distinct_append_absent append_absent_iff append_absent_prefix)

text \<open>The list shown for a key: \<open>messages[id] ?? []\<close>.\<close>

abbreviation messages_of :: "chat_state \<Rightarrow> id \<Rightarrow> chat_message list" where
  "messages_of s c \<equiv> nullish (ct_messages s c) []"

abbreviation conversations_of :: "chat_state \<Rightarrow> id \<Rightarrow> chat_conversation list" where
  "conversations_of s b \<equiv> nullish (ct_conversations s b) []"

lemma messages_appendMessage [store_simps]:
  "messages_of (appendMessage c m s) d =
     (if d = c then append_absent ms_messageId m (messages_of s c) else messages_of s d)"
  by (auto simp: appendMessage_def append_absent_def Let_def)

lemma conversations_createDM [store_simps]:
  "conversations_of (createDM_end b (Inr cv) s) d =
     (if d = b then append_absent cv_conversationId cv (conversations_of s b) else conversations_of s d)"
  by (auto simp: createDM_end_def append_absent_def Let_def)

lemma active_createDM [store_simps]: "ct_active (createDM_end b (Inr cv) s) = Some (cv_conversationId cv)"
  by (simp add: createDM_end_def Let_def)

lemma appendMessage_frame [store_simps]:
  "ct_conversations (appendMessage c m s) = ct_conversations s"
  "ct_workspaces (appendMessage c m s) = ct_workspaces s"
  "ct_active (appendMessage c m s) = ct_active s"
  by (simp_all add: appendMessage_def Let_def)

lemma auto_select_frame [store_simps]:
  "ct_conversations (auto_select cs s) = ct_conversations s"
  "ct_messages (auto_select cs s) = ct_messages s"
  "ct_workspaces (auto_select cs s) = ct_workspaces s"
  by (simp_all add: auto_select_def)

interpretation workspace_load: async_resource fetchWorkspace_begin "fetchWorkspace_end b" ct_isLoading
  ct_error ct_workspaces "\<lambda>ws m. m(b \<mapsto> ws)" for b
  by unfold_locales (auto simp: fetchWorkspace_begin_def fetchWorkspace_end_def split: sum.split)


subsection \<open>Interleavings\<close>

text \<open>A pending call, its request, and the ways it can settle.\<close>

datatype chat_call =
    C_Workspace id
  | C_Access id id bool
  | C_Conversations id
  | C_DM id id
  | C_Conv_Messages id id
  | C_Messages id

fun chat_request :: "chat_call \<Rightarrow> container_call" where
  "chat_request (C_Workspace b) = Chat_getWorkspace b"
| "chat_request (C_Access b p h) = Chat_updateAccess b p h"
| "chat_request (C_Conversations b) = Chat_getConversations b"
| "chat_request (C_DM b p) = Chat_createDM b p"
| "chat_request (C_Conv_Messages b c) = Chat_getConversationMessages b c"
| "chat_request (C_Messages b) = Chat_getMessages b"

datatype chat_reply =
    Rejected api_error
  | R_Workspace chat_workspace
  | R_Done
  | R_Conversations "chat_conversation list"
  | R_Conversation chat_conversation
  | R_Messages "chat_message list"

fun chat_begin :: "chat_call \<Rightarrow> chat_state \<Rightarrow> chat_state" where
  "chat_begin (C_Workspace b) s = fetchWorkspace_begin s"
| "chat_begin _ s = s"

fun chat_settle :: "chat_call \<Rightarrow> chat_reply \<Rightarrow> chat_state \<Rightarrow> chat_state option" where
  "chat_settle (C_Workspace b) (R_Workspace w) s = Some (fetchWorkspace_end b (Inr w) s)"
| "chat_settle (C_Workspace b) (Rejected e) s = Some (fetchWorkspace_end b (Inl e) s)"
| "chat_settle (C_Access b p h) R_Done s = Some (updateAccess_end b p h (Inr ()) s)"
| "chat_settle (C_Conversations b) (R_Conversations cs) s = Some (fetchConversations_end b (Inr cs) s)"
| "chat_settle (C_DM b p) (R_Conversation cv) s = Some (createDM_end b (Inr cv) s)"
| "chat_settle (C_Conv_Messages b c) (R_Messages ms) s = Some (fetchConversationMessages_end c (Inr ms) s)"
| "chat_settle (C_Messages b) (R_Messages ms) s = Some (fetchMessages_end b (Inr ms) s)"
| "chat_settle _ (Rejected e) s = Some s"
| "chat_settle _ _ s = None"

fun_cases chat_settle_elims: "chat_settle c r s = Some t"

text \<open>What the backend promises: the ids in one list are its primary keys, hence unique.\<close>

fun reply_ok :: "chat_reply \<Rightarrow> bool" where
  "reply_ok (R_Conversations cs) = distinct (map cv_conversationId cs)"
| "reply_ok (R_Messages ms) = distinct (map ms_messageId ms)"
| "reply_ok _ = True"

record chat_sys =
  cy_state :: chat_state
  cy_pending :: "chat_call list"

datatype chat_event = E_Call chat_call | E_Settle chat_call chat_reply | E_Message id chat_message | E_Select id

inductive chat_step :: "chat_sys \<Rightarrow> chat_event \<Rightarrow> chat_sys \<Rightarrow> bool" where
  cs_call: "chat_step y (E_Call c)
     \<lparr>cy_state = chat_begin c (cy_state y), cy_pending = c # cy_pending y\<rparr>"
| cs_settle: "c \<in> set (cy_pending y) \<Longrightarrow> reply_ok r \<Longrightarrow> chat_settle c r (cy_state y) = Some t \<Longrightarrow>
     chat_step y (E_Settle c r) \<lparr>cy_state = t, cy_pending = remove1 c (cy_pending y)\<rparr>"
| cs_message: "chat_step y (E_Message c m) (y\<lparr>cy_state := appendMessage c m (cy_state y)\<rparr>)"
| cs_select: "chat_step y (E_Select c) (y\<lparr>cy_state := setActiveConversation c (cy_state y)\<rparr>)"

inductive_simps chat_step_simps:
  "chat_step y (E_Call c) z"
  "chat_step y (E_Settle c r) z"
  "chat_step y (E_Message c m) z"
  "chat_step y (E_Select c) z"

definition chat_sys_init :: chat_sys where
  "chat_sys_init = \<lparr>cy_state = chat_init, cy_pending = []\<rparr>"

definition lists_unique :: "chat_state \<Rightarrow> bool" where
  "lists_unique s \<longleftrightarrow> (\<forall>c. distinct (map ms_messageId (messages_of s c))) \<and>
     (\<forall>b. distinct (map cv_conversationId (conversations_of s b)))"

definition loading_justified :: "chat_sys \<Rightarrow> bool" where
  "loading_justified y \<longleftrightarrow> (ct_isLoading (cy_state y) \<longrightarrow> (\<exists>b. C_Workspace b \<in> set (cy_pending y)))"

definition chat_inv :: "chat_sys \<Rightarrow> bool" where
  "chat_inv y \<longleftrightarrow> lists_unique (cy_state y) \<and> loading_justified y"

lemmas chat_op_defs = fetchWorkspace_begin_def fetchWorkspace_end_def updateAccess_end_def
  fetchConversations_end_def setActiveConversation_def fetchConversationMessages_end_def fetchMessages_end_def

lemma lists_unique_appendMessage: "lists_unique s \<Longrightarrow> lists_unique (appendMessage c m s)"
  by (simp add: lists_unique_def store_simps distinct_append_absent)

lemma lists_unique_createDM: "lists_unique s \<Longrightarrow> lists_unique (createDM_end b (Inr cv) s)"
proof -
  have "ct_messages (createDM_end b (Inr cv) s) = ct_messages s"
    by (simp add: createDM_end_def Let_def)
  then show "lists_unique s \<Longrightarrow> ?thesis"
    by (simp add: lists_unique_def store_simps distinct_append_absent)
qed

lemma lists_unique_cong:
  "ct_messages t = ct_messages s \<Longrightarrow> ct_conversations t = ct_conversations s \<Longrightarrow>
   lists_unique t = lists_unique s"
  by (simp add: lists_unique_def)

lemma lists_unique_updateAccess: "lists_unique (updateAccess_end b p h r s) = lists_unique s"
  by (rule lists_unique_cong) (auto simp: updateAccess_end_def split: sum.split option.split)

lemma lists_unique_fetchWorkspace: "lists_unique (fetchWorkspace_end b r s) = lists_unique s"
  by (rule lists_unique_cong) (auto simp: fetchWorkspace_end_def split: sum.split)

lemma lists_unique_fetched:
  "lists_unique s \<Longrightarrow> distinct (map cv_conversationId cs) \<Longrightarrow> lists_unique (fetchConversations_end b (Inr cs) s)"
  "lists_unique s \<Longrightarrow> distinct (map ms_messageId ms) \<Longrightarrow> lists_unique (fetchConversationMessages_end c (Inr ms) s)"
  "lists_unique s \<Longrightarrow> distinct (map ms_messageId ms) \<Longrightarrow> lists_unique (fetchMessages_end c (Inr ms) s)"
  by (simp_all add: chat_op_defs lists_unique_def store_simps)

lemmas lists_unique_ops = lists_unique_updateAccess lists_unique_fetchWorkspace lists_unique_fetched
  lists_unique_createDM lists_unique_appendMessage

lemma lists_unique_settle:
  assumes "lists_unique s" "reply_ok r" "chat_settle c r s = Some t"
  shows "lists_unique t"
  using assms(3) by (elim chat_settle_elims) (insert assms(1,2), auto simp: lists_unique_ops)

lemma loading_settle:
  assumes "chat_settle c r s = Some t"
  shows "ct_isLoading t \<Longrightarrow> ct_isLoading s \<and> (\<forall>b. c \<noteq> C_Workspace b)"
  using assms
  by (elim chat_settle_elims)
    (auto simp: chat_op_defs createDM_end_def auto_select_def Let_def split: option.splits if_splits)

lemma chat_step_inv:
  assumes "chat_step y e z" "chat_inv y"
  shows "chat_inv z"
  using assms
proof cases
  case (cs_call c)
  have "lists_unique (chat_begin c (cy_state y)) = lists_unique (cy_state y)"
    by (rule lists_unique_cong; cases c) (simp_all add: fetchWorkspace_begin_def)
  moreover have "ct_isLoading (chat_begin c (cy_state y)) \<Longrightarrow>
      ct_isLoading (cy_state y) \<or> (\<exists>b. c = C_Workspace b)"
    by (cases c) auto
  ultimately show ?thesis
    using assms(2) cs_call by (auto simp: chat_inv_def loading_justified_def)
next
  case (cs_settle c r t)
  have "lists_unique t" using cs_settle assms(2) lists_unique_settle by (auto simp: chat_inv_def)
  moreover have "ct_isLoading t \<Longrightarrow> \<exists>b. C_Workspace b \<in> set (remove1 c (cy_pending y))"
  proof -
    assume "ct_isLoading t"
    with loading_settle [OF cs_settle(5)] have "ct_isLoading (cy_state y)" "\<forall>b. c \<noteq> C_Workspace b"
      by auto
    moreover from this(1) assms(2) obtain b where "C_Workspace b \<in> set (cy_pending y)"
      by (auto simp: chat_inv_def loading_justified_def)
    ultimately show ?thesis by (metis in_set_remove1)
  qed
  ultimately show ?thesis using cs_settle by (simp add: chat_inv_def loading_justified_def)
next
  case (cs_message c m)
  moreover have "ct_isLoading (appendMessage c m (cy_state y)) = ct_isLoading (cy_state y)"
    by (simp add: appendMessage_def Let_def)
  ultimately show ?thesis
    using assms(2) by (simp add: chat_inv_def loading_justified_def lists_unique_appendMessage)
next
  case (cs_select c)
  with assms(2) show ?thesis
    by (simp add: chat_inv_def loading_justified_def setActiveConversation_def lists_unique_def)
qed

interpretation chat: guarded_system "\<lambda>y. y = chat_sys_init" chat_step chat_inv
proof
  show "y = chat_sys_init \<Longrightarrow> chat_inv y" for y
    by (simp add: chat_sys_init_def chat_init_def chat_inv_def lists_unique_def loading_justified_def)
  show "chat_inv y \<Longrightarrow> chat_step y e z \<Longrightarrow> chat_inv z" for y e z
    by (rule chat_step_inv)
qed


subsection \<open>Properties\<close>

lemma fold_appendMessage:
  "messages_of (fold (appendMessage c) ms s) d =
     (if d = c then fold (append_absent ms_messageId) ms (messages_of s c) else messages_of s d)"
  by (induction ms arbitrary: s) (simp_all add: store_simps)

text \<open>
  C9. Under every interleaving of pending calls, socket messages and selections, no conversation shows a
  message twice and no conversation is listed twice, given that one backend answer never repeats an id;
  and the loading flag is up only while a workspace call is pending.
\<close>

theorem chat_lists_unique:
  assumes "runs chat_step chat_sys_init es y"
  shows "distinct (map ms_messageId (messages_of (cy_state y) c)) \<and>
    distinct (map cv_conversationId (conversations_of (cy_state y) b)) \<and>
    (cy_pending y = [] \<longrightarrow> \<not> ct_isLoading (cy_state y))"
proof -
  have "chat_inv y" using assms chat.inv_start [OF refl] by (blast intro: chat.inv_runs)
  then show ?thesis by (auto simp: chat_inv_def lists_unique_def loading_justified_def)
qed

definition sample_msg :: "string \<Rightarrow> chat_message" where
  "sample_msg i = \<lparr>ms_messageId = i, ms_conversationId = ''c1'', ms_personId = ''p1'', ms_senderName = ''Ann'',
     ms_content = ''hi'', ms_createdAt = ''t''\<rparr>"

theorem chat_lists_unique_witness:
  "distinct (map ms_messageId (messages_of
     (appendMessage ''c1'' (sample_msg ''m1'') (appendMessage ''c1'' (sample_msg ''m1'') chat_init)) ''c1''))"
proof -
  have "runs chat_step chat_sys_init [E_Message ''c1'' (sample_msg ''m1''), E_Message ''c1'' (sample_msg ''m1'')]
     (chat_sys_init\<lparr>cy_state :=
        appendMessage ''c1'' (sample_msg ''m1'') (appendMessage ''c1'' (sample_msg ''m1'') chat_init)\<rparr>)"
    by (simp add: chat_step_simps chat_sys_init_def)
  from chat_lists_unique [OF this] show ?thesis by simp
qed

text \<open>
  Delivery of messages to a conversation, in any number of batches and with repetitions (the REST answer
  and the socket's echo of one message): everything shown before stays in its place, exactly the ids
  delivered are added, a second delivery of the batch changes nothing, and other conversations are untouched.
\<close>

lemma message_delivery:
  "(\<exists>zs. messages_of (fold (appendMessage c) ms s) c = messages_of s c @ zs) \<and>
   ms_messageId ` set (messages_of (fold (appendMessage c) ms s) c) =
     ms_messageId ` set (messages_of s c) \<union> ms_messageId ` set ms \<and>
   messages_of (fold (appendMessage c) ms (fold (appendMessage c) ms s)) c = messages_of (fold (appendMessage c) ms s) c \<and>
   (d \<noteq> c \<longrightarrow> messages_of (fold (appendMessage c) ms s) d = messages_of s d)"
  by (simp add: fold_appendMessage message_log.prefix_fold message_log.keys_fold message_log.fold_twice)

text \<open>
  A message that arrives while the conversation's history is being fetched is lost from view: whatever
  happened between the request and its answer, the list shown after the answer is exactly the answer, so a
  message appended in between and missing from it is no longer shown.
\<close>

lemma history_answer_drops_arrivals:
  assumes "runs chat_step y [E_Call (C_Conv_Messages b c), E_Message c m,
      E_Settle (C_Conv_Messages b c) (R_Messages ms)] z"
  shows "messages_of (cy_state z) c = ms \<and>
    (ms_messageId m \<notin> ms_messageId ` set ms \<longrightarrow> m \<notin> set (messages_of (cy_state z) c))"
proof -
  have "messages_of (cy_state z) c = ms"
    using assms by (auto simp: chat_step_simps fetchConversationMessages_end_def)
  then show ?thesis by auto
qed

text \<open>
  Loading the conversations selects one only when none is selected: then it is the first group conversation of
  the list, or its first entry when there is no group, and in either case a member of the list; a selection
  that is there is kept, even when the new list does not contain it.
\<close>

lemma fetchConversations_selection:
  "conversations_of (fetchConversations_end b (Inr cs) s) b = cs \<and>
   (truthy (ct_active s) \<or> cs = [] \<longrightarrow> ct_active (fetchConversations_end b (Inr cs) s) = ct_active s) \<and>
   (\<not> truthy (ct_active s) \<and> cs \<noteq> [] \<longrightarrow>
      (\<exists>cv \<in> set cs. ct_active (fetchConversations_end b (Inr cs) s) = Some (cv_conversationId cv) \<and>
         (\<forall>g \<in> set cs. cv_type g = Group \<longrightarrow> cv_type cv = Group) \<and>
         ((\<forall>g \<in> set cs. cv_type g \<noteq> Group) \<longrightarrow> cv = hd cs)))"
proof -
  let ?s = "s\<lparr>ct_conversations := (ct_conversations s)(b \<mapsto> cs)\<rparr>"
  have end_eq: "fetchConversations_end b (Inr cs) s = auto_select cs ?s"
    by (simp add: fetchConversations_end_def)
  have "\<exists>cv \<in> set cs. ct_active (auto_select cs ?s) = Some (cv_conversationId cv) \<and>
         (\<forall>g \<in> set cs. cv_type g = Group \<longrightarrow> cv_type cv = Group) \<and>
         ((\<forall>g \<in> set cs. cv_type g \<noteq> Group) \<longrightarrow> cv = hd cs)"
    if "\<not> truthy (ct_active s)" "cs \<noteq> []"
  proof (cases "find (\<lambda>c. cv_type c = Group) cs")
    case None
    then have "\<forall>g \<in> set cs. cv_type g \<noteq> Group" by (simp add: find_None_iff)
    with that None show ?thesis by (auto simp: auto_select_def hd_conv_nth)
  next
    case (Some cv)
    then have "cv \<in> set cs \<and> cv_type cv = Group" by (auto simp: find_Some_iff)
    with that Some show ?thesis by (auto simp: auto_select_def)
  qed
  then show ?thesis
    by (auto simp: end_eq store_simps) (auto simp: auto_select_def)
qed

text \<open>
  Starting a direct conversation: the conversation the backend returned is selected and listed; the
  conversations listed before keep their places; asking again for the same one leaves the list as it is;
  other units' lists and all messages are untouched; a refusal changes nothing.
\<close>

lemma createDM_opens_conversation:
  "(let t = createDM_end b (Inr cv) s in
     ct_active t = Some (cv_conversationId cv) \<and>
     cv_conversationId cv \<in> cv_conversationId ` set (conversations_of t b) \<and>
     (\<exists>zs. conversations_of t b = conversations_of s b @ zs \<and> length zs \<le> 1) \<and>
     conversations_of (createDM_end b (Inr cv) t) b = conversations_of t b \<and>
     (\<forall>d. d \<noteq> b \<longrightarrow> conversations_of t d = conversations_of s d) \<and> ct_messages t = ct_messages s) \<and>
   createDM_end b (Inl e) s = s"
proof -
  have "ct_messages (createDM_end b (Inr cv) s) = ct_messages s"
    by (simp add: createDM_end_def Let_def)
  moreover have "\<exists>zs. append_absent cv_conversationId cv xs = xs @ zs \<and> length zs \<le> 1" for xs
    by (auto simp: append_absent_def)
  moreover have "createDM_end b (Inl e) s = s" by (simp add: createDM_end_def)
  ultimately show ?thesis
    by (simp add: Let_def store_simps conversation_log.insert_idem keys_append_absent)
qed

text \<open>
  Granting or revoking access: after the backend accepted, the person's entry in that unit's workspace
  has the new flag and nothing else about it changed; every other member, and every other workspace, is as
  before. When the backend refuses, or the workspace is not loaded, nothing changes.
\<close>

lemma updateAccess_effect:
  "(case ct_workspaces s b of
      None \<Rightarrow> updateAccess_end b p h (Inr ()) s = s
    | Some ws \<Rightarrow> (\<exists>ws'. ct_workspaces (updateAccess_end b p h (Inr ()) s) = (ct_workspaces s)(b \<mapsto> ws') \<and>
        ws_buName ws' = ws_buName ws \<and> ws_workspaceId ws' = ws_workspaceId ws \<and>
        length (ws_members ws') = length (ws_members ws) \<and>
        (\<forall>i < length (ws_members ws). ws_members ws' ! i =
           (if mb_personId (ws_members ws ! i) = p then (ws_members ws ! i)\<lparr>mb_hasAccess := h\<rparr>
            else ws_members ws ! i)))) \<and>
   updateAccess_end b p h (Inl e) s = s"
  by (auto simp: updateAccess_end_def split: option.split)

end
