(* ===== verification/Ws_Proxy.thy ===== *)
theory Ws_Proxy
  imports Js_Prelude "HOL-Library.Sublist"
begin

text \<open>
  The custom server (\<open>src/frontend/server.ts\<close>): which upgrade requests it accepts, and the pair of sockets
  it connects for each. The cookie parser is a library and an argument of the upgrade decision. The sockets
  of the pair have the four ready states; the listeners that forward frames and closures are registered
  when the backend socket opens, which the flag \<open>px_wired\<close> records.
\<close>

subsection \<open>Upgrade requests\<close>

text \<open>\<open>CHAT_SERVICE_URL.replace(/^http/, 'ws')\<close>.\<close>

definition chat_service_default :: string where
  "chat_service_default = ''http://localhost:8080''"

definition chat_ws :: "string \<Rightarrow> string" where
  "chat_ws url = (if starts_with ''http'' url then ''ws'' @ drop 4 url else url)"

text \<open>
  The path of the request address: \<open>url.parse\<close> turns backslashes of the path into slashes, cuts the query and
  the fragment, and splits off the scheme and the host of an absolute address. A request that is not a
  browser's could carry a host that is no host name, which is outside the model.
\<close>

definition scheme_char :: "char \<Rightarrow> bool" where
  "scheme_char c \<longleftrightarrow> (let n = of_char (lower_char c) :: nat in
     48 \<le> n \<and> n \<le> 57 \<or> 97 \<le> n \<and> n \<le> 122 \<or> n \<in> {43, 45, 46})"

definition after_host :: "string \<Rightarrow> string" where
  "after_host u =
     (if takeWhile scheme_char u \<noteq> [] \<and> starts_with ''://'' (dropWhile scheme_char u)
      then dropWhile (\<lambda>c. c \<noteq> CHR ''/'') (drop 3 (dropWhile scheme_char u)) else u)"

definition parse_pathname :: "string \<Rightarrow> string" where
  "parse_pathname u = after_host (map (\<lambda>c. if c = CHR 0x5C then CHR ''/'' else c)
     (takeWhile (\<lambda>c. c \<noteq> CHR ''?'' \<and> c \<noteq> CHR ''#'') u))"

definition hex_or_dash :: "char \<Rightarrow> bool" where
  "hex_or_dash c \<longleftrightarrow> (let n = of_char (lower_char c) :: nat in
     48 \<le> n \<and> n \<le> 57 \<or> 97 \<le> n \<and> n \<le> 102 \<or> n = 45)"

text \<open>\<open>WS_PATH_RE\<close>, case-insensitive: the prefix, then 36 hexadecimal digits or dashes to the end.\<close>

definition ws_path_prefix :: string where
  "ws_path_prefix = ''/api/chat/ws/''"

definition match_ws_path :: "string \<Rightarrow> string option" where
  "match_ws_path p =
     (let n = length ws_path_prefix; bu = drop n p in
      if js_lower (take n p) = ws_path_prefix \<and> length bu = 36 \<and> list_all hex_or_dash bu then Some bu else None)"

datatype upgrade = Destroyed | Rejected_401 | Connected string string

definition on_upgrade :: "string \<Rightarrow> (string \<Rightarrow> string \<rightharpoonup> string) \<Rightarrow> string option \<Rightarrow> string option \<Rightarrow> upgrade" where
  "on_upgrade serviceUrl parseCookies url cookieHeader =
     (case match_ws_path (parse_pathname (nullish url [])) of
        None \<Rightarrow> Destroyed
      | Some buId \<Rightarrow>
          (let token = parseCookies (nullish cookieHeader []) ''auth_token'' in
           if \<not> truthy token then Rejected_401
           else Connected (chat_ws serviceUrl @ ''/ws/'' @ buId) (''Bearer '' @ nullish token [])))"

subsection \<open>The pair of sockets\<close>

datatype ready = Connecting | Open | Closing | Closed

record proxy_pair =
  px_browser :: ready
  px_backend :: ready
  px_wired :: bool
  px_toBackend :: "string list"
  px_toBrowser :: "string list"
  px_browserCode :: "nat option"
  px_backendCode :: "nat option"

definition pair_init :: proxy_pair where
  "pair_init = \<lparr>px_browser = Open, px_backend = Connecting, px_wired = False, px_toBackend = [],
     px_toBrowser = [], px_browserCode = None, px_backendCode = None\<rparr>"

text \<open>
  \<open>ws.close(code)\<close>: an open socket starts closing with that code, a connecting one gives up, and nothing
  happens to one that is closing or closed.
\<close>

definition close_browser :: "nat \<Rightarrow> proxy_pair \<Rightarrow> proxy_pair" where
  "close_browser code s =
     (if px_browser s = Open then s\<lparr>px_browser := Closing, px_browserCode := Some code\<rparr> else s)"

definition close_backend :: "nat \<Rightarrow> proxy_pair \<Rightarrow> proxy_pair" where
  "close_backend code s = (case px_backend s of
     Open \<Rightarrow> s\<lparr>px_backend := Closing, px_backendCode := Some code\<rparr>
   | Connecting \<Rightarrow> s\<lparr>px_backend := Closing\<rparr>
   | _ \<Rightarrow> s)"

datatype pair_event =
    Backend_Open | Browser_Message string | Backend_Message string | Browser_Close | Backend_Close nat
  | Backend_Error | Browser_Error

text \<open>Which events the two sockets can emit in a state.\<close>

fun pair_enabled :: "pair_event \<Rightarrow> proxy_pair \<Rightarrow> bool" where
  "pair_enabled Backend_Open s = (px_backend s = Connecting)"
| "pair_enabled (Browser_Message d) s = (px_browser s = Open \<or> px_browser s = Closing)"
| "pair_enabled (Backend_Message d) s = (px_backend s = Open \<or> px_backend s = Closing)"
| "pair_enabled Browser_Close s = (px_browser s \<noteq> Closed)"
| "pair_enabled (Backend_Close code) s = (px_backend s \<noteq> Closed)"
| "pair_enabled Backend_Error s = (px_backend s \<noteq> Closed)"
| "pair_enabled Browser_Error s = (px_browser s \<noteq> Closed)"

text \<open>The handlers. A socket that reports an error is closing; its close event follows.\<close>

definition on_backend_open :: "proxy_pair \<Rightarrow> proxy_pair" where
  "on_backend_open s = s\<lparr>px_backend := Open, px_wired := True\<rparr>"

definition on_browser_message :: "string \<Rightarrow> proxy_pair \<Rightarrow> proxy_pair" where
  "on_browser_message d s =
     (if px_wired s \<and> px_backend s = Open then s\<lparr>px_toBackend := px_toBackend s @ [d]\<rparr> else s)"

definition on_backend_message :: "string \<Rightarrow> proxy_pair \<Rightarrow> proxy_pair" where
  "on_backend_message d s =
     (if px_wired s \<and> px_browser s = Open then s\<lparr>px_toBrowser := px_toBrowser s @ [d]\<rparr> else s)"

definition on_browser_close :: "proxy_pair \<Rightarrow> proxy_pair" where
  "on_browser_close s =
     (let s' = s\<lparr>px_browser := Closed\<rparr> in if px_wired s then close_backend 1000 s' else s')"

definition on_backend_close :: "nat \<Rightarrow> proxy_pair \<Rightarrow> proxy_pair" where
  "on_backend_close code s =
     (let s' = s\<lparr>px_backend := Closed\<rparr> in
      if px_wired s \<and> px_browser s = Open then close_browser 1000 s' else s')"

definition on_backend_error :: "proxy_pair \<Rightarrow> proxy_pair" where
  "on_backend_error s =
     (let s' = s\<lparr>px_backend := Closing\<rparr> in if px_browser s = Open then close_browser 1011 s' else s')"

definition on_browser_error :: "proxy_pair \<Rightarrow> proxy_pair" where
  "on_browser_error s =
     (let s' = s\<lparr>px_browser := Closing\<rparr> in if px_backend s = Open then close_backend 1011 s' else s')"

fun pair_apply :: "pair_event \<Rightarrow> proxy_pair \<Rightarrow> proxy_pair" where
  "pair_apply Backend_Open s = on_backend_open s"
| "pair_apply (Browser_Message d) s = on_browser_message d s"
| "pair_apply (Backend_Message d) s = on_backend_message d s"
| "pair_apply Browser_Close s = on_browser_close s"
| "pair_apply (Backend_Close code) s = on_backend_close code s"
| "pair_apply Backend_Error s = on_backend_error s"
| "pair_apply Browser_Error s = on_browser_error s"

inductive pair_step :: "proxy_pair \<Rightarrow> pair_event \<Rightarrow> proxy_pair \<Rightarrow> bool" where
  "pair_enabled e s \<Longrightarrow> pair_step s e (pair_apply e s)"

inductive_simps pair_step_iff: "pair_step s e t"

lemmas pair_defs = on_backend_open_def on_browser_message_def on_backend_message_def on_browser_close_def
  on_backend_close_def on_backend_error_def on_browser_error_def close_browser_def close_backend_def Let_def

text \<open>
  The listeners are there exactly from the opening of the backend socket on, and a code is only chosen for a
  browser socket that is no longer open.
\<close>

definition pair_inv :: "proxy_pair \<Rightarrow> bool" where
  "pair_inv s \<longleftrightarrow>
     (px_backend s = Open \<longrightarrow> px_wired s) \<and> (px_backend s = Connecting \<longrightarrow> \<not> px_wired s) \<and>
     (px_browserCode s \<noteq> None \<longrightarrow> px_browser s \<noteq> Open \<and> px_browser s \<noteq> Connecting) \<and>
     px_browser s \<noteq> Connecting"

lemma pair_apply_inv: "pair_inv s \<Longrightarrow> pair_enabled e s \<Longrightarrow> pair_inv (pair_apply e s)"
  by (cases e) (auto simp: pair_inv_def pair_defs split: ready.splits)

interpretation pair: guarded_system "\<lambda>s. s = pair_init" pair_step pair_inv
proof
  show "s = pair_init \<Longrightarrow> pair_inv s" for s
    by (simp add: pair_init_def pair_inv_def)
  show "pair_inv s \<Longrightarrow> pair_step s e t \<Longrightarrow> pair_inv t" for s e t
    by (auto simp: pair_step_iff pair_apply_inv)
qed

text \<open>What each side said, in order.\<close>

fun browser_frames :: "pair_event list \<Rightarrow> string list" where
  "browser_frames [] = []"
| "browser_frames (Browser_Message d # es) = d # browser_frames es"
| "browser_frames (e # es) = browser_frames es"

fun backend_frames :: "pair_event list \<Rightarrow> string list" where
  "backend_frames [] = []"
| "backend_frames (Backend_Message d # es) = d # backend_frames es"
| "backend_frames (e # es) = backend_frames es"

fun is_message :: "pair_event \<Rightarrow> bool" where
  "is_message (Browser_Message d) = True"
| "is_message (Backend_Message d) = True"
| "is_message _ = False"

lemma runs_frames:
  "runs pair_step s es t \<Longrightarrow>
     \<exists>xs ys. px_toBackend t = px_toBackend s @ xs \<and> subseq xs (browser_frames es) \<and>
             px_toBrowser t = px_toBrowser s @ ys \<and> subseq ys (backend_frames es)"
proof (induction es arbitrary: s)
  case (Cons e es)
  then obtain u where u: "pair_step s e u" "runs pair_step u es t" by auto
  from Cons.IH [OF u(2)] obtain xs ys where
    IH: "px_toBackend t = px_toBackend u @ xs" "subseq xs (browser_frames es)"
      "px_toBrowser t = px_toBrowser u @ ys" "subseq ys (backend_frames es)" by blast
  have u_eq: "u = pair_apply e s" using u(1) by (simp add: pair_step_iff)
  show ?case
  proof (cases e)
    case (Browser_Message d)
    with IH u_eq show ?thesis
      by (cases "px_wired s \<and> px_backend s = Open") (auto simp: on_browser_message_def)
  next
    case (Backend_Message d)
    with IH u_eq show ?thesis
      by (cases "px_wired s \<and> px_browser s = Open") (auto simp: on_backend_message_def)
  qed (use IH u_eq in \<open>auto simp: pair_defs split: ready.splits\<close>)
qed simp

lemma runs_open_frames:
  "runs pair_step s es t \<Longrightarrow> px_wired s \<Longrightarrow> px_browser s = Open \<Longrightarrow> px_backend s = Open \<Longrightarrow>
   list_all is_message es \<Longrightarrow>
     px_toBackend t = px_toBackend s @ browser_frames es \<and> px_toBrowser t = px_toBrowser s @ backend_frames es"
proof (induction es arbitrary: s)
  case (Cons e es)
  then show ?case
    by (cases e) (auto simp: pair_step_iff on_browser_message_def on_backend_message_def)
qed simp

lemma runs_browser_gone:
  "runs pair_step s es t \<Longrightarrow> px_browser s = Closed \<Longrightarrow> px_backend s = Open \<Longrightarrow>
   (\<forall>e \<in> set es. e \<noteq> Backend_Error \<and> (\<forall>k. e \<noteq> Backend_Close k)) \<Longrightarrow>
     px_browser t = Closed \<and> px_backend t = Open"
proof (induction es arbitrary: s)
  case (Cons e es)
  then show ?case
    by (cases e) (auto simp: pair_step_iff on_browser_message_def on_backend_message_def)
qed simp

lemma match_ws_path_iff:
  "match_ws_path p = Some bu \<longleftrightarrow>
     (\<exists>pre. p = pre @ bu \<and> js_lower pre = ws_path_prefix \<and> length bu = 36 \<and> list_all hex_or_dash bu)"
    (is "?L \<longleftrightarrow> ?R")
proof
  assume ?L
  then have "p = take (length ws_path_prefix) p @ bu \<and> js_lower (take (length ws_path_prefix) p) = ws_path_prefix
      \<and> length bu = 36 \<and> list_all hex_or_dash bu"
    by (auto simp: match_ws_path_def Let_def split: if_splits)
  then show ?R by blast
next
  assume ?R
  then obtain pre where pre: "p = pre @ bu" "js_lower pre = ws_path_prefix" "length bu = 36" "list_all hex_or_dash bu"
    by blast
  have "length pre = length ws_path_prefix"
    using pre(2) by (metis js_lower_length)
  with pre show ?L by (simp add: match_ws_path_def)
qed

lemma runs_unwired:
  assumes "runs pair_step s es t" and "\<not> px_wired s" and "Backend_Open \<notin> set es"
  shows "\<not> px_wired t \<and> px_toBackend t = px_toBackend s \<and> px_toBrowser t = px_toBrowser s"
proof (rule runs_keeps [OF assms(1)])
  fix u e v
  assume "\<not> px_wired u \<and> px_toBackend u = px_toBackend s \<and> px_toBrowser u = px_toBrowser s"
    and "pair_step u e v" "e \<in> set es"
  with assms(3) show "\<not> px_wired v \<and> px_toBackend v = px_toBackend s \<and> px_toBrowser v = px_toBrowser s"
    by (cases e) (auto simp: pair_step_iff pair_defs split: ready.splits)
qed (simp add: assms(2))

lemma runs_closed_browser:
  assumes "runs pair_step s es t" and "px_browser s = Closed"
  shows "px_browser t = Closed"
proof (rule runs_keeps [OF assms(1), of "\<lambda>u. px_browser u = Closed"])
  fix u e v
  assume "px_browser u = Closed" and "pair_step u e v"
  then show "px_browser v = Closed"
    by (cases e) (auto simp: pair_step_iff pair_defs split: ready.splits)
qed (simp add: assms(2))

lemma runs_not_open_browser:
  assumes "runs pair_step s es t" and "px_browser s \<noteq> Open"
  shows "px_browser t \<noteq> Open \<and> px_browserCode t = px_browserCode s"
proof (rule runs_keeps [OF assms(1)])
  fix u e v
  assume "px_browser u \<noteq> Open \<and> px_browserCode u = px_browserCode s" and "pair_step u e v"
  then show "px_browser v \<noteq> Open \<and> px_browserCode v = px_browserCode s"
    by (cases e) (auto simp: pair_step_iff pair_defs split: ready.splits)
qed (simp add: assms(2))

lemma runs_after_browser_close: "runs pair_step s es t \<Longrightarrow> Browser_Close \<in> set es \<Longrightarrow> px_browser t = Closed"
proof (induction es arbitrary: s)
  case (Cons e es)
  then obtain u where u: "pair_step s e u" "runs pair_step u es t" by auto
  show ?case
  proof (cases "e = Browser_Close")
    case True
    with u(1) have "px_browser u = Closed"
      by (auto simp: pair_step_iff pair_defs split: ready.splits)
    with u(2) show ?thesis by (rule runs_closed_browser)
  next
    case False
    with Cons u show ?thesis by auto
  qed
qed simp

subsection \<open>Properties\<close>

text \<open>
  A WebSocket upgrade is accepted exactly for a path \<open>/api/chat/ws/\<close> (any case) followed by 36 hexadecimal
  digits or dashes, with a non-empty session token; the backend connection then names that business unit and
  carries the token as bearer.
\<close>

lemma upgrade_accepted_iff:
  "on_upgrade serviceUrl parseCookies url cookieHeader = Connected target auth \<longleftrightarrow>
     (\<exists>pre buId token.
        parse_pathname (nullish url []) = pre @ buId \<and> js_lower pre = ''/api/chat/ws/'' \<and>
        length buId = 36 \<and> list_all hex_or_dash buId \<and>
        parseCookies (nullish cookieHeader []) ''auth_token'' = Some token \<and> token \<noteq> [] \<and>
        target = chat_ws serviceUrl @ ''/ws/'' @ buId \<and> auth = ''Bearer '' @ token)"
    (is "?L \<longleftrightarrow> ?R")
proof -
  let ?t = "parseCookies (nullish cookieHeader []) ''auth_token''"
  have "?L \<longleftrightarrow> (\<exists>buId. match_ws_path (parse_pathname (nullish url [])) = Some buId \<and>
      truthy ?t \<and> target = chat_ws serviceUrl @ ''/ws/'' @ buId \<and> auth = ''Bearer '' @ nullish ?t [])"
    by (auto simp: on_upgrade_def Let_def split: option.splits)
  also have "\<dots> \<longleftrightarrow> ?R"
    unfolding match_ws_path_iff ws_path_prefix_def
    by (cases ?t) auto
  finally show ?thesis .
qed

text \<open>
  C19. Whatever the interleaving, the proxy forwards in each direction a subsequence of what the other side sent,
  in order and with nothing added; and as long as both sockets are open with the listeners registered it
  forwards every frame.
\<close>

theorem proxy_relays_in_order:
  assumes "runs pair_step pair_init es s"
  shows "subseq (px_toBackend s) (browser_frames es) \<and> subseq (px_toBrowser s) (backend_frames es) \<and>
    (px_browser s = Open \<and> px_backend s = Open \<longrightarrow>
      (\<forall>ms t. list_all is_message ms \<and> runs pair_step s ms t \<longrightarrow>
        px_toBackend t = px_toBackend s @ browser_frames ms \<and> px_toBrowser t = px_toBrowser s @ backend_frames ms))"
proof (intro conjI impI allI)
  from runs_frames [OF assms] show "subseq (px_toBackend s) (browser_frames es)" "subseq (px_toBrowser s) (backend_frames es)"
    by (auto simp: pair_init_def)
next
  fix ms t
  assume o: "px_browser s = Open \<and> px_backend s = Open" and r: "list_all is_message ms \<and> runs pair_step s ms t"
  have "pair_inv s" using pair.inv_runs [OF _ assms] by (simp add: pair_init_def pair_inv_def)
  with o r runs_open_frames [of s ms t]
  show "px_toBackend t = px_toBackend s @ browser_frames ms" "px_toBrowser t = px_toBrowser s @ backend_frames ms"
    by (simp_all add: pair_inv_def)
qed

lemma proxy_relays_in_order_witness:
  "\<exists>s. runs pair_step pair_init [Backend_Open, Browser_Message ''a'', Backend_Message ''b''] s \<and>
     px_toBackend s = [''a''] \<and> subseq (px_toBrowser s) [''b'']"
proof -
  let ?s = "pair_apply (Backend_Message ''b'') (pair_apply (Browser_Message ''a'') (pair_apply Backend_Open pair_init))"
  have r: "runs pair_step pair_init [Backend_Open, Browser_Message ''a'', Backend_Message ''b''] ?s"
    by (simp add: pair_step_iff pair_defs pair_init_def)
  from proxy_relays_in_order [OF r] r show ?thesis
    by (intro exI [of _ ?s]) (simp add: pair_defs pair_init_def)
qed

text \<open>
  The browser learns only two close codes from the proxy: once the listeners are registered every closing
  of the backend socket, normal or abnormal, whatever its code, closes an open browser socket with 1000, and an
  error of the backend socket closes it with 1011; a code once chosen is never replaced.
\<close>

lemma browser_close_code:
  assumes "reachable (\<lambda>s. s = pair_init) pair_step s" and "px_browser s = Open"
  shows "px_browserCode s = None \<and>
    (px_backend s = Open \<longrightarrow> (\<forall>code. px_browserCode (on_backend_close code s) = Some 1000 \<and>
                                  px_browser (on_backend_close code s) = Closing)) \<and>
    px_browserCode (on_backend_error s) = Some 1011 \<and> px_browser (on_backend_error s) = Closing \<and>
    (\<forall>es t c. runs pair_step (on_backend_error s) es t \<longrightarrow> px_browserCode t = Some 1011)"
proof -
  have inv: "pair_inv s" using pair.inv_reachable [OF assms(1)] .
  have err: "px_browserCode (on_backend_error s) = Some 1011" "px_browser (on_backend_error s) = Closing"
    using assms(2) by (simp_all add: pair_defs)
  with runs_not_open_browser [of "on_backend_error s"] inv assms(2) show ?thesis
    by (auto simp: pair_inv_def on_backend_close_def close_browser_def Let_def)
qed

text \<open>
  C39. Before the backend socket opens nothing is registered on the browser socket: frames the browser sends by
  then never reach the backend, and when the browser goes away by then the backend socket, once it opens, stays
  open whatever happens on the browser's side, until the backend closes it.
\<close>

theorem early_browser_events_lost:
  assumes "runs pair_step pair_init es s" and "Backend_Open \<notin> set es"
  shows "px_toBackend s = [] \<and> px_toBackend (on_backend_open s) = [] \<and>
    (Browser_Close \<in> set es \<longrightarrow>
      (\<forall>fs t. runs pair_step (on_backend_open s) fs t \<and> Backend_Error \<notin> set fs \<and> (\<forall>k. Backend_Close k \<notin> set fs) \<longrightarrow>
         px_browser t = Closed \<and> px_backend t = Open))"
proof -
  have 1: "px_toBackend s = []"
    using runs_unwired [OF assms(1)] assms(2) by (simp add: pair_init_def)
  have 2: "Browser_Close \<in> set es \<Longrightarrow> px_browser s = Closed"
    using runs_after_browser_close [OF assms(1)] .
  from 1 2 show ?thesis
    by (auto dest!: runs_browser_gone simp: on_backend_open_def)
qed

lemma early_browser_events_lost_witness:
  "px_backend (on_backend_open (on_browser_close (on_browser_message ''hi'' pair_init))) = Open"
proof -
  have r: "runs pair_step pair_init [Browser_Message ''hi'', Browser_Close] (on_browser_close (on_browser_message ''hi'' pair_init))"
    by (simp add: pair_step_iff pair_init_def on_browser_message_def)
  have "runs pair_step u [] u" for u by simp
  with early_browser_events_lost [OF r] show ?thesis by fastforce
qed

end
