(* ===== verification/Go_Json.thy ===== *)
theory Go_Json
  imports Json_Codec
begin

text \<open>
  How the chat service writes a struct of strings (\<open>conn.WriteJSON\<close>, that is \<open>json.NewEncoder(w).Encode(v)\<close>):
  an object with the members in order, whose strings also escape the characters that are special in HTML, and a
  line break at the end. \<open>JSON.parse\<close> reads the same value back.
\<close>

definition go_quote_char :: "char \<Rightarrow> string" where
  "go_quote_char c =
     (if c = CHR ''<'' \<or> c = CHR ''>'' \<or> c = CHR ''&'' then unicode_escape (of_char c) else quote_char c)"

definition go_quote :: "string \<Rightarrow> string" where
  "go_quote s = CHR 0x22 # concat (map go_quote_char s) @ [CHR 0x22]"

fun go_members :: "(string \<times> string) list \<Rightarrow> string" where
  "go_members [] = []"
| "go_members [(k, v)] = go_quote k @ CHR '':'' # go_quote v"
| "go_members ((k, v) # m # ms) = go_quote k @ CHR '':'' # go_quote v @ CHR '','' # go_members (m # ms)"

definition WriteJSON :: "(string \<times> string) list \<Rightarrow> string" where
  "WriteJSON ms = CHR ''{'' # go_members ms @ [CHR ''}'', CHR 0x0A]"

subsection \<open>Reading it back\<close>

lemma parse_go_quote_char:
  "parse_chars (go_quote_char c @ t) = map_option (\<lambda>(x, r). (c # x, r)) (parse_chars t)"
proof (cases "c = CHR ''<'' \<or> c = CHR ''>'' \<or> c = CHR ''&''")
  case True
  moreover have "(of_char c :: nat) < 256" by (rule nat_of_char_less_256)
  ultimately show ?thesis by (simp add: go_quote_char_def parse_unicode_escape)
qed (simp add: go_quote_char_def parse_quote_char)

lemma parse_go_quoted: "parse_chars (concat (map go_quote_char s) @ CHR 0x22 # rest) = Some (s, rest)"
  by (induction s) (simp_all add: parse_go_quote_char del: parse_chars.simps(2), simp)

lemma go_quote_cons: "go_quote s @ r = CHR 0x22 # (concat (map go_quote_char s) @ CHR 0x22 # r)"
  by (simp add: go_quote_def)

lemma parse_go_string: "parse_value (Suc n) (go_quote s @ r) = Some (JStr s, r)"
  unfolding go_quote_cons by (simp add: parse_value.simps parse_go_quoted)

lemma parse_go_member:
  "parse_members (Suc (Suc n)) (go_quote k @ CHR '':'' # go_quote v @ CHR ''}'' # q) = Some ([(k, JStr v)], q)"
  "parse_members (Suc (Suc n)) (go_quote k @ CHR '':'' # go_quote v @ CHR '','' # q) =
     map_option (\<lambda>(ms, t). (add_member k (JStr v) ms, t)) (parse_members (Suc n) q)"
  unfolding go_quote_cons [of k]
  by (subst parse_members.simps(2), simp add: parse_go_quoted parse_go_string)+

lemma parse_go_members:
  "ms \<noteq> [] \<Longrightarrow> distinct (map fst ms) \<Longrightarrow> length ms < n \<Longrightarrow>
   parse_members n (go_members ms @ CHR ''}'' # r) = Some (map (apsnd JStr) ms, r)"
proof (induction ms arbitrary: n rule: go_members.induct)
  case (2 k v)
  then obtain m where "n = Suc (Suc m)" by (cases n; cases "n - 1") auto
  then show ?case by (simp add: parse_go_member)
next
  case (3 k v m ms)
  then obtain j where n: "n = Suc (Suc j)" by (cases n; cases "n - 1") auto
  have "parse_members (Suc j) (go_members (m # ms) @ CHR ''}'' # r) = Some (map (apsnd JStr) (m # ms), r)"
    using 3 n by auto
  moreover have "fst ` set (map (apsnd JStr) (m # ms)) = fst ` set (m # ms)" by force
  then have "k \<notin> fst ` set (map (apsnd JStr) (m # ms))" using 3 by simp
  ultimately show ?case by (simp add: n parse_go_member add_member_new del: list.map) simp
qed simp

lemma go_members_length: "length ms \<le> length (go_members ms)"
  by (induction ms rule: go_members.induct) (auto simp: go_quote_def)

theorem parse_WriteJSON:
  assumes "ms \<noteq> []" "distinct (map fst ms)"
  shows "json_parse (WriteJSON ms) = Some (JObj (map (apsnd JStr) ms))"
proof -
  obtain k t where t: "go_members ms = go_quote k @ t"
    using assms(1) by (cases ms rule: go_members.cases) auto
  have parsed: "parse_members n (go_members ms @ CHR ''}'' # r) = Some (map (apsnd JStr) ms, r)"
    if "length (go_members ms) < n" for n r
    using parse_go_members [OF assms, of n r] go_members_length [of ms] that by simp
  have "parse_value (Suc n) (CHR ''{'' # go_members ms @ CHR ''}'' # r) = Some (JObj (map (apsnd JStr) ms), r)"
    if "length (go_members ms) < n" for n r
    using parsed [OF that, of r] unfolding t by (simp add: parse_value.simps go_quote_cons)
  from this [of "2 * length (WriteJSON ms) + 1" "[CHR 0x0A]"] show ?thesis
    by (simp add: json_parse_def WriteJSON_def skip_ws_def json_ws_def)
qed

end
