(* ===== verification/Chat_Socket.thy ===== *)
theory Chat_Socket
  imports Go_Json Chat_Store Ws_Proxy
begin

text \<open>
  The socket hook of the chat page (\<open>presentation/hooks/useChatWebSocket.ts\<close>). Each run of its effect has
  its own variables \<open>reconnectTimer\<close> and \<open>intentionalClose\<close>, here a record in a list indexed by the order
  of the runs; the reference \<open>wsRef\<close> is shared by all of them. Sockets are numbered in the order of their
  creation, and the pending timers are those the browser will still fire. The browser's side of the
  WebSocket interface is \<open>hook_enabled\<close>: which events a socket in a given ready state can emit.
\<close>

record socket =
  sk_url :: string
  sk_effect :: nat
  sk_ready :: ready
  sk_onclose :: bool

record hook_effect =
  he_buId :: id
  he_reconnectTimer :: "nat option"
  he_intentionalClose :: bool

record hook_state =
  hk_sockets :: "socket list"
  hk_effects :: "hook_effect list"
  hk_timers :: "(nat \<times> nat) list"
  hk_nextTimer :: nat
  hk_wsRef :: "nat option"
  hk_mounted :: "nat option"
  hk_sent :: "(nat \<times> string) list"
  hk_chat :: chat_state

definition hook_init :: "chat_state \<Rightarrow> hook_state" where
  "hook_init chat = \<lparr>hk_sockets = [], hk_effects = [], hk_timers = [], hk_nextTimer = 0, hk_wsRef = None,
     hk_mounted = None, hk_sent = [], hk_chat = chat\<rparr>"

subsection \<open>Frames\<close>

text \<open>
  A received frame: \<open>JSON.parse\<close> fails on malformed text and a property of \<open>null\<close> raises, both of which the
  handler ignores. A field that is not a string, against the declared type, is kept by its text.
\<close>

fun field_text :: "json option \<Rightarrow> string" where
  "field_text None = ''undefined''"
| "field_text (Some (JStr s)) = s"
| "field_text (Some v) = stringify v"

definition message_of_json :: "json \<Rightarrow> chat_message" where
  "message_of_json raw =
     \<lparr>ms_messageId = field_text (js_prop raw ''id''),
      ms_conversationId = field_text (js_prop raw ''conversationId''),
      ms_personId = field_text (js_prop raw ''personId''),
      ms_senderName = field_text (js_prop raw ''senderName''),
      ms_content = field_text (js_prop raw ''content''),
      ms_createdAt = field_text (js_prop raw ''createdAt'')\<rparr>"

definition ws_onmessage :: "string \<Rightarrow> chat_state \<Rightarrow> chat_state" where
  "ws_onmessage data chat = (case json_parse data of
     None \<Rightarrow> chat
   | Some raw \<Rightarrow>
       (if raw = JNull then chat
        else appendMessage (ms_conversationId (message_of_json raw)) (message_of_json raw) chat))"

text \<open>The frame \<open>sendMessage\<close> writes, and the frame the chat service broadcasts for a message.\<close>

definition send_frame :: "id \<Rightarrow> string \<Rightarrow> string" where
  "send_frame conversationId content = stringify (JObj
     [(''type'', JStr ''send_message''), (''conversationId'', JStr conversationId), (''content'', JStr content)])"

definition service_frame :: "chat_message \<Rightarrow> string" where
  "service_frame m = WriteJSON
     [(''id'', ms_messageId m), (''conversationId'', ms_conversationId m), (''personId'', ms_personId m),
      (''senderName'', ms_senderName m), (''content'', ms_content m), (''createdAt'', ms_createdAt m)]"

lemma message_of_service_frame:
  "json_parse (service_frame m) = Some (JObj
     [(''id'', JStr (ms_messageId m)), (''conversationId'', JStr (ms_conversationId m)),
      (''personId'', JStr (ms_personId m)), (''senderName'', JStr (ms_senderName m)),
      (''content'', JStr (ms_content m)), (''createdAt'', JStr (ms_createdAt m))])"
  unfolding service_frame_def by (subst parse_WriteJSON) simp_all

lemma service_frame_message: "json_parse (service_frame n) = Some raw \<Longrightarrow> message_of_json raw = n"
  by (cases n) (auto simp: message_of_service_frame message_of_json_def)

subsection \<open>Operations\<close>

definition set_socket :: "nat \<Rightarrow> (socket \<Rightarrow> socket) \<Rightarrow> hook_state \<Rightarrow> hook_state" where
  "set_socket i f h = h\<lparr>hk_sockets := (hk_sockets h)[i := f (hk_sockets h ! i)]\<rparr>"

definition set_effect :: "nat \<Rightarrow> (hook_effect \<Rightarrow> hook_effect) \<Rightarrow> hook_state \<Rightarrow> hook_state" where
  "set_effect e f h = h\<lparr>hk_effects := (hk_effects h)[e := f (hk_effects h ! e)]\<rparr>"

definition hook_connect :: "nat \<Rightarrow> hook_state \<Rightarrow> hook_state" where
  "hook_connect e h =
     h\<lparr>hk_sockets := hk_sockets h @ [\<lparr>sk_url = ''/api/chat/ws/'' @ he_buId (hk_effects h ! e), sk_effect = e,
                                       sk_ready = Connecting, sk_onclose = True\<rparr>],
       hk_wsRef := Some (length (hk_sockets h))\<rparr>"

text \<open>\<open>clearTimeout\<close>: a timer that fired already is not there any more.\<close>

definition clear_timer :: "nat option \<Rightarrow> hook_state \<Rightarrow> hook_state" where
  "clear_timer t h = h\<lparr>hk_timers := filter (\<lambda>p. Some (fst p) \<noteq> t) (hk_timers h)\<rparr>"

text \<open>\<open>ws.close(code)\<close> on the browser's side.\<close>

fun close_ready :: "ready \<Rightarrow> ready" where
  "close_ready Connecting = Closing"
| "close_ready Open = Closing"
| "close_ready r = r"

definition ws_onopen :: "nat \<Rightarrow> hook_state \<Rightarrow> hook_state" where
  "ws_onopen i h =
     (let e = sk_effect (hk_sockets h ! i); h1 = set_socket i (\<lambda>s. s\<lparr>sk_ready := Open\<rparr>) h in
      set_effect e (\<lambda>f. f\<lparr>he_reconnectTimer := None\<rparr>) (clear_timer (he_reconnectTimer (hk_effects h ! e)) h1))"

definition schedule_reconnect :: "nat \<Rightarrow> hook_state \<Rightarrow> hook_state" where
  "schedule_reconnect e h =
     set_effect e (\<lambda>f. f\<lparr>he_reconnectTimer := Some (hk_nextTimer h)\<rparr>)
       (h\<lparr>hk_timers := hk_timers h @ [(hk_nextTimer h, e)], hk_nextTimer := Suc (hk_nextTimer h)\<rparr>)"

definition ws_onclose :: "nat \<Rightarrow> nat \<Rightarrow> hook_state \<Rightarrow> hook_state" where
  "ws_onclose i code h =
     (let e = sk_effect (hk_sockets h ! i); h1 = set_socket i (\<lambda>s. s\<lparr>sk_ready := Closed\<rparr>) h in
      if \<not> sk_onclose (hk_sockets h ! i) then h1
      else let h2 = h1\<lparr>hk_wsRef := None\<rparr> in
           if \<not> he_intentionalClose (hk_effects h ! e) \<and> code \<noteq> 1000 then schedule_reconnect e h2 else h2)"

definition ws_onerror :: "nat \<Rightarrow> hook_state \<Rightarrow> hook_state" where
  "ws_onerror i h = set_socket i (\<lambda>s. s\<lparr>sk_ready := close_ready (sk_ready s)\<rparr>) h"

definition hook_timer :: "nat \<times> nat \<Rightarrow> hook_state \<Rightarrow> hook_state" where
  "hook_timer p h = hook_connect (snd p) (h\<lparr>hk_timers := removeAll p (hk_timers h)\<rparr>)"

definition hook_cleanup :: "hook_state \<Rightarrow> hook_state" where
  "hook_cleanup h = (case hk_mounted h of
     None \<Rightarrow> h
   | Some e \<Rightarrow>
       (let h1 = set_effect e (\<lambda>f. f\<lparr>he_intentionalClose := True\<rparr>) h;
            h2 = clear_timer (he_reconnectTimer (hk_effects h ! e)) h1;
            h3 = (case hk_wsRef h of
                    None \<Rightarrow> h2
                  | Some i \<Rightarrow> (set_socket i (\<lambda>s. s\<lparr>sk_onclose := False, sk_ready := close_ready (sk_ready s)\<rparr>) h2)
                      \<lparr>hk_wsRef := None\<rparr>)
        in h3\<lparr>hk_mounted := None\<rparr>))"

definition hook_run_effect :: "id \<Rightarrow> hook_state \<Rightarrow> hook_state" where
  "hook_run_effect buId h =
     (let h1 = hook_cleanup h in
      if buId = [] then h1
      else hook_connect (length (hk_effects h1))
        (h1\<lparr>hk_effects := hk_effects h1 @ [\<lparr>he_buId = buId, he_reconnectTimer = None, he_intentionalClose = False\<rparr>],
            hk_mounted := Some (length (hk_effects h1))\<rparr>))"

definition hook_isConnected :: "hook_state \<Rightarrow> bool" where
  "hook_isConnected h = (case hk_wsRef h of None \<Rightarrow> False | Some i \<Rightarrow> sk_ready (hk_sockets h ! i) = Open)"

text \<open>\<open>sendMessage\<close>: the thrown error, or the state with the frame handed to the socket.\<close>

definition hook_sendMessage :: "id \<Rightarrow> string \<Rightarrow> hook_state \<Rightarrow> string + hook_state" where
  "hook_sendMessage conversationId content h = (case hk_wsRef h of
     None \<Rightarrow> Inl ''WebSocket is not connected.''
   | Some i \<Rightarrow>
       (if sk_ready (hk_sockets h ! i) \<noteq> Open then Inl ''WebSocket is not connected.''
        else Inr (h\<lparr>hk_sent := hk_sent h @ [(i, send_frame conversationId content)]\<rparr>)))"

subsection \<open>Transitions\<close>

datatype hook_event =
    Run_Effect id | Unmount | Socket_Open nat | Socket_Message nat string | Socket_Close nat nat
  | Socket_Error nat | Timer_Fires "nat \<times> nat" | Send id string

fun hook_enabled :: "hook_event \<Rightarrow> hook_state \<Rightarrow> bool" where
  "hook_enabled (Socket_Open i) h = (i < length (hk_sockets h) \<and> sk_ready (hk_sockets h ! i) = Connecting)"
| "hook_enabled (Socket_Message i d) h = (i < length (hk_sockets h) \<and> sk_ready (hk_sockets h ! i) = Open)"
| "hook_enabled (Socket_Close i c) h = (i < length (hk_sockets h) \<and> sk_ready (hk_sockets h ! i) \<noteq> Closed)"
| "hook_enabled (Socket_Error i) h = (i < length (hk_sockets h) \<and> sk_ready (hk_sockets h ! i) \<noteq> Closed)"
| "hook_enabled (Timer_Fires p) h = (p \<in> set (hk_timers h))"
| "hook_enabled _ h = True"

fun hook_apply :: "hook_event \<Rightarrow> hook_state \<Rightarrow> hook_state" where
  "hook_apply (Run_Effect b) h = hook_run_effect b h"
| "hook_apply Unmount h = hook_cleanup h"
| "hook_apply (Socket_Open i) h = ws_onopen i h"
| "hook_apply (Socket_Message i d) h = h\<lparr>hk_chat := ws_onmessage d (hk_chat h)\<rparr>"
| "hook_apply (Socket_Close i c) h = ws_onclose i c h"
| "hook_apply (Socket_Error i) h = ws_onerror i h"
| "hook_apply (Timer_Fires p) h = hook_timer p h"
| "hook_apply (Send c t) h = (case hook_sendMessage c t h of Inl _ \<Rightarrow> h | Inr h' \<Rightarrow> h')"

inductive hook_step :: "hook_state \<Rightarrow> hook_event \<Rightarrow> hook_state \<Rightarrow> bool" where
  "hook_enabled e h \<Longrightarrow> hook_step h e (hook_apply e h)"

inductive_simps hook_step_iff: "hook_step h e h'"

text \<open>
  The socket in \<open>wsRef\<close> is the only one with a handler for its closing that is not closed yet, it belongs to
  the mounted effect, and a timer is pending only while there is none.
\<close>

definition live_socket :: "socket \<Rightarrow> bool" where
  "live_socket s \<longleftrightarrow> sk_onclose s \<and> sk_ready s \<noteq> Closed"

definition hook_inv :: "hook_state \<Rightarrow> bool" where
  "hook_inv h \<longleftrightarrow>
     (\<forall>i < length (hk_sockets h). live_socket (hk_sockets h ! i) \<longleftrightarrow> hk_wsRef h = Some i) \<and>
     (\<forall>i < length (hk_sockets h). \<not> sk_onclose (hk_sockets h ! i) \<longrightarrow> sk_ready (hk_sockets h ! i) \<in> {Closing, Closed}) \<and>
     (\<forall>i. hk_wsRef h = Some i \<longrightarrow> i < length (hk_sockets h) \<and> hk_mounted h = Some (sk_effect (hk_sockets h ! i))) \<and>
     (\<forall>e. hk_mounted h = Some e \<longrightarrow> e < length (hk_effects h) \<and> \<not> he_intentionalClose (hk_effects h ! e)) \<and>
     (hk_timers h = [] \<or>
       (hk_wsRef h = None \<and> (\<exists>e t. hk_mounted h = Some e \<and> hk_timers h = [(t, e)] \<and>
          he_reconnectTimer (hk_effects h ! e) = Some t)))"

lemma hook_frames [simp]:
  "hk_effects (set_socket i f h) = hk_effects h" "hk_timers (set_socket i f h) = hk_timers h"
  "hk_wsRef (set_socket i f h) = hk_wsRef h" "hk_mounted (set_socket i f h) = hk_mounted h"
  "hk_chat (set_socket i f h) = hk_chat h" "hk_nextTimer (set_socket i f h) = hk_nextTimer h"
  "length (hk_sockets (set_socket i f h)) = length (hk_sockets h)"
  "hk_sockets (set_effect e g h) = hk_sockets h" "hk_timers (set_effect e g h) = hk_timers h"
  "hk_wsRef (set_effect e g h) = hk_wsRef h" "hk_mounted (set_effect e g h) = hk_mounted h"
  "hk_chat (set_effect e g h) = hk_chat h" "hk_nextTimer (set_effect e g h) = hk_nextTimer h"
  "length (hk_effects (set_effect e g h)) = length (hk_effects h)"
  "hk_sockets (clear_timer t h) = hk_sockets h" "hk_effects (clear_timer t h) = hk_effects h"
  "hk_wsRef (clear_timer t h) = hk_wsRef h" "hk_mounted (clear_timer t h) = hk_mounted h"
  "hk_chat (clear_timer t h) = hk_chat h" "hk_nextTimer (clear_timer t h) = hk_nextTimer h"
  by (simp_all add: set_socket_def set_effect_def clear_timer_def)

lemma nth_set_socket [simp]:
  "j < length (hk_sockets h) \<Longrightarrow>
     hk_sockets (set_socket i f h) ! j = (if j = i then f (hk_sockets h ! i) else hk_sockets h ! j)"
  by (simp add: set_socket_def nth_list_update)

lemma nth_set_effect [simp]:
  "j < length (hk_effects h) \<Longrightarrow>
     hk_effects (set_effect e g h) ! j = (if j = e then g (hk_effects h ! e) else hk_effects h ! j)"
  by (simp add: set_effect_def nth_list_update)

lemma close_ready_simps [simp]:
  "close_ready r \<noteq> Open" "close_ready r \<noteq> Connecting" "close_ready r = Closed \<longleftrightarrow> r = Closed"
  "close_ready r = Closing \<longleftrightarrow> r \<noteq> Closed"
  by (cases r; simp)+

lemma hook_invI:
  assumes "\<And>i. i < length (hk_sockets h) \<Longrightarrow> live_socket (hk_sockets h ! i) \<longleftrightarrow> hk_wsRef h = Some i"
    and "\<And>i. i < length (hk_sockets h) \<Longrightarrow> \<not> sk_onclose (hk_sockets h ! i) \<Longrightarrow>
      sk_ready (hk_sockets h ! i) \<in> {Closing, Closed}"
    and "\<And>i. hk_wsRef h = Some i \<Longrightarrow> i < length (hk_sockets h) \<and> hk_mounted h = Some (sk_effect (hk_sockets h ! i))"
    and "\<And>e. hk_mounted h = Some e \<Longrightarrow> e < length (hk_effects h) \<and> \<not> he_intentionalClose (hk_effects h ! e)"
    and "hk_timers h = [] \<or> (hk_wsRef h = None \<and> (\<exists>e t. hk_mounted h = Some e \<and> hk_timers h = [(t, e)] \<and>
          he_reconnectTimer (hk_effects h ! e) = Some t))"
  shows "hook_inv h"
  using assms unfolding hook_inv_def by blast

lemma hook_invD:
  assumes "hook_inv h"
  shows "i < length (hk_sockets h) \<Longrightarrow> live_socket (hk_sockets h ! i) \<longleftrightarrow> hk_wsRef h = Some i"
    and "i < length (hk_sockets h) \<Longrightarrow> \<not> sk_onclose (hk_sockets h ! i) \<Longrightarrow>
      sk_ready (hk_sockets h ! i) \<in> {Closing, Closed}"
    and "hk_wsRef h = Some i \<Longrightarrow> i < length (hk_sockets h)"
    and "hk_wsRef h = Some i \<Longrightarrow> hk_mounted h = Some (sk_effect (hk_sockets h ! i))"
    and "hk_mounted h = Some e \<Longrightarrow> e < length (hk_effects h)"
    and "hk_mounted h = Some e \<Longrightarrow> \<not> he_intentionalClose (hk_effects h ! e)"
    and "hk_timers h = [] \<or> (hk_wsRef h = None \<and> (\<exists>e t. hk_mounted h = Some e \<and> hk_timers h = [(t, e)] \<and>
          he_reconnectTimer (hk_effects h ! e) = Some t))"
  using assms unfolding hook_inv_def by blast+

lemma inv_connect:
  assumes "hook_inv h" "hk_wsRef h = None" "hk_timers h = []" "hk_mounted h = Some e"
  shows "hook_inv (hook_connect e h)"
  using assms
  by (intro hook_invI)
    (auto simp: hook_connect_def nth_append live_socket_def less_Suc_eq dest: hook_invD split: if_splits)

lemma inv_cleanup:
  assumes "hook_inv h"
  shows "hook_inv (hook_cleanup h) \<and> hk_wsRef (hook_cleanup h) = None \<and> hk_timers (hook_cleanup h) = [] \<and>
    hk_mounted (hook_cleanup h) = None"
proof (cases "hk_mounted h")
  case None
  with hook_invD(4,7) [OF assms] have "hk_wsRef h = None" "hk_timers h = []"
    by (cases "hk_wsRef h"; fastforce)+
  with None assms show ?thesis by (simp add: hook_cleanup_def)
next
  case (Some e)
  have t: "hk_timers (hook_cleanup h) = []"
    using hook_invD(7) [OF assms] Some
    by (auto simp: hook_cleanup_def Let_def clear_timer_def split: option.splits)
  have r: "hk_wsRef (hook_cleanup h) = None" "hk_mounted (hook_cleanup h) = None"
    using Some by (auto simp: hook_cleanup_def Let_def split: option.splits)
  have live: "\<not> live_socket (hk_sockets (hook_cleanup h) ! i)"
    "\<not> sk_onclose (hk_sockets (hook_cleanup h) ! i) \<Longrightarrow> sk_ready (hk_sockets (hook_cleanup h) ! i) \<in> {Closing, Closed}"
    if "i < length (hk_sockets (hook_cleanup h))" for i
    using that hook_invD(1,2) [OF assms, of i] Some
    by (auto simp: hook_cleanup_def Let_def live_socket_def split: option.splits if_splits)
  show ?thesis using t r live by (intro conjI hook_invI) auto
qed

lemma inv_mount:
  assumes "hook_inv h" "hk_wsRef h = None" "hk_timers h = []"
  shows "hook_inv (h\<lparr>hk_effects := hk_effects h @ [\<lparr>he_buId = b, he_reconnectTimer = None, he_intentionalClose = False\<rparr>],
    hk_mounted := Some (length (hk_effects h))\<rparr>)"
  using hook_invD(1,2) [OF assms(1)] assms(2,3) by (intro hook_invI) auto

lemma inv_run_effect:
  assumes "hook_inv h"
  shows "hook_inv (hook_run_effect b h)"
proof (cases "b = []")
  case True
  with inv_cleanup [OF assms] show ?thesis by (simp add: hook_run_effect_def)
next
  case False
  with inv_cleanup [OF assms] inv_connect [OF inv_mount] show ?thesis
    by (simp add: hook_run_effect_def Let_def)
qed

lemma inv_open:
  assumes "hook_inv h" "hook_enabled (Socket_Open i) h"
  shows "hook_inv (ws_onopen i h)"
proof -
  have i: "i < length (hk_sockets h)" "sk_ready (hk_sockets h ! i) = Connecting" using assms(2) by auto
  then have r: "hk_wsRef h = Some i" using hook_invD(1,2) [OF assms(1), of i] by (auto simp: live_socket_def)
  then have t: "hk_timers h = []" using hook_invD(7) [OF assms(1)] by auto
  have m: "hk_mounted h = Some (sk_effect (hk_sockets h ! i))" using hook_invD(4) [OF assms(1) r] .
  have on: "sk_onclose (hk_sockets h ! i)" using hook_invD(2) [OF assms(1) i(1)] i(2) by auto
  show ?thesis
  proof (rule hook_invI)
    fix j
    assume "j < length (hk_sockets (ws_onopen i h))"
    then show "live_socket (hk_sockets (ws_onopen i h) ! j) \<longleftrightarrow> hk_wsRef (ws_onopen i h) = Some j"
      using hook_invD(1) [OF assms(1), of j] r on by (auto simp: ws_onopen_def Let_def live_socket_def)
    assume "j < length (hk_sockets (ws_onopen i h))" "\<not> sk_onclose (hk_sockets (ws_onopen i h) ! j)"
    then show "sk_ready (hk_sockets (ws_onopen i h) ! j) \<in> {Closing, Closed}"
      using hook_invD(2) [OF assms(1), of j] on by (auto simp: ws_onopen_def Let_def split: if_splits)
  next
    fix j
    assume "hk_wsRef (ws_onopen i h) = Some j"
    then show "j < length (hk_sockets (ws_onopen i h)) \<and>
        hk_mounted (ws_onopen i h) = Some (sk_effect (hk_sockets (ws_onopen i h) ! j))"
      using r i m by (simp add: ws_onopen_def Let_def)
  next
    fix e
    assume "hk_mounted (ws_onopen i h) = Some e"
    then show "e < length (hk_effects (ws_onopen i h)) \<and> \<not> he_intentionalClose (hk_effects (ws_onopen i h) ! e)"
      using m hook_invD(5,6) [OF assms(1)] by (auto simp: ws_onopen_def Let_def)
  next
    show "hk_timers (ws_onopen i h) = [] \<or> (hk_wsRef (ws_onopen i h) = None \<and>
      (\<exists>e t. hk_mounted (ws_onopen i h) = Some e \<and> hk_timers (ws_onopen i h) = [(t, e)] \<and>
          he_reconnectTimer (hk_effects (ws_onopen i h) ! e) = Some t))"
      using t by (simp add: ws_onopen_def Let_def clear_timer_def)
  qed
qed

lemma inv_error:
  assumes "hook_inv h" "hook_enabled (Socket_Error i) h"
  shows "hook_inv (ws_onerror i h)"
proof (rule hook_invI)
  fix j
  assume j: "j < length (hk_sockets (ws_onerror i h))"
  then show "live_socket (hk_sockets (ws_onerror i h) ! j) \<longleftrightarrow> hk_wsRef (ws_onerror i h) = Some j"
    using hook_invD(1) [OF assms(1), of j] by (auto simp: ws_onerror_def live_socket_def)
  show "\<not> sk_onclose (hk_sockets (ws_onerror i h) ! j) \<Longrightarrow> sk_ready (hk_sockets (ws_onerror i h) ! j) \<in> {Closing, Closed}"
    using j hook_invD(2) [OF assms(1), of j] by (auto simp: ws_onerror_def split: if_splits)
qed (use hook_invD [OF assms(1)] assms(2) in \<open>auto simp: ws_onerror_def\<close>)

lemma inv_schedule:
  assumes "hook_inv h" "hk_wsRef h = None" "hk_timers h = []" "hk_mounted h = Some e"
  shows "hook_inv (schedule_reconnect e h)"
  using assms hook_invD [OF assms(1)]
  by (intro hook_invI) (auto simp: schedule_reconnect_def set_effect_def nth_list_update split: if_splits)

lemma inv_close:
  assumes "hook_inv h" "hook_enabled (Socket_Close i c) h"
  shows "hook_inv (ws_onclose i c h)"
proof (cases "sk_onclose (hk_sockets h ! i)")
  case False
  then show ?thesis
    using assms(2) hook_invD [OF assms(1)] hook_invD(1) [OF assms(1), of i]
    by (intro hook_invI) (simp_all add: ws_onclose_def Let_def live_socket_def, fastforce+)
next
  case True
  have i: "i < length (hk_sockets h)" "sk_ready (hk_sockets h ! i) \<noteq> Closed" using assms(2) by auto
  then have r: "hk_wsRef h = Some i" using hook_invD(1) [OF assms(1), of i] True by (auto simp: live_socket_def)
  then have t: "hk_timers h = []" using hook_invD(7) [OF assms(1)] by auto
  have m: "hk_mounted h = Some (sk_effect (hk_sockets h ! i))" using hook_invD(4) [OF assms(1) r] .
  let ?h = "set_socket i (\<lambda>s. s\<lparr>sk_ready := Closed\<rparr>) h\<lparr>hk_wsRef := None\<rparr>"
  have live: "live_socket (hk_sockets h ! j) \<longleftrightarrow> j = i" if "j < length (hk_sockets h)" for j
    using hook_invD(1) [OF assms(1), of j] that r by auto
  have "hook_inv ?h"
    using hook_invD(2,5,6) [OF assms(1)] t m live
    by (intro hook_invI) (auto simp: live_socket_def)
  with True inv_schedule [of ?h] t m show ?thesis
    by (auto simp: ws_onclose_def Let_def)
qed

lemma inv_timer:
  assumes "hook_inv h" "p \<in> set (hk_timers h)"
  shows "hook_inv (hook_timer p h)"
proof -
  from hook_invD(7) [OF assms(1)] assms(2) obtain e t where
    m: "hk_wsRef h = None" "hk_mounted h = Some e" "hk_timers h = [(t, e)]" "p = (t, e)" by auto
  have "hook_inv (h\<lparr>hk_timers := []\<rparr>)"
    using hook_invD [OF assms(1)] by (intro hook_invI) auto
  with m show ?thesis by (simp add: hook_timer_def inv_connect)
qed

lemma hook_apply_inv: "hook_inv h \<Longrightarrow> hook_enabled e h \<Longrightarrow> hook_inv (hook_apply e h)"
  by (cases e)
    (auto simp: inv_run_effect inv_cleanup inv_timer hook_sendMessage_def
      intro: inv_open inv_close inv_error simp del: hook_enabled.simps(1-4)
      split: sum.splits option.splits if_splits, auto simp: hook_inv_def)

interpretation hook: guarded_system "\<lambda>h. \<exists>c. h = hook_init c" hook_step hook_inv
proof
  show "\<exists>c. s = hook_init c \<Longrightarrow> hook_inv s" for s
    by (auto simp: hook_init_def hook_inv_def)
  show "hook_inv s \<Longrightarrow> hook_step s e t \<Longrightarrow> hook_inv t" for s e t
    by (auto simp: hook_step_iff hook_apply_inv)
qed

lemma single_live:
  assumes "hook_inv h"
  shows "length (filter live_socket (hk_sockets h)) = (if hk_wsRef h = None then 0 else 1)"
proof (cases "hk_wsRef h")
  case None
  with hook_invD(1) [OF assms] show ?thesis
    by (auto simp: filter_empty_conv in_set_conv_nth)
next
  case (Some i)
  have i: "i < length (hk_sockets h)" using hook_invD(3) [OF assms Some] .
  have "{j. j < length (hk_sockets h) \<and> live_socket (hk_sockets h ! j)} = {i}"
    using hook_invD(1) [OF assms] i Some by auto
  with Some show ?thesis by (simp add: length_filter_conv_card)
qed

text \<open>Without a handled socket and a timer nothing revives the hook but a new run of its effect.\<close>

definition hook_dead :: "hook_state \<Rightarrow> hook_state \<Rightarrow> bool" where
  "hook_dead h0 h \<longleftrightarrow> hook_inv h \<and> hk_wsRef h = None \<and> hk_timers h = [] \<and>
     length (hk_sockets h) = length (hk_sockets h0) \<and> hk_chat h = hk_chat h0 \<and> hk_sent h = hk_sent h0"

lemma hook_dead_no_message:
  assumes "hook_dead h0 h" and "i < length (hk_sockets h)"
  shows "sk_ready (hk_sockets h ! i) \<in> {Closing, Closed} \<and> (sk_onclose (hk_sockets h ! i) \<longrightarrow> sk_ready (hk_sockets h ! i) = Closed)"
proof -
  have "hook_inv h" "hk_wsRef h = None" using assms(1) by (auto simp: hook_dead_def)
  with hook_invD(1,2) [OF this(1) assms(2)] show ?thesis by (auto simp: live_socket_def)
qed

lemma hook_dead_step:
  assumes "hook_dead h0 h" "hook_step h e h'" "\<forall>b. e \<noteq> Run_Effect b"
  shows "hook_dead h0 h'"
proof -
  have en: "hook_enabled e h" and h': "h' = hook_apply e h" using assms(2) by (auto simp: hook_step_iff)
  have d: "hook_inv h" "hk_wsRef h = None" "hk_timers h = []"
    "length (hk_sockets h) = length (hk_sockets h0)" "hk_chat h = hk_chat h0" "hk_sent h = hk_sent h0"
    using assms(1) by (simp_all add: hook_dead_def)
  have inv: "hook_inv h'" using hook_apply_inv [OF d(1) en] h' by simp
  have nm: "i < length (hk_sockets h) \<Longrightarrow> sk_ready (hk_sockets h ! i) \<in> {Closing, Closed} \<and>
      (sk_onclose (hk_sockets h ! i) \<longrightarrow> sk_ready (hk_sockets h ! i) = Closed)" for i
    using hook_dead_no_message [OF assms(1)] .
  show ?thesis
  proof (cases e)
    case (Socket_Close i c)
    with en nm [of i] have "\<not> sk_onclose (hk_sockets h ! i)" by auto
    with Socket_Close d inv h' show ?thesis
      by (simp add: hook_dead_def ws_onclose_def Let_def) (simp add: set_socket_def)
  next
    case (Socket_Error i)
    with d inv h' show ?thesis
      by (simp add: hook_dead_def ws_onerror_def) (simp add: set_socket_def)
  next
    case (Socket_Open i)
    with en nm [of i] show ?thesis by auto
  next
    case (Socket_Message i m)
    with en nm [of i] show ?thesis by auto
  next
    case (Timer_Fires p)
    with en d show ?thesis by simp
  next
    case Unmount
    have "length (hk_sockets (hook_cleanup h)) = length (hk_sockets h)" "hk_chat (hook_cleanup h) = hk_chat h"
      "hk_sent (hook_cleanup h) = hk_sent h"
      by (simp_all add: hook_cleanup_def set_socket_def set_effect_def clear_timer_def Let_def split: option.split)
    with Unmount d inv h' inv_cleanup [OF d(1)] show ?thesis by (simp add: hook_dead_def)
  next
    case (Send c t)
    with d inv h' show ?thesis by (simp add: hook_dead_def hook_sendMessage_def)
  qed (use assms(3) in auto)
qed

lemma hook_dead_runs:
  "runs hook_step h es t \<Longrightarrow> hook_dead h0 h \<Longrightarrow> \<forall>b. Run_Effect b \<notin> set es \<Longrightarrow> hook_dead h0 t"
  by (rule runs_keeps [of hook_step h es t "hook_dead h0"]) (metis hook_dead_step)+

text \<open>The closing of the current socket, and the reconnection it schedules.\<close>

lemma ws_onclose_current:
  assumes inv: "hook_inv h" and ref: "hk_wsRef h = Some i"
  shows "hk_wsRef (ws_onclose i code h) = None \<and>
    (code = 1000 \<longrightarrow> hk_timers (ws_onclose i code h) = []) \<and>
    (code \<noteq> 1000 \<longrightarrow> (\<exists>t e. hk_mounted h = Some e \<and> hk_timers (ws_onclose i code h) = [(t, e)] \<and>
       (let h' = hook_timer (t, e) (ws_onclose i code h) in
          hk_timers h' = [] \<and> hk_wsRef h' = Some (length (hk_sockets h)) \<and>
          sk_url (hk_sockets h' ! length (hk_sockets h)) = ''/api/chat/ws/'' @ he_buId (hk_effects h ! e) \<and>
          sk_ready (hk_sockets h' ! length (hk_sockets h)) = Connecting)))"
proof -
  have i: "i < length (hk_sockets h)" using hook_invD(3) [OF inv ref] .
  let ?e = "sk_effect (hk_sockets h ! i)"
  have m: "hk_mounted h = Some ?e" using hook_invD(4) [OF inv ref] .
  have e: "?e < length (hk_effects h)" "\<not> he_intentionalClose (hk_effects h ! ?e)"
    using hook_invD(5,6) [OF inv m] .
  have t: "hk_timers h = []" using hook_invD(7) [OF inv] ref by auto
  have on: "sk_onclose (hk_sockets h ! i)" using hook_invD(1) [OF inv i] ref by (auto simp: live_socket_def)
  have len: "length (hk_sockets (ws_onclose i code h)) = length (hk_sockets h)"
    by (simp add: ws_onclose_def schedule_reconnect_def set_socket_def Let_def)
  have "hk_wsRef (ws_onclose i code h) = None" "code = 1000 \<Longrightarrow> hk_timers (ws_onclose i code h) = []"
    using on t by (simp_all add: ws_onclose_def schedule_reconnect_def Let_def)
  moreover have "hk_timers (ws_onclose i code h) = [(hk_nextTimer h, ?e)]"
    "he_buId (hk_effects (ws_onclose i code h) ! ?e) = he_buId (hk_effects h ! ?e)" if "code \<noteq> 1000"
    using that on e t by (simp_all add: ws_onclose_def schedule_reconnect_def set_effect_def Let_def)
  ultimately show ?thesis
    using m len by (auto simp: hook_timer_def hook_connect_def Let_def nth_append)
qed

lemma hook_dead_closed:
  assumes inv: "hook_inv h" and ref: "hk_wsRef h = Some i"
  shows "hook_dead h (ws_onclose i 1000 h)"
proof -
  have i: "i < length (hk_sockets h)" using hook_invD(3) [OF inv ref] .
  with hook_invD(1) [OF inv i] ref have "sk_ready (hk_sockets h ! i) \<noteq> Closed" by (simp add: live_socket_def)
  with i have "hook_inv (hook_apply (Socket_Close i 1000) h)" by (intro hook_apply_inv [OF inv]) simp
  with ws_onclose_current [OF inv ref, of 1000] show ?thesis
    by (simp add: hook_dead_def) (simp add: ws_onclose_def Let_def set_socket_def)
qed

subsection \<open>Properties\<close>

text \<open>
  C7. Whatever the order of remounts, network events, timers and sends, the hook has at most one connection
  attempt at any time: one socket whose closing it handles, or one pending reconnection, and neither when the
  effect is not mounted.
\<close>

theorem hook_single_connection:
  assumes "reachable (\<lambda>h. \<exists>c. h = hook_init c) hook_step h"
  shows "length (filter live_socket (hk_sockets h)) + length (hk_timers h) \<le> 1 \<and>
    (hk_mounted h = None \<longrightarrow> filter live_socket (hk_sockets h) = [] \<and> hk_timers h = [])"
proof -
  have inv: "hook_inv h" using hook.inv_reachable [OF assms] .
  have n: "hk_mounted h = None \<Longrightarrow> hk_wsRef h = None \<and> hk_timers h = []"
    using hook_invD(4,7) [OF inv] by (cases "hk_wsRef h") fastforce+
  from single_live [OF inv] hook_invD(7) [OF inv] n show ?thesis
    by (auto split: if_splits)
qed

lemma hook_single_connection_witness:
  "length (filter live_socket (hk_sockets (hook_run_effect ''b1'' (hook_init chat_init)))) +
     length (hk_timers (hook_run_effect ''b1'' (hook_init chat_init))) \<le> 1"
proof -
  have "reachable (\<lambda>h. \<exists>c. h = hook_init c) hook_step (hook_run_effect ''b1'' (hook_init chat_init))"
    by (rule reach_step [of _ _ "hook_init chat_init" "Run_Effect ''b1''"], rule reach_start)
      (auto simp: hook_step_iff)
  from hook_single_connection [OF this] show ?thesis by simp
qed

text \<open>
  When the hook's socket closes, a reconnection is scheduled exactly if the code is not 1000; when its timer
  fires, a socket to the same business unit is opened and takes the place of the closed one.
\<close>

lemma hook_reconnects_iff:
  assumes "reachable (\<lambda>h. \<exists>c. h = hook_init c) hook_step h" and "hk_wsRef h = Some i"
  shows "hk_wsRef (ws_onclose i code h) = None \<and>
    (code = 1000 \<longrightarrow> hk_timers (ws_onclose i code h) = []) \<and>
    (code \<noteq> 1000 \<longrightarrow> (\<exists>t e. hk_mounted h = Some e \<and> hk_timers (ws_onclose i code h) = [(t, e)] \<and>
       (let h' = hook_timer (t, e) (ws_onclose i code h) in
          hk_timers h' = [] \<and> hk_wsRef h' = Some (length (hk_sockets h)) \<and>
          sk_url (hk_sockets h' ! length (hk_sockets h)) = ''/api/chat/ws/'' @ he_buId (hk_effects h ! e) \<and>
          sk_ready (hk_sockets h' ! length (hk_sockets h)) = Connecting)))"
  using assms by (intro ws_onclose_current hook.inv_reachable)

text \<open>
  C26. After the cleanup of the effect, until it runs again, no event of the network opens a socket, schedules a
  reconnection, delivers a message to the store or sends one.
\<close>

theorem hook_cleanup_is_final:
  assumes "reachable (\<lambda>h. \<exists>c. h = hook_init c) hook_step h"
    and "runs hook_step (hook_cleanup h) es t" and "\<forall>b. Run_Effect b \<notin> set es"
  shows "hk_wsRef t = None \<and> hk_timers t = [] \<and> length (hk_sockets t) = length (hk_sockets h) \<and>
    hk_chat t = hk_chat h \<and> hk_sent t = hk_sent h"
proof -
  have inv: "hook_inv h" using hook.inv_reachable [OF assms(1)] .
  have "hook_dead h (hook_cleanup h)"
    using inv_cleanup [OF inv]
    by (auto simp: hook_dead_def hook_cleanup_def Let_def set_socket_def set_effect_def clear_timer_def split: option.splits)
  with hook_dead_runs assms(2,3) have "hook_dead h t" by blast
  then show ?thesis by (simp add: hook_dead_def)
qed

lemma hook_cleanup_is_final_witness:
  "\<exists>t. runs hook_step (hook_cleanup (hook_run_effect ''b1'' (hook_init chat_init))) [Socket_Close 0 1006] t \<and>
     hk_timers t = []"
proof -
  let ?h = "hook_run_effect ''b1'' (hook_init chat_init)"
  have r: "reachable (\<lambda>h. \<exists>c. h = hook_init c) hook_step ?h"
    by (rule reach_step [of _ _ "hook_init chat_init" "Run_Effect ''b1''"], rule reach_start)
      (auto simp: hook_step_iff)
  have e: "runs hook_step (hook_cleanup ?h) [Socket_Close 0 1006] (hook_apply (Socket_Close 0 1006) (hook_cleanup ?h))"
    by (simp add: hook_step_iff hook_run_effect_def hook_cleanup_def hook_init_def hook_connect_def Let_def
        set_socket_def set_effect_def clear_timer_def)
  from hook_cleanup_is_final [OF r e] e show ?thesis by auto
qed

text \<open>
  A frame as the chat service writes it adds exactly its message, once, to its conversation and touches no
  other; a frame that is no JSON, or is \<open>null\<close>, changes nothing.
\<close>

lemma hook_delivers_frames:
  "messages_of (ws_onmessage (service_frame m) chat) c =
     (if c = ms_conversationId m then append_absent ms_messageId m (messages_of chat c) else messages_of chat c) \<and>
   ws_onmessage (service_frame m) (ws_onmessage (service_frame m) chat) = ws_onmessage (service_frame m) chat \<and>
   (json_parse data = None \<or> json_parse data = Some JNull \<longrightarrow> ws_onmessage data chat = chat)"
proof -
  have f: "ws_onmessage (service_frame m) ch = appendMessage (ms_conversationId m) m ch" for ch
    by (cases m) (simp add: ws_onmessage_def message_of_service_frame message_of_json_def)
  have "appendMessage k m (appendMessage k m ch) = appendMessage k m ch" for k ch
    by (auto simp: appendMessage_def Let_def list_ex_iff)
  with f show ?thesis by (auto simp: ws_onmessage_def store_simps)
qed

text \<open>
  \<open>sendMessage\<close> succeeds exactly when \<open>isConnected\<close> says so, and then hands one frame to the open socket, from
  which the chat service reads the conversation and the content.
\<close>

lemma hook_send_iff_connected:
  "(case hook_sendMessage conversationId content h of
      Inl e \<Rightarrow> \<not> hook_isConnected h \<and> e = ''WebSocket is not connected.''
    | Inr h' \<Rightarrow> hook_isConnected h \<and>
        (\<exists>i f v. hk_wsRef h = Some i \<and> h' = h\<lparr>hk_sent := hk_sent h @ [(i, f)]\<rparr> \<and> json_parse f = Some v \<and>
           js_prop v ''type'' = Some (JStr ''send_message'') \<and>
           js_prop v ''conversationId'' = Some (JStr conversationId) \<and> js_prop v ''content'' = Some (JStr content)))"
proof -
  have "json_parse (send_frame conversationId content) = Some (JObj
     [(''type'', JStr ''send_message''), (''conversationId'', JStr conversationId), (''content'', JStr content)])"
    unfolding send_frame_def by (rule js.decode_encode) simp
  then show ?thesis
    by (auto simp: hook_sendMessage_def hook_isConnected_def split: option.splits)
qed

end
