(* ===== verification/Chat_View.thy ===== *)
theory Chat_View
  imports Chat_Store
begin

text \<open>
  The components of the chat page (\<open>presentation/components/chat\<close>): the content each shows for its
  properties and the handler each click calls. Styles that do not depend on the data are left out. The
  formatting of a time of day belongs to the browser and is an argument.
\<close>

subsection \<open>ConversationList\<close>

datatype item_icon = Team_Icon | Initial string | Person_Icon

datatype item_click = Select_Conversation id | Start_DM id

record conversation_item =
  ci_key :: id
  ci_icon :: item_icon
  ci_label :: string
  ci_isActive :: bool
  ci_onClick :: item_click
  ci_muted :: bool

record person_target =
  tg_personId :: id
  tg_firstName :: string
  tg_lastName :: string

record conversation_list =
  cl_group :: "conversation_item option"
  cl_dmHeading :: bool
  cl_dms :: "conversation_item list"
  cl_newHeading :: bool
  cl_new :: "conversation_item list"

text \<open>\<open>`${firstName} ${lastName}`.trim()\<close>.\<close>

definition full_name :: "string \<Rightarrow> string \<Rightarrow> string" where
  "full_name firstName lastName = js_trim (firstName @ '' '' @ lastName)"

definition other_participant :: "id option \<Rightarrow> chat_conversation \<Rightarrow> participant option" where
  "other_participant me c = find (\<lambda>p. Some (pt_personId p) \<noteq> me) (cv_participants c)"

definition dm_label :: "id option \<Rightarrow> chat_conversation \<Rightarrow> string" where
  "dm_label me c = (case other_participant me c of
     Some p \<Rightarrow> full_name (pt_firstName p) (pt_lastName p)
   | None \<Rightarrow> ''Direct Message'')"

definition existingDMPersonIds :: "id \<Rightarrow> chat_conversation list \<Rightarrow> id list" where
  "existingDMPersonIds me convs =
     concat (map (\<lambda>c. map pt_personId (filter (\<lambda>p. pt_personId p \<noteq> me) (cv_participants c)))
       (filter (\<lambda>c. cv_type c = Dm) convs))"

definition newDMTargets :: "id \<Rightarrow> chat_conversation list \<Rightarrow> person_target list \<Rightarrow> person_target list" where
  "newDMTargets me convs targets =
     filter (\<lambda>t. tg_personId t \<noteq> me \<and> tg_personId t \<notin> set (existingDMPersonIds me convs)) targets"

definition group_item :: "id option \<Rightarrow> string \<Rightarrow> chat_conversation \<Rightarrow> conversation_item" where
  "group_item active buName c =
     \<lparr>ci_key = cv_conversationId c, ci_icon = Team_Icon,
      ci_label = (if buName \<noteq> [] then buName else ''Team Chat''),
      ci_isActive = (active = Some (cv_conversationId c)),
      ci_onClick = Select_Conversation (cv_conversationId c), ci_muted = False\<rparr>"

definition dm_item :: "id option \<Rightarrow> id \<Rightarrow> chat_conversation \<Rightarrow> conversation_item" where
  "dm_item active me c =
     \<lparr>ci_key = cv_conversationId c, ci_icon = Initial (js_upper (char_at0 (dm_label (Some me) c))),
      ci_label = dm_label (Some me) c,
      ci_isActive = (active = Some (cv_conversationId c)),
      ci_onClick = Select_Conversation (cv_conversationId c), ci_muted = False\<rparr>"

definition target_item :: "person_target \<Rightarrow> conversation_item" where
  "target_item t =
     \<lparr>ci_key = tg_personId t, ci_icon = Person_Icon, ci_label = full_name (tg_firstName t) (tg_lastName t),
      ci_isActive = False, ci_onClick = Start_DM (tg_personId t), ci_muted = True\<rparr>"

definition ConversationList ::
  "chat_conversation list \<Rightarrow> id option \<Rightarrow> id \<Rightarrow> string \<Rightarrow> person_target list \<Rightarrow> conversation_list" where
  "ConversationList convs active me buName targets =
     \<lparr>cl_group = map_option (group_item active buName) (find (\<lambda>c. cv_type c = Group) convs),
      cl_dmHeading = (0 < length (filter (\<lambda>c. cv_type c = Dm) convs)),
      cl_dms = map (dm_item active me) (filter (\<lambda>c. cv_type c = Dm) convs),
      cl_newHeading = (0 < length (newDMTargets me convs targets)),
      cl_new = map target_item (newDMTargets me convs targets)\<rparr>"

definition list_items :: "conversation_list \<Rightarrow> conversation_item list" where
  "list_items v = (case cl_group v of None \<Rightarrow> [] | Some i \<Rightarrow> [i]) @ cl_dms v @ cl_new v"

subsection \<open>ConversationItem\<close>

text \<open>The background of an item, with the pointer over it or not, and its left border.\<close>

definition item_background :: "bool \<Rightarrow> bool \<Rightarrow> string" where
  "item_background isActive hovered =
     (if isActive then ''#eef2ff'' else if hovered then ''#f9fafb'' else ''transparent'')"

definition item_border :: "bool \<Rightarrow> string" where
  "item_border isActive = (if isActive then ''3px solid #4f46e5'' else ''3px solid transparent'')"

subsection \<open>MessageList\<close>

record message_view =
  mv_key :: id
  mv_isMe :: bool
  mv_avatar :: string
  mv_sender :: "string option"
  mv_content :: string
  mv_time :: string

datatype message_list = No_Messages | Messages "message_view list"

definition show_message :: "(string \<Rightarrow> string) \<Rightarrow> id \<Rightarrow> chat_message \<Rightarrow> message_view" where
  "show_message time me m =
     \<lparr>mv_key = ms_messageId m, mv_isMe = (ms_personId m = me),
      mv_avatar = js_upper (char_at0 (ms_senderName m)),
      mv_sender = (if ms_personId m = me then None else Some (ms_senderName m)),
      mv_content = ms_content m, mv_time = time (ms_createdAt m)\<rparr>"

definition MessageList :: "(string \<Rightarrow> string) \<Rightarrow> chat_message list \<Rightarrow> id \<Rightarrow> message_list" where
  "MessageList time msgs me = (if length msgs = 0 then No_Messages else Messages (map (show_message time me) msgs))"

subsection \<open>MemberList\<close>

record member_view =
  mm_initials :: string
  mm_isMe :: bool
  mm_name :: string
  mm_locked :: bool
  mm_role :: string
  mm_roleColor :: string

record member_list =
  ml_count :: nat
  ml_members :: "member_view list"

definition member_roleColor :: "string dict" where
  "member_roleColor = [''Admin'' \<mapsto> ''purple'', ''Owner'' \<mapsto> ''gold'', ''Member'' \<mapsto> ''default'']"

definition show_member :: "id \<Rightarrow> chat_member \<Rightarrow> member_view" where
  "show_member me m =
     \<lparr>mm_initials = js_upper (char_at0 (mb_firstName m) @ char_at0 (mb_lastName m)),
      mm_isMe = (mb_personId m = me), mm_name = mb_firstName m @ '' '' @ mb_lastName m,
      mm_locked = (\<not> mb_hasAccess m), mm_role = mb_role m,
      mm_roleColor = nullish (member_roleColor (mb_role m)) ''default''\<rparr>"

definition MemberList :: "chat_member list \<Rightarrow> id \<Rightarrow> member_list" where
  "MemberList members me = \<lparr>ml_count = length members, ml_members = map (show_member me) members\<rparr>"

subsection \<open>MessageInput\<close>

record message_input =
  mi_alert :: "string option"
  mi_value :: string
  mi_disabled :: bool
  mi_spinning :: bool
  mi_sendDisabled :: bool

definition MessageInput :: "string \<Rightarrow> bool \<Rightarrow> string \<Rightarrow> message_input" where
  "MessageInput value sending sendError =
     \<lparr>mi_alert = (if sendError \<noteq> [] then Some sendError else None), mi_value = value, mi_disabled = sending,
      mi_spinning = sending, mi_sendDisabled = (js_trim value = [] \<or> sending)\<rparr>"

lemmas chat_view_defs = group_item_def dm_item_def target_item_def ConversationList_def list_items_def

lemma item_clicks [simp]:
  "ci_onClick (group_item active buName c) = Select_Conversation (cv_conversationId c)"
  "ci_onClick (dm_item active me c) = Select_Conversation (cv_conversationId c)"
  "ci_onClick (target_item t) = Start_DM (tg_personId t)"
  by (simp_all add: chat_view_defs)

lemma existing_ids:
  "p \<in> set (existingDMPersonIds me convs) \<longleftrightarrow>
     p \<noteq> me \<and> (\<exists>c \<in> set convs. cv_type c = Dm \<and> p \<in> pt_personId ` set (cv_participants c))"
  by (auto simp: existingDMPersonIds_def)

lemma find_mem: "find P xs = Some x \<Longrightarrow> x \<in> set xs \<and> P x"
  by (induction xs) (auto split: if_splits)

lemma list_clicks:
  "ci_onClick ` set (list_items (ConversationList convs active me buName targets)) =
      (case find (\<lambda>c. cv_type c = Group) convs of None \<Rightarrow> {} | Some g \<Rightarrow> {Select_Conversation (cv_conversationId g)}) \<union>
      Select_Conversation ` cv_conversationId ` {d \<in> set convs. cv_type d = Dm} \<union>
      Start_DM ` tg_personId ` set (newDMTargets me convs targets)"
  by (simp add: list_items_def ConversationList_def image_Un image_image split: option.split)

lemma start_dm_click:
  "Start_DM p \<in> ci_onClick ` set (list_items (ConversationList convs active me buName targets)) \<longleftrightarrow>
     p \<in> tg_personId ` set targets \<and> p \<noteq> me \<and>
     (\<forall>d \<in> set convs. cv_type d = Dm \<longrightarrow> p \<notin> pt_personId ` set (cv_participants d))"
  unfolding list_clicks by (auto simp: newDMTargets_def existing_ids split: option.splits)

lemma select_click:
  "Select_Conversation c \<in> ci_onClick ` set (list_items (ConversationList convs active me buName targets)) \<longleftrightarrow>
     (\<exists>g. find (\<lambda>c. cv_type c = Group) convs = Some g \<and> cv_conversationId g = c) \<or>
     (\<exists>d \<in> set convs. cv_type d = Dm \<and> cv_conversationId d = c)"
  unfolding list_clicks by (auto split: option.splits)

subsection \<open>Properties\<close>

text \<open>
  When conversation ids are unique the list highlights one entry at most: the one whose click selects the
  active conversation, never an entry for starting a new one.
\<close>

lemma conversation_list_highlight:
  assumes "distinct (map cv_conversationId convs)"
  shows "length (filter ci_isActive (list_items (ConversationList convs active me buName targets))) \<le> 1 \<and>
    (\<forall>i \<in> set (list_items (ConversationList convs active me buName targets)).
       ci_isActive i \<longleftrightarrow> (\<exists>c. active = Some c \<and> ci_onClick i = Select_Conversation c))"
proof
  let ?v = "ConversationList convs active me buName targets"
  let ?dms = "filter (\<lambda>c. cv_type c = Dm) convs"
  let ?act = "\<lambda>c. active = Some (cv_conversationId c)"
  have new: "filter ci_isActive (cl_new ?v) = []"
    by (auto simp: chat_view_defs filter_empty_conv)
  have dms: "filter ci_isActive (cl_dms ?v) = map (dm_item active me) (filter ?act ?dms)"
    by (simp add: chat_view_defs filter_map comp_def)
  have one: "length (filter ?act ys) \<le> 1" if "distinct (map cv_conversationId ys)" for ys
    using that by (induction ys) (auto simp: filter_empty_conv)
  have sub: "length (filter ?act ?dms) \<le> 1"
    using assms by (intro one) (simp add: distinct_map_filter)
  show "length (filter ci_isActive (list_items ?v)) \<le> 1"
  proof (cases "find (\<lambda>c. cv_type c = Group) convs")
    case None
    then show ?thesis using new dms sub by (simp add: list_items_def ConversationList_def)
  next
    case (Some g)
    then have g: "g \<in> set convs" "cv_type g = Group" using find_mem by force+
    show ?thesis
    proof (cases "?act g")
      case True
      have "filter ?act ?dms = []"
        using assms g True by (auto simp: filter_empty_conv distinct_map inj_on_def)
      with Some new dms show ?thesis by (simp add: list_items_def) (simp add: chat_view_defs)
    next
      case False
      with Some new dms sub show ?thesis by (simp add: list_items_def) (simp add: chat_view_defs)
    qed
  qed
  show "\<forall>i \<in> set (list_items ?v). ci_isActive i \<longleftrightarrow> (\<exists>c. active = Some c \<and> ci_onClick i = Select_Conversation c)"
    by (auto simp: chat_view_defs split: option.splits)
qed

end
