(* ===== verification/Chat_Page.thy ===== *)
theory Chat_Page
  imports Chat_View Chat_Socket
begin

text \<open>
  The chat page (\<open>app/(protected)/chat/page.tsx\<close>): its own state, the hook's state with the chat store in
  it, and the calls it has pending. A handler that awaits a call is the part before the call, which adds it to
  the pending ones, and the part that runs when it settles. The effects that depend on the selected
  conversation run after every update that changes it. The user's business unit does not change while the
  page is mounted, so its effects for the business unit run once, at \<open>PG_Mount\<close>.
\<close>

datatype settled = Waiting | Fulfilled | Failed

record chat_page =
  cp_user :: "auth_user option"
  cp_hook :: hook_state
  cp_accessDenied :: bool
  cp_initialLoading :: bool
  cp_draft :: string
  cp_sending :: bool
  cp_sendError :: string
  cp_load :: "(settled \<times> settled) option"
  cp_history :: "(id \<times> id) list"
  cp_rest :: "(id \<times> id \<times> string) list"
  cp_dms :: "(id \<times> id) list"

definition chat_page_init :: "auth_user option \<Rightarrow> hook_state \<Rightarrow> chat_page" where
  "chat_page_init user hook =
     \<lparr>cp_user = user, cp_hook = hook, cp_accessDenied = False, cp_initialLoading = True, cp_draft = [],
      cp_sending = False, cp_sendError = [], cp_load = None, cp_history = [], cp_rest = [], cp_dms = []\<rparr>"

definition page_buId :: "chat_page \<Rightarrow> id" where
  "page_buId p = (case cp_user p of None \<Rightarrow> [] | Some u \<Rightarrow> au_buId u)"

abbreviation page_chat :: "chat_page \<Rightarrow> chat_state" where
  "page_chat p \<equiv> hk_chat (cp_hook p)"

definition upd_chat :: "(chat_state \<Rightarrow> chat_state) \<Rightarrow> chat_page \<Rightarrow> chat_page" where
  "upd_chat f p = p\<lparr>cp_hook := (cp_hook p)\<lparr>hk_chat := f (page_chat p)\<rparr>\<rparr>"

subsection \<open>Effects and loading\<close>

definition history_effect :: "chat_page \<Rightarrow> chat_page" where
  "history_effect p =
     (if page_buId p = [] \<or> \<not> truthy (ct_active (page_chat p)) then p
      else p\<lparr>cp_history := cp_history p @ [(page_buId p, nullish (ct_active (page_chat p)) [])]\<rparr>)"

definition after_render :: "chat_page \<Rightarrow> chat_page \<Rightarrow> chat_page" where
  "after_render old p = (if ct_active (page_chat p) \<noteq> ct_active (page_chat old) then history_effect p else p)"

definition history_settled :: "id \<times> id \<Rightarrow> chat_message list awaited \<Rightarrow> chat_page \<Rightarrow> chat_page" where
  "history_settled q res p =
     (upd_chat (fetchConversationMessages_end (snd q) res) p)\<lparr>cp_history := remove1 q (cp_history p)\<rparr>"

definition load_begin :: "chat_page \<Rightarrow> chat_page" where
  "load_begin p =
     (if page_buId p = [] then p
      else upd_chat fetchWorkspace_begin
        (p\<lparr>cp_initialLoading := True, cp_accessDenied := False, cp_load := Some (Waiting, Waiting)\<rparr>))"

fun all_settled :: "settled \<times> settled \<Rightarrow> bool" where
  "all_settled (a, b) \<longleftrightarrow> a = Failed \<or> b = Failed \<or> a = Fulfilled \<and> b = Fulfilled"

definition load_finally :: "settled \<times> settled \<Rightarrow> chat_page \<Rightarrow> chat_page" where
  "load_finally l p =
     (let p' = p\<lparr>cp_load := Some l\<rparr> in if all_settled l then p'\<lparr>cp_initialLoading := False\<rparr> else p')"

definition load_workspace_settled :: "chat_workspace awaited \<Rightarrow> chat_page \<Rightarrow> chat_page" where
  "load_workspace_settled res p = (case cp_load p of
     None \<Rightarrow> p
   | Some (w, c) \<Rightarrow> load_finally (Fulfilled, c) (upd_chat (fetchWorkspace_end (page_buId p) res) p))"

definition load_conversations_settled :: "chat_conversation list awaited \<Rightarrow> chat_page \<Rightarrow> chat_page" where
  "load_conversations_settled res p = (case cp_load p of
     None \<Rightarrow> p
   | Some (w, c) \<Rightarrow>
       (let p1 = after_render p (upd_chat (fetchConversations_end (page_buId p) res) p) in
        case res of
          Inr _ \<Rightarrow> load_finally (w, Fulfilled) p1
        | Inl e \<Rightarrow>
            (if err_status e = Some 403 then load_finally (w, Fulfilled) (p1\<lparr>cp_accessDenied := True\<rparr>)
             else load_finally (w, Failed) p1)))"

text \<open>The effects of the first render with a user: the hook's, the loading and the history.\<close>

definition page_mount :: "chat_page \<Rightarrow> chat_page" where
  "page_mount p =
     history_effect (load_begin (p\<lparr>cp_hook := hook_run_effect (page_buId p) (cp_hook p)\<rparr>))"

subsection \<open>Handlers\<close>

definition handleSend :: "chat_page \<Rightarrow> chat_page" where
  "handleSend p =
     (let content = js_trim (cp_draft p); active = ct_active (page_chat p) in
      if content = [] \<or> cp_sending p \<or> \<not> truthy active then p
      else let p1 = p\<lparr>cp_sendError := []\<rparr>; c = nullish active [] in
        if hook_isConnected (cp_hook p) then
          (case hook_sendMessage c content (cp_hook p) of
             Inl _ \<Rightarrow> p1
           | Inr h \<Rightarrow> p1\<lparr>cp_hook := h, cp_draft := []\<rparr>)
        else p1\<lparr>cp_sending := True, cp_rest := cp_rest p @ [(page_buId p, c, content)]\<rparr>)"

definition rest_settled :: "id \<times> id \<times> string \<Rightarrow> chat_message awaited \<Rightarrow> chat_page \<Rightarrow> chat_page" where
  "rest_settled q res p =
     (let p1 = p\<lparr>cp_rest := remove1 q (cp_rest p)\<rparr> in
      (case res of
         Inr msg \<Rightarrow> upd_chat (appendMessage (fst (snd q)) msg) (p1\<lparr>cp_draft := []\<rparr>)
       | Inl _ \<Rightarrow> p1\<lparr>cp_sendError := ''Failed to send message. Please try again.''\<rparr>)\<lparr>cp_sending := False\<rparr>)"

definition handleKeyDown :: "string \<Rightarrow> bool \<Rightarrow> chat_page \<Rightarrow> chat_page" where
  "handleKeyDown key shiftKey p = (if key = ''Enter'' \<and> \<not> shiftKey then handleSend p else p)"

definition handleSelectConversation :: "id \<Rightarrow> chat_page \<Rightarrow> chat_page" where
  "handleSelectConversation c p =
     after_render p ((upd_chat (setActiveConversation c) p)\<lparr>cp_draft := [], cp_sendError := []\<rparr>)"

definition handleStartDM :: "id \<Rightarrow> chat_page \<Rightarrow> chat_page" where
  "handleStartDM target p = (if page_buId p = [] then p else p\<lparr>cp_dms := cp_dms p @ [(page_buId p, target)]\<rparr>)"

definition dm_settled :: "id \<times> id \<Rightarrow> chat_conversation awaited \<Rightarrow> chat_page \<Rightarrow> chat_page" where
  "dm_settled q res p =
     (let p1 = (upd_chat (createDM_end (fst q) res) p)\<lparr>cp_dms := remove1 q (cp_dms p)\<rparr> in
      after_render p (case res of Inl _ \<Rightarrow> p1 | Inr _ \<Rightarrow> p1\<lparr>cp_draft := [], cp_sendError := []\<rparr>))"

subsection \<open>The rendered page\<close>

datatype chat_page_view =
    View_Nothing | View_Skeleton | View_Restricted
  | View_Chat conversation_list item_icon string message_list message_input "member_list option"

definition availableDMTargets :: "chat_workspace option \<Rightarrow> person_target list" where
  "availableDMTargets ws =
     map (\<lambda>m. \<lparr>tg_personId = mb_personId m, tg_firstName = mb_firstName m, tg_lastName = mb_lastName m\<rparr>)
       (filter mb_hasAccess (case ws of None \<Rightarrow> [] | Some w \<Rightarrow> ws_members w))"

definition active_conversation :: "chat_page \<Rightarrow> chat_conversation option" where
  "active_conversation p =
     find (\<lambda>c. Some (cv_conversationId c) = ct_active (page_chat p)) (conversations_of (page_chat p) (page_buId p))"

definition conv_messages :: "chat_page \<Rightarrow> chat_message list" where
  "conv_messages p =
     (if truthy (ct_active (page_chat p)) then messages_of (page_chat p) (nullish (ct_active (page_chat p)) []) else [])"

definition header_label :: "chat_page \<Rightarrow> string" where
  "header_label p =
     (let bu = (case ct_workspaces (page_chat p) (page_buId p) of None \<Rightarrow> ''Team Chat'' | Some w \<Rightarrow> ws_buName w) in
      case active_conversation p of
        Some c \<Rightarrow> (if cv_type c = Dm then dm_label (map_option au_personId (cp_user p)) c else bu)
      | None \<Rightarrow> bu)"

definition active_is_dm :: "chat_page \<Rightarrow> bool" where
  "active_is_dm p = (case active_conversation p of None \<Rightarrow> False | Some c \<Rightarrow> cv_type c = Dm)"

definition ChatPage :: "(string \<Rightarrow> string) \<Rightarrow> chat_page \<Rightarrow> chat_page_view" where
  "ChatPage time p = (case cp_user p of
     None \<Rightarrow> View_Nothing
   | Some u \<Rightarrow>
       (let ws = ct_workspaces (page_chat p) (page_buId p) in
        if cp_initialLoading p then View_Skeleton
        else if cp_accessDenied p then View_Restricted
        else View_Chat
          (ConversationList (conversations_of (page_chat p) (page_buId p)) (ct_active (page_chat p)) (au_personId u)
             (case ws of None \<Rightarrow> ''Team Chat'' | Some w \<Rightarrow> ws_buName w) (availableDMTargets ws))
          (if active_is_dm p then Person_Icon else Team_Icon) (header_label p)
          (MessageList time (conv_messages p) (au_personId u))
          (MessageInput (cp_draft p) (cp_sending p) (cp_sendError p))
          (if active_is_dm p then None
           else Some (MemberList (case ws of None \<Rightarrow> [] | Some w \<Rightarrow> ws_members w) (au_personId u)))))"

subsection \<open>Transitions\<close>

datatype page_event =
    PG_Mount | PG_Hook hook_event | PG_Workspace "chat_workspace awaited"
  | PG_Conversations "chat_conversation list awaited" | PG_History "id \<times> id" "chat_message list awaited"
  | PG_Draft string | PG_Send | PG_Key string bool | PG_Rest "id \<times> id \<times> string" "chat_message awaited"
  | PG_Select id | PG_Start_DM id | PG_DM "id \<times> id" "chat_conversation awaited"

fun page_enabled :: "page_event \<Rightarrow> chat_page \<Rightarrow> bool" where
  "page_enabled PG_Mount p = (cp_load p = None \<and> page_buId p \<noteq> [])"
| "page_enabled (PG_Hook e) p = (hook_enabled e (cp_hook p) \<and> (\<forall>b. e \<noteq> Run_Effect b) \<and> (\<forall>c t. e \<noteq> Send c t))"
| "page_enabled (PG_Workspace r) p = (\<exists>c. cp_load p = Some (Waiting, c))"
| "page_enabled (PG_Conversations r) p = (\<exists>w. cp_load p = Some (w, Waiting))"
| "page_enabled (PG_History q r) p = (q \<in> set (cp_history p))"
| "page_enabled (PG_Draft v) p = (\<not> cp_sending p)"
| "page_enabled (PG_Rest q r) p = (q \<in> set (cp_rest p))"
| "page_enabled (PG_DM q r) p = (q \<in> set (cp_dms p))"
| "page_enabled _ p = True"

fun page_apply :: "page_event \<Rightarrow> chat_page \<Rightarrow> chat_page" where
  "page_apply PG_Mount p = page_mount p"
| "page_apply (PG_Hook e) p = p\<lparr>cp_hook := hook_apply e (cp_hook p)\<rparr>"
| "page_apply (PG_Workspace r) p = load_workspace_settled r p"
| "page_apply (PG_Conversations r) p = load_conversations_settled r p"
| "page_apply (PG_History q r) p = history_settled q r p"
| "page_apply (PG_Draft v) p = p\<lparr>cp_draft := v\<rparr>"
| "page_apply PG_Send p = handleSend p"
| "page_apply (PG_Key k s) p = handleKeyDown k s p"
| "page_apply (PG_Rest q r) p = rest_settled q r p"
| "page_apply (PG_Select c) p = handleSelectConversation c p"
| "page_apply (PG_Start_DM t) p = handleStartDM t p"
| "page_apply (PG_DM q r) p = dm_settled q r p"

inductive page_step :: "chat_page \<Rightarrow> page_event \<Rightarrow> chat_page \<Rightarrow> bool" where
  "page_enabled e p \<Longrightarrow> page_step p e (page_apply e p)"

inductive_simps page_step_iff: "page_step p e q"

subsection \<open>Invariant\<close>

lemma upd_chat_simps [simp]:
  "cp_user (upd_chat f p) = cp_user p" "cp_accessDenied (upd_chat f p) = cp_accessDenied p"
  "cp_initialLoading (upd_chat f p) = cp_initialLoading p" "cp_draft (upd_chat f p) = cp_draft p"
  "cp_sending (upd_chat f p) = cp_sending p" "cp_sendError (upd_chat f p) = cp_sendError p"
  "cp_load (upd_chat f p) = cp_load p" "cp_history (upd_chat f p) = cp_history p"
  "cp_rest (upd_chat f p) = cp_rest p" "cp_dms (upd_chat f p) = cp_dms p"
  "page_chat (upd_chat f p) = f (page_chat p)" "page_buId (upd_chat f p) = page_buId p"
  by (simp_all add: upd_chat_def page_buId_def)

lemma history_effect_simps [simp]:
  "cp_user (history_effect p) = cp_user p" "cp_accessDenied (history_effect p) = cp_accessDenied p"
  "cp_initialLoading (history_effect p) = cp_initialLoading p" "cp_draft (history_effect p) = cp_draft p"
  "cp_sending (history_effect p) = cp_sending p" "cp_sendError (history_effect p) = cp_sendError p"
  "cp_load (history_effect p) = cp_load p" "cp_rest (history_effect p) = cp_rest p"
  "cp_dms (history_effect p) = cp_dms p" "cp_hook (history_effect p) = cp_hook p"
  "page_buId (history_effect p) = page_buId p"
  by (simp_all add: history_effect_def page_buId_def)

lemma after_render_simps [simp]:
  "cp_user (after_render old p) = cp_user p" "cp_accessDenied (after_render old p) = cp_accessDenied p"
  "cp_initialLoading (after_render old p) = cp_initialLoading p" "cp_draft (after_render old p) = cp_draft p"
  "cp_sending (after_render old p) = cp_sending p" "cp_sendError (after_render old p) = cp_sendError p"
  "cp_load (after_render old p) = cp_load p" "cp_rest (after_render old p) = cp_rest p"
  "cp_dms (after_render old p) = cp_dms p" "cp_hook (after_render old p) = cp_hook p"
  "page_buId (after_render old p) = page_buId p"
  by (simp_all add: after_render_def)

definition sends_ok :: "chat_page \<Rightarrow> bool" where
  "sends_ok p \<longleftrightarrow> (cp_sending p \<longleftrightarrow> cp_rest p \<noteq> []) \<and> length (cp_rest p) \<le> 1 \<and>
     (\<forall>q \<in> set (cp_rest p). fst (snd q) \<noteq> [] \<and> snd (snd q) \<noteq> [] \<and> js_trim (snd (snd q)) = snd (snd q))"

definition load_ok :: "chat_page \<Rightarrow> bool" where
  "load_ok p \<longleftrightarrow> (case cp_load p of
     None \<Rightarrow> cp_initialLoading p \<and> \<not> cp_accessDenied p
   | Some l \<Rightarrow> (cp_initialLoading p \<longleftrightarrow> \<not> all_settled l) \<and> (cp_accessDenied p \<longrightarrow> snd l = Fulfilled))"

definition page_inv :: "chat_page \<Rightarrow> bool" where
  "page_inv p \<longleftrightarrow> sends_ok p \<and> load_ok p"

lemma sends_ok_cong:
  "cp_sending q = cp_sending p \<Longrightarrow> cp_rest q = cp_rest p \<Longrightarrow> sends_ok q = sends_ok p"
  by (simp add: sends_ok_def)

lemma load_ok_cong:
  "cp_load q = cp_load p \<Longrightarrow> cp_initialLoading q = cp_initialLoading p \<Longrightarrow>
   cp_accessDenied q = cp_accessDenied p \<Longrightarrow> load_ok q = load_ok p"
  by (simp add: load_ok_def split: option.split)

lemma handleSend_sends: "sends_ok p \<Longrightarrow> sends_ok (handleSend p)"
  by (auto simp: sends_ok_def handleSend_def Let_def truthy_iff split: sum.splits)

lemma handleSend_load: "load_ok (handleSend p) = load_ok p"
  by (rule load_ok_cong) (auto simp: handleSend_def Let_def split: sum.splits)

lemma rest_settled_sends: "sends_ok p \<Longrightarrow> q \<in> set (cp_rest p) \<Longrightarrow> sends_ok (rest_settled q r p)"
  by (cases "cp_rest p") (auto simp: sends_ok_def rest_settled_def Let_def split: sum.splits)

lemma rest_settled_load: "load_ok (rest_settled q r p) = load_ok p"
  by (rule load_ok_cong) (auto simp: rest_settled_def Let_def split: sum.splits)

lemma load_steps_sends:
  "sends_ok (page_mount p) = sends_ok p"
  "sends_ok (load_workspace_settled w p) = sends_ok p"
  "sends_ok (load_conversations_settled c p) = sends_ok p"
  by (rule sends_ok_cong;
      auto simp: page_mount_def load_begin_def load_workspace_settled_def load_conversations_settled_def
        load_finally_def Let_def split: option.split prod.split sum.split)+

lemma load_steps_load:
  "cp_load p = None \<Longrightarrow> load_ok p \<Longrightarrow> load_ok (page_mount p)"
  "cp_load p = Some (Waiting, c) \<Longrightarrow> load_ok p \<Longrightarrow> load_ok (load_workspace_settled wr p)"
  "cp_load p = Some (w, Waiting) \<Longrightarrow> load_ok p \<Longrightarrow> load_ok (load_conversations_settled cr p)"
  by (auto simp: load_ok_def page_mount_def load_begin_def load_workspace_settled_def
      load_conversations_settled_def load_finally_def Let_def split: sum.splits option.splits)

lemma other_steps:
  "sends_ok (history_settled q m p) = sends_ok p" "load_ok (history_settled q m p) = load_ok p"
  "sends_ok (handleSelectConversation c p) = sends_ok p" "load_ok (handleSelectConversation c p) = load_ok p"
  "sends_ok (handleStartDM t p) = sends_ok p" "load_ok (handleStartDM t p) = load_ok p"
  "sends_ok (dm_settled k d p) = sends_ok p" "load_ok (dm_settled k d p) = load_ok p"
  by ((rule sends_ok_cong load_ok_cong;
      simp add: history_settled_def handleSelectConversation_def handleStartDM_def dm_settled_def Let_def split: sum.split)+)

lemma field_steps:
  "sends_ok (p\<lparr>cp_hook := h\<rparr>) = sends_ok p" "load_ok (p\<lparr>cp_hook := h\<rparr>) = load_ok p"
  "sends_ok (p\<lparr>cp_draft := d\<rparr>) = sends_ok p" "load_ok (p\<lparr>cp_draft := d\<rparr>) = load_ok p"
  by (rule sends_ok_cong load_ok_cong; simp)+

lemma page_apply_inv: "page_inv p \<Longrightarrow> page_enabled e p \<Longrightarrow> page_inv (page_apply e p)"
  by (cases e)
    (auto simp: page_inv_def other_steps field_steps load_steps_sends handleSend_sends handleSend_load
      rest_settled_sends rest_settled_load handleKeyDown_def intro: load_steps_load)

interpretation page: guarded_system "\<lambda>p. \<exists>u h. p = chat_page_init u h" page_step page_inv
proof
  show "\<exists>u h. s = chat_page_init u h \<Longrightarrow> page_inv s" for s
    by (auto simp: chat_page_init_def page_inv_def sends_ok_def load_ok_def)
  show "page_inv s \<Longrightarrow> page_step s e t \<Longrightarrow> page_inv t" for s e t
    by (auto simp: page_step_iff page_apply_inv)
qed

subsection \<open>Properties\<close>

text \<open>
  Sending: nothing happens for a blank draft, during a fallback send or without a selected conversation;
  otherwise the trimmed draft goes to the selected conversation, over the open socket, clearing the draft, or
  else as one pending REST call that keeps the draft. It never runs into the error the socket throws.
\<close>

lemma handleSend_branches:
  "handleSend p =
     (if js_trim (cp_draft p) = [] \<or> cp_sending p \<or> \<not> truthy (ct_active (page_chat p)) then p
      else if hook_isConnected (cp_hook p)
      then p\<lparr>cp_sendError := [], cp_draft := [],
             cp_hook := (cp_hook p)\<lparr>hk_sent := hk_sent (cp_hook p) @
               [(nullish (hk_wsRef (cp_hook p)) 0,
                 send_frame (nullish (ct_active (page_chat p)) []) (js_trim (cp_draft p)))]\<rparr>\<rparr>
      else p\<lparr>cp_sendError := [], cp_sending := True,
             cp_rest := cp_rest p @ [(page_buId p, nullish (ct_active (page_chat p)) [], js_trim (cp_draft p))]\<rparr>)"
  by (auto simp: handleSend_def Let_def hook_isConnected_def hook_sendMessage_def split: option.splits)

text \<open>
  At most one REST send is pending in every reachable state, exactly while the input is disabled; its text
  is trimmed and not blank, and it has a conversation.
\<close>

lemma one_rest_send:
  assumes "reachable (\<lambda>p. \<exists>u h. p = chat_page_init u h) page_step p"
  shows "length (cp_rest p) = (if mi_disabled (MessageInput (cp_draft p) (cp_sending p) (cp_sendError p)) then 1 else 0) \<and>
    (\<forall>b c t. (b, c, t) \<in> set (cp_rest p) \<longrightarrow> c \<noteq> [] \<and> t \<noteq> [] \<and> js_trim t = t)"
proof -
  have "sends_ok p" using page.inv_reachable [OF assms] by (simp add: page_inv_def)
  then show ?thesis
    by (cases "cp_rest p") (auto simp: sends_ok_def MessageInput_def)
qed

lemma reachable_init: "reachable (\<lambda>p. \<exists>u h. p = chat_page_init u h) page_step (chat_page_init u h)"
  by (rule reach_start) blast

text \<open>
  A message sent by REST ends up once in the conversation it was written in, whatever is selected when the
  answer arrives and even if the socket echoes it, and in no other conversation; the input is free again.
\<close>

lemma rest_message_lands_once:
  assumes "distinct (map ms_messageId (messages_of (page_chat p) c))"
  shows "let q = rest_settled (b, c, t) (Inr msg) p;
             echoed = appendMessage c msg (page_chat q) in
    \<not> cp_sending q \<and> cp_draft q = [] \<and> ct_active (page_chat q) = ct_active (page_chat p) \<and>
    length (filter (\<lambda>m. ms_messageId m = ms_messageId msg) (messages_of echoed c)) = 1 \<and>
    (\<forall>d. d \<noteq> c \<longrightarrow> messages_of echoed d = messages_of (page_chat p) d)"
proof -
  let ?ms = "append_absent ms_messageId msg (messages_of (page_chat p) c)"
  have d: "distinct (map ms_messageId ?ms)" using assms by (rule distinct_append_absent)
  have m: "ms_messageId msg \<in> ms_messageId ` set ?ms" by (simp add: keys_append_absent)
  have "length (filter (\<lambda>m. ms_messageId m = k) xs) = 1"
    if "distinct (map ms_messageId xs)" "k \<in> ms_messageId ` set xs" for k xs
    using that by (induction xs) (force simp: filter_empty_conv image_iff)+
  from this [OF d m] show ?thesis
    by (simp add: rest_settled_def Let_def store_simps append_absent_twice upd_chat_def)
qed

text \<open>
  The page leaves the skeleton in either order of the two answers of the initial load, and then shows the
  restriction notice exactly if the conversations were refused with status 403; any other failure shows the
  chat.
\<close>

lemma initial_load_settles:
  assumes "cp_user p = Some u" and "au_buId u \<noteq> []"
  shows "ChatPage time (page_mount p) = View_Skeleton \<and>
    (let p1 = load_conversations_settled cr (load_workspace_settled wr (page_mount p));
         p2 = load_workspace_settled wr (load_conversations_settled cr (page_mount p)) in
      ChatPage time p1 \<noteq> View_Skeleton \<and> ChatPage time p2 \<noteq> View_Skeleton \<and>
      (ChatPage time p1 = View_Restricted \<longleftrightarrow> (\<exists>e. cr = Inl e \<and> err_status e = Some 403)) \<and>
      (ChatPage time p2 = View_Restricted \<longleftrightarrow> (\<exists>e. cr = Inl e \<and> err_status e = Some 403)))"
proof -
  let ?m = "page_mount p"
  have b: "page_buId p = au_buId u" "page_buId (p\<lparr>cp_hook := h\<rparr>) = au_buId u" for h
    using assms(1) by (simp_all add: page_buId_def)
  have m: "cp_user ?m = Some u" "cp_initialLoading ?m" "\<not> cp_accessDenied ?m" "cp_load ?m = Some (Waiting, Waiting)"
    using assms b by (simp_all add: page_mount_def load_begin_def)
  have "cp_user (load_workspace_settled wr q) = cp_user q" "cp_user (load_conversations_settled cr q) = cp_user q" for q
    by (simp_all add: load_workspace_settled_def load_conversations_settled_def load_finally_def Let_def
        split: option.split prod.split sum.split)
  moreover have "\<not> cp_initialLoading q \<and> (cp_accessDenied q \<longleftrightarrow> (\<exists>e. cr = Inl e \<and> err_status e = Some 403))"
    if "q = load_conversations_settled cr (load_workspace_settled wr ?m) \<or>
        q = load_workspace_settled wr (load_conversations_settled cr ?m)" for q
    using that m
    by (auto simp: load_workspace_settled_def load_conversations_settled_def load_finally_def Let_def split: sum.splits if_splits)
  ultimately show ?thesis
    using m by (simp add: ChatPage_def Let_def)
qed

lemma target_ids:
  "k \<in> tg_personId ` set (availableDMTargets (Some w)) \<longleftrightarrow> (\<exists>m \<in> set (ws_members w). mb_personId m = k \<and> mb_hasAccess m)"
  by (auto simp: availableDMTargets_def image_iff)

text \<open>
  On the chat a user with a workspace can reach every other member that has access: an entry starts a
  conversation with them, unless they take part in a direct conversation of the list, which then has an entry
  of its own. Members without access and the user are never offered.
\<close>

lemma chat_reaches_members:
  assumes "ChatPage time p = View_Chat entries icon label msgs input members"
    and "cp_user p = Some u" and "ct_workspaces (page_chat p) (page_buId p) = Some ws"
  shows "(Start_DM k \<in> ci_onClick ` set (list_items entries) \<longleftrightarrow>
      k \<noteq> au_personId u \<and> (\<exists>m \<in> set (ws_members ws). mb_personId m = k \<and> mb_hasAccess m) \<and>
      (\<forall>d \<in> set (conversations_of (page_chat p) (page_buId p)).
         cv_type d = Dm \<longrightarrow> k \<notin> pt_personId ` set (cv_participants d))) \<and>
    (\<forall>d \<in> set (conversations_of (page_chat p) (page_buId p)). cv_type d = Dm \<longrightarrow>
       Select_Conversation (cv_conversationId d) \<in> ci_onClick ` set (list_items entries))"
proof -
  have e: "entries = ConversationList (conversations_of (page_chat p) (page_buId p)) (ct_active (page_chat p))
      (au_personId u) (ws_buName ws) (availableDMTargets (Some ws))"
    using assms by (auto simp: ChatPage_def Let_def split: if_splits)
  show ?thesis
    unfolding e start_dm_click select_click target_ids by blast
qed

end
