(* ===== verification/Forms.thy ===== *)
theory Forms
  imports Entities Http_Model
begin

text \<open>
  What the pages with a form share. The form component calls its \<open>onFinish\<close> handler with the values of the
  registered fields, and only if every rule of every field holds; how its own rules
  judge a value is an argument. The handlers follow one scheme, the locale \<open>submission\<close>: a part before the awaited call that
  clears the error and marks the form busy, and a part after it that ends busy and shows the failure if any.
\<close>

subsection \<open>Rules\<close>

datatype form_rule = Required | Type_Email | Min nat | Confirms string

record form_item =
  fi_label :: string
  fi_name :: string
  fi_rules :: "form_rule list"

type_synonym form_values = "string dict"

text \<open>
  \<open>Confirms\<close> is the validator the sources write themselves; the other rules are the form library's, the argument
  \<open>lib\<close>. \<open>documented_rules\<close> is what the sources rely on: a required field has a value, and \<open>min\<close> bounds the
  length of a value from below.
\<close>

fun rule_holds :: "(form_rule \<Rightarrow> string option \<Rightarrow> bool) \<Rightarrow> form_values \<Rightarrow> string option \<Rightarrow> form_rule \<Rightarrow> bool" where
  "rule_holds lib vals v (Confirms f) = (\<not> truthy v \<or> vals f = v)"
| "rule_holds lib vals v r = lib r v"

definition documented_rules :: "(form_rule \<Rightarrow> string option \<Rightarrow> bool) \<Rightarrow> bool" where
  "documented_rules lib \<longleftrightarrow>
     (\<forall>v. lib Required v \<longrightarrow> truthy v) \<and> (\<forall>n s. lib (Min n) (Some s) \<and> s \<noteq> [] \<longrightarrow> n \<le> length s)"

text \<open>A library for the examples: an email is whatever contains an at sign.\<close>

fun sample_rules :: "form_rule \<Rightarrow> string option \<Rightarrow> bool" where
  "sample_rules Required v = truthy v"
| "sample_rules Type_Email v = (\<not> truthy v \<or> CHR ''@'' \<in> set (nullish v []))"
| "sample_rules (Min n) v = (\<not> truthy v \<or> n \<le> length (nullish v []))"
| "sample_rules (Confirms f) v = True"

lemma sample_rules_documented: "documented_rules sample_rules"
  by (auto simp: documented_rules_def)

lemma documented_required: "documented_rules lib \<Longrightarrow> lib Required v \<Longrightarrow> \<exists>s. v = Some s \<and> s \<noteq> []"
  by (auto simp: documented_rules_def truthy_iff)

lemma documented_min: "documented_rules lib \<Longrightarrow> lib (Min n) (Some s) \<Longrightarrow> s \<noteq> [] \<Longrightarrow> n \<le> length s"
  by (auto simp: documented_rules_def)

definition item_valid :: "(form_rule \<Rightarrow> string option \<Rightarrow> bool) \<Rightarrow> form_values \<Rightarrow> form_item \<Rightarrow> bool" where
  "item_valid lib vals i = list_all (rule_holds lib vals (vals (fi_name i))) (fi_rules i)"

definition form_finish :: "(form_rule \<Rightarrow> string option \<Rightarrow> bool) \<Rightarrow> form_item list \<Rightarrow> form_values \<Rightarrow> form_values option" where
  "form_finish lib items vals =
     (if list_all (item_valid lib vals) items
      then Some (\<lambda>k. if k \<in> fi_name ` set items then vals k else None) else None)"

lemma form_finish_valid:
  "form_finish lib items vals = Some vs \<Longrightarrow> i \<in> set items \<Longrightarrow> r \<in> set (fi_rules i) \<Longrightarrow>
   rule_holds lib vals (vals (fi_name i)) r"
  by (auto simp: form_finish_def item_valid_def list_all_iff split: if_splits)

lemma form_finish_value:
  "form_finish lib items vals = Some vs \<Longrightarrow> vs k = (if k \<in> fi_name ` set items then vals k else None)"
  by (auto simp: form_finish_def split: if_splits)

text \<open>The members of an object literal for the given fields; a missing field is \<open>undefined\<close>.\<close>

definition values_json :: "string list \<Rightarrow> form_values \<Rightarrow> json" where
  "values_json names vals = json_obj (map (\<lambda>k. (k, map_option JStr (vals k))) names)"

lemma map_of_present: "distinct (map fst ms) \<Longrightarrow> map_of (present_members ms) k = Option.bind (map_of ms k) (\<lambda>v. v)"
proof (induction ms rule: present_members.induct)
  case (2 k' ms)
  have "k' \<notin> fst ` set (present_members ms)" using 2 present_members_keys [of ms] by auto
  then have "map_of (present_members ms) k' = None" by (simp add: map_of_eq_None_iff)
  with 2 show ?case by auto
qed auto

lemma values_json_prop:
  "distinct names \<Longrightarrow> js_prop (values_json names vals) k = (if k \<in> set names then map_option JStr (vals k) else None)"
proof -
  assume d: "distinct names"
  have "map_of (map (\<lambda>k. (k, map_option JStr (vals k))) names) k =
      (if k \<in> set names then Some (map_option JStr (vals k)) else None)"
    by (induction names) auto
  moreover have "distinct (map fst (map (\<lambda>k. (k, map_option JStr (vals k))) names))"
    using d by (simp add: comp_def)
  ultimately show ?thesis
    by (simp add: values_json_def json_obj_def map_of_present)
qed

lemma wf_values_json: "distinct names \<Longrightarrow> wf_json (values_json names vals)"
  unfolding values_json_def by (rule wf_json_obj) (auto simp: comp_def dest: sym)

subsection \<open>Answers of the route handlers\<close>

text \<open>A handler that throws is answered by the framework with 500 and no JSON body.\<close>

definition client_view :: "js_error + next_response \<Rightarrow> next_response" where
  "client_view r = (case r of Inl _ \<Rightarrow> empty_response 500 | Inr n \<Rightarrow> n)"

definition res_ok :: "next_response \<Rightarrow> bool" where
  "res_ok r \<longleftrightarrow> 200 \<le> nr_status r \<and> nr_status r \<le> 299"

text \<open>\<open>v ?? d\<close> as a text to show.\<close>

definition shown_text :: "json option \<Rightarrow> string \<Rightarrow> string" where
  "shown_text v d = json_text (json_nullish v (JStr d))"

lemma shown_text_simps [simp]: "shown_text (Some (JStr s)) d = s" "shown_text None d = d"
  by (simp_all add: shown_text_def)

text \<open>\<open>e.response?.data?.error ?? d\<close>.\<close>

definition failure_text :: "string \<Rightarrow> api_error \<Rightarrow> string" where
  "failure_text d e = nullish (err_message e) d"

text \<open>An alert is rendered for a non-empty error.\<close>

definition error_alert :: "string \<Rightarrow> string option" where
  "error_alert error = (if error \<noteq> [] then Some error else None)"

subsection \<open>Submissions\<close>

locale submission =
  fixes start_submit :: "'s \<Rightarrow> 's"
    and settle :: "'r \<Rightarrow> 's \<Rightarrow> 's"
    and busy :: "'s \<Rightarrow> bool"
    and error :: "'s \<Rightarrow> string"
    and failure_of :: "'r \<Rightarrow> string option"
  assumes start_busy: "busy (start_submit s)"
    and start_error: "error (start_submit s) = []"
    and settle_idle: "\<not> busy (settle r s)"
    and settle_error: "error (settle r s) = (case failure_of r of None \<Rightarrow> error s | Some t \<Rightarrow> t)"
begin

text \<open>A whole submission: idle again, and the error is the failure of this submission or none.\<close>

lemma submit_settles:
  "\<not> busy (settle r (start_submit s))"
  "error (settle r (start_submit s)) = nullish (failure_of r) []"
  by (simp_all add: settle_idle settle_error start_error nullish_conv split: option.split)

text \<open>An error of an earlier submission does not survive the next one.\<close>

lemma resubmit_error:
  "error (settle r' (start_submit (settle r (start_submit s)))) = nullish (failure_of r') []"
  by (rule submit_settles(2))

lemma alert_iff_failed:
  "(\<And>t. failure_of r = Some t \<Longrightarrow> t \<noteq> []) \<Longrightarrow>
   error_alert (error (settle r (start_submit s))) = failure_of r"
  by (cases "failure_of r") (auto simp: submit_settles error_alert_def)

end

end
