(* ===== verification/Login_Page.thy ===== *)
theory Login_Page
  imports Forms Session_Navigation Auth_Store
begin

text \<open>
  The login page (\<open>app/(public)/login/page.tsx\<close>) and its conversation with the login route. A submission is
  the part before \<open>fetch\<close> and the part after the answer, \<open>None\<close> where \<open>fetch\<close> rejects. The calls the page
  makes on the auth store and on the router are recorded in their order.
\<close>

datatype login_call = Store_User "json option" | Push string | Refresh

record login_page =
  lg_buChoices :: "json option"
  lg_buId :: "json option"
  lg_error :: string
  lg_loading :: bool
  lg_calls :: "login_call list"

definition login_init :: login_page where
  "login_init = \<lparr>lg_buChoices = None, lg_buId = None, lg_error = [], lg_loading = False, lg_calls = []\<rparr>"

text \<open>\<open>JSON.stringify({ email, password, buId })\<close>.\<close>

definition login_body :: "json option \<Rightarrow> json option \<Rightarrow> json option \<Rightarrow> json" where
  "login_body email password buId = json_obj [(''email'', email), (''password'', password), (''buId'', buId)]"

definition login_begin :: "login_page \<Rightarrow> login_page" where
  "login_begin s = s\<lparr>lg_error := [], lg_loading := True\<rparr>"

definition login_failed :: "string \<Rightarrow> login_page \<Rightarrow> login_page" where
  "login_failed msg s = s\<lparr>lg_error := msg, lg_loading := False\<rparr>"

text \<open>\<open>choices[0]?.buId\<close>: a \<open>TypeError\<close> where \<open>choices\<close> is \<open>undefined\<close> or \<open>null\<close>.\<close>

fun first_choice :: "json option \<Rightarrow> js_error + json option" where
  "first_choice None = Inl TypeError"
| "first_choice (Some JNull) = Inl TypeError"
| "first_choice (Some (JArr (c # cs))) = Inr (js_prop c ''buId'')"
| "first_choice (Some (JObj ms)) = Inr (case map_of ms ''0'' of None \<Rightarrow> None | Some c \<Rightarrow> js_prop c ''buId'')"
| "first_choice (Some v) = Inr None"

definition network_error :: string where
  "network_error = ''Network error. Please try again.''"

definition login_settle :: "next_response option \<Rightarrow> login_page \<Rightarrow> login_page" where
  "login_settle answer s = (case answer of
     None \<Rightarrow> login_failed network_error s
   | Some res \<Rightarrow> (case nr_data res of
       None \<Rightarrow> login_failed network_error s
     | Some data \<Rightarrow> (case get_prop data ''requiresBuSelection'' of
         Inl _ \<Rightarrow> login_failed network_error s
       | Inr sel \<Rightarrow>
           if opt_truthy sel then
             (let s1 = s\<lparr>lg_buChoices := js_prop data ''choices''\<rparr> in
              case first_choice (js_prop data ''choices'') of
                Inl _ \<Rightarrow> login_failed network_error s1
              | Inr first \<Rightarrow> s1\<lparr>lg_buId := first, lg_loading := False\<rparr>)
           else if \<not> res_ok res then
             login_failed (shown_text (js_prop data ''error'') ''Invalid credentials.'') s
           else s\<lparr>lg_calls := lg_calls s @ [Store_User (js_prop data ''user''), Push ''/dashboard'', Refresh]\<rparr>)))"

text \<open>The form: the select for the business unit is there once there are choices.\<close>

definition login_items :: "login_page \<Rightarrow> form_item list" where
  "login_items s =
     [\<lparr>fi_label = ''Email Address'', fi_name = ''email'', fi_rules = [Type_Email]\<rparr>,
      \<lparr>fi_label = ''Password'', fi_name = ''password'', fi_rules = [Required]\<rparr>] @
     (if opt_truthy (lg_buChoices s)
      then [\<lparr>fi_label = ''Select Business Unit'', fi_name = ''buId'', fi_rules = [Required]\<rparr>] else [])"

definition login_initial_values :: form_values where
  "login_initial_values = [''email'' \<mapsto> ''Welcome@example.com'', ''password'' \<mapsto> ''P@ssw0rd'']"

record login_view =
  lv_alert :: "string option"
  lv_emailDisabled :: bool
  lv_options :: "(json option \<times> json option) list option"
  lv_loading :: bool
  lv_button :: string

fun json_items :: "json \<Rightarrow> json list" where
  "json_items (JArr vs) = vs"
| "json_items v = []"

definition LoginPage :: "login_page \<Rightarrow> login_view" where
  "LoginPage s =
     \<lparr>lv_alert = error_alert (lg_error s),
      lv_emailDisabled = opt_truthy (lg_buChoices s),
      lv_options = (if opt_truthy (lg_buChoices s)
        then Some (map (\<lambda>c. (js_prop c ''buId'', js_prop c ''buName'')) (json_items (json_nullish (lg_buChoices s) JNull)))
        else None),
      lv_loading = lg_loading s,
      lv_button = (if opt_truthy (lg_buChoices s) then ''Continue'' else ''Sign In'')\<rparr>"

text \<open>A submission with the login route behind \<open>fetch\<close>.\<close>

definition login_submit :: "bff_env \<Rightarrow> backend \<Rightarrow> json \<Rightarrow> login_page \<Rightarrow> login_page" where
  "login_submit env backend body s =
     login_settle (Some (client_view (login_post env backend (stringify body)))) (login_begin s)"

lemma wf_login_body:
  "(\<And>v. e = Some v \<Longrightarrow> wf_json v) \<Longrightarrow> (\<And>v. p = Some v \<Longrightarrow> wf_json v) \<Longrightarrow> (\<And>v. b = Some v \<Longrightarrow> wf_json v) \<Longrightarrow>
   wf_json (login_body e p b)"
  unfolding login_body_def by (rule wf_json_obj) auto

lemma login_route_answer:
  assumes "wf_json body"
  shows "login_post env backend (stringify body) = (case backend (login_request env body) of
     None \<Rightarrow> Inr (json_response (error_json ''Backend unreachable.'') 503)
   | Some res \<Rightarrow> login_reply env res)"
  using js.decode_encode [OF assms] by (simp add: login_post_def body_json_def)

lemmas login_defs = login_begin_def login_failed_def login_settle_def login_submit_def client_view_def

subsection \<open>Properties\<close>

text \<open>
  C28. Signing in end to end. With a token reply for a typed user the page puts that user into the auth store,
  pushes the dashboard and shows no error. With a demand to select among business units it shows the choices,
  preselects the first and stays. A refusal shows the backend's text, an unreachable backend says so; both
  leave the page ready for another try and navigate nowhere.
\<close>

theorem login_page_outcomes:
  assumes "wf_json body" and "lg_calls s = []"
  shows
    "(\<forall>res data u. backend (login_request env body) = Some res \<and> json_parse (rs_body res) = Some data \<and> is_ok res \<and>
        \<not> opt_truthy (js_prop data ''requiresBuSelection'') \<and> as_auth_user data = Some u \<longrightarrow>
        lg_calls (login_submit env backend body s) = [Store_User (Some (auth_user_json u)), Push ''/dashboard'', Refresh] \<and>
        as_auth_user (auth_user_json u) = Some u \<and> lg_error (login_submit env backend body s) = []) \<and>
     (\<forall>res data c cs. backend (login_request env body) = Some res \<and> json_parse (rs_body res) = Some data \<and> is_ok res \<and>
        opt_truthy (js_prop data ''requiresBuSelection'') \<and> js_prop data ''choices'' = Some (JArr (c # cs)) \<longrightarrow>
        login_submit env backend body s =
          s\<lparr>lg_error := [], lg_loading := False, lg_buChoices := Some (JArr (c # cs)), lg_buId := js_prop c ''buId''\<rparr>) \<and>
     (\<forall>res data t. backend (login_request env body) = Some res \<and> json_parse (rs_body res) = Some data \<and> \<not> is_ok res \<and>
        js_prop data ''error'' = Some (JStr t) \<longrightarrow>
        login_submit env backend body s = s\<lparr>lg_error := t, lg_loading := False\<rparr>) \<and>
     (backend (login_request env body) = None \<longrightarrow>
        login_submit env backend body s = s\<lparr>lg_error := ''Backend unreachable.'', lg_loading := False\<rparr>)"
proof (intro conjI allI impI; (elim conjE)?)
  fix res data u
  assume h: "backend (login_request env body) = Some res" "json_parse (rs_body res) = Some data" "is_ok res"
    "\<not> opt_truthy (js_prop data ''requiresBuSelection'')" "as_auth_user data = Some u"
  have n: "data \<noteq> JNull" using h(5) by (auto simp: as_auth_user_def)
  have "login_user data = auth_user_json u" using login_user_typed [OF h(5)] .
  with h n show "lg_calls (login_submit env backend body s) = [Store_User (Some (auth_user_json u)), Push ''/dashboard'', Refresh]"
    "lg_error (login_submit env backend body s) = []" "as_auth_user (auth_user_json u) = Some u"
    using assms by (simp_all add: login_defs login_route_answer login_reply_token res_ok_def)
next
  fix res data c cs
  assume h: "backend (login_request env body) = Some res" "json_parse (rs_body res) = Some data" "is_ok res"
    "opt_truthy (js_prop data ''requiresBuSelection'')" "js_prop data ''choices'' = Some (JArr (c # cs))"
  have n: "data \<noteq> JNull" using h(5) by auto
  have "login_reply env res = Inr (json_response data 200)"
    using h n by (simp add: login_reply_def get_prop_js_prop)
  with h n show "login_submit env backend body s =
      s\<lparr>lg_error := [], lg_loading := False, lg_buChoices := Some (JArr (c # cs)), lg_buId := js_prop c ''buId''\<rparr>"
    using assms by (simp add: login_defs login_route_answer get_prop_js_prop Let_def)
next
  fix res data t
  assume h: "backend (login_request env body) = Some res" "json_parse (rs_body res) = Some data" "\<not> is_ok res"
    "js_prop data ''error'' = Some (JStr t)"
  have n: "data \<noteq> JNull" using h(4) by auto
  have "login_reply env res = Inr (json_response (JObj [(''error'', JStr t)]) (rs_status res))"
    using h n by (simp add: login_reply_def get_prop_js_prop)
  with h show "login_submit env backend body s = s\<lparr>lg_error := t, lg_loading := False\<rparr>"
    using assms by (simp add: login_defs login_route_answer res_ok_def is_ok_def)
next
  assume "backend (login_request env body) = None"
  then show "login_submit env backend body s = s\<lparr>lg_error := ''Backend unreachable.'', lg_loading := False\<rparr>"
    using assms by (simp add: login_defs login_route_answer error_json_def res_ok_def)
qed

lemma login_page_outcomes_witness:
  "login_submit sample_env (\<lambda>r. None) (JObj []) login_init = login_init\<lparr>lg_error := ''Backend unreachable.'', lg_loading := False\<rparr>"
proof -
  have "wf_json (JObj [])" "lg_calls login_init = []" by (simp_all add: login_init_def)
  from login_page_outcomes [OF this, of "\<lambda>r. None" sample_env] show ?thesis by simp
qed

text \<open>
  The second step of a login with several business units: the select is offered exactly with the choices,
  is required, and the business unit it holds is what the backend is asked for next.
\<close>

lemma login_selected_unit_reaches_backend:
  assumes "lg_buChoices s = Some (JArr (c # cs))" and "lg_buId s = Some (JStr b)"
    and "form_finish lib (login_items s) vals = Some vs" and "vals ''buId'' = Some b"
    and "documented_rules lib"
  shows "lv_options (LoginPage s) = Some (map (\<lambda>c. (js_prop c ''buId'', js_prop c ''buName'')) (c # cs)) \<and>
    vs ''buId'' = Some b \<and> b \<noteq> [] \<and> vs ''email'' = vals ''email'' \<and> vs ''password'' = vals ''password'' \<and>
    (\<exists>body. json_parse (nullish (rq_body (login_request env (login_body (map_option JStr (vs ''email''))
        (map_option JStr (vs ''password'')) (map_option JStr (vs ''buId''))))) []) = Some body \<and>
       js_prop body ''buId'' = Some (JStr b) \<and> js_prop body ''password'' = map_option JStr (vals ''password''))"
proof -
  have v: "vs ''buId'' = Some b" "vs ''email'' = vals ''email''" "vs ''password'' = vals ''password''"
    using form_finish_value [OF assms(3)] assms(1,4) by (simp_all add: login_items_def)
  have b: "b \<noteq> []"
    using form_finish_valid [OF assms(3), of "\<lparr>fi_label = ''Select Business Unit'', fi_name = ''buId'', fi_rules = [Required]\<rparr>" Required]
      assms(1,4) documented_required [OF assms(5), of "Some b"] by (simp add: login_items_def)
  let ?body = "login_body (map_option JStr (vs ''email'')) (map_option JStr (vs ''password'')) (map_option JStr (vs ''buId''))"
  have "wf_json ?body" by (rule wf_login_body) auto
  then have "json_parse (stringify ?body) = Some ?body" by (rule js.decode_encode)
  moreover have "js_prop ?body ''buId'' = Some (JStr b)" "js_prop ?body ''password'' = map_option JStr (vals ''password'')"
    using v by (cases "vals ''email''"; cases "vals ''password''"; simp add: login_body_def json_obj_def)+
  ultimately show ?thesis
    using v b assms(1) by (simp add: LoginPage_def login_request_def)
qed

end
