(* ===== verification/Onboard_Page.thy ===== *)
theory Onboard_Page
  imports Forms Bff_Routes
begin

text \<open>
  The registration page (\<open>app/(public)/onboard/page.tsx\<close>): the rules of its form, the payload without the
  repeated password, and the three ways a submission ends.
\<close>

record onboard_page =
  ob_error :: string
  ob_loading :: bool
  ob_success :: bool

definition onboard_init :: onboard_page where
  "onboard_init = \<lparr>ob_error = [], ob_loading = False, ob_success = False\<rparr>"

definition onboard_items :: "form_item list" where
  "onboard_items =
     [\<lparr>fi_label = ''Clinic / Company Name'', fi_name = ''companyName'', fi_rules = [Required]\<rparr>,
      \<lparr>fi_label = ''Address'', fi_name = ''address'', fi_rules = [Required]\<rparr>,
      \<lparr>fi_label = ''Contact Number'', fi_name = ''contactNumber'', fi_rules = [Required]\<rparr>,
      \<lparr>fi_label = ''First Name'', fi_name = ''ownerFirstName'', fi_rules = [Required]\<rparr>,
      \<lparr>fi_label = ''Last Name'', fi_name = ''ownerLastName'', fi_rules = [Required]\<rparr>,
      \<lparr>fi_label = ''Email Address'', fi_name = ''ownerEmail'', fi_rules = [Required, Type_Email]\<rparr>,
      \<lparr>fi_label = ''Password'', fi_name = ''ownerPassword'', fi_rules = [Required, Min 8]\<rparr>,
      \<lparr>fi_label = ''Confirm Password'', fi_name = ''ownerConfirmPassword'',
       fi_rules = [Required, Confirms ''ownerPassword'']\<rparr>]"

definition onboard_fields :: "string list" where
  "onboard_fields = [''companyName'', ''address'', ''contactNumber'', ''ownerFirstName'', ''ownerLastName'',
     ''ownerEmail'', ''ownerPassword'']"

text \<open>
  \<open>const { ownerConfirmPassword: _, ...payload } = values\<close>: the values are those of the registered items, and all
  but the one named go into the payload.
\<close>

definition onboard_payload :: "form_values \<Rightarrow> json" where
  "onboard_payload vs =
     values_json (filter (\<lambda>k. k \<noteq> ''ownerConfirmPassword'') (map fi_name onboard_items)) vs"

lemma payload_names: "filter (\<lambda>k. k \<noteq> ''ownerConfirmPassword'') (map fi_name onboard_items) = onboard_fields"
  by (simp add: onboard_items_def onboard_fields_def)

definition onboard_begin :: "onboard_page \<Rightarrow> onboard_page" where
  "onboard_begin s = s\<lparr>ob_error := [], ob_loading := True\<rparr>"

text \<open>
  The error of an answer, if any: \<open>None\<close> as an answer is a rejected \<open>fetch\<close>; a refusal without a JSON body
  counts as \<open>{}\<close>, and a body of \<open>null\<close> raises inside the \<open>try\<close>.
\<close>

definition onboard_failure :: "next_response option \<Rightarrow> string option" where
  "onboard_failure answer = (case answer of
     None \<Rightarrow> Some ''Network error. Please try again.''
   | Some res \<Rightarrow>
       (if res_ok res then None
        else (case get_prop (nullish (nr_data res) (JObj [])) ''error'' of
            Inl _ \<Rightarrow> Some ''Network error. Please try again.''
          | Inr m \<Rightarrow> Some (shown_text m ''Onboarding failed. Please try again.''))))"

definition onboard_settle :: "next_response option \<Rightarrow> onboard_page \<Rightarrow> onboard_page" where
  "onboard_settle answer s =
     (case onboard_failure answer of
        None \<Rightarrow> s\<lparr>ob_success := True\<rparr>
      | Some t \<Rightarrow> s\<lparr>ob_error := t\<rparr>)\<lparr>ob_loading := False\<rparr>"

interpretation onboarding: submission onboard_begin onboard_settle ob_loading ob_error onboard_failure
  by unfold_locales (auto simp: onboard_begin_def onboard_settle_def split: option.split)

datatype onboard_view = Registered | Registration_Form "string option" "form_item list" bool

definition OnboardPage :: "onboard_page \<Rightarrow> onboard_view" where
  "OnboardPage s =
     (if ob_success s then Registered
      else Registration_Form (error_alert (ob_error s)) onboard_items (ob_loading s))"

definition onboard_submit :: "bff_env \<Rightarrow> backend \<Rightarrow> form_values \<Rightarrow> onboard_page \<Rightarrow> onboard_page" where
  "onboard_submit env backend vs s =
     onboard_settle (Some (client_view (onboard_post env backend (stringify (onboard_payload vs))))) (onboard_begin s)"

lemma wf_onboard_payload: "wf_json (onboard_payload vs)"
  unfolding onboard_payload_def payload_names by (rule wf_values_json) (simp add: onboard_fields_def)

lemma onboard_item_facts:
  assumes "form_finish lib onboard_items vals = Some vs" and "documented_rules lib"
  shows "k \<in> set onboard_fields \<Longrightarrow> truthy (vs k)"
    and "vs ''ownerConfirmPassword'' = vs ''ownerPassword''"
    and "8 \<le> length (nullish (vs ''ownerPassword'') [])"
proof -
  have rules: "\<forall>i \<in> set onboard_items. \<forall>r \<in> set (fi_rules i). rule_holds lib vals (vals (fi_name i)) r"
    using form_finish_valid [OF assms(1)] by blast
  have same: "vs k = vals k" if "k \<in> set (''ownerConfirmPassword'' # onboard_fields)" for k
    using form_finish_value [OF assms(1), of k] that by (auto simp: onboard_items_def onboard_fields_def)
  have req: "truthy (vals k)" if "k \<in> set onboard_fields" for k
    using rules that assms(2) by (auto simp: onboard_items_def onboard_fields_def documented_rules_def)
  then show "k \<in> set onboard_fields \<Longrightarrow> truthy (vs k)" using same by simp
  have conf: "lib Required (vals ''ownerConfirmPassword'')" "rule_holds lib vals (vals ''ownerConfirmPassword'') (Confirms ''ownerPassword'')"
    "lib (Min 8) (vals ''ownerPassword'')"
    using rules by (simp_all add: onboard_items_def del: rule_holds.simps(1))
  then show "vs ''ownerConfirmPassword'' = vs ''ownerPassword''"
    using same assms(2) by (simp add: onboard_fields_def documented_rules_def)
  obtain pw where "vals ''ownerPassword'' = Some pw" "pw \<noteq> []"
    using req [of "''ownerPassword''"] by (auto simp: onboard_fields_def truthy_iff)
  with conf(3) have "8 \<le> length (nullish (vals ''ownerPassword'') [])"
    using assms(2) by (simp add: documented_rules_def)
  then show "8 \<le> length (nullish (vs ''ownerPassword'') [])"
    by (subst same) (simp_all add: onboard_fields_def)
qed

subsection \<open>Properties\<close>

text \<open>
  C40. Registration end to end: a submitted form has a value in every field, a password of at least 8 characters
  equal to its repetition, and the backend receives exactly the seven fields without the repetition. The page
  shows success if and only if the backend answered with success; otherwise it shows the form again, ready.
\<close>

theorem onboarding_end_to_end:
  assumes "form_finish lib onboard_items vals = Some vs" and "\<not> ob_success s" and "documented_rules lib"
  shows "vs ''ownerConfirmPassword'' = vs ''ownerPassword'' \<and> 8 \<le> length (nullish (vs ''ownerPassword'') []) \<and>
    (\<forall>k. js_prop (onboard_payload vs) k = (if k \<in> set onboard_fields then map_option JStr (vals k) else None)) \<and>
    (\<forall>k \<in> set onboard_fields. truthy (vals k)) \<and>
    json_parse (nullish (rq_body (onboard_request env (onboard_payload vs))) []) = Some (onboard_payload vs) \<and>
    (OnboardPage (onboard_submit env backend vs s) = Registered \<longleftrightarrow>
       (\<exists>res. backend (onboard_request env (onboard_payload vs)) = Some res \<and> is_ok res)) \<and>
    (backend (onboard_request env (onboard_payload vs)) = None \<longrightarrow>
       OnboardPage (onboard_submit env backend vs s) =
         Registration_Form (Some ''Backend unreachable.'') onboard_items False)"
proof -
  let ?req = "onboard_request env (onboard_payload vs)"
  have p: "json_parse (stringify (onboard_payload vs)) = Some (onboard_payload vs)"
    using wf_onboard_payload by (rule js.decode_encode)
  then have post: "onboard_post env backend (stringify (onboard_payload vs)) = (case backend ?req of
       None \<Rightarrow> Inr (json_response (error_json ''Backend unreachable.'') 503)
     | Some res \<Rightarrow>
         if \<not> is_ok res then
           Inr (json_response (case json_parse (rs_body res) of None \<Rightarrow> JObj [] | Some v \<Rightarrow> v) (rs_status res))
         else Inr (json_response (JObj [(''success'', JBool True)]) 200))"
    by (simp add: onboard_post_def body_json_def)
  have vs: "vs k = vals k" if "k \<in> set onboard_fields" for k
    using form_finish_value [OF assms(1), of k] that by (auto simp: onboard_items_def onboard_fields_def)
  have payload: "js_prop (onboard_payload vs) k = (if k \<in> set onboard_fields then map_option JStr (vals k) else None)" for k
    using vs unfolding onboard_payload_def payload_names by (simp add: values_json_prop onboard_fields_def)
  have out: "ob_success (onboard_submit env backend vs s) \<longleftrightarrow> (\<exists>res. backend ?req = Some res \<and> is_ok res)"
    using assms(2)
    by (auto simp: onboard_submit_def post client_view_def onboard_settle_def onboard_begin_def onboard_failure_def
        res_ok_def is_ok_def split: option.splits sum.splits)
  have unreachable: "OnboardPage (onboard_submit env backend vs s) =
      Registration_Form (Some ''Backend unreachable.'') onboard_items False" if "backend ?req = None"
    using that assms(2)
    by (simp add: onboard_submit_def post client_view_def onboard_settle_def onboard_begin_def onboard_failure_def
        res_ok_def error_json_def OnboardPage_def error_alert_def)
  show ?thesis
    using onboard_item_facts [OF assms(1,3)] p payload out unreachable vs
    by (auto simp: OnboardPage_def onboard_request_def)
qed

lemma onboarding_end_to_end_witness:
  "let vals = (\<lambda>k. Some ''secret@pw'') in
   OnboardPage (onboard_submit \<lparr>env_backendUrl = ''http://b'', env_production = False\<rparr> (\<lambda>r. None)
     (\<lambda>k. if k \<in> fi_name ` set onboard_items then vals k else None) onboard_init) =
       Registration_Form (Some ''Backend unreachable.'') onboard_items False"
proof -
  let ?vals = "\<lambda>k. Some ''secret@pw''"
  have "list_all (item_valid sample_rules ?vals) onboard_items"
    by (simp add: onboard_items_def item_valid_def)
  then have f: "form_finish sample_rules onboard_items ?vals = Some (\<lambda>k. if k \<in> fi_name ` set onboard_items then ?vals k else None)"
    by (simp add: form_finish_def)
  have "\<not> ob_success onboard_init" by (simp add: onboard_init_def)
  from onboarding_end_to_end [OF f this sample_rules_documented, of "\<lparr>env_backendUrl = ''http://b'', env_production = False\<rparr>" "\<lambda>r. None"]
  show ?thesis unfolding Let_def by blast
qed

end
