(* ===== verification/Change_Password_Page.thy ===== *)
theory Change_Password_Page
  imports Forms Api_Client
begin

text \<open>
  The page for changing the password (\<open>app/(protected)/change-password/page.tsx\<close>). The handler compares the
  two new passwords before it calls; \<open>Inr\<close> is the state that awaits the call it also returns.
\<close>

record change_password_page =
  pw_loading :: bool
  pw_error :: string
  pw_success :: bool
  pw_values :: form_values

definition change_password_init :: change_password_page where
  "change_password_init = \<lparr>pw_loading = False, pw_error = [], pw_success = False, pw_values = Map.empty\<rparr>"

definition change_password_items :: "form_item list" where
  "change_password_items =
     [\<lparr>fi_label = ''Current Password'', fi_name = ''currentPassword'', fi_rules = [Required]\<rparr>,
      \<lparr>fi_label = ''New Password'', fi_name = ''newPassword'', fi_rules = [Required, Min 6]\<rparr>,
      \<lparr>fi_label = ''Confirm New Password'', fi_name = ''confirmPassword'', fi_rules = [Required]\<rparr>]"

definition change_begin :: "change_password_page \<Rightarrow> change_password_page" where
  "change_begin s = s\<lparr>pw_error := [], pw_loading := True\<rparr>"

text \<open>\<open>handleSubmit\<close> up to its call.\<close>

definition change_submit ::
  "form_values \<Rightarrow> change_password_page \<Rightarrow> change_password_page + change_password_page \<times> container_call" where
  "change_submit vs s =
     (if vs ''newPassword'' \<noteq> vs ''confirmPassword'' then Inl (s\<lparr>pw_error := ''New passwords do not match.''\<rparr>)
      else Inr (change_begin s,
        Auth_changePassword (nullish (vs ''currentPassword'') []) (nullish (vs ''newPassword'') [])))"

definition change_failure :: "unit awaited \<Rightarrow> string option" where
  "change_failure res = (case res of Inr _ \<Rightarrow> None | Inl e \<Rightarrow> Some (failure_text ''Failed to change password.'' e))"

definition change_settle :: "unit awaited \<Rightarrow> change_password_page \<Rightarrow> change_password_page" where
  "change_settle res s =
     (case res of
        Inr _ \<Rightarrow> s\<lparr>pw_success := True, pw_values := Map.empty\<rparr>
      | Inl e \<Rightarrow> s\<lparr>pw_error := failure_text ''Failed to change password.'' e\<rparr>)\<lparr>pw_loading := False\<rparr>"

definition close_success :: "change_password_page \<Rightarrow> change_password_page" where
  "close_success s = s\<lparr>pw_success := False\<rparr>"

interpretation password_change: submission change_begin change_settle pw_loading pw_error change_failure
  by unfold_locales (auto simp: change_begin_def change_settle_def change_failure_def split: sum.split)

text \<open>The alerts of the page: the success notice and the error.\<close>

definition ChangePasswordPage :: "change_password_page \<Rightarrow> string option \<times> string option" where
  "ChangePasswordPage s =
     (if pw_success s then Some ''Password changed successfully.'' else None, error_alert (pw_error s))"

subsection \<open>Properties\<close>

text \<open>
  A valid form reaches the backend as one call with the two typed passwords exactly when the repetition
  agrees; otherwise nothing is called and the mismatch is shown. When the call settles the page is ready
  again; success clears the form and the error, and a failure shows the backend's text or the default one.
\<close>

lemma change_password_flow:
  assumes "form_finish lib change_password_items vals = Some vs" and "documented_rules lib"
  shows "(case change_submit vs s of
      Inl t \<Rightarrow> vals ''newPassword'' \<noteq> vals ''confirmPassword'' \<and> t = s\<lparr>pw_error := ''New passwords do not match.''\<rparr>
    | Inr (t, c) \<Rightarrow> vals ''newPassword'' = vals ''confirmPassword'' \<and> pw_loading t \<and>
        (\<exists>old new. vals ''currentPassword'' = Some old \<and> vals ''newPassword'' = Some new \<and> old \<noteq> [] \<and> 6 \<le> length new \<and>
           c = Auth_changePassword old new) \<and>
        \<not> pw_loading (change_settle res t) \<and>
        pw_error (change_settle res t) =
          (case res of Inr _ \<Rightarrow> [] | Inl e \<Rightarrow> nullish (err_message e) ''Failed to change password.'') \<and>
        (res = Inr () \<longrightarrow> pw_success (change_settle res t) \<and> pw_values (change_settle res t) = Map.empty))"
proof -
  have rules: "\<forall>i \<in> set change_password_items. \<forall>r \<in> set (fi_rules i). rule_holds lib vals (vals (fi_name i)) r"
    using form_finish_valid [OF assms(1)] by blast
  have vs: "vs ''currentPassword'' = vals ''currentPassword''" "vs ''newPassword'' = vals ''newPassword''"
    "vs ''confirmPassword'' = vals ''confirmPassword''"
    using form_finish_value [OF assms(1)] by (simp_all add: change_password_items_def)
  obtain old new where on: "vals ''currentPassword'' = Some old" "vals ''newPassword'' = Some new" "old \<noteq> []" "6 \<le> length new"
  proof -
    have r: "lib Required (vals ''currentPassword'')" "lib Required (vals ''newPassword'')" "lib (Min 6) (vals ''newPassword'')"
      using rules by (simp_all add: change_password_items_def)
    from documented_required [OF assms(2) r(1)] obtain old where old: "vals ''currentPassword'' = Some old" "old \<noteq> []" by blast
    from documented_required [OF assms(2) r(2)] obtain new where new: "vals ''newPassword'' = Some new" "new \<noteq> []" by blast
    have "6 \<le> length new" using documented_min [OF assms(2), of 6 new] r(3) new by simp
    with old new that show thesis by blast
  qed
  have err: "pw_error (change_settle res (change_begin s)) =
      (case res of Inr _ \<Rightarrow> [] | Inl e \<Rightarrow> nullish (err_message e) ''Failed to change password.'')"
    using password_change.submit_settles(2) [of res s]
    by (simp add: change_failure_def failure_text_def split: sum.splits)
  show ?thesis
  proof (cases "vals ''confirmPassword'' = Some new")
    case True
    with vs on have "change_submit vs s = Inr (change_begin s, Auth_changePassword old new)"
      by (simp add: change_submit_def)
    with True on err password_change.submit_settles(1) [of res s] show ?thesis
      by (simp add: password_change.start_busy) (simp add: change_settle_def)
  next
    case False
    with vs on show ?thesis by (simp add: change_submit_def)
  qed
qed

definition sample_passwords :: form_values where
  "sample_passwords = [''currentPassword'' \<mapsto> ''old-pw'', ''newPassword'' \<mapsto> ''new-pw'', ''confirmPassword'' \<mapsto> ''new-pw'']"

lemma sample_passwords_valid:
  "form_finish sample_rules change_password_items sample_passwords =
     Some (\<lambda>k. if k \<in> fi_name ` set change_password_items then sample_passwords k else None)"
proof -
  have "list_all (item_valid sample_rules sample_passwords) change_password_items"
    by (simp add: change_password_items_def item_valid_def sample_passwords_def)
  then show ?thesis by (simp add: form_finish_def)
qed

text \<open>
  The success notice outlives later failures: after one successful change, a mismatch or a refused second
  change shows the success notice and the error together until the notice is closed.
\<close>

lemma success_notice_lingers:
  "let done = change_settle (Inr ()) (change_begin s);
       refused = change_settle (Inl (Http_Error 400 (Some ''Wrong password.''))) (change_begin done) in
   ChangePasswordPage refused = (Some ''Password changed successfully.'', Some ''Wrong password.'') \<and>
   ChangePasswordPage (close_success refused) = (None, Some ''Wrong password.'') \<and>
   (vs ''newPassword'' \<noteq> vs ''confirmPassword'' \<longrightarrow>
      (case change_submit vs done of
         Inl t \<Rightarrow> ChangePasswordPage t = (Some ''Password changed successfully.'', Some ''New passwords do not match.'')
       | Inr _ \<Rightarrow> False))"
  by (simp add: change_begin_def change_settle_def change_submit_def close_success_def ChangePasswordPage_def
      error_alert_def failure_text_def Let_def)

end
