(* ===== verification/Business_Units_Page.thy ===== *)
theory Business_Units_Page
  imports Forms Business_Unit_Store
begin

text \<open>
  The page of the business units (\<open>app/(protected)/business-units/BusinessUnitsPageClient.tsx\<close> and
  \<open>presentation/components/business-units/BusinessUnitTable.tsx\<close>). The store is hydrated during the first
  render only. \<open>bp_pending\<close> holds the names of the creations that have been called and not settled.
\<close>

record bu_page =
  bp_store :: bu_state
  bp_showModal :: bool
  bp_name :: string
  bp_createError :: string
  bp_isCreating :: bool
  bp_hydrated :: bool
  bp_ready :: bool
  bp_pending :: "string list"

definition bu_page_init :: "bu_state \<Rightarrow> bu_page" where
  "bu_page_init store = \<lparr>bp_store = store, bp_showModal = False, bp_name = [], bp_createError = [],
     bp_isCreating = False, bp_hydrated = False, bp_ready = False, bp_pending = []\<rparr>"

definition bu_page_render :: "business_unit list \<Rightarrow> bu_page \<Rightarrow> bu_page" where
  "bu_page_render initialBus p =
     (if \<not> bp_hydrated p then p\<lparr>bp_store := bu_hydrate initialBus (bp_store p), bp_hydrated := True\<rparr> else p)"

definition bu_page_effect :: "bu_page \<Rightarrow> bu_page" where
  "bu_page_effect p = p\<lparr>bp_ready := True\<rparr>"

definition bu_page_open :: "bu_page \<Rightarrow> bu_page" where
  "bu_page_open p = p\<lparr>bp_showModal := True\<rparr>"

definition bu_page_cancel :: "bu_page \<Rightarrow> bu_page" where
  "bu_page_cancel p = p\<lparr>bp_showModal := False, bp_name := [], bp_createError := []\<rparr>"

definition bu_page_type :: "string \<Rightarrow> bu_page \<Rightarrow> bu_page" where
  "bu_page_type v p = p\<lparr>bp_name := v\<rparr>"

text \<open>\<open>handleCreate\<close> up to its call, past the guard; and what follows the call and the reload.\<close>

definition bu_create_begin :: "bu_page \<Rightarrow> bu_page" where
  "bu_create_begin p =
     p\<lparr>bp_createError := [], bp_isCreating := True, bp_pending := bp_pending p @ [js_trim (bp_name p)]\<rparr>"

definition bu_handleCreate :: "bu_page \<Rightarrow> bu_page" where
  "bu_handleCreate p = (if js_trim (bp_name p) = [] then p else bu_create_begin p)"

definition bu_create_failure :: "business_unit awaited \<times> business_unit list awaited \<Rightarrow> string option" where
  "bu_create_failure r = (case fst r of
     Inl e \<Rightarrow> Some (failure_text ''Failed to create business unit.'' e) | Inr _ \<Rightarrow> None)"

definition bu_create_settled ::
  "string \<Rightarrow> business_unit awaited \<times> business_unit list awaited \<Rightarrow> bu_page \<Rightarrow> bu_page" where
  "bu_create_settled n r p =
     (let (out, store) = bu_create (fst r) (snd r) (bp_store p);
          q = p\<lparr>bp_store := store, bp_pending := remove1 n (bp_pending p)\<rparr> in
      (case out of
         Inr _ \<Rightarrow> q\<lparr>bp_showModal := False, bp_name := []\<rparr>
       | Inl e \<Rightarrow> q\<lparr>bp_createError := failure_text ''Failed to create business unit.'' e\<rparr>)\<lparr>bp_isCreating := False\<rparr>)"

interpretation bu_creation: submission bu_create_begin "bu_create_settled n" bp_isCreating bp_createError
  bu_create_failure for n
  by unfold_locales
    (auto simp: bu_create_begin_def bu_create_settled_def bu_create_failure_def bu_create_def Let_def split: sum.split)

record bu_page_view =
  bv_newButton :: bool
  bv_rows :: "(id \<times> string \<times> string) list"
  bv_tableLoading :: bool
  bv_modalOpen :: bool
  bv_okDisabled :: bool
  bv_okLoading :: bool
  bv_alert :: "string option"
  bv_input :: string

text \<open>The table: a row per business unit, keyed by its id; the date format is the browser's.\<close>

definition BusinessUnitTable :: "(string \<Rightarrow> string) \<Rightarrow> business_unit list \<Rightarrow> (id \<times> string \<times> string) list" where
  "BusinessUnitTable date bus = map (\<lambda>b. (bu_id b, bu_name b, date (bu_createdAt b))) bus"

definition BusinessUnitsPage :: "(string \<Rightarrow> string) \<Rightarrow> bool \<Rightarrow> bu_page \<Rightarrow> bu_page_view" where
  "BusinessUnitsPage date isOwner p =
     \<lparr>bv_newButton = isOwner,
      bv_rows = BusinessUnitTable date (bs_businessUnits (bp_store p)),
      bv_tableLoading = bs_isLoading (bp_store p),
      bv_modalOpen = bp_showModal p,
      bv_okDisabled = (js_trim (bp_name p) = []),
      bv_okLoading = bp_isCreating p,
      bv_alert = error_alert (bp_createError p),
      bv_input = bp_name p\<rparr>"

subsection \<open>Properties\<close>

text \<open>
  Creating a business unit on the page: one call with the trimmed name. If it is accepted the modal closes
  and the table shows the reloaded list, or the old one if only the reload failed; if it is refused the modal
  stays open with the name kept, the failure shown and the table unchanged. The button is free again.
\<close>

lemma bu_page_creation:
  assumes "js_trim (bp_name p) \<noteq> []" and "bp_showModal p" and "bp_pending p = []"
  shows "bp_pending (bu_handleCreate p) = [js_trim (bp_name p)] \<and>
    (let v = (\<lambda>r. BusinessUnitsPage date owner (bu_create_settled (js_trim (bp_name p)) r (bu_handleCreate p))) in
      (\<forall>b bus. bv_rows (v (Inr b, Inr bus)) = BusinessUnitTable date bus \<and> \<not> bv_modalOpen (v (Inr b, Inr bus)) \<and>
         bv_input (v (Inr b, Inr bus)) = [] \<and> bv_alert (v (Inr b, Inr bus)) = None) \<and>
      (\<forall>b e. bv_rows (v (Inr b, Inl e)) = bv_rows (BusinessUnitsPage date owner p) \<and> \<not> bv_modalOpen (v (Inr b, Inl e))) \<and>
      (\<forall>e rel. bv_rows (v (Inl e, rel)) = bv_rows (BusinessUnitsPage date owner p) \<and> bv_modalOpen (v (Inl e, rel)) \<and>
         bv_input (v (Inl e, rel)) = bp_name p \<and>
         bv_alert (v (Inl e, rel)) = error_alert (failure_text ''Failed to create business unit.'' e)) \<and>
      (\<forall>r. \<not> bv_okLoading (v r)))"
proof -
  have h: "bu_handleCreate p = bu_create_begin p" using assms(1) by (simp add: bu_handleCreate_def)
  show ?thesis
    using assms(2,3) unfolding h Let_def
    by (auto simp: BusinessUnitsPage_def bu_create_begin_def bu_create_settled_def bu_defs error_alert_def Let_def
        split: sum.splits)
qed

text \<open>
  The handler is also bound to the Enter key and does not look at \<open>isCreating\<close>: a second Enter before the
  first call settles calls the backend again with the same name, so two units of one name can be created.
\<close>

lemma bu_double_enter_creates_twice:
  assumes "js_trim (bp_name p) \<noteq> []" and "bp_pending p = []"
  shows "bp_pending (bu_handleCreate (bu_handleCreate p)) = [js_trim (bp_name p), js_trim (bp_name p)] \<and>
    bv_okLoading (BusinessUnitsPage date owner (bu_handleCreate p))"
  using assms by (simp add: bu_handleCreate_def bu_create_begin_def BusinessUnitsPage_def)

end
