(* ===== verification/Staff_Page.thy ===== *)
theory Staff_Page
  imports Forms Staff_Store
begin

text \<open>
  The staff page (\<open>app/(protected)/staff/StaffPageClient.tsx\<close>) with its table and its two forms
  (\<open>presentation/components/staff\<close>). A handler is its part up to the call and its part after the answers of
  the call and of the reload that follows a success.
\<close>

record staff_page =
  sp_store :: staff_state
  sp_showCreateModal :: bool
  sp_showEnrollModal :: bool
  sp_createError :: string
  sp_enrollError :: string
  sp_isCreating :: bool
  sp_isEnrolling :: bool
  sp_isUpdatingRole :: "id option"
  sp_passwordModalName :: "string option"
  sp_ready :: bool

definition staff_page_init :: "staff_state \<Rightarrow> staff_page" where
  "staff_page_init store = \<lparr>sp_store = store, sp_showCreateModal = False, sp_showEnrollModal = False,
     sp_createError = [], sp_enrollError = [], sp_isCreating = False, sp_isEnrolling = False,
     sp_isUpdatingRole = None, sp_passwordModalName = None, sp_ready = False\<rparr>"

definition staff_page_effect :: "staff_member list \<Rightarrow> business_unit list \<Rightarrow> staff_page \<Rightarrow> staff_page" where
  "staff_page_effect initialStaff initialBus p =
     p\<lparr>sp_store := staff_hydrate initialStaff initialBus (sp_store p), sp_ready := True\<rparr>"

subsection \<open>Handlers\<close>

type_synonym staff_answers = "staff_member awaited \<times> staff_member list awaited \<times> business_unit list awaited"

definition create_begin :: "staff_page \<Rightarrow> staff_page" where
  "create_begin p = p\<lparr>sp_createError := [], sp_isCreating := True\<rparr>"

definition create_failure :: "staff_answers \<Rightarrow> string option" where
  "create_failure r = (case fst r of Inl e \<Rightarrow> Some (failure_text ''Failed to create staff.'' e) | Inr _ \<Rightarrow> None)"

definition create_settled :: "create_staff_input \<Rightarrow> staff_answers \<Rightarrow> staff_page \<Rightarrow> staff_page" where
  "create_settled values r p =
     (let (out, store) = staff_create (fst r) (fst (snd r)) (snd (snd r)) (sp_store p);
          q = p\<lparr>sp_store := store\<rparr> in
      (case out of
         Inr _ \<Rightarrow> q\<lparr>sp_showCreateModal := False,
                    sp_passwordModalName := Some (cs_firstName values @ '' '' @ cs_lastName values)\<rparr>
       | Inl e \<Rightarrow> q\<lparr>sp_createError := failure_text ''Failed to create staff.'' e\<rparr>)\<lparr>sp_isCreating := False\<rparr>)"

definition enroll_begin :: "staff_page \<Rightarrow> staff_page" where
  "enroll_begin p = p\<lparr>sp_enrollError := [], sp_isEnrolling := True\<rparr>"

text \<open>The person is looked up before the call.\<close>

definition enroll_person :: "enroll_existing_input \<Rightarrow> staff_page \<Rightarrow> person_option option" where
  "enroll_person values p = find (\<lambda>x. po_personId x = en_personId values) (ss_persons (sp_store p))"

definition enroll_failure :: "staff_answers \<Rightarrow> string option" where
  "enroll_failure r =
     (case fst r of Inl e \<Rightarrow> Some (failure_text ''Failed to enroll staff member.'' e) | Inr _ \<Rightarrow> None)"

definition enroll_settled :: "person_option option \<Rightarrow> staff_answers \<Rightarrow> staff_page \<Rightarrow> staff_page" where
  "enroll_settled person r p =
     (let (out, store) = staff_enrollExisting (fst r) (fst (snd r)) (snd (snd r)) (sp_store p);
          q = p\<lparr>sp_store := store\<rparr> in
      (case out of
         Inr _ \<Rightarrow> (case person of
             None \<Rightarrow> q\<lparr>sp_showEnrollModal := False\<rparr>
           | Some x \<Rightarrow> q\<lparr>sp_showEnrollModal := False,
                         sp_passwordModalName := Some (po_firstName x @ '' '' @ po_lastName x)\<rparr>)
       | Inl e \<Rightarrow> q\<lparr>sp_enrollError := failure_text ''Failed to enroll staff member.'' e\<rparr>)\<lparr>sp_isEnrolling := False\<rparr>)"

definition open_enroll_settled :: "person_option list awaited \<Rightarrow> staff_page \<Rightarrow> staff_page" where
  "open_enroll_settled res p =
     (let (out, store) = staff_fetchPersons res (sp_store p) in
      case out of
        Inl _ \<Rightarrow> p\<lparr>sp_store := store\<rparr>
      | Inr _ \<Rightarrow> p\<lparr>sp_store := store, sp_showEnrollModal := True\<rparr>)"

definition role_begin :: "id \<Rightarrow> staff_page \<Rightarrow> staff_page" where
  "role_begin personId p = p\<lparr>sp_isUpdatingRole := Some personId\<rparr>"

text \<open>A rejected role change is thrown on, past \<open>finally\<close>: nothing of it is shown.\<close>

definition role_settled :: "id \<Rightarrow> string \<Rightarrow> unit awaited \<Rightarrow> staff_page \<Rightarrow> staff_page" where
  "role_settled personId role res p =
     (case res of
        Inl _ \<Rightarrow> p
      | Inr _ \<Rightarrow> p\<lparr>sp_store := updateRole_end personId role (sp_store p)\<rparr>)\<lparr>sp_isUpdatingRole := None\<rparr>"

definition open_create :: "staff_page \<Rightarrow> staff_page" where
  "open_create p = p\<lparr>sp_showCreateModal := True\<rparr>"

definition cancel_create :: "staff_page \<Rightarrow> staff_page" where
  "cancel_create p = p\<lparr>sp_showCreateModal := False, sp_createError := []\<rparr>"

definition cancel_enroll :: "staff_page \<Rightarrow> staff_page" where
  "cancel_enroll p = p\<lparr>sp_showEnrollModal := False, sp_enrollError := []\<rparr>"

definition close_password :: "staff_page \<Rightarrow> staff_page" where
  "close_password p = p\<lparr>sp_passwordModalName := None\<rparr>"

interpretation staff_creation: submission create_begin "create_settled vals" sp_isCreating sp_createError
  create_failure for vals
  by unfold_locales
    (auto simp: create_begin_def create_settled_def create_failure_def staff_create_def Let_def split: sum.split)

interpretation enrolment: submission enroll_begin "enroll_settled person" sp_isEnrolling sp_enrollError
  enroll_failure for person
  by unfold_locales
    (auto simp: enroll_begin_def enroll_settled_def enroll_failure_def staff_enrollExisting_def Let_def
      split: sum.split option.split)

subsection \<open>StaffTable\<close>

record role_select =
  rl_value :: string
  rl_personId :: id
  rl_loading :: bool
  rl_options :: "string list"

record staff_row =
  sr_key :: id
  sr_name :: string
  sr_email :: string
  sr_buName :: string
  sr_role :: string
  sr_roleColor :: string
  sr_action :: "role_select option"

definition staff_roleColor :: "string dict" where
  "staff_roleColor = [''Owner'' \<mapsto> ''purple'', ''Admin'' \<mapsto> ''blue'', ''Staff'' \<mapsto> ''default'']"

definition staff_row :: "bool \<Rightarrow> id option \<Rightarrow> staff_member \<Rightarrow> staff_row" where
  "staff_row isOwner isUpdatingRole s =
     \<lparr>sr_key = sm_profileId s, sr_name = sm_firstName s @ '' '' @ sm_lastName s, sr_email = sm_email s,
      sr_buName = sm_buName s, sr_role = sm_role s,
      sr_roleColor = nullish (staff_roleColor (sm_role s)) ''default'',
      sr_action = (if isOwner \<and> sm_role s \<noteq> ''Owner''
        then Some \<lparr>rl_value = sm_role s, rl_personId = sm_personId s,
                   rl_loading = (isUpdatingRole = Some (sm_personId s)), rl_options = [''Admin'', ''Staff'']\<rparr>
        else None)\<rparr>"

definition StaffTable :: "staff_member list \<Rightarrow> bool \<Rightarrow> id option \<Rightarrow> staff_row list" where
  "StaffTable staff isOwner isUpdatingRole = map (staff_row isOwner isUpdatingRole) staff"

subsection \<open>The forms\<close>

definition staff_form_items :: "form_item list" where
  "staff_form_items =
     [\<lparr>fi_label = ''First Name'', fi_name = ''firstName'', fi_rules = [Required]\<rparr>,
      \<lparr>fi_label = ''Last Name'', fi_name = ''lastName'', fi_rules = [Required]\<rparr>,
      \<lparr>fi_label = ''Email'', fi_name = ''email'', fi_rules = [Required, Type_Email]\<rparr>,
      \<lparr>fi_label = ''Business Unit'', fi_name = ''buId'', fi_rules = [Required]\<rparr>,
      \<lparr>fi_label = ''Role'', fi_name = ''role'', fi_rules = []\<rparr>]"

definition enroll_form_items :: "form_item list" where
  "enroll_form_items =
     [\<lparr>fi_label = ''Person'', fi_name = ''personId'', fi_rules = [Required]\<rparr>,
      \<lparr>fi_label = ''Business Unit'', fi_name = ''buId'', fi_rules = [Required]\<rparr>,
      \<lparr>fi_label = ''BU-scoped Email'', fi_name = ''email'', fi_rules = [Required, Type_Email]\<rparr>,
      \<lparr>fi_label = ''Role'', fi_name = ''role'', fi_rules = []\<rparr>]"

text \<open>A form as it is shown: open, alert, busy, its items and the options of the selects.\<close>

record staff_form =
  sf_open :: bool
  sf_alert :: "string option"
  sf_busy :: bool
  sf_items :: "form_item list"
  sf_buOptions :: "(id \<times> string) list"
  sf_personOptions :: "(id \<times> string) list"
  sf_roleOptions :: "string list"

definition bu_options :: "business_unit list \<Rightarrow> (id \<times> string) list" where
  "bu_options bus = map (\<lambda>b. (bu_id b, bu_name b)) bus"

definition StaffForm :: "bool \<Rightarrow> business_unit list \<Rightarrow> bool \<Rightarrow> string \<Rightarrow> staff_form" where
  "StaffForm isOpen bus isCreating error =
     \<lparr>sf_open = isOpen, sf_alert = error_alert error, sf_busy = isCreating, sf_items = staff_form_items,
      sf_buOptions = bu_options bus, sf_personOptions = [], sf_roleOptions = [''Admin'', ''Staff'']\<rparr>"

definition EnrollExistingForm ::
  "bool \<Rightarrow> business_unit list \<Rightarrow> person_option list \<Rightarrow> bool \<Rightarrow> string \<Rightarrow> staff_form" where
  "EnrollExistingForm isOpen bus persons isSubmitting error =
     \<lparr>sf_open = isOpen, sf_alert = error_alert error, sf_busy = isSubmitting, sf_items = enroll_form_items,
      sf_buOptions = bu_options bus,
      sf_personOptions = map (\<lambda>p. (po_personId p, po_firstName p @ '' '' @ po_lastName p)) persons,
      sf_roleOptions = [''Admin'', ''Staff'']\<rparr>"

text \<open>\<open>filterOption\<close>: a search in the person select ignores case.\<close>

definition filterOption :: "string \<Rightarrow> string option \<Rightarrow> bool" where
  "filterOption input label = js_includes (js_lower (nullish label [])) (js_lower input)"

subsection \<open>The page\<close>

record staff_page_view =
  sv_buttons :: "string list"
  sv_rows :: "staff_row list"
  sv_tableLoading :: bool
  sv_create :: staff_form
  sv_enroll :: staff_form
  sv_password :: "(string \<times> string) option"

definition StaffPage ::
  "staff_member list \<Rightarrow> business_unit list \<Rightarrow> bool \<Rightarrow> string \<Rightarrow> staff_page \<Rightarrow> staff_page_view" where
  "StaffPage initialStaff initialBus isOwner defaultPassword p =
     (let bus = (if sp_ready p then ss_businessUnits (sp_store p) else initialBus) in
      \<lparr>sv_buttons = (if isOwner then [''Enroll in Another BU'', ''Add Staff Member''] else []),
       sv_rows = StaffTable (if sp_ready p then ss_staff (sp_store p) else initialStaff) isOwner (sp_isUpdatingRole p),
       sv_tableLoading = ss_isLoading (sp_store p),
       sv_create = StaffForm (sp_showCreateModal p) bus (sp_isCreating p) (sp_createError p),
       sv_enroll = EnrollExistingForm (sp_showEnrollModal p) bus (ss_persons (sp_store p)) (sp_isEnrolling p) (sp_enrollError p),
       sv_password = (if truthy (sp_passwordModalName p)
         then Some (nullish (sp_passwordModalName p) [], defaultPassword) else None)\<rparr>)"

lemma staff_create_load:
  "staff_create (Inr m) (Inr staff) (Inr bus) s = (Inr (), s\<lparr>ss_staff := staff, ss_businessUnits := bus,
     ss_isLoading := False, ss_error := None\<rparr>)"
  by (simp add: staff_defs)

subsection \<open>Properties\<close>

text \<open>
  Adding a person on the staff page, new or enrolled: if the backend accepts, the modal closes, the table
  shows the reloaded staff and the default password is shown with the person's name, even when only the
  reload fails (the table is kept then). If it refuses, the modal stays open with the failure, nobody is
  announced and the table is unchanged. The form is free again in every case.
\<close>

lemma staff_added:
  assumes "sp_ready p" and "sp_showCreateModal p" and "sp_passwordModalName p = None"
  shows "(let v = (\<lambda>r. StaffPage is ib owner pw (create_settled values r (create_begin p))) in
      (\<forall>m staff bus. sv_rows (v (Inr m, Inr staff, Inr bus)) = StaffTable staff owner (sp_isUpdatingRole p) \<and>
         sf_buOptions (sv_create (v (Inr m, Inr staff, Inr bus))) = bu_options bus) \<and>
      (\<forall>m rs rb. \<not> sf_open (sv_create (v (Inr m, rs, rb))) \<and> sf_alert (sv_create (v (Inr m, rs, rb))) = None \<and>
         sv_password (v (Inr m, rs, rb)) = Some (cs_firstName values @ '' '' @ cs_lastName values, pw)) \<and>
      (\<forall>m e rb. sv_rows (v (Inr m, Inl e, rb)) = sv_rows (StaffPage is ib owner pw p)) \<and>
      (\<forall>e rs rb. sf_open (sv_create (v (Inl e, rs, rb))) \<and> sv_password (v (Inl e, rs, rb)) = None \<and>
         sf_alert (sv_create (v (Inl e, rs, rb))) = error_alert (failure_text ''Failed to create staff.'' e) \<and>
         sv_rows (v (Inl e, rs, rb)) = sv_rows (StaffPage is ib owner pw p)) \<and>
      (\<forall>r. \<not> sf_busy (sv_create (v r))))"
proof -
  have load: "ss_staff (staff_fetch (Inr staff) (Inr bus) s) = staff" "ss_businessUnits (staff_fetch (Inr staff) (Inr bus) s) = bus"
    "ss_staff (staff_fetch (Inl e) rb s) = ss_staff s" for staff bus e rb s
    by (simp_all add: staff_defs)
  show ?thesis
    using assms unfolding Let_def
    by (auto simp: StaffPage_def StaffForm_def create_begin_def create_settled_def staff_create_def load
        error_alert_def Let_def split: sum.splits)
qed

text \<open>
  Changing a role in the table: only an owner gets a select, on every row but an owner's; during the change
  the selects of exactly that person's rows load. When the backend accepts, every row of the person shows the
  new role and the other rows are as before; when it refuses, the table is as before and no alert appears.
\<close>

lemma role_change_on_page:
  assumes "sp_ready p"
  shows "let table = (\<lambda>q. sv_rows (StaffPage is ib owner pw q)); q = role_begin k p;
             rows = ss_staff (sp_store p) in
    (\<forall>i < length rows.
       (sr_action (table q ! i) \<noteq> None \<longleftrightarrow> owner \<and> sm_role (rows ! i) \<noteq> ''Owner'') \<and>
       (\<forall>a. sr_action (table q ! i) = Some a \<longrightarrow> (rl_loading a \<longleftrightarrow> sm_personId (rows ! i) = k)) \<and>
       sr_role (table (role_settled k r (Inr ()) q) ! i) = (if sm_personId (rows ! i) = k then r else sm_role (rows ! i)) \<and>
       sr_role (table (role_settled k r (Inl e) q) ! i) = sm_role (rows ! i)) \<and>
    length (table (role_settled k r (Inr ()) q)) = length rows \<and>
    sf_alert (sv_create (StaffPage is ib owner pw (role_settled k r (Inl e) q))) =
      sf_alert (sv_create (StaffPage is ib owner pw p)) \<and>
    sp_isUpdatingRole (role_settled k r (Inl e) q) = None"
  using assms
  by (auto simp: Let_def StaffPage_def StaffTable_def staff_row_def role_begin_def role_settled_def
      updateRole_end_def StaffForm_def)

end
