(* ===== verification/Chat_Access_Page.thy ===== *)
theory Chat_Access_Page
  imports Forms Chat_Store Business_Unit_Store
begin

text \<open>
  The page on which an owner grants and revokes chat access (\<open>app/(protected)/chat-access/page.tsx\<close>), with
  the two stores it reads. Selecting a business unit runs the effect that loads its workspace.
\<close>

record access_page =
  ap_isOwner :: bool
  ap_chat :: chat_state
  ap_buStore :: bu_state
  ap_selectedBuId :: id
  ap_isUpdating :: "id option"

definition access_mount :: "access_page \<Rightarrow> access_page" where
  "access_mount p =
     (if length (bs_businessUnits (ap_buStore p)) = 0 then p\<lparr>ap_buStore := bu_fetch_begin (ap_buStore p)\<rparr> else p)"

definition access_select :: "id \<Rightarrow> access_page \<Rightarrow> access_page" where
  "access_select b p =
     (let q = p\<lparr>ap_selectedBuId := b\<rparr> in
      if b \<noteq> ap_selectedBuId p \<and> b \<noteq> [] then q\<lparr>ap_chat := fetchWorkspace_begin (ap_chat q)\<rparr> else q)"

definition access_workspace_settled :: "id \<Rightarrow> chat_workspace awaited \<Rightarrow> access_page \<Rightarrow> access_page" where
  "access_workspace_settled b res p = p\<lparr>ap_chat := fetchWorkspace_end b res (ap_chat p)\<rparr>"

text \<open>\<open>handleAccessToggle\<close>; a rejection is thrown on, past \<open>finally\<close>. The unit is the one of the click.\<close>

definition toggle_begin :: "id \<Rightarrow> access_page \<Rightarrow> access_page" where
  "toggle_begin personId p = p\<lparr>ap_isUpdating := Some personId\<rparr>"

definition toggle_settled :: "id \<Rightarrow> id \<Rightarrow> bool \<Rightarrow> unit awaited \<Rightarrow> access_page \<Rightarrow> access_page" where
  "toggle_settled buId personId hasAccess res p =
     p\<lparr>ap_chat := updateAccess_end buId personId hasAccess res (ap_chat p), ap_isUpdating := None\<rparr>"

record access_button =
  ab_danger :: bool
  ab_click :: "id \<times> bool"
  ab_loading :: bool
  ab_label :: string

record access_row =
  ar_key :: id
  ar_name :: string
  ar_role :: "string \<times> string"
  ar_access :: "string \<times> string"
  ar_action :: "access_button option"

definition access_row :: "bool \<Rightarrow> id option \<Rightarrow> chat_member \<Rightarrow> access_row" where
  "access_row isOwner isUpdating m =
     \<lparr>ar_key = mb_personId m, ar_name = mb_firstName m @ '' '' @ mb_lastName m,
      ar_role = (if mb_role m = ''Admin'' then ''purple'' else ''default'', mb_role m),
      ar_access = (if mb_hasAccess m then (''green'', ''Granted'') else (''red'', ''Denied'')),
      ar_action = (if isOwner \<and> mb_role m \<noteq> ''Admin''
        then Some \<lparr>ab_danger = mb_hasAccess m, ab_click = (mb_personId m, \<not> mb_hasAccess m),
                   ab_loading = (isUpdating = Some (mb_personId m)),
                   ab_label = (if mb_hasAccess m then ''Revoke'' else ''Grant'') @ '' Access''\<rparr>
        else None)\<rparr>"

record access_card =
  ac_title :: string
  ac_workspaceId :: id
  ac_rows :: "access_row list"
  ac_loading :: bool

record access_view =
  av_options :: "(id \<times> string) list"
  av_optionsLoading :: bool
  av_alert :: "string option"
  av_card :: "access_card option"

definition ChatAccessPage :: "access_page \<Rightarrow> access_view" where
  "ChatAccessPage p =
     \<lparr>av_options = map (\<lambda>b. (bu_id b, bu_name b)) (bs_businessUnits (ap_buStore p)),
      av_optionsLoading = bs_isLoading (ap_buStore p),
      av_alert = (if ap_selectedBuId p \<noteq> [] \<and> truthy (ct_error (ap_chat p)) then ct_error (ap_chat p) else None),
      av_card = (if ap_selectedBuId p = [] then None
        else map_option (\<lambda>w. \<lparr>ac_title = ''Chat Workspace: '' @ ws_buName w, ac_workspaceId = ws_workspaceId w,
            ac_rows = map (access_row (ap_isOwner p) (ap_isUpdating p)) (ws_members w),
            ac_loading = ct_isLoading (ap_chat p)\<rparr>) (ct_workspaces (ap_chat p) (ap_selectedBuId p)))\<rparr>"

lemma updateAccess_workspace:
  "ct_workspaces s b = Some w \<Longrightarrow>
   ct_workspaces (updateAccess_end b k h (Inr ()) s) b = Some (w\<lparr>ws_members :=
      map (\<lambda>m. if mb_personId m = k then m\<lparr>mb_hasAccess := h\<rparr> else m) (ws_members w)\<rparr>)"
  by (simp add: updateAccess_end_def)

subsection \<open>Properties\<close>

text \<open>
  Toggling access: an owner gets a button on the row of every member that is no admin. When the backend
  accepts its click, that person's rows flip between granted and denied, with the button offering the reverse,
  and the other rows are as before; when it refuses, all rows are as before. The button is free either way.
\<close>

lemma access_toggle_flips:
  assumes "ap_isOwner p" and "ap_selectedBuId p = b" and "b \<noteq> []" and "ct_workspaces (ap_chat p) b = Some w"
    and "i < length (ws_members w)" and "mb_role (ws_members w ! i) \<noteq> ''Admin''"
    and "k = mb_personId (ws_members w ! i)" and "g = mb_hasAccess (ws_members w ! i)"
  shows "let rows = (\<lambda>q. case av_card (ChatAccessPage q) of None \<Rightarrow> [] | Some c \<Rightarrow> ac_rows c);
             accepted = toggle_settled b k (\<not> g) (Inr ()) (toggle_begin k p);
             refused = toggle_settled b k (\<not> g) (Inl e) (toggle_begin k p) in
    map_option ab_click (ar_action (rows p ! i)) = Some (k, \<not> g) \<and>
    map_option ab_loading (ar_action (rows (toggle_begin k p) ! i)) = Some True \<and>
    ar_access (rows accepted ! i) = (if g then (''red'', ''Denied'') else (''green'', ''Granted'')) \<and>
    map_option ab_click (ar_action (rows accepted ! i)) = Some (k, g) \<and>
    map_option ab_loading (ar_action (rows accepted ! i)) = Some False \<and>
    (\<forall>j < length (ws_members w). mb_personId (ws_members w ! j) \<noteq> k \<longrightarrow>
       ar_access (rows accepted ! j) = ar_access (rows p ! j)) \<and>
    (\<forall>j < length (ws_members w). ar_access (rows refused ! j) = ar_access (rows p ! j)) \<and>
    length (rows accepted) = length (rows p)"
proof -
  have acc: "ct_workspaces (ap_chat (toggle_settled b k h (Inr ()) (toggle_begin k p))) b = Some (w\<lparr>ws_members :=
      map (\<lambda>m. if mb_personId m = k then m\<lparr>mb_hasAccess := h\<rparr> else m) (ws_members w)\<rparr>)" for h
    using updateAccess_workspace [OF assms(4)] by (simp add: toggle_settled_def toggle_begin_def)
  have ref: "ct_workspaces (ap_chat (toggle_settled b k h (Inl e) (toggle_begin k p))) b = Some w" for h
    using assms(4) by (simp add: toggle_settled_def toggle_begin_def updateAccess_end_def)
  have fields: "ap_selectedBuId (toggle_settled b k h r (toggle_begin k p)) = b"
    "ap_isOwner (toggle_settled b k h r (toggle_begin k p))"
    "ap_isUpdating (toggle_settled b k h r (toggle_begin k p)) = None" for h r
    using assms(1,2) by (simp_all add: toggle_settled_def toggle_begin_def)
  show ?thesis
    using assms acc [of "\<not> g"] ref [of "\<not> g"] fields [of "\<not> g"]
    by (auto simp: Let_def ChatAccessPage_def access_row_def toggle_begin_def)
qed

definition sample_workspace :: chat_workspace where
  "sample_workspace = \<lparr>ws_workspaceId = ''w'', ws_buId = ''b'', ws_buName = ''Spa'', ws_members =
     [\<lparr>mb_personId = ''p2'', mb_firstName = ''C'', mb_lastName = ''D'', mb_role = ''Member'', mb_hasAccess = True\<rparr>]\<rparr>"

end
