(* ===== verification/Server_Pages.thy ===== *)
theory Server_Pages
  imports Api_Client Session_Navigation Login_Page
begin

text \<open>
  The server components of the protected pages (\<open>app/(protected)/dashboard/page.tsx\<close>, \<open>staff/page.tsx\<close>,
  \<open>business-units/page.tsx\<close>) and the content of the dashboard (\<open>DashboardContent.tsx\<close>). A component reads the
  user from the cookie and the data from the backend; \<open>Inl\<close> is a rendering that fails because a fetch does.
\<close>

text \<open>\<open>user?.role === r\<close>.\<close>

definition role_is :: "json option \<Rightarrow> user_role \<Rightarrow> bool" where
  "role_is user r = (case user of None \<Rightarrow> False | Some v \<Rightarrow> js_prop v ''role'' = Some (JStr (role_name r)))"

definition server_token :: "nat \<Rightarrow> jar \<Rightarrow> string option" where
  "server_token now j = cookie_value now j ''auth_token''"

text \<open>\<open>Promise.all\<close> of two fetches; which of two failures is reported depends on their timing.\<close>

fun both_fetched :: "fetch_error + 'a \<Rightarrow> fetch_error + 'b \<Rightarrow> fetch_error + 'a \<times> 'b" where
  "both_fetched (Inr x) (Inr y) = Inr (x, y)"
| "both_fetched (Inl e) _ = Inl e"
| "both_fetched (Inr x) (Inl e) = Inl e"

subsection \<open>Dashboard\<close>

definition canViewStaff :: "json option \<Rightarrow> bool" where
  "canViewStaff user \<longleftrightarrow> role_is user Owner \<or> role_is user Admin"

text \<open>The paths the dashboard asks the backend for.\<close>

definition dashboard_fetches :: "json option \<Rightarrow> string list" where
  "dashboard_fetches user = [''business-units''] @ (if canViewStaff user then [''staff''] else [])"

record dashboard_props =
  dp_user :: "json option"
  dp_bus :: "json option"
  dp_staff :: "json option"

definition DashboardPage :: "bff_env \<Rightarrow> backend \<Rightarrow> nat \<Rightarrow> jar \<Rightarrow> fetch_error + dashboard_props" where
  "DashboardPage env backend now j =
     (let user = getAuthUser now j; token = server_token now j in
      case both_fetched (serverFetch env backend token ''business-units'')
             (if canViewStaff user then serverFetch env backend token ''staff'' else Inr (Some (JArr []))) of
        Inl e \<Rightarrow> Inl e
      | Inr (bus, staff) \<Rightarrow> Inr \<lparr>dp_user = user, dp_bus = bus, dp_staff = staff\<rparr>)"

record dashboard_content =
  dc_greeting :: "json option \<times> json option"
  dc_businessUnits :: nat
  dc_staffMembers :: nat
  dc_role :: json
  dc_units :: "(json option \<times> string) list"

definition list_prop :: "json option \<Rightarrow> json list" where
  "list_prop v = json_items (json_nullish v JNull)"

definition DashboardContent :: "(json option \<Rightarrow> string) \<Rightarrow> dashboard_props \<Rightarrow> dashboard_content" where
  "DashboardContent date d =
     (let field = (\<lambda>k. Option.bind (dp_user d) (\<lambda>u. js_prop u k)) in
      \<lparr>dc_greeting = (field ''firstName'', field ''lastName''),
       dc_businessUnits = length (list_prop (dp_bus d)),
       dc_staffMembers = length (list_prop (dp_staff d)),
       dc_role = json_nullish (field ''role'') (JStr []),
       dc_units = map (\<lambda>b. (js_prop b ''name'', date (js_prop b ''createdAt''))) (list_prop (dp_bus d))\<rparr>)"

subsection \<open>Staff and business units\<close>

record staff_props =
  tp_initialStaff :: "json option"
  tp_initialBus :: "json option"
  tp_isOwner :: bool
  tp_defaultPassword :: string

definition StaffServerPage :: "bff_env \<Rightarrow> string option \<Rightarrow> backend \<Rightarrow> nat \<Rightarrow> jar \<Rightarrow> fetch_error + staff_props" where
  "StaffServerPage env defaultPassword backend now j =
     (let token = server_token now j in
      case both_fetched (serverFetch env backend token ''staff'') (serverFetch env backend token ''business-units'') of
        Inl e \<Rightarrow> Inl e
      | Inr (staff, bus) \<Rightarrow> Inr \<lparr>tp_initialStaff = staff, tp_initialBus = bus,
          tp_isOwner = role_is (getAuthUser now j) Owner, tp_defaultPassword = nullish defaultPassword ''P@ssw0rd''\<rparr>)"

definition BusinessUnitsServerPage :: "bff_env \<Rightarrow> backend \<Rightarrow> nat \<Rightarrow> jar \<Rightarrow> fetch_error + json option \<times> bool" where
  "BusinessUnitsServerPage env backend now j =
     (case serverFetch env backend (server_token now j) ''business-units'' of
        Inl e \<Rightarrow> Inl e
      | Inr bus \<Rightarrow> Inr (bus, role_is (getAuthUser now j) Owner))"

lemma getAuthUser_typed:
  assumes "cookie_value now j ''user_info'' = Some (stringify (auth_user_json u))"
  shows "getAuthUser now j = Some (auth_user_json u)"
proof -
  have "json_parse (stringify (auth_user_json u)) = Some (auth_user_json u)"
    by (rule js.decode_encode) simp
  moreover have "stringify (auth_user_json u) \<noteq> []" by (simp add: auth_user_json_def)
  moreover have "auth_user_json u \<noteq> JNull" by (simp add: auth_user_json_def)
  ultimately show ?thesis using assms by (simp add: getAuthUser_def)
qed

lemma role_is_typed: "role_is (Some (auth_user_json u)) r \<longleftrightarrow> au_role u = role_name r"
  by (simp add: role_is_def auth_user_json_def)

subsection \<open>Properties\<close>

text \<open>
  The server asks for the staff list on the dashboard only for a user whose cookie says Owner or Admin: for
  any other user, a backend that refuses that list to them (or fails on it) does not break the dashboard, which
  then shows no staff; for an owner or admin it does break it.
\<close>

lemma dashboard_staff_guard:
  assumes "cookie_value now j ''user_info'' = Some (stringify (auth_user_json u))"
    and "backend (server_request env (server_token now j) ''business-units'') = Some (\<lparr>rs_status = 200, rs_body = text\<rparr>)"
    and "json_parse text = Some (JArr bus)"
    and "backend (server_request env (server_token now j) ''staff'') = Some (\<lparr>rs_status = 403, rs_body = denied\<rparr>)"
  shows "if au_role u \<in> {role_name Owner, role_name Admin}
    then DashboardPage env backend now j = Inl (Backend_Error 403)
    else \<exists>d. DashboardPage env backend now j = Inr d \<and>
      (let c = DashboardContent date d in
         dc_staffMembers c = 0 \<and> dc_businessUnits c = length bus \<and> dc_role c = JStr (au_role u) \<and>
         dc_greeting c = (Some (JStr (au_firstName u)), Some (JStr (au_lastName u))))"
proof -
  have user: "getAuthUser now j = Some (auth_user_json u)" by (rule getAuthUser_typed [OF assms(1)])
  have fetched: "serverFetch env backend (server_token now j) ''business-units'' = Inr (Some (JArr bus))"
    "serverFetch env backend (server_token now j) ''staff'' = Inl (Backend_Error 403)"
    using assms(2-4) by (simp_all add: serverFetch_def is_ok_def)
  show ?thesis
    using user fetched
    by (auto simp: DashboardPage_def canViewStaff_def role_is_typed Let_def DashboardContent_def list_prop_def)
      (auto simp: auth_user_json_def)
qed

end
