(* ===== verification/Protected_Layout.thy ===== *)
theory Protected_Layout
  imports Server_Pages
begin

text \<open>
  The frame of the protected pages (\<open>app/(protected)/ProtectedLayoutClient.tsx\<close>): the menu by role, signing
  out, and the two destructive operations of an owner behind a confirmation. Messages and the calls on the
  router are recorded in their order.
\<close>

datatype reset_kind = Reset_Db | Reset_Redis

datatype layout_effect = Success_Message string | Error_Message string | Goto string | Refresh_Page

record layout_state =
  ly_auth :: auth_state
  ly_resetting :: bool
  ly_resettingRedis :: bool
  ly_dialog :: "reset_kind option"
  ly_effects :: "layout_effect list"

definition layout_init :: "auth_state \<Rightarrow> layout_state" where
  "layout_init auth = \<lparr>ly_auth = auth, ly_resetting = False, ly_resettingRedis = False, ly_dialog = None, ly_effects = []\<rparr>"

definition layout_mount :: "auth_user \<Rightarrow> layout_state \<Rightarrow> layout_state" where
  "layout_mount user s = s\<lparr>ly_auth := protected_layout_effect user (ly_auth s)\<rparr>"

definition handleLogout :: "unit awaited \<Rightarrow> layout_state \<Rightarrow> layout_state" where
  "handleLogout res s =
     (let (out, auth) = auth_logout res (ly_auth s); t = s\<lparr>ly_auth := auth\<rparr> in
      case out of Inl _ \<Rightarrow> t | Inr _ \<Rightarrow> t\<lparr>ly_effects := ly_effects t @ [Goto ''/login'', Refresh_Page]\<rparr>)"

subsection \<open>Resets\<close>

definition handleReset :: "reset_kind \<Rightarrow> layout_state \<Rightarrow> layout_state" where
  "handleReset k s = s\<lparr>ly_dialog := Some k\<rparr>"

text \<open>What the confirmation says before either operation.\<close>

record confirm_dialog =
  cd_title :: string
  cd_content :: string
  cd_okText :: string
  cd_danger :: bool
  cd_cancelText :: string

fun confirm_text :: "reset_kind \<Rightarrow> confirm_dialog" where
  "confirm_text Reset_Db =
     \<lparr>cd_title = ''Reset database to initial state?'',
      cd_content = ''This will permanently delete all companies, business units, staff members, chat messages, and other data, '' @
        ''then restore the original demo seed. This action cannot be undone.'',
      cd_okText = ''Yes, reset'', cd_danger = True, cd_cancelText = ''Cancel''\<rparr>"
| "confirm_text Reset_Redis =
     \<lparr>cd_title = ''Flush Redis cache?'',
      cd_content = ''This will flush all Redis databases, clearing cached data and pub/sub state. Active chat connections '' @
        ''will not be terminated but in-flight messages may be lost.'',
      cd_okText = ''Yes, flush'', cd_danger = True, cd_cancelText = ''Cancel''\<rparr>"

definition dialog_cancel :: "layout_state \<Rightarrow> layout_state" where
  "dialog_cancel s = s\<lparr>ly_dialog := None\<rparr>"

fun reset_call :: "reset_kind \<Rightarrow> api_call" where
  "reset_call Reset_Db = axios_post ''/admin/reset-db'' None"
| "reset_call Reset_Redis = axios_post ''/admin/reset-redis'' None"

fun set_resetting :: "reset_kind \<Rightarrow> bool \<Rightarrow> layout_state \<Rightarrow> layout_state" where
  "set_resetting Reset_Db b s = s\<lparr>ly_resetting := b\<rparr>"
| "set_resetting Reset_Redis b s = s\<lparr>ly_resettingRedis := b\<rparr>"

text \<open>\<open>onOk\<close>: the call is made only from the dialog; the dialog closes when the handler has finished.\<close>

definition dialog_ok :: "layout_state \<Rightarrow> (layout_state \<times> api_call) option" where
  "dialog_ok s = (case ly_dialog s of
     None \<Rightarrow> None
   | Some k \<Rightarrow> Some (set_resetting k True s, reset_call k))"

fun reset_effects :: "reset_kind \<Rightarrow> 'a awaited \<Rightarrow> layout_effect list" where
  "reset_effects Reset_Db (Inr _) = [Success_Message ''Database reset to initial state.'', Refresh_Page]"
| "reset_effects Reset_Db (Inl _) = [Error_Message ''Failed to reset database. Please try again.'']"
| "reset_effects Reset_Redis (Inr _) = [Success_Message ''Redis flushed successfully.'']"
| "reset_effects Reset_Redis (Inl _) = [Error_Message ''Failed to flush Redis. Please try again.'']"

definition reset_settled :: "reset_kind \<Rightarrow> 'a awaited \<Rightarrow> layout_state \<Rightarrow> layout_state" where
  "reset_settled k res s =
     (set_resetting k False s)\<lparr>ly_effects := ly_effects s @ reset_effects k res, ly_dialog := None\<rparr>"

subsection \<open>The frame\<close>

definition is_owner :: "auth_user \<Rightarrow> bool" where
  "is_owner u \<longleftrightarrow> au_role u = ''Owner''"

definition is_owner_or_admin :: "auth_user \<Rightarrow> bool" where
  "is_owner_or_admin u \<longleftrightarrow> is_owner u \<or> au_role u = ''Admin''"

definition menuItems :: "auth_user \<Rightarrow> (string \<times> string) list" where
  "menuItems u =
     [(''/dashboard'', ''Dashboard''), (''/business-units'', ''Business Units'')] @
     (if is_owner_or_admin u then [(''/staff'', ''Staff Management'')] else []) @
     [(''/chat'', ''Chat'')] @
     (if is_owner u then [(''/chat-access'', ''Chat Access'')] else []) @
     [(''/change-password'', ''Change Password'')]"

record layout_view =
  yv_name :: string
  yv_roleTag :: string
  yv_menu :: "(string \<times> string) list"
  yv_selected :: string
  yv_resets :: "(reset_kind \<times> bool) list"

definition ProtectedLayout :: "auth_user \<Rightarrow> string \<Rightarrow> layout_state \<Rightarrow> layout_view" where
  "ProtectedLayout u pathname s =
     \<lparr>yv_name = au_firstName u @ '' '' @ au_lastName u, yv_roleTag = au_role u, yv_menu = menuItems u,
      yv_selected = pathname,
      yv_resets = (if is_owner u then [(Reset_Db, ly_resetting s), (Reset_Redis, ly_resettingRedis s)] else [])\<rparr>"

definition menu_keys :: "auth_user \<Rightarrow> string set" where
  "menu_keys u = fst ` set (menuItems u)"

lemma menu_keys_role:
  "au_role u = role_name r \<Longrightarrow> menu_keys u =
     {''/dashboard'', ''/business-units'', ''/chat'', ''/change-password''} \<union>
     (if Admin \<le> r then {''/staff''} else {}) \<union> (if r = Owner then {''/chat-access''} else {})"
  by (cases r) (auto simp: menu_keys_def menuItems_def is_owner_def is_owner_or_admin_def less_eq_user_role_def)

lemma visit_menu_key:
  assumes "truthy (cookie_value now j ''auth_token'')" and "opt_truthy (getAuthUser now j)"
    and "k \<in> {''/dashboard'', ''/business-units'', ''/chat'', ''/change-password'', ''/staff'', ''/chat-access''}"
  shows "\<exists>pg. map_of page_table k = Some pg \<and> protected_page pg \<and> visit now j k = Shown pg"
proof -
  have mw: "run_middleware k (cookie_value now j ''auth_token'') = Mw_Next"
    using assms(1,3)
    by (elim insertE emptyE; simp add: run_middleware_def middleware_def public_paths_def starts_with_def Let_def)
  have "\<exists>pg. map_of page_table k = Some pg \<and> protected_page pg \<and> pg \<noteq> Root_Page"
    using assms(3) by (elim insertE emptyE; simp add: page_table_def)
  with mw assms(2) show ?thesis
    by (auto simp: visit_def render_page_def protectedLayout_def)
qed

subsection \<open>Properties\<close>

text \<open>
  The menu grows with the role: a role of higher rank sees every entry a lower one sees. With a live session
  every entry leads, without a redirect, to a protected page. The staff entry is there exactly when the
  dashboard fetches the staff list for that user, and the reset buttons exactly for an owner.
\<close>

lemma menu_by_role:
  assumes "au_role u = role_name r" and "au_role v = role_name r'" and "r \<le> r'"
    and "truthy (cookie_value now j ''auth_token'')" and "opt_truthy (getAuthUser now j)"
  shows "menu_keys u \<subseteq> menu_keys v \<and>
    (\<forall>k \<in> menu_keys v. \<exists>pg. map_of page_table k = Some pg \<and> protected_page pg \<and> visit now j k = Shown pg) \<and>
    (''/staff'' \<in> menu_keys v \<longleftrightarrow> ''staff'' \<in> set (dashboard_fetches (Some (auth_user_json v)))) \<and>
    (yv_resets (ProtectedLayout v path s) \<noteq> [] \<longleftrightarrow> r' = Owner)"
proof (intro conjI)
  show "menu_keys u \<subseteq> menu_keys v"
    unfolding menu_keys_role [OF assms(1)] menu_keys_role [OF assms(2)]
    using assms(3) by (cases r; cases r') (auto simp: less_eq_user_role_def)
  show "\<forall>k \<in> menu_keys v. \<exists>pg. map_of page_table k = Some pg \<and> protected_page pg \<and> visit now j k = Shown pg"
  proof
    fix k
    assume "k \<in> menu_keys v"
    then have "k \<in> {''/dashboard'', ''/business-units'', ''/chat'', ''/change-password'', ''/staff'', ''/chat-access''}"
      unfolding menu_keys_role [OF assms(2)] by (auto split: if_splits)
    then show "\<exists>pg. map_of page_table k = Some pg \<and> protected_page pg \<and> visit now j k = Shown pg"
      by (rule visit_menu_key [OF assms(4,5)])
  qed
  show "''/staff'' \<in> menu_keys v \<longleftrightarrow> ''staff'' \<in> set (dashboard_fetches (Some (auth_user_json v)))"
    unfolding menu_keys_role [OF assms(2)]
    by (cases r') (simp_all add: dashboard_fetches_def canViewStaff_def role_is_typed assms(2) less_eq_user_role_def)
  show "yv_resets (ProtectedLayout v path s) \<noteq> [] \<longleftrightarrow> r' = Owner"
    by (cases r') (simp_all add: ProtectedLayout_def is_owner_def assms(2))
qed

text \<open>
  Nothing is reset without the confirmation, and one confirmation makes one call; when it settles exactly one
  message tells its outcome, the button is free and the dialog closed. Only a successful database reset reloads.
\<close>

lemma reset_confirmed:
  assumes "ly_dialog s = None"
  shows "dialog_ok s = None \<and> dialog_ok (dialog_cancel (handleReset k s)) = None \<and>
    (\<exists>t. dialog_ok (handleReset k s) = Some (t, reset_call k) \<and>
       (let d = reset_settled k res t in
          ly_dialog d = None \<and>
          (case k of Reset_Db \<Rightarrow> ly_resetting t \<and> \<not> ly_resetting d | Reset_Redis \<Rightarrow> ly_resettingRedis t \<and> \<not> ly_resettingRedis d) \<and>
          ly_auth d = ly_auth s \<and>
          (\<exists>m. ly_effects d = ly_effects s @ m #
                 (if k = Reset_Db \<and> (\<exists>x. res = Inr x) then [Refresh_Page] else []) \<and>
               ((\<exists>x. m = Success_Message x) \<longleftrightarrow> (\<exists>x. res = Inr x)) \<and> ((\<exists>x. m = Error_Message x) \<longleftrightarrow> (\<exists>e. res = Inl e)))))"
  using assms
  by (cases k; cases res)
    (simp_all add: dialog_ok_def handleReset_def dialog_cancel_def reset_settled_def Let_def)

end
