(* ===== verification/Session_Lifetime.thy ===== *)
theory Session_Lifetime
  imports Session_Navigation
begin

text \<open>
  How long a session lasts. Only a login reply sets the session cookies, with the life time of the login
  route, and nothing prolongs them: the expiry of both cookies is bounded by the time of the last login, and
  a browser in which nobody signs in is signed out once that hour has passed, whatever else it asked for.
\<close>

definition expiry_le :: "nat \<Rightarrow> jar \<Rightarrow> bool" where
  "expiry_le b j \<longleftrightarrow> (\<forall>n \<in> {''auth_token'', ''user_info''}. \<forall>v e. j n = Some (v, e) \<longrightarrow> e \<le> b)"

definition lifetime_bounded :: "nat \<times> jar \<Rightarrow> bool" where
  "lifetime_bounded s \<longleftrightarrow> expiry_le (fst s + cookie_max_age) (snd s)"

lemma expiry_le_mono: "expiry_le b j \<Longrightarrow> b \<le> c \<Longrightarrow> expiry_le c j"
  by (fastforce simp: expiry_le_def)

lemma expiry_le_cleared: "expiry_le b (j(''auth_token'' := None, ''user_info'' := None))"
  by (simp add: expiry_le_def)

lemma expiry_le_login:
  assumes "login_post env backend body = Inr r" "expiry_le b j" "now + cookie_max_age \<le> b"
  shows "expiry_le b (store_cookies now (nr_cookies r) j)"
proof (cases "nr_cookies r = []")
  case True
  with assms(2) show ?thesis by simp
next
  case False
  from assms(1) False obtain res where reply: "login_reply env res = Inr r"
    by (auto simp: login_post_def split: sum.splits option.splits)
  from reply False obtain tok info where cookies: "nr_cookies r =
       [session_cookie env ''auth_token'' tok cookie_max_age, session_cookie env ''user_info'' info cookie_max_age]"
    by (auto elim: login_reply_cases)
  show ?thesis
    using assms(3) unfolding cookies store_session_cookies
    by (simp add: expiry_le_def cookie_max_age_def)
qed

lemma expiry_le_step:
  assumes "session_step s e t" "expiry_le b (snd s)" "e = Login_Reply \<Longrightarrow> fst s + cookie_max_age \<le> b"
  shows "expiry_le b (snd t)"
  using assms
proof cases
  case (ss_login env backend body r now j)
  with assms(2,3) show ?thesis by (simp add: expiry_le_login)
next
  case (ss_logout now j env)
  then show ?thesis
    by (simp add: logout_post_def store_session_cookies expiry_le_cleared del: store_cookies_simps)
next
  case (ss_proxy env backend now j req path r)
  then have "nr_cookies r \<in> {[], [expired_cookie ''auth_token'', expired_cookie ''user_info'']}"
    by (auto simp: proxy_route_def dest!: proxyRequest_cookies split: if_splits)
  with ss_proxy assms(2) show ?thesis
    by (auto simp: store_expired_cookies expiry_le_cleared simp del: store_cookies_simps(2))
next
  case (ss_onboard env backend body r now j)
  then have "nr_cookies r = []"
    by (auto simp: onboard_post_def split: sum.splits option.splits if_splits)
  with ss_onboard assms(2) show ?thesis by simp
qed (use assms(2) in simp)

lemma session_step_time: "session_step s e t \<Longrightarrow> fst s \<le> fst t"
  by (auto elim: session_step.cases)

interpretation lifetime: guarded_system session_start session_step lifetime_bounded
proof
  show "session_start s \<Longrightarrow> lifetime_bounded s" for s
    by (auto simp: session_start_def lifetime_bounded_def expiry_le_def)
  show "lifetime_bounded s \<Longrightarrow> session_step s e t \<Longrightarrow> lifetime_bounded t" for s e t
    using expiry_le_step [of s e t "fst t + cookie_max_age"] session_step_time [of s e t]
    by (simp add: lifetime_bounded_def expiry_le_mono)
qed

lemma runs_expiry_le:
  assumes "runs session_step s es t" "expiry_le b (snd s)" "Login_Reply \<notin> set es"
  shows "expiry_le b (snd t)"
proof (rule runs_keeps [OF assms(1), of "\<lambda>u. expiry_le b (snd u)"])
  fix u e v
  assume "expiry_le b (snd u)" "session_step u e v" "e \<in> set es"
  with assms(3) show "expiry_le b (snd v)" by (auto intro: expiry_le_step)
qed (rule assms(2))

lemma expired_cookie_value:
  "expiry_le b j \<Longrightarrow> b \<le> now \<Longrightarrow> n \<in> {''auth_token'', ''user_info''} \<Longrightarrow> cookie_value now j n = None"
  by (fastforce simp: expiry_le_def cookie_value_def split: option.split)

subsection \<open>Properties\<close>

text \<open>
  C17. A session lasts at most an hour. In every reachable jar each session cookie expires at most 3600 seconds
  from now, and after any further replies without a login, once 3600 seconds have passed, there is no token
  and no user, and every page behind the layout redirects to the login page.
\<close>

theorem session_lifetime_bounded:
  assumes "reachable session_start session_step (now, j)" "runs session_step (now, j) es (now', j')"
    and "Login_Reply \<notin> set es" "now + 3600 \<le> now'"
    and "map_of page_table path = Some pg" "protected_page pg"
  shows "(\<forall>n \<in> {''auth_token'', ''user_info''}. \<forall>v e. j n = Some (v, e) \<longrightarrow> e \<le> now + 3600) \<and>
    cookie_value now' j' ''auth_token'' = None \<and> getAuthUser now' j' = None \<and>
    visit now' j' path = Redirected ''/login'' \<and> visit now' j' ''/login'' = Shown Login_Page"
proof -
  have start: "expiry_le (now + 3600) j"
    using lifetime.inv_reachable [OF assms(1)] by (simp add: lifetime_bounded_def cookie_max_age_def)
  then have "expiry_le (now + 3600) j'"
    using runs_expiry_le [OF assms(2)] assms(3) by simp
  then have gone: "cookie_value now' j' ''auth_token'' = None" "cookie_value now' j' ''user_info'' = None"
    using assms(4) by (simp_all add: expired_cookie_value)
  then have "visit now' j' path = Redirected ''/login''"
    using protected_paths [OF assms(5,6)] by (simp add: visit_def)
  then show ?thesis
    using start gone by (simp add: expiry_le_def getAuthUser_def view_simps)
qed

theorem session_lifetime_bounded_witness:
  "\<exists>r. login_post sample_env sample_backend (stringify (JObj [])) = Inr r \<and> nr_cookies r \<noteq> [] \<and>
     visit 3605 (store_cookies 5 (nr_cookies r) Map.empty) ''/staff'' = Redirected ''/login''"
proof -
  have body: "json_parse (stringify (JObj [])) = Some (JObj [])" by (rule js.decode_encode) simp
  have reply: "json_parse (stringify sample_reply) = Some sample_reply"
    by (rule js.decode_encode) (simp add: sample_reply_def)
  have res: "sample_backend (login_request sample_env (JObj [])) = Some \<lparr>rs_status = 200, rs_body = stringify sample_reply\<rparr>"
    by (simp add: sample_backend_def)
  have "login_reply sample_env \<lparr>rs_status = 200, rs_body = stringify sample_reply\<rparr> = Inr (set_cookies
     [session_cookie sample_env ''auth_token'' (cookie_text (js_prop sample_reply ''token'')) cookie_max_age,
      session_cookie sample_env ''user_info'' (stringify (login_user sample_reply)) cookie_max_age]
     (json_response (JObj [(''user'', login_user sample_reply)]) 200))"
    by (rule login_reply_token) (simp add: reply, simp add: is_ok_def, simp_all add: sample_reply_def)
  moreover have "login_post sample_env sample_backend (stringify (JObj [])) =
      login_reply sample_env \<lparr>rs_status = 200, rs_body = stringify sample_reply\<rparr>"
    by (rule login_answered) (rule body, rule res)
  ultimately obtain r where
    r: "login_post sample_env sample_backend (stringify (JObj [])) = Inr r" "nr_cookies r \<noteq> []"
    by simp
  have "reachable session_start session_step (5, Map.empty)"
    by (rule reach_start) (simp add: session_start_def)
  then have 1: "reachable session_start session_step (5, store_cookies 5 (nr_cookies r) Map.empty)"
    by (rule reach_step) (rule ss_login [OF r(1)])
  have 2: "runs session_step (5, store_cookies 5 (nr_cookies r) Map.empty) [Tick 3600]
      (3605, store_cookies 5 (nr_cookies r) Map.empty)"
    using ss_tick [of 5 _ 3600] by simp
  have 3: "map_of page_table ''/staff'' = Some Staff_Page" "protected_page Staff_Page"
    by (simp_all add: page_table_def)
  from session_lifetime_bounded [OF 1 2 _ _ 3] r show ?thesis by auto
qed

end
