(* ===== verification/Ws_Server.thy ===== *)
theory Ws_Server
  imports Ws_Proxy
begin

text \<open>
  The whole custom server (\<open>src/frontend/server.ts\<close>): its port, and the connections it has accepted, in the
  order of their upgrade requests. Each accepted request has its own pair of sockets, with the address and
  the authorization fixed when it was accepted; the events of all pairs interleave. The composition lemma
  says that this system is nothing but its pairs side by side.
\<close>

subsection \<open>The port\<close>

text \<open>\<open>parseInt(s, 10)\<close>: leading white space, an optional sign, then as many digits as there are; \<open>NaN\<close> without one.\<close>

definition decimal_digit :: "char \<Rightarrow> bool" where
  "decimal_digit c \<longleftrightarrow> 48 \<le> (of_char c :: nat) \<and> (of_char c :: nat) \<le> 57"

definition digits_value :: "string \<Rightarrow> nat" where
  "digits_value ds = foldl (\<lambda>n c. 10 * n + (of_char c - 48)) 0 ds"

definition js_parse_int :: "string \<Rightarrow> int option" where
  "js_parse_int s =
     (let t = dropWhile js_space s;
          neg = (take 1 t = ''-'');
          u = (if take 1 t = ''-'' \<or> take 1 t = ''+'' then drop 1 t else t);
          ds = takeWhile decimal_digit u in
      if ds = [] then None
      else Some (if neg then - int (digits_value ds) else int (digits_value ds)))"

definition server_port :: "string option \<Rightarrow> int option" where
  "server_port env_port = js_parse_int (nullish env_port ''3000'')"

text \<open>\<open>server.listen(port)\<close>: a port that is not a number from 0 to 65535 is an exception of the runtime.\<close>

datatype listen_result = Listening int | Bad_Port

definition server_listen :: "int option \<Rightarrow> listen_result" where
  "server_listen port = (case port of
     None \<Rightarrow> Bad_Port
   | Some p \<Rightarrow> if 0 \<le> p \<and> p \<le> 65535 then Listening p else Bad_Port)"

lemma digits_value_snoc: "digits_value (ds @ [c]) = 10 * digits_value ds + (of_char c - 48)"
  by (simp add: digits_value_def)

lemma js_parse_int_digits:
  assumes "list_all decimal_digit ds" "ds \<noteq> []" "r = [] \<or> \<not> decimal_digit (hd r)"
  shows "js_parse_int (ds @ r) = Some (int (digits_value ds))"
proof -
  obtain d ds' where ds: "ds = d # ds'" using assms(2) by (cases ds) auto
  have d: "decimal_digit d" using assms(1) ds by simp
  then have "\<not> js_space d" by (auto simp: decimal_digit_def js_space_def)
  then have sp: "dropWhile js_space (ds @ r) = ds @ r" by (simp add: ds)
  have sign: "take 1 (ds @ r) \<noteq> ''-''" "take 1 (ds @ r) \<noteq> ''+''"
    using d by (auto simp: ds decimal_digit_def)
  have "takeWhile decimal_digit (ds @ r) = ds"
    using assms(1,3) by (cases r) (auto simp: list_all_iff takeWhile_append)
  then show ?thesis
    using assms(2) sign by (simp add: js_parse_int_def sp)
qed

text \<open>
  The server listens on the port its environment names in decimal digits, on 3000 without one; what follows the
  digits is ignored, and a value with no digits (the empty string among them) keeps it from starting.
\<close>

lemma server_listen_branches:
  "list_all decimal_digit ds \<Longrightarrow> ds \<noteq> [] \<Longrightarrow> r = [] \<or> \<not> decimal_digit (hd r) \<Longrightarrow> digits_value ds \<le> 65535 \<Longrightarrow>
     server_listen (server_port (Some (ds @ r))) = Listening (int (digits_value ds))"
  "server_listen (server_port None) = Listening 3000"
  "server_listen (server_port (Some [])) = Bad_Port"
  "server_listen port = Listening p \<Longrightarrow> 0 \<le> p \<and> p \<le> 65535"
proof -
  show "list_all decimal_digit ds \<Longrightarrow> ds \<noteq> [] \<Longrightarrow> r = [] \<or> \<not> decimal_digit (hd r) \<Longrightarrow> digits_value ds \<le> 65535 \<Longrightarrow>
     server_listen (server_port (Some (ds @ r))) = Listening (int (digits_value ds))"
    by (simp add: server_port_def js_parse_int_digits server_listen_def)
  show "server_listen (server_port None) = Listening 3000" by code_simp
  show "server_listen (server_port (Some [])) = Bad_Port" by code_simp
  show "server_listen port = Listening p \<Longrightarrow> 0 \<le> p \<and> p \<le> 65535"
    by (auto simp: server_listen_def split: option.splits if_splits)
qed

subsection \<open>Connections\<close>

text \<open>
  An upgrade request: its address, its cookie header, and whether the WebSocket library finds its handshake
  headers valid; if not, the library answers itself and the callback is not called.
\<close>

record upgrade_request =
  ug_url :: "string option"
  ug_cookie :: "string option"
  ug_handshake :: bool

record connection =
  cn_target :: string
  cn_auth :: string
  cn_pair :: proxy_pair

text \<open>The environment and library the server depends on: the chat service's address, the cookie parser.\<close>

record server_config =
  cf_serviceUrl :: string
  cf_parseCookies :: "string \<Rightarrow> string \<rightharpoonup> string"

definition accept :: "server_config \<Rightarrow> upgrade_request \<Rightarrow> connection option" where
  "accept cf r = (case on_upgrade (cf_serviceUrl cf) (cf_parseCookies cf) (ug_url r) (ug_cookie r) of
     Connected target auth \<Rightarrow>
       if ug_handshake r then Some \<lparr>cn_target = target, cn_auth = auth, cn_pair = pair_init\<rparr> else None
   | _ \<Rightarrow> None)"

definition server_upgrade :: "server_config \<Rightarrow> upgrade_request \<Rightarrow> connection list \<Rightarrow> connection list" where
  "server_upgrade cf r cs = (case accept cf r of None \<Rightarrow> cs | Some c \<Rightarrow> cs @ [c])"

datatype server_event = Upgrade upgrade_request | Socket nat pair_event

inductive server_step :: "server_config \<Rightarrow> connection list \<Rightarrow> server_event \<Rightarrow> connection list \<Rightarrow> bool"
  for cf :: server_config where
  sv_upgrade: "server_step cf cs (Upgrade r) (server_upgrade cf r cs)"
| sv_socket: "i < length cs \<Longrightarrow> pair_step (cn_pair (cs ! i)) e p \<Longrightarrow>
     server_step cf cs (Socket i e) (cs[i := (cs ! i)\<lparr>cn_pair := p\<rparr>])"

inductive_simps server_step_simps:
  "server_step cf cs (Upgrade r) ds"
  "server_step cf cs (Socket i e) ds"

text \<open>The requests accepted in a run, and the events of one connection.\<close>

fun accepted :: "server_config \<Rightarrow> server_event list \<Rightarrow> connection list" where
  "accepted cf [] = []"
| "accepted cf (Upgrade r # es) = (case accept cf r of None \<Rightarrow> [] | Some c \<Rightarrow> [c]) @ accepted cf es"
| "accepted cf (Socket i e # es) = accepted cf es"

fun events_of :: "nat \<Rightarrow> server_event list \<Rightarrow> pair_event list" where
  "events_of i [] = []"
| "events_of i (Upgrade r # es) = events_of i es"
| "events_of i (Socket j e # es) = (if j = i then [e] else []) @ events_of i es"

lemma accepted_append: "accepted cf (es @ fs) = accepted cf es @ accepted cf fs"
  by (induction cf es rule: accepted.induct) auto

lemma events_of_append: "events_of i (es @ fs) = events_of i es @ events_of i fs"
  by (induction i es rule: events_of.induct) auto

text \<open>What a connection was accepted with; its pair moves, this does not.\<close>

definition credentials :: "connection \<Rightarrow> string \<times> string" where
  "credentials c = (cn_target c, cn_auth c)"

lemma credentials_pair [simp]: "credentials (c\<lparr>cn_pair := p\<rparr>) = credentials c"
  by (simp add: credentials_def)

lemma accept_Some:
  "accept cf r = Some c \<longleftrightarrow> ug_handshake r \<and> cn_pair c = pair_init \<and>
     on_upgrade (cf_serviceUrl cf) (cf_parseCookies cf) (ug_url r) (ug_cookie r) = Connected (cn_target c) (cn_auth c)"
  by (cases c) (auto simp: accept_def split: upgrade.split)

lemma accepted_origin:
  "c \<in> set (accepted cf es) \<Longrightarrow> \<exists>r. Upgrade r \<in> set es \<and> accept cf r = Some c"
  by (induction cf es rule: accepted.induct) (auto split: option.splits)

text \<open>
  The run of the server is the runs of its pairs: as many connections as requests were accepted, in that order
  and with their credentials, and each pair went through exactly its own events from the start.
\<close>

lemma runs_server:
  "runs (server_step cf) [] es cs \<Longrightarrow>
     map credentials cs = map credentials (accepted cf es) \<and>
     (\<forall>i < length cs. runs pair_step pair_init (events_of i es) (cn_pair (cs ! i))) \<and>
     (\<forall>i \<ge> length cs. events_of i es = [])"
proof (induction es arbitrary: cs rule: rev_induct)
  case (snoc e es)
  then obtain bs where bs: "runs (server_step cf) [] es bs" "server_step cf bs e cs"
    by (auto simp: runs_snoc)
  note IH = snoc.IH [OF bs(1)]
  from bs(2) show ?case
  proof cases
    case (sv_upgrade r)
    show ?thesis
    proof (cases "accept cf r")
      case None
      with IH sv_upgrade show ?thesis by (simp add: server_upgrade_def accepted_append events_of_append)
    next
      case (Some c)
      then have "cn_pair c = pair_init" by (simp add: accept_Some)
      with IH sv_upgrade Some show ?thesis
        by (auto simp: server_upgrade_def accepted_append events_of_append nth_append less_Suc_eq)
    qed
  next
    case (sv_socket i e' p)
    have "map credentials cs = map credentials bs"
      using sv_socket by (intro nth_equalityI) (auto simp: nth_list_update)
    moreover have "runs pair_step pair_init (events_of k (es @ [e])) (cn_pair (cs ! k))" if "k < length cs" for k
      using IH sv_socket that by (auto simp: events_of_append runs_snoc nth_list_update)
    moreover have "events_of k (es @ [e]) = []" if "length cs \<le> k" for k
      using IH sv_socket that by (auto simp: events_of_append)
    ultimately show ?thesis
      using IH sv_socket by (simp add: accepted_append)
  qed
qed simp

text \<open>Every event is one of a connection that was accepted before; \<open>n\<close> is the number of connections at the start.\<close>

fun sockets_open :: "server_config \<Rightarrow> nat \<Rightarrow> server_event list \<Rightarrow> bool" where
  "sockets_open cf n [] = True"
| "sockets_open cf n (Upgrade r # es) = sockets_open cf (if accept cf r = None then n else Suc n) es"
| "sockets_open cf n (Socket i e # es) = (i < n \<and> sockets_open cf n es)"

lemma sockets_open_snoc:
  "sockets_open cf n (es @ [e]) \<longleftrightarrow> sockets_open cf n es \<and> (\<forall>i d. e = Socket i d \<longrightarrow> i < n + length (accepted cf es))"
proof (induction cf n es rule: sockets_open.induct)
  case (1 cf n)
  then show ?case by (cases e) auto
qed auto

lemma runs_server_open: "runs (server_step cf) [] es cs \<Longrightarrow> sockets_open cf 0 es"
proof (induction es arbitrary: cs rule: rev_induct)
  case (snoc e es)
  then obtain bs where bs: "runs (server_step cf) [] es bs" "server_step cf bs e cs"
    by (auto simp: runs_snoc)
  have "length bs = length (accepted cf es)"
    using runs_server [OF bs(1)] map_eq_imp_length_eq by blast
  with bs(2) snoc.IH [OF bs(1)] show ?case
    by cases (auto simp: sockets_open_snoc)
qed simp

lemma connection_eqI: "credentials c = credentials d \<Longrightarrow> cn_pair c = cn_pair d \<Longrightarrow> c = (d :: connection)"
  by (cases c; cases d) (simp add: credentials_def)

lemma interleaving_runs:
  assumes "map credentials cs = map credentials (accepted cf es)" "sockets_open cf 0 es"
    and "\<And>i. i < length cs \<Longrightarrow> runs pair_step pair_init (events_of i es) (cn_pair (cs ! i))"
  shows "runs (server_step cf) [] es cs"
  using assms
proof (induction es arbitrary: cs rule: rev_induct)
  case (snoc e es)
  note len = map_eq_imp_length_eq [OF snoc.prems(1)]
  have opened: "sockets_open cf 0 es" using snoc.prems(2) by (simp add: sockets_open_snoc)
  show ?case
  proof (cases e)
    case (Upgrade r)
    then have ev: "events_of i (es @ [e]) = events_of i es" for i by (simp add: events_of_append)
    show ?thesis
    proof (cases "accept cf r")
      case None
      with Upgrade snoc.prems ev have "runs (server_step cf) [] es cs"
        by (intro snoc.IH) (simp_all add: accepted_append opened)
      with Upgrade None show ?thesis
        by (auto simp: runs_snoc server_step_simps server_upgrade_def)
    next
      case (Some c)
      with Upgrade snoc.prems(1) obtain bs d where cs: "cs = bs @ [d]"
          "map credentials bs = map credentials (accepted cf es)" "credentials d = credentials c"
        by (auto simp: accepted_append map_eq_append_conv)
      have sub: "runs pair_step pair_init (events_of i es) (cn_pair (bs ! i))" if "i < length bs" for i
        using snoc.prems(3) [of i] that ev by (simp add: cs(1) nth_append)
      have run: "runs (server_step cf) [] es bs" by (rule snoc.IH [OF cs(2) opened sub])
      have "events_of (length bs) es = []" using runs_server [OF run] by blast
      with snoc.prems(3) [of "length bs"] ev have "cn_pair d = pair_init" by (simp add: cs(1))
      with cs(3) Some have "d = c" by (intro connection_eqI) (simp_all add: accept_Some)
      with run cs(1) Upgrade Some show ?thesis
        by (auto simp: runs_snoc server_step_simps server_upgrade_def)
    qed
  next
    case (Socket i d)
    then have i: "i < length cs" using snoc.prems(2) len by (simp add: sockets_open_snoc accepted_append)
    from snoc.prems(3) [OF i] Socket obtain p where
      p: "runs pair_step pair_init (events_of i es) p" "pair_step p d (cn_pair (cs ! i))"
      by (auto simp: events_of_append runs_snoc)
    let ?bs = "cs[i := (cs ! i)\<lparr>cn_pair := p\<rparr>]"
    have "map credentials ?bs = map credentials cs"
      by (intro nth_equalityI) (auto simp: nth_list_update i)
    then have creds: "map credentials ?bs = map credentials (accepted cf es)"
      using snoc.prems(1) Socket by (simp add: accepted_append)
    have sub: "runs pair_step pair_init (events_of k es) (cn_pair (?bs ! k))" if "k < length ?bs" for k
      using snoc.prems(3) [of k] that p(1) Socket
      by (cases "k = i") (auto simp: events_of_append)
    have "runs (server_step cf) [] es ?bs" by (rule snoc.IH [OF creds opened sub])
    moreover have "server_step cf ?bs e cs"
      using i p(2) Socket sv_socket [of i ?bs d "cn_pair (cs ! i)" cf] by simp
    ultimately show ?thesis by (auto simp: runs_snoc)
  qed
qed simp

definition server_inv :: "connection list \<Rightarrow> bool" where
  "server_inv cs \<longleftrightarrow> list_all (\<lambda>c. pair_inv (cn_pair c) \<and> starts_with ''Bearer '' (cn_auth c)) cs"

lemma accept_bearer: "accept cf r = Some c \<Longrightarrow> starts_with ''Bearer '' (cn_auth c)"
  by (auto simp: accept_def on_upgrade_def starts_with_def Let_def split: option.splits if_splits)

interpretation server: guarded_system "\<lambda>cs. cs = []" "server_step cf" server_inv for cf
proof
  show "cs = [] \<Longrightarrow> server_inv cs" for cs by (simp add: server_inv_def)
  fix cs e ds
  assume inv: "server_inv cs" and "server_step cf cs e ds"
  from this(2) show "server_inv ds"
  proof cases
    case (sv_upgrade r)
    with inv show ?thesis
      using pair.inv_start [OF refl] accept_bearer [of cf r]
      by (auto simp: server_upgrade_def server_inv_def accept_Some split: option.split)
  next
    case (sv_socket i e' p)
    with inv have "pair_inv (cn_pair (cs ! i))" "starts_with ''Bearer '' (cn_auth (cs ! i))"
      by (auto simp: server_inv_def list_all_length)
    with sv_socket inv pair.inv_step show ?thesis
      by (auto simp: server_inv_def list_all_length nth_list_update)
  qed
qed

lemma accept_token:
  "accept cf r = Some c \<Longrightarrow> \<exists>token. cf_parseCookies cf (nullish (ug_cookie r) []) ''auth_token'' = Some token \<and>
     token \<noteq> [] \<and> cn_auth c = ''Bearer '' @ token"
  by (auto simp: accept_def on_upgrade_def truthy_iff Let_def split: option.splits if_splits)

lemma server_connections_origin:
  assumes "runs (server_step cf) [] es cs" "i < length cs"
  shows "\<exists>r token. Upgrade r \<in> set es \<and> accept cf r = Some (accepted cf es ! i) \<and>
    cf_parseCookies cf (nullish (ug_cookie r) []) ''auth_token'' = Some token \<and> token \<noteq> [] \<and>
    cn_target (cs ! i) = cn_target (accepted cf es ! i) \<and> cn_auth (cs ! i) = ''Bearer '' @ token"
proof -
  let ?a = "accepted cf es ! i"
  have creds: "map credentials cs = map credentials (accepted cf es)" using runs_server [OF assms(1)] by blast
  from map_eq_imp_length_eq [OF creds] have len: "length cs = length (accepted cf es)" .
  have "credentials (cs ! i) = credentials ?a" using creds assms(2) len by (metis nth_map)
  moreover obtain r where "Upgrade r \<in> set es" "accept cf r = Some ?a"
    using accepted_origin [of ?a cf es] assms(2) len by auto
  ultimately show ?thesis using accept_token by (fastforce simp: credentials_def)
qed

subsection \<open>Properties\<close>

text \<open>
  C6. Connections are isolated. After any interleaving of upgrade requests and socket events, the server has one
  connection per accepted request, in order; each acts with the token of its own request's cookies, went
  through exactly its own events, and has forwarded in each direction only what its own peer sent, in order:
  no event of another connection reaches it.
\<close>

theorem server_connections_isolated:
  assumes "runs (server_step cf) [] es cs" "i < length cs"
  shows "length cs = length (accepted cf es) \<and>
    (\<exists>r token. Upgrade r \<in> set es \<and> accept cf r = Some (accepted cf es ! i) \<and>
       cn_target (cs ! i) = cn_target (accepted cf es ! i) \<and> cn_auth (cs ! i) = ''Bearer '' @ token \<and>
       cf_parseCookies cf (nullish (ug_cookie r) []) ''auth_token'' = Some token) \<and>
    runs pair_step pair_init (events_of i es) (cn_pair (cs ! i)) \<and>
    subseq (px_toBackend (cn_pair (cs ! i))) (browser_frames (events_of i es)) \<and>
    subseq (px_toBrowser (cn_pair (cs ! i))) (backend_frames (events_of i es))"
proof -
  from runs_server [OF assms(1)] have creds: "map credentials cs = map credentials (accepted cf es)"
    and run: "runs pair_step pair_init (events_of i es) (cn_pair (cs ! i))" using assms(2) by auto
  from map_eq_imp_length_eq [OF creds] have len: "length cs = length (accepted cf es)" .
  note origin = server_connections_origin [OF assms]
  from runs_frames [OF run] have
    "subseq (px_toBackend (cn_pair (cs ! i))) (browser_frames (events_of i es))"
    "subseq (px_toBrowser (cn_pair (cs ! i))) (backend_frames (events_of i es))"
    by (auto simp: pair_init_def)
  with len origin run show ?thesis by blast
qed

definition sample_unit :: string where
  "sample_unit = ''0a1b2c3d-0000-4000-8000-00000000000f''"

definition sample_config :: server_config where
  "sample_config = \<lparr>cf_serviceUrl = chat_service_default, cf_parseCookies = (\<lambda>h. [''auth_token'' \<mapsto> h])\<rparr>"

definition sample_request :: "string \<Rightarrow> upgrade_request" where
  "sample_request token =
     \<lparr>ug_url = Some (''/api/chat/ws/'' @ sample_unit), ug_cookie = Some token, ug_handshake = True\<rparr>"

lemma sample_accept:
  "token \<noteq> [] \<Longrightarrow> accept sample_config (sample_request token) =
     Some \<lparr>cn_target = ''ws://localhost:8080/ws/'' @ sample_unit, cn_auth = ''Bearer '' @ token, cn_pair = pair_init\<rparr>"
proof -
  have "match_ws_path (parse_pathname (''/api/chat/ws/'' @ sample_unit)) = Some sample_unit" by code_simp
  moreover have "chat_ws chat_service_default = ''ws://localhost:8080''" by code_simp
  ultimately show "token \<noteq> [] \<Longrightarrow> ?thesis"
    by (simp add: accept_def on_upgrade_def sample_request_def sample_config_def)
qed

theorem server_connections_isolated_witness:
  "\<exists>cs. runs (server_step sample_config) []
      [Upgrade (sample_request ''t1''), Upgrade (sample_request ''t2''), Socket 0 Backend_Open,
       Socket 1 Backend_Open, Socket 0 (Browser_Message ''hi'')] cs \<and>
     length cs = 2 \<and> cn_auth (cs ! 1) = ''Bearer t2'' \<and> subseq (px_toBackend (cn_pair (cs ! 1))) []"
proof -
  let ?es = "[Upgrade (sample_request ''t1''), Upgrade (sample_request ''t2''), Socket 0 Backend_Open,
       Socket 1 Backend_Open, Socket 0 (Browser_Message ''hi'')]"
  obtain cs where run: "runs (server_step sample_config) [] ?es cs"
    by (simp add: server_step_simps server_upgrade_def sample_accept pair_step_iff pair_init_def on_backend_open_def)
  then have len: "length cs = 2"
    using map_eq_imp_length_eq [OF conjunct1 [OF runs_server [OF run]]] by (simp add: sample_accept)
  have "cn_auth (cs ! 1) = ''Bearer t2'' \<and> subseq (px_toBackend (cn_pair (cs ! 1))) []"
    using server_connections_isolated [OF run, of 1] len
    by (auto simp: sample_accept) (auto simp: sample_request_def sample_config_def)
  with run len show ?thesis by (intro exI [of _ cs] conjI) simp_all
qed

text \<open>
  The server is its connections side by side: a list of connections is reached by a sequence of upgrade requests
  and socket events exactly if it has one connection per accepted request, in order and with its address and
  authorization, every event belongs to a connection accepted before, and each pair of sockets by itself can go
  through its own events. Nothing is shared between connections, and nothing else restricts them.
\<close>

lemma server_is_interleaving:
  "runs (server_step cf) [] es cs \<longleftrightarrow>
     map credentials cs = map credentials (accepted cf es) \<and> sockets_open cf 0 es \<and>
     (\<forall>i < length cs. runs pair_step pair_init (events_of i es) (cn_pair (cs ! i)))"
  using runs_server runs_server_open interleaving_runs by blast

end
