(* ===== verification/Chat_Refinement.thy ===== *)
theory Chat_Refinement
  imports Chat_Store
begin

text \<open>
  What the chat store promises, without its maps, flags and pending calls: for each conversation a log of
  messages, for each business unit a list of conversations and a workspace, and one selection. Each is an
  abstract machine over the events of the store; the store refines all of them at once, so a log changes by
  its own answers and arrivals only, whatever else is in flight.
\<close>

subsection \<open>The abstract machines\<close>

text \<open>The key under which the answer to a call for messages is stored.\<close>

fun history_key :: "chat_call \<Rightarrow> id option" where
  "history_key (C_Conv_Messages b c) = Some c"
| "history_key (C_Messages b) = Some b"
| "history_key _ = None"

fun message_machine :: "id \<Rightarrow> chat_event \<Rightarrow> chat_message list \<Rightarrow> chat_message list" where
  "message_machine c (E_Message d m) log = (if d = c then append_absent ms_messageId m log else log)"
| "message_machine c (E_Settle q (R_Messages ms)) log = (if history_key q = Some c then ms else log)"
| "message_machine c _ log = log"

fun conversation_machine :: "id \<Rightarrow> chat_event \<Rightarrow> chat_conversation list \<Rightarrow> chat_conversation list" where
  "conversation_machine b (E_Settle (C_Conversations d) (R_Conversations cs)) l = (if d = b then cs else l)"
| "conversation_machine b (E_Settle (C_DM d p) (R_Conversation cv)) l =
     (if d = b then append_absent cv_conversationId cv l else l)"
| "conversation_machine b _ l = l"

definition grant :: "id \<Rightarrow> bool \<Rightarrow> chat_workspace \<Rightarrow> chat_workspace" where
  "grant p h w = w\<lparr>ws_members := update_where mb_personId p (\<lambda>m. m\<lparr>mb_hasAccess := h\<rparr>) (ws_members w)\<rparr>"

fun workspace_machine :: "id \<Rightarrow> chat_event \<Rightarrow> chat_workspace option \<Rightarrow> chat_workspace option" where
  "workspace_machine b (E_Settle (C_Workspace d) (R_Workspace w)) v = (if d = b then Some w else v)"
| "workspace_machine b (E_Settle (C_Access d p h) R_Done) v = (if d = b then map_option (grant p h) v else v)"
| "workspace_machine b _ v = v"

definition first_choice_of :: "chat_conversation list \<Rightarrow> id option" where
  "first_choice_of cs = (case filter (\<lambda>c. cv_type c = Group) cs @ cs of
     [] \<Rightarrow> None | c # _ \<Rightarrow> Some (cv_conversationId c))"

fun selection_machine :: "chat_event \<Rightarrow> id option \<Rightarrow> id option" where
  "selection_machine (E_Select c) a = Some c"
| "selection_machine (E_Settle (C_DM d p) (R_Conversation cv)) a = Some (cv_conversationId cv)"
| "selection_machine (E_Settle (C_Conversations d) (R_Conversations cs)) a =
     (if truthy a \<or> cs = [] then a else first_choice_of cs)"
| "selection_machine _ a = a"

subsection \<open>The store follows them\<close>

lemma begin_frame [simp]:
  "ct_messages (chat_begin c s) = ct_messages s" "ct_conversations (chat_begin c s) = ct_conversations s"
  "ct_workspaces (chat_begin c s) = ct_workspaces s" "ct_active (chat_begin c s) = ct_active s"
  by (cases c; simp add: fetchWorkspace_begin_def)+

lemma select_frame [simp]:
  "ct_messages (setActiveConversation c s) = ct_messages s"
  "ct_conversations (setActiveConversation c s) = ct_conversations s"
  "ct_workspaces (setActiveConversation c s) = ct_workspaces s" "ct_active (setActiveConversation c s) = Some c"
  by (simp_all add: setActiveConversation_def)

lemma createDM_frame [simp]:
  "ct_messages (createDM_end b r s) = ct_messages s" "ct_workspaces (createDM_end b r s) = ct_workspaces s"
  by (simp_all add: createDM_end_def Let_def split: sum.split)

lemma updateAccess_frame [simp]:
  "ct_messages (updateAccess_end b p h r s) = ct_messages s"
  "ct_conversations (updateAccess_end b p h r s) = ct_conversations s"
  "ct_active (updateAccess_end b p h r s) = ct_active s"
  by (simp_all add: updateAccess_end_def split: sum.split option.split)

lemma updateAccess_grant:
  "ct_workspaces (updateAccess_end b p h (Inr ()) s) d =
     (if b = d then map_option (grant p h) (ct_workspaces s d) else ct_workspaces s d)"
  by (simp add: updateAccess_end_def grant_def update_where_def split: option.split)

lemma find_filter: "find P xs = (case filter P xs of [] \<Rightarrow> None | x # _ \<Rightarrow> Some x)"
  by (induction xs) auto

lemma auto_select_choice:
  "ct_active (auto_select cs s) = (if truthy (ct_active s) \<or> cs = [] then ct_active s else first_choice_of cs)"
proof -
  have "Some (cv_conversationId (nullish (find P cs) (cs ! 0))) =
      (case filter P cs @ cs of [] \<Rightarrow> None | c # _ \<Rightarrow> Some (cv_conversationId c))" if "cs \<noteq> []" for P
    using that by (cases cs) (auto simp: find_filter split: list.split)
  then show ?thesis by (simp add: auto_select_def first_choice_of_def)
qed

lemmas settle_simps = updateAccess_grant fetchWorkspace_end_def fetchConversations_end_def fetchMessages_end_def
  fetchConversationMessages_end_def store_simps auto_select_choice

lemma settle_machines:
  assumes "chat_settle q r s = Some t"
  shows "messages_of t c = message_machine c (E_Settle q r) (messages_of s c)"
    and "conversations_of t b = conversation_machine b (E_Settle q r) (conversations_of s b)"
    and "ct_workspaces t b = workspace_machine b (E_Settle q r) (ct_workspaces s b)"
    and "ct_active t = selection_machine (E_Settle q r) (ct_active s)"
  using assms by (elim chat_settle_elims; simp add: settle_simps)+

interpretation message_log_of: observed_system chat_step "\<lambda>y. messages_of (cy_state y) c" "message_machine c" for c
  by unfold_locales (erule chat_step.cases; simp add: settle_machines store_simps)

interpretation conversation_list_of: observed_system chat_step "\<lambda>y. conversations_of (cy_state y) b" "conversation_machine b" for b
  by unfold_locales (erule chat_step.cases; simp add: settle_machines store_simps)

interpretation workspace_of: observed_system chat_step "\<lambda>y. ct_workspaces (cy_state y) b" "workspace_machine b" for b
  by unfold_locales (erule chat_step.cases; simp add: settle_machines store_simps)

interpretation selection_of: observed_system chat_step "\<lambda>y. ct_active (cy_state y)" selection_machine
  by unfold_locales (erule chat_step.cases; simp add: settle_machines store_simps)

subsection \<open>Logs between answers\<close>

fun arrivals :: "id \<Rightarrow> chat_event list \<Rightarrow> chat_message list" where
  "arrivals c [] = []"
| "arrivals c (E_Message d m # es) = (if d = c then [m] else []) @ arrivals c es"
| "arrivals c (_ # es) = arrivals c es"

definition answers_history :: "id \<Rightarrow> chat_event \<Rightarrow> bool" where
  "answers_history c e \<longleftrightarrow> (\<exists>q ms. e = E_Settle q (R_Messages ms) \<and> history_key q = Some c)"

lemma answers_history_simps [simp]:
  "answers_history c (E_Settle q (R_Messages ms)) \<longleftrightarrow> history_key q = Some c"
  "\<not> answers_history c (E_Message d m)"
  by (auto simp: answers_history_def)

lemma fold_message_machine:
  "\<forall>e \<in> set es. \<not> answers_history c e \<Longrightarrow>
     fold (message_machine c) es log = fold (append_absent ms_messageId) (arrivals c es) log"
proof (induction es arbitrary: log)
  case (Cons e es)
  then have "message_machine c e log = fold (append_absent ms_messageId) (arrivals c [e]) log"
    by (cases "(c, e, log)" rule: message_machine.cases) auto
  moreover have "arrivals c (e # es) = arrivals c [e] @ arrivals c es"
    by (cases e) auto
  ultimately show ?case using Cons by simp
qed simp

lemma machine_origin:
  "m \<in> set (message_machine c e log) \<Longrightarrow> m \<in> set log \<or> e = E_Message c m \<or>
     (\<exists>q ms. e = E_Settle q (R_Messages ms) \<and> history_key q = Some c \<and> m \<in> set ms)"
  by (cases "(c, e, log)" rule: message_machine.cases) (auto simp: append_absent_iff split: if_splits)

lemma fold_machine_origin:
  "m \<in> set (fold (message_machine c) es log) \<Longrightarrow> m \<in> set log \<or> E_Message c m \<in> set es \<or>
     (\<exists>q ms. E_Settle q (R_Messages ms) \<in> set es \<and> history_key q = Some c \<and> m \<in> set ms)"
proof (induction es arbitrary: log)
  case (Cons e es)
  then have "m \<in> set (message_machine c e log) \<or> E_Message c m \<in> set es \<or>
     (\<exists>q ms. E_Settle q (R_Messages ms) \<in> set es \<and> history_key q = Some c \<and> m \<in> set ms)"
    by simp
  then show ?case using machine_origin [of m c e log] unfolding list.set insert_iff by blast
qed simp

subsection \<open>Properties\<close>

text \<open>
  C5. The chat store refines its specification: after any interleaving of calls, answers, arrivals and selections,
  every conversation shows what its own log machine computed from the events, every business unit lists its own
  conversations and workspace, and the selection is the selection machine's. In particular a message is shown in
  a conversation only if it arrived for that conversation or an answer for that conversation contained it.
\<close>

theorem chat_store_refines_machines:
  assumes "runs chat_step chat_sys_init es y"
  shows "messages_of (cy_state y) c = fold (message_machine c) es [] \<and>
    conversations_of (cy_state y) b = fold (conversation_machine b) es [] \<and>
    ct_workspaces (cy_state y) b = fold (workspace_machine b) es None \<and>
    ct_active (cy_state y) = fold selection_machine es None \<and>
    (m \<in> set (messages_of (cy_state y) c) \<longrightarrow> E_Message c m \<in> set es \<or>
       (\<exists>q ms. E_Settle q (R_Messages ms) \<in> set es \<and> history_key q = Some c \<and> m \<in> set ms))"
proof -
  have "messages_of (cy_state y) c = fold (message_machine c) es []"
    using message_log_of.observe_runs [OF assms] by (simp add: chat_sys_init_def chat_init_def)
  moreover from this have "m \<in> set (messages_of (cy_state y) c) \<longrightarrow> E_Message c m \<in> set es \<or>
       (\<exists>q ms. E_Settle q (R_Messages ms) \<in> set es \<and> history_key q = Some c \<and> m \<in> set ms)"
    using fold_machine_origin [of m c es "[]"] by auto
  ultimately show ?thesis
    using conversation_list_of.observe_runs [OF assms] workspace_of.observe_runs [OF assms]
      selection_of.observe_runs [OF assms]
    by (simp add: chat_sys_init_def chat_init_def)
qed

theorem chat_store_refines_machines_witness:
  "\<exists>y. runs chat_step chat_sys_init [E_Call (C_Conv_Messages ''b1'' ''c1''), E_Message ''c1'' (sample_msg ''m2''),
      E_Settle (C_Conv_Messages ''b1'' ''c1'') (R_Messages [sample_msg ''m1'']), E_Message ''c1'' (sample_msg ''m3'')] y \<and>
     messages_of (cy_state y) ''c1'' = [sample_msg ''m1'', sample_msg ''m3'']"
proof -
  let ?es = "[E_Call (C_Conv_Messages ''b1'' ''c1''), E_Message ''c1'' (sample_msg ''m2''),
      E_Settle (C_Conv_Messages ''b1'' ''c1'') (R_Messages [sample_msg ''m1'']), E_Message ''c1'' (sample_msg ''m3'')]"
  obtain y where y: "runs chat_step chat_sys_init ?es y"
    by (simp add: chat_step_simps)
  from chat_store_refines_machines [OF y, of "''c1''"]
  have "messages_of (cy_state y) ''c1'' = [sample_msg ''m1'', sample_msg ''m3'']"
    by (simp add: append_absent_def sample_msg_def)
  with y show ?thesis by blast
qed

text \<open>
  C31. A conversation shows its last history and what arrived since: after an answer for the conversation, and any
  further events without another one, the list starts with that answer, continues with messages that arrived for
  the conversation since, in the order of their arrival, has exactly the ids of the answer and the arrivals, and
  no id twice.
\<close>

theorem history_then_arrivals:
  assumes "runs chat_step y (E_Settle q (R_Messages ms) # es) z" "history_key q = Some c"
    and "\<forall>e \<in> set es. \<not> answers_history c e"
  shows "\<exists>zs. messages_of (cy_state z) c = ms @ zs \<and> subseq zs (arrivals c es) \<and>
    ms_messageId ` set (ms @ zs) = ms_messageId ` set ms \<union> ms_messageId ` set (arrivals c es) \<and>
    distinct (map ms_messageId (ms @ zs))"
proof -
  from assms(1) have unique: "distinct (map ms_messageId ms)"
    by (auto simp: chat_step_simps)
  have shown: "messages_of (cy_state z) c = fold (append_absent ms_messageId) (arrivals c es) ms"
    using message_log_of.observe_runs [OF assms(1)] assms(2) fold_message_machine [OF assms(3)] by simp
  obtain zs where "fold (append_absent ms_messageId) (arrivals c es) ms = ms @ zs" "subseq zs (arrivals c es)"
    using append_absent_fold by blast
  with shown show ?thesis
    using message_log.keys_fold [of "arrivals c es" ms] message_log.unique_fold [OF unique, of "arrivals c es"]
    by (intro exI [of _ zs]) simp
qed

theorem history_then_arrivals_witness:
  "\<exists>z zs. runs chat_step \<lparr>cy_state = chat_init, cy_pending = [C_Conv_Messages ''b1'' ''c1'']\<rparr>
      [E_Settle (C_Conv_Messages ''b1'' ''c1'') (R_Messages [sample_msg ''m1'']), E_Message ''c1'' (sample_msg ''m1'')] z \<and>
     messages_of (cy_state z) ''c1'' = sample_msg ''m1'' # zs \<and> subseq zs [sample_msg ''m1'']"
proof -
  let ?y = "\<lparr>cy_state = chat_init, cy_pending = [C_Conv_Messages ''b1'' ''c1'']\<rparr>"
  obtain z where z: "runs chat_step ?y
      [E_Settle (C_Conv_Messages ''b1'' ''c1'') (R_Messages [sample_msg ''m1'']), E_Message ''c1'' (sample_msg ''m1'')] z"
    by (simp add: chat_step_simps)
  from history_then_arrivals [OF z, of "''c1''"] obtain zs where
    "messages_of (cy_state z) ''c1'' = sample_msg ''m1'' # zs" "subseq zs [sample_msg ''m1'']"
    by auto
  with z show ?thesis by blast
qed

end
