(* ===== verification/Wire_Types.thy ===== *)
theory Wire_Types
  imports Api_Client "HOL-Library.Monad_Syntax"
begin

text \<open>
  The types the code claims for what the backend sends (\<open>axiosClient.get<StaffMember[]>(...)\<close>): a reader for
  every entity of \<open>domain/entities\<close>, which is defined exactly on the JSON for which the claim is true, and a
  writer, the JSON of the entity. The locale \<open>wire_type\<close> is what the calls rely on: what was written reads
  back, also as an array and through text. The last part is a call of the container from end to end.
\<close>

subsection \<open>Readers\<close>

fun as_string :: "json \<Rightarrow> string option" where
  "as_string (JStr s) = Some s"
| "as_string _ = None"

fun as_bool :: "json \<Rightarrow> bool option" where
  "as_bool (JBool b) = Some b"
| "as_bool _ = None"

fun as_conv_type :: "json \<Rightarrow> conv_type option" where
  "as_conv_type (JStr s) = (if s = ''group'' then Some Group else if s = ''dm'' then Some Dm else None)"
| "as_conv_type _ = None"

fun conv_type_json :: "conv_type \<Rightarrow> json" where
  "conv_type_json Group = JStr ''group''"
| "conv_type_json Dm = JStr ''dm''"

definition field :: "(json \<Rightarrow> 'a option) \<Rightarrow> json \<Rightarrow> string \<Rightarrow> 'a option" where
  "field dec v k = Option.bind (js_prop v k) dec"

fun rows :: "(json \<Rightarrow> 'a option) \<Rightarrow> json \<Rightarrow> 'a list option" where
  "rows dec (JArr vs) = those (map dec vs)"
| "rows dec _ = None"

lemma field_obj [simp]: "field dec (JObj ms) k = Option.bind (map_of ms k) dec"
  by (simp add: field_def)

subsection \<open>The contract\<close>

locale wire_type =
  fixes encode :: "'a \<Rightarrow> json" and dec :: "json \<Rightarrow> 'a option"
  assumes dec_encode: "dec (encode x) = Some x"
    and encode_wf: "wf_json (encode x)"
begin

lemma encode_inject: "encode x = encode y \<longleftrightarrow> x = y"
  by (metis dec_encode option.inject)

lemma rows_encode: "rows dec (JArr (map encode xs)) = Some xs"
  by (induction xs) (simp_all add: dec_encode)

lemma rows_wf: "wf_json (JArr (map encode xs))"
  by (simp add: list_all_iff encode_wf)

lemma text_round_trip: "Option.bind (json_parse (stringify (encode x))) dec = Some x"
  using js.decode_encode [OF encode_wf] by (simp add: dec_encode)

lemma text_rows: "Option.bind (json_parse (stringify (JArr (map encode xs)))) (rows dec) = Some xs"
  using js.decode_encode [OF rows_wf] rows_encode by simp

end

subsection \<open>The entities\<close>

definition business_unit_json :: "business_unit \<Rightarrow> json" where
  "business_unit_json b = JObj [(''id'', JStr (bu_id b)), (''companyId'', JStr (bu_companyId b)),
     (''name'', JStr (bu_name b)), (''createdAt'', JStr (bu_createdAt b))]"

definition as_business_unit :: "json \<Rightarrow> business_unit option" where
  "as_business_unit v = do {
     i \<leftarrow> field as_string v ''id''; c \<leftarrow> field as_string v ''companyId'';
     n \<leftarrow> field as_string v ''name''; t \<leftarrow> field as_string v ''createdAt'';
     Some \<lparr>bu_id = i, bu_companyId = c, bu_name = n, bu_createdAt = t\<rparr>}"

definition participant_json :: "participant \<Rightarrow> json" where
  "participant_json p = JObj [(''personId'', JStr (pt_personId p)), (''firstName'', JStr (pt_firstName p)),
     (''lastName'', JStr (pt_lastName p))]"

definition as_participant :: "json \<Rightarrow> participant option" where
  "as_participant v = do {
     p \<leftarrow> field as_string v ''personId''; f \<leftarrow> field as_string v ''firstName'';
     l \<leftarrow> field as_string v ''lastName'';
     Some \<lparr>pt_personId = p, pt_firstName = f, pt_lastName = l\<rparr>}"

definition conversation_json :: "chat_conversation \<Rightarrow> json" where
  "conversation_json c = JObj [(''conversationId'', JStr (cv_conversationId c)), (''type'', conv_type_json (cv_type c)),
     (''workspaceId'', JStr (cv_workspaceId c)), (''participants'', JArr (map participant_json (cv_participants c)))]"

definition as_conversation :: "json \<Rightarrow> chat_conversation option" where
  "as_conversation v = do {
     i \<leftarrow> field as_string v ''conversationId''; t \<leftarrow> field as_conv_type v ''type'';
     w \<leftarrow> field as_string v ''workspaceId''; ps \<leftarrow> field (rows as_participant) v ''participants'';
     Some \<lparr>cv_conversationId = i, cv_type = t, cv_workspaceId = w, cv_participants = ps\<rparr>}"

definition message_json :: "chat_message \<Rightarrow> json" where
  "message_json m = JObj [(''messageId'', JStr (ms_messageId m)), (''conversationId'', JStr (ms_conversationId m)),
     (''personId'', JStr (ms_personId m)), (''senderName'', JStr (ms_senderName m)),
     (''content'', JStr (ms_content m)), (''createdAt'', JStr (ms_createdAt m))]"

definition as_message :: "json \<Rightarrow> chat_message option" where
  "as_message v = do {
     i \<leftarrow> field as_string v ''messageId''; c \<leftarrow> field as_string v ''conversationId'';
     p \<leftarrow> field as_string v ''personId''; n \<leftarrow> field as_string v ''senderName'';
     t \<leftarrow> field as_string v ''content''; d \<leftarrow> field as_string v ''createdAt'';
     Some \<lparr>ms_messageId = i, ms_conversationId = c, ms_personId = p, ms_senderName = n, ms_content = t,
       ms_createdAt = d\<rparr>}"

definition member_json :: "chat_member \<Rightarrow> json" where
  "member_json m = JObj [(''personId'', JStr (mb_personId m)), (''firstName'', JStr (mb_firstName m)),
     (''lastName'', JStr (mb_lastName m)), (''role'', JStr (mb_role m)), (''hasAccess'', JBool (mb_hasAccess m))]"

definition as_member :: "json \<Rightarrow> chat_member option" where
  "as_member v = do {
     p \<leftarrow> field as_string v ''personId''; f \<leftarrow> field as_string v ''firstName'';
     l \<leftarrow> field as_string v ''lastName''; r \<leftarrow> field as_string v ''role''; h \<leftarrow> field as_bool v ''hasAccess'';
     Some \<lparr>mb_personId = p, mb_firstName = f, mb_lastName = l, mb_role = r, mb_hasAccess = h\<rparr>}"

definition workspace_json :: "chat_workspace \<Rightarrow> json" where
  "workspace_json w = JObj [(''workspaceId'', JStr (ws_workspaceId w)), (''buId'', JStr (ws_buId w)),
     (''buName'', JStr (ws_buName w)), (''members'', JArr (map member_json (ws_members w)))]"

definition as_workspace :: "json \<Rightarrow> chat_workspace option" where
  "as_workspace v = do {
     i \<leftarrow> field as_string v ''workspaceId''; b \<leftarrow> field as_string v ''buId'';
     n \<leftarrow> field as_string v ''buName''; ms \<leftarrow> field (rows as_member) v ''members'';
     Some \<lparr>ws_workspaceId = i, ws_buId = b, ws_buName = n, ws_members = ms\<rparr>}"

definition staff_member_json :: "staff_member \<Rightarrow> json" where
  "staff_member_json m = JObj [(''personId'', JStr (sm_personId m)), (''profileId'', JStr (sm_profileId m)),
     (''buId'', JStr (sm_buId m)), (''buName'', JStr (sm_buName m)), (''firstName'', JStr (sm_firstName m)),
     (''lastName'', JStr (sm_lastName m)), (''email'', JStr (sm_email m)), (''role'', JStr (sm_role m)),
     (''createdAt'', JStr (sm_createdAt m))]"

definition as_staff_member :: "json \<Rightarrow> staff_member option" where
  "as_staff_member v = do {
     p \<leftarrow> field as_string v ''personId''; i \<leftarrow> field as_string v ''profileId'';
     b \<leftarrow> field as_string v ''buId''; n \<leftarrow> field as_string v ''buName'';
     f \<leftarrow> field as_string v ''firstName''; l \<leftarrow> field as_string v ''lastName'';
     e \<leftarrow> field as_string v ''email''; r \<leftarrow> field as_string v ''role''; t \<leftarrow> field as_string v ''createdAt'';
     Some \<lparr>sm_personId = p, sm_profileId = i, sm_buId = b, sm_buName = n, sm_firstName = f, sm_lastName = l,
       sm_email = e, sm_role = r, sm_createdAt = t\<rparr>}"

definition person_option_json :: "person_option \<Rightarrow> json" where
  "person_option_json p = JObj [(''personId'', JStr (po_personId p)), (''firstName'', JStr (po_firstName p)),
     (''lastName'', JStr (po_lastName p))]"

definition as_person_option :: "json \<Rightarrow> person_option option" where
  "as_person_option v = do {
     p \<leftarrow> field as_string v ''personId''; f \<leftarrow> field as_string v ''firstName'';
     l \<leftarrow> field as_string v ''lastName'';
     Some \<lparr>po_personId = p, po_firstName = f, po_lastName = l\<rparr>}"

lemma conv_type_round_trip [simp]: "as_conv_type (conv_type_json t) = Some t" "wf_json (conv_type_json t)"
  by (cases t; simp)+

interpretation business_unit: wire_type business_unit_json as_business_unit
  by unfold_locales (simp_all add: business_unit_json_def as_business_unit_def)

interpretation participant: wire_type participant_json as_participant
  by unfold_locales (simp_all add: participant_json_def as_participant_def)

interpretation conversation: wire_type conversation_json as_conversation
  by unfold_locales
    (use participant.rows_encode participant.rows_wf in \<open>auto simp: conversation_json_def as_conversation_def\<close>)

interpretation message: wire_type message_json as_message
  by unfold_locales (simp_all add: message_json_def as_message_def)

interpretation member: wire_type member_json as_member
  by unfold_locales (simp_all add: member_json_def as_member_def)

interpretation workspace: wire_type workspace_json as_workspace
  by unfold_locales (use member.rows_encode member.rows_wf in \<open>auto simp: workspace_json_def as_workspace_def\<close>)

interpretation staff_member: wire_type staff_member_json as_staff_member
  by unfold_locales (simp_all add: staff_member_json_def as_staff_member_def)

interpretation person_option: wire_type person_option_json as_person_option
  by unfold_locales (simp_all add: person_option_json_def as_person_option_def)

interpretation auth_user: wire_type auth_user_json as_auth_user
  by unfold_locales simp_all

subsection \<open>A call from end to end\<close>

text \<open>What the framework answers for a handler: its response, or 500 with an empty body when it throws.\<close>

definition handler_response :: "js_error + next_response \<Rightarrow> next_response" where
  "handler_response r = (case r of Inr x \<Rightarrow> x | Inl _ \<Rightarrow> empty_response 500)"

text \<open>A call of the container: the axios request, the proxy route on it, and how the promise settles.\<close>

definition http_call :: "bff_env \<Rightarrow> backend \<Rightarrow> string option \<Rightarrow> (string \<Rightarrow> string) \<Rightarrow> container_call \<Rightarrow> json option awaited" where
  "http_call env backend cookie enc c =
     (let req = axios_request enc (container c) in
      axios_settle (Some (handler_response (proxy_route env backend cookie req (next_segments (in_url req))))))"

text \<open>
  \<open>.then((r) => r.data)\<close> at a claimed type, \<open>.then(() => undefined)\<close>, and \<open>.then((r) => r.data.k ?? [])\<close>: an
  answer without a body has the empty string as its data. \<open>None\<close> is an answer for which the claim is false.
\<close>

fun then_data :: "(json \<Rightarrow> 'a option) \<Rightarrow> json option awaited \<Rightarrow> 'a awaited option" where
  "then_data dec (Inl e) = Some (Inl e)"
| "then_data dec (Inr None) = map_option Inr (dec (JStr []))"
| "then_data dec (Inr (Some v)) = map_option Inr (dec v)"

fun then_undefined :: "json option awaited \<Rightarrow> unit awaited" where
  "then_undefined (Inl e) = Inl e"
| "then_undefined (Inr v) = Inr ()"

fun then_list :: "string \<Rightarrow> (json \<Rightarrow> 'a option) \<Rightarrow> json option awaited \<Rightarrow> 'a list awaited option" where
  "then_list k dec (Inl e) = Some (Inl e)"
| "then_list k dec (Inr None) = Some (Inr [])"
| "then_list k dec (Inr (Some v)) = (case get_prop v k of
     Inl _ \<Rightarrow> Some (Inl (Thrown ''Cannot read properties of null''))
   | Inr m \<Rightarrow> map_option Inr (rows dec (json_nullish m (JArr []))))"

text \<open>The request the backend sees for a call, and a successful answer with a JSON value, however it is written.\<close>

definition call_request :: "bff_env \<Rightarrow> string \<Rightarrow> (string \<Rightarrow> string) \<Rightarrow> container_call \<Rightarrow> http_request" where
  "call_request env tok enc c =
     \<lparr>rq_method = ac_method (container c),
      rq_url = env_backendUrl env @ ''/api'' @ ac_path (container c) @ query_text enc (ac_params (container c)),
      rq_headers = [(''Content-Type'', ''application/json''), (''Authorization'', ''Bearer '' @ tok)],
      rq_body = map_option stringify (ac_body (container c))\<rparr>"

definition ok_answer :: "json \<Rightarrow> http_response option \<Rightarrow> bool" where
  "ok_answer v answer \<longleftrightarrow> (\<exists>res. answer = Some res \<and> is_ok res \<and> rs_status res \<noteq> 204 \<and> json_parse (rs_body res) = Some v)"

lemma json_parse_Nil [simp]: "json_parse [] = None"
  by (simp add: json_parse_def numeral_2_eq_2 parse_value.simps skip_ws_def)

lemma ok_written: "wf_json v \<Longrightarrow> ok_answer v (Some \<lparr>rs_status = 200, rs_body = stringify v\<rparr>)"
  using js.decode_encode [of v] by (simp add: ok_answer_def is_ok_def)

definition failing_answer :: "http_response option \<Rightarrow> bool" where
  "failing_answer answer \<longleftrightarrow> (case answer of None \<Rightarrow> True | Some res \<Rightarrow> \<not> is_ok res)"

lemma http_call_answer:
  assumes "tok \<noteq> []" "CHR ''?'' \<notin> set (ac_path (container c))"
  shows "http_call env backend (Some tok) enc c = axios_settle (Some (handler_response
     (case backend (call_request env tok enc c) of
        None \<Rightarrow> Inr (json_response (error_json ''Backend unreachable.'') 503)
      | Some res \<Rightarrow> proxy_reply res)))"
  using call_reaches [OF assms, of env backend enc] by (simp add: http_call_def call_request_def Let_def)

lemma http_call_ok:
  assumes "tok \<noteq> []" "CHR ''?'' \<notin> set (ac_path (container c))"
    and "ok_answer v (backend (call_request env tok enc c))"
  shows "http_call env backend (Some tok) enc c = Inr (Some v)"
proof -
  obtain res where res: "backend (call_request env tok enc c) = Some res" "is_ok res"
      "rs_status res \<noteq> 204" "json_parse (rs_body res) = Some v"
    using assms(3) by (auto simp: ok_answer_def)
  have "proxy_reply res = Inr (json_response v (rs_status res))"
    using res by (auto simp: proxy_reply_def is_ok_def)
  with res show ?thesis
    by (simp add: http_call_answer [OF assms(1,2)] handler_response_def axios_settle_def is_ok_def)
qed

lemma http_call_failed:
  assumes "tok \<noteq> []" "CHR ''?'' \<notin> set (ac_path (container c))"
    and "failing_answer (backend (call_request env tok enc c))"
  shows "\<exists>n t. http_call env backend (Some tok) enc c = Inl (Http_Error n t)"
proof (cases "backend (call_request env tok enc c)")
  case None
  then show ?thesis
    by (simp add: http_call_answer [OF assms(1,2)] handler_response_def axios_settle_def)
next
  case (Some res)
  with assms(3) have bad: "\<not> is_ok res" by (simp add: failing_answer_def)
  then have "\<not> is_ok \<lparr>rs_status = nr_status (handler_response (proxy_reply res)), rs_body = []\<rparr>"
    by (auto simp: proxy_reply_def handler_response_def is_ok_def split: sum.split)
  then show ?thesis
    by (simp add: http_call_answer [OF assms(1,2)] Some axios_settle_def is_ok_def)
qed

end
