(* ===== verification/Wire_Stores.thy ===== *)
theory Wire_Stores
  imports Wire_Types Chat_Refinement Staff_Store Business_Unit_Store
begin

text \<open>
  The stores connected to the backend: what an operation of a store receives when its call goes through axios,
  the proxy route and the backend, instead of a value assumed to arrive. For the chat store this closes the
  transition system: every answer a backend of the right type can give, and every failure, is a step.
\<close>

subsection \<open>Answers of the chat store's calls\<close>

definition messages_json :: "chat_message list \<Rightarrow> json" where
  "messages_json ms = JObj [(''messages'', JArr (map message_json ms))]"

definition conversations_json :: "chat_conversation list \<Rightarrow> json" where
  "conversations_json cs = JObj [(''conversations'', JArr (map conversation_json cs))]"

text \<open>What a store operation receives for its call: the part of the API modules after the call.\<close>

fun as_reply :: "('a \<Rightarrow> chat_reply) \<Rightarrow> 'a awaited \<Rightarrow> chat_reply" where
  "as_reply f (Inl e) = Rejected e"
| "as_reply f (Inr x) = f x"

fun chat_answer :: "chat_call \<Rightarrow> json option awaited \<Rightarrow> chat_reply option" where
  "chat_answer (C_Workspace b) r = map_option (as_reply R_Workspace) (then_data as_workspace r)"
| "chat_answer (C_Access b p h) r = Some (as_reply (\<lambda>_. R_Done) (then_undefined r))"
| "chat_answer (C_Conversations b) r =
     map_option (as_reply R_Conversations) (then_list ''conversations'' as_conversation r)"
| "chat_answer (C_DM b p) r = map_option (as_reply R_Conversation) (then_data as_conversation r)"
| "chat_answer (C_Conv_Messages b c) r = map_option (as_reply R_Messages) (then_list ''messages'' as_message r)"
| "chat_answer (C_Messages b) r = map_option (as_reply R_Messages) (then_list ''messages'' as_message r)"

text \<open>
  What the code relies on from the backend: a successful answer has a body of the type the code claims, its members
  in any order and possibly with others, with unique ids. An answer to a change of access may have any body; failures are unrestricted.
\<close>

fun typed_body :: "chat_call \<Rightarrow> chat_reply \<Rightarrow> json \<Rightarrow> bool" where
  "typed_body (C_Workspace b) (R_Workspace w) v \<longleftrightarrow> as_workspace v = Some w"
| "typed_body (C_Conversations b) (R_Conversations cs) v \<longleftrightarrow>
     field (rows as_conversation) v ''conversations'' = Some cs \<and> distinct (map cv_conversationId cs)"
| "typed_body (C_DM b p) (R_Conversation cv) v \<longleftrightarrow> as_conversation v = Some cv"
| "typed_body (C_Conv_Messages b c) (R_Messages ms) v \<longleftrightarrow>
     field (rows as_message) v ''messages'' = Some ms \<and> distinct (map ms_messageId ms)"
| "typed_body (C_Messages b) (R_Messages ms) v \<longleftrightarrow>
     field (rows as_message) v ''messages'' = Some ms \<and> distinct (map ms_messageId ms)"
| "typed_body _ _ v \<longleftrightarrow> False"

fun_cases typed_body_elims: "typed_body q r v"

definition typed_answer :: "chat_call \<Rightarrow> http_response option \<Rightarrow> bool" where
  "typed_answer q answer \<longleftrightarrow> failing_answer answer \<or> (\<exists>r v. typed_body q r v \<and> ok_answer v answer) \<or>
     (\<exists>b p h. q = C_Access b p h)"

lemma then_list_messages: "then_list ''messages'' as_message (Inr (Some (messages_json ms))) = Some (Inr ms)"
  using message.rows_encode [of ms] by (simp add: messages_json_def)

lemma then_list_conversations:
  "then_list ''conversations'' as_conversation (Inr (Some (conversations_json cs))) = Some (Inr cs)"
  using conversation.rows_encode [of cs] by (simp add: conversations_json_def)

lemma lists_wf [simp]: "wf_json (messages_json ms)" "wf_json (conversations_json cs)"
  using message.rows_wf [of ms] conversation.rows_wf [of cs]
  by (simp_all add: messages_json_def conversations_json_def)

lemma then_list_field: "field (rows dec) v k = Some xs \<Longrightarrow> then_list k dec (Inr (Some v)) = Some (Inr xs)"
proof -
  assume "field (rows dec) v k = Some xs"
  then obtain w where w: "js_prop v k = Some w" "rows dec w = Some xs"
    by (auto simp: field_def Option.bind_eq_Some_conv)
  then have "v \<noteq> JNull" by auto
  moreover have "json_nullish (Some w) d = w" for d using w(2) by (cases w) auto
  ultimately show ?thesis using w by (simp add: get_prop_js_prop)
qed

lemma typed_body_read:
  assumes "typed_body q r v"
  shows "chat_answer q (Inr (Some v)) = Some r \<and> reply_ok r \<and> (\<forall>s. \<exists>t. chat_settle q r s = Some t)"
  using assms by (elim typed_body_elims) (simp_all add: then_list_field del: then_list.simps)

lemma rejected_read:
  "chat_answer q (Inl e) = Some (Rejected e) \<and> reply_ok (Rejected e) \<and> (\<exists>t. chat_settle q (Rejected e) s = Some t)"
  by (cases q) auto

lemma access_read:
  "\<exists>r. chat_answer (C_Access b p h) a = Some r \<and> reply_ok r \<and> (\<exists>t. chat_settle (C_Access b p h) r s = Some t)"
  by (cases a) auto

subsection \<open>The staff page's data\<close>

text \<open>\<open>fetch\<close> of the staff store with its two calls sent through the proxy.\<close>

definition staff_fetch_call :: "bff_env \<Rightarrow> backend \<Rightarrow> string option \<Rightarrow> (string \<Rightarrow> string) \<Rightarrow> staff_state \<Rightarrow> staff_state option" where
  "staff_fetch_call env backend cookie enc s = do {
     staff \<leftarrow> then_data (rows as_staff_member) (http_call env backend cookie enc Staff_getAll);
     bus \<leftarrow> then_data (rows as_business_unit) (http_call env backend cookie enc BusinessUnits_getAll);
     Some (staff_fetch staff bus s)}"

lemma staff_paths [simp]:
  "CHR ''?'' \<notin> set (ac_path (container Staff_getAll))" "CHR ''?'' \<notin> set (ac_path (container BusinessUnits_getAll))"
  by (simp_all add: use_case_defs api_defs)

subsection \<open>Properties\<close>

text \<open>
  C8. Answers are well typed and never stuck: for every pending call of the chat store and every answer the
  backend may give, an unreachable or failing one or a successful one of the claimed type, what comes back through
  the proxy and axios is a reply the waiting operation can settle with; a failure is a rejection, and a success
  is exactly the value the backend wrote.
\<close>

theorem chat_answers_typed:
  fixes enc :: "string \<Rightarrow> string"
  assumes "tok \<noteq> []" "CHR ''?'' \<notin> set (ac_path (container (chat_request q)))" "q \<in> set (cy_pending y)"
    and "typed_answer q (backend (call_request env tok enc (chat_request q)))"
  defines "answer \<equiv> backend (call_request env tok enc (chat_request q))"
  shows "\<exists>r z. chat_answer q (http_call env backend (Some tok) enc (chat_request q)) = Some r \<and>
     chat_step y (E_Settle q r) z \<and> (failing_answer answer \<longrightarrow> (\<exists>e. r = Rejected e)) \<and>
     (\<forall>v r'. typed_body q r' v \<and> ok_answer v answer \<longrightarrow> r = r')"
proof -
  let ?a = "http_call env backend (Some tok) enc (chat_request q)"
  have step: "\<exists>z. chat_step y (E_Settle q r) z" if "reply_ok r" "\<exists>t. chat_settle q r (cy_state y) = Some t" for r
    using that assms(3) by (auto simp: chat_step_simps)
  have failing: "\<exists>e. ?a = Inl e" if "failing_answer answer"
    using http_call_failed [OF assms(1,2)] that unfolding answer_def by blast
  have typed: "chat_answer q ?a = Some r'" if "typed_body q r' v" "ok_answer v answer" for r' v
    using http_call_ok [OF assms(1,2)] typed_body_read [OF that(1)] that(2) unfolding answer_def by metis
  have apart: "\<not> failing_answer answer" if "ok_answer v answer" for v
    using that by (auto simp: ok_answer_def failing_answer_def)
  from assms(4) [folded answer_def]
  consider "failing_answer answer" | r' v where "typed_body q r' v" "ok_answer v answer"
    | "\<not> failing_answer answer" "\<exists>b p h. q = C_Access b p h"
    unfolding typed_answer_def by blast
  then show ?thesis
  proof cases
    case 1
    then obtain e where e: "?a = Inl e" using failing by blast
    note read = rejected_read [of q e "cy_state y"]
    then obtain z where "chat_step y (E_Settle q (Rejected e)) z" using step by blast
    moreover have "chat_answer q ?a = Some (Rejected e)" unfolding e using read by blast
    ultimately show ?thesis using apart 1 by blast
  next
    case 2
    from typed_body_read [OF 2(1)] obtain z where z: "chat_step y (E_Settle q r') z" using step by blast
    have answer: "chat_answer q ?a = Some r'" using typed [OF 2] .
    have "\<forall>v r. typed_body q r v \<and> ok_answer v answer \<longrightarrow> r' = r"
      using typed answer by (metis option.inject)
    with z answer apart [OF 2(2)] show ?thesis by blast
  next
    case 3
    then obtain r where r: "chat_answer q ?a = Some r" "reply_ok r" "\<exists>t. chat_settle q r (cy_state y) = Some t"
      using access_read by blast
    then obtain z where "chat_step y (E_Settle q r) z" using step by blast
    moreover have "\<not> typed_body q r' v" for r' v using 3(2) by auto
    ultimately show ?thesis using r(1) 3(1) by blast
  qed
qed

definition history_backend :: backend where
  "history_backend req = Some \<lparr>rs_status = 200, rs_body = stringify (messages_json [sample_msg ''m1''])\<rparr>"

theorem chat_answers_typed_witness:
  "\<exists>z. chat_step \<lparr>cy_state = chat_init, cy_pending = [C_Conv_Messages ''b1'' ''c1'']\<rparr>
     (E_Settle (C_Conv_Messages ''b1'' ''c1'') (R_Messages [sample_msg ''m1''])) z"
proof -
  let ?q = "C_Conv_Messages ''b1'' ''c1''"
  let ?y = "\<lparr>cy_state = chat_init, cy_pending = [?q]\<rparr>"
  have ok: "typed_body ?q (R_Messages [sample_msg ''m1'']) (messages_json [sample_msg ''m1''])"
    "ok_answer (messages_json [sample_msg ''m1'']) (history_backend (call_request sample_env ''jwt'' id (chat_request ?q)))"
    using message.rows_encode [of "[sample_msg ''m1'']"]
    by (simp_all add: history_backend_def ok_written) (simp add: messages_json_def)
  then have typed: "typed_answer ?q (history_backend (call_request sample_env ''jwt'' id (chat_request ?q)))"
    unfolding typed_answer_def by blast
  have path: "CHR ''?'' \<notin> set (ac_path (container (chat_request ?q)))"
    by (simp add: use_case_defs api_defs)
  have "''jwt'' \<noteq> []" "?q \<in> set (cy_pending ?y)" by simp_all
  note this(1) path this(2) typed
  from chat_answers_typed [where backend = history_backend, OF this] ok show ?thesis by metis
qed

text \<open>
  C11. The staff page shows the backend's rows: when both calls are answered with the company's staff and business
  units, the store ends idle and without an error, showing exactly those; when either call fails, in any way, it
  ends idle with the error, showing what it showed before.
\<close>

theorem staff_page_shows_backend:
  fixes enc :: "string \<Rightarrow> string"
  assumes "tok \<noteq> []"
    and "staff_answer = backend (call_request env tok enc Staff_getAll)"
    and "bus_answer = backend (call_request env tok enc BusinessUnits_getAll)"
    and "failing_answer staff_answer \<or> ok_answer (JArr (map staff_member_json xs)) staff_answer"
    and "failing_answer bus_answer \<or> ok_answer (JArr (map business_unit_json ys)) bus_answer"
  shows "\<exists>t. staff_fetch_call env backend (Some tok) enc s = Some t \<and> \<not> ss_isLoading t \<and>
     (if failing_answer staff_answer \<or> failing_answer bus_answer
      then ss_error t = Some ''Failed to load staff data.'' \<and>
        (ss_staff t, ss_businessUnits t) = (ss_staff s, ss_businessUnits s)
      else ss_error t = None \<and> (ss_staff t, ss_businessUnits t) = (xs, ys))"
proof -
  let ?a = "http_call env backend (Some tok) enc Staff_getAll"
  let ?b = "http_call env backend (Some tok) enc BusinessUnits_getAll"
  have a: "(\<exists>e. failing_answer staff_answer \<and> then_data (rows as_staff_member) ?a = Some (Inl e)) \<or>
      (\<not> failing_answer staff_answer \<and> then_data (rows as_staff_member) ?a = Some (Inr xs))"
    using assms(4) http_call_failed [OF assms(1) staff_paths(1), of backend env enc]
      http_call_ok [OF assms(1) staff_paths(1), of "JArr (map staff_member_json xs)" backend env enc]
      staff_member.rows_encode [of xs]
    unfolding assms(2) by (auto simp: ok_answer_def failing_answer_def)
  have b: "(\<exists>e. failing_answer bus_answer \<and> then_data (rows as_business_unit) ?b = Some (Inl e)) \<or>
      (\<not> failing_answer bus_answer \<and> then_data (rows as_business_unit) ?b = Some (Inr ys))"
    using assms(5) http_call_failed [OF assms(1) staff_paths(2), of backend env enc]
      http_call_ok [OF assms(1) staff_paths(2), of "JArr (map business_unit_json ys)" backend env enc]
      business_unit.rows_encode [of ys]
    unfolding assms(3) by (auto simp: ok_answer_def failing_answer_def)
  show ?thesis
    using a b by (elim disjE exE conjE) (simp_all add: staff_fetch_call_def staff_defs)
qed

definition staff_backend :: backend where
  "staff_backend req =
     (if rq_url req = env_backendUrl sample_env @ ''/api/staff''
      then Some \<lparr>rs_status = 200, rs_body = stringify (JArr (map staff_member_json [row_a]))\<rparr>
      else Some \<lparr>rs_status = 200, rs_body = stringify (JArr (map business_unit_json []))\<rparr>)"

lemma sample_answers:
  "ok_answer (JArr (map staff_member_json [row_a])) (staff_backend (call_request sample_env ''jwt'' (\<lambda>x. x) Staff_getAll))"
  "ok_answer (JArr (map business_unit_json [])) (staff_backend (call_request sample_env ''jwt'' (\<lambda>x. x) BusinessUnits_getAll))"
proof -
  have url: "rq_url (call_request sample_env ''jwt'' (\<lambda>x. x) Staff_getAll) = env_backendUrl sample_env @ ''/api/staff''"
    "rq_url (call_request sample_env ''jwt'' (\<lambda>x. x) BusinessUnits_getAll) = env_backendUrl sample_env @ ''/api/business-units''"
    by (simp_all add: call_request_def use_case_defs api_defs query_text_def)
  show "ok_answer (JArr (map staff_member_json [row_a])) (staff_backend (call_request sample_env ''jwt'' (\<lambda>x. x) Staff_getAll))"
    "ok_answer (JArr (map business_unit_json [])) (staff_backend (call_request sample_env ''jwt'' (\<lambda>x. x) BusinessUnits_getAll))"
    using staff_member.rows_wf [of "[row_a]"] business_unit.rows_wf [of "[]"]
    by (simp_all add: ok_written staff_backend_def url del: stringify.simps list.map)
qed

theorem staff_page_shows_backend_witness:
  "\<exists>t. staff_fetch_call sample_env staff_backend (Some ''jwt'') (\<lambda>x. x) staff_init = Some t \<and> ss_staff t = [row_a]"
proof -
  note ok = sample_answers
  then have "\<not> failing_answer (staff_backend (call_request sample_env ''jwt'' (\<lambda>x. x) Staff_getAll))"
    "\<not> failing_answer (staff_backend (call_request sample_env ''jwt'' (\<lambda>x. x) BusinessUnits_getAll))"
    by (auto simp: ok_answer_def failing_answer_def)
  with staff_page_shows_backend [OF _ refl refl disjI2 [OF ok(1)] disjI2 [OF ok(2)], of staff_init]
  show ?thesis by auto
qed

end
