(* ===== verification/Server_Client.thy ===== *)
theory Server_Client
  imports Wire_Stores Server_Pages
begin

text \<open>
  Two ways to the same data: a page's server component asks the backend itself (\<open>serverFetch\<close>), and later the
  stores of the browser ask through axios and the proxy route. The backend sees the same request, and both ways
  read the same values from its answer, so a page that reloads its data shows what it was rendered with.
\<close>

text \<open>Both ways send one request.\<close>

lemma server_request_call:
  assumes "tok \<noteq> []" "container c = axios_get (CHR ''/'' # path) []"
  shows "server_request env (Some tok) path = call_request env tok enc c"
  using assms by (simp add: server_request_def call_request_def query_text_def)

text \<open>And a value fetched by one way is fetched by the other.\<close>

lemma server_fetch_call:
  assumes "tok \<noteq> []" "container c = axios_get (CHR ''/'' # path) []" "CHR ''?'' \<notin> set path"
  shows "serverFetch env backend (Some tok) path = Inr (Some v) \<longleftrightarrow> http_call env backend (Some tok) enc c = Inr (Some v)"
proof -
  have path: "CHR ''?'' \<notin> set (ac_path (container c))" using assms(2,3) by simp
  note call = http_call_answer [OF assms(1) path, of env backend enc]
  note same = server_request_call [OF assms(1,2), of env enc]
  show ?thesis
  proof (cases "backend (call_request env tok enc c)")
    case None
    then show ?thesis by (simp add: serverFetch_def same call handler_response_def axios_settle_def)
  next
    case (Some res)
    have empty: "json_parse [] = None" by code_simp
    show ?thesis
    proof (cases "is_ok res")
      case False
      have "\<not> is_ok \<lparr>rs_status = nr_status (handler_response (proxy_reply res)), rs_body = []\<rparr>"
        using False by (auto simp: proxy_reply_def handler_response_def is_ok_def split: sum.split)
      with False Some show ?thesis
        by (auto simp: serverFetch_def same call axios_settle_def is_ok_def)
    next
      case True
      with Some show ?thesis
        by (cases "rs_body res = []"; cases "json_parse (rs_body res)")
          (auto simp: serverFetch_def same call axios_settle_def handler_response_def proxy_reply_def is_ok_def empty)
    qed
  qed
qed

lemma staff_calls:
  "container Staff_getAll = axios_get (CHR ''/'' # ''staff'') []"
  "container BusinessUnits_getAll = axios_get (CHR ''/'' # ''business-units'') []"
  by (simp_all add: use_case_defs api_defs)

lemma then_data_rows:
  "then_data (rows dec) r = Some (Inr xs) \<longleftrightarrow> (\<exists>v. r = Inr (Some v) \<and> rows dec v = Some xs)"
  by (cases "(rows dec, r)" rule: then_data.cases) auto

lemma both_fetched_Inr: "both_fetched a b = Inr (x, y) \<longleftrightarrow> a = Inr x \<and> b = Inr y"
  by (cases "(a, b)" rule: both_fetched.cases) auto

lemma staff_fetch_ok:
  "ss_error (staff_fetch a b s) = None \<and> ss_staff (staff_fetch a b s) = xs \<and> ss_businessUnits (staff_fetch a b s) = ys \<longleftrightarrow>
     a = Inr xs \<and> b = Inr ys"
  by (cases a; cases b) (auto simp: staff_defs)

subsection \<open>Properties\<close>

text \<open>
  C12. The staff page is rendered with what the browser would fetch: with a session token, the server component of
  the page supplies lists of staff and business units exactly if the store's own fetch through the proxy ends
  without an error and with the same lists.
\<close>

theorem server_and_client_agree:
  fixes enc :: "string \<Rightarrow> string"
  assumes "cookie_value now j ''auth_token'' = Some tok" "tok \<noteq> []"
  shows "(\<exists>p. StaffServerPage env password backend now j = Inr p \<and>
       Option.bind (tp_initialStaff p) (rows as_staff_member) = Some xs \<and>
       Option.bind (tp_initialBus p) (rows as_business_unit) = Some ys) \<longleftrightarrow>
    (\<exists>t. staff_fetch_call env backend (Some tok) enc s = Some t \<and> ss_error t = None \<and>
       ss_staff t = xs \<and> ss_businessUnits t = ys)" (is "?server \<longleftrightarrow> ?client")
proof -
  let ?a = "http_call env backend (Some tok) enc Staff_getAll"
  let ?b = "http_call env backend (Some tok) enc BusinessUnits_getAll"
  let ?both = "\<exists>v w. ?a = Inr (Some v) \<and> ?b = Inr (Some w) \<and> rows as_staff_member v = Some xs \<and> rows as_business_unit w = Some ys"
  have clean: "CHR ''?'' \<notin> set ''staff''" "CHR ''?'' \<notin> set ''business-units''" by simp_all
  note fetched = server_fetch_call [OF assms(2) staff_calls(1) clean(1), of env backend _ enc]
    server_fetch_call [OF assms(2) staff_calls(2) clean(2), of env backend _ enc]
  have "?server \<longleftrightarrow> (\<exists>v w. serverFetch env backend (Some tok) ''staff'' = Inr (Some v) \<and>
      serverFetch env backend (Some tok) ''business-units'' = Inr (Some w) \<and>
      rows as_staff_member v = Some xs \<and> rows as_business_unit w = Some ys)"
    using assms(1) by (fastforce simp: StaffServerPage_def server_token_def both_fetched_Inr Let_def bind_eq_Some_conv
        split: sum.splits prod.splits)
  also have "\<dots> \<longleftrightarrow> ?both" unfolding fetched ..
  also have "\<dots> \<longleftrightarrow> then_data (rows as_staff_member) ?a = Some (Inr xs) \<and> then_data (rows as_business_unit) ?b = Some (Inr ys)"
    unfolding then_data_rows by blast
  also have "\<dots> \<longleftrightarrow> (\<exists>a b. then_data (rows as_staff_member) ?a = Some a \<and> then_data (rows as_business_unit) ?b = Some b \<and>
      ss_error (staff_fetch a b s) = None \<and> ss_staff (staff_fetch a b s) = xs \<and> ss_businessUnits (staff_fetch a b s) = ys)"
    unfolding staff_fetch_ok by blast
  also have "\<dots> \<longleftrightarrow> ?client"
    unfolding staff_fetch_call_def by (auto simp: bind_eq_Some_conv)
  finally show ?thesis .
qed

theorem server_and_client_agree_witness:
  "\<exists>p. StaffServerPage sample_env None staff_backend 0 [''auth_token'' \<mapsto> (''jwt'', 9)] = Inr p \<and>
     Option.bind (tp_initialStaff p) (rows as_staff_member) = Some [row_a] \<and>
     Option.bind (tp_initialBus p) (rows as_business_unit) = Some []"
proof -
  let ?call = "\<lambda>c. http_call sample_env staff_backend (Some ''jwt'') (\<lambda>x. x) c"
  have tok: "''jwt'' \<noteq> []" by simp
  have "then_data (rows as_staff_member) (?call Staff_getAll) = Some (Inr [row_a])"
    using http_call_ok [where backend = staff_backend, OF tok staff_paths(1) sample_answers(1)] staff_member.rows_encode
    unfolding then_data_rows by blast
  moreover have "then_data (rows as_business_unit) (?call BusinessUnits_getAll) = Some (Inr [])"
    using http_call_ok [where backend = staff_backend, OF tok staff_paths(2) sample_answers(2)] business_unit.rows_encode
    unfolding then_data_rows by blast
  ultimately have "\<exists>t. staff_fetch_call sample_env staff_backend (Some ''jwt'') (\<lambda>x. x) staff_init = Some t \<and>
      ss_error t = None \<and> ss_staff t = [row_a] \<and> ss_businessUnits t = []"
    using staff_fetch_ok [of "Inr [row_a]" "Inr []" staff_init "[row_a]" "[]"] by (simp add: staff_fetch_call_def)
  moreover have "cookie_value 0 [''auth_token'' \<mapsto> (''jwt'', 9)] ''auth_token'' = Some ''jwt''"
    by (simp add: cookie_value_def)
  ultimately show ?thesis using server_and_client_agree [OF _ tok] by blast
qed

end
