(* ===== verification/Chat_Delivery.thy ===== *)
theory Chat_Delivery
  imports Ws_Server Chat_Socket Chat_Refinement
begin

text \<open>
  The chat from the server's connections to the store behind the hook: the store is observed through the frames
  the hook's sockets deliver, and a frame a connection forwarded was sent on that connection.
\<close>

subsection \<open>The store behind the hook\<close>

fun hook_machine :: "hook_event \<Rightarrow> chat_state \<Rightarrow> chat_state" where
  "hook_machine (Socket_Message i d) chat = ws_onmessage d chat"
| "hook_machine _ chat = chat"

lemma hook_chat_frame:
  "hk_chat (hook_connect e h) = hk_chat h" "hk_chat (ws_onopen i h) = hk_chat h"
  "hk_chat (schedule_reconnect e h) = hk_chat h" "hk_chat (ws_onclose i c h) = hk_chat h"
  "hk_chat (ws_onerror i h) = hk_chat h" "hk_chat (hook_timer p h) = hk_chat h"
  "hk_chat (hook_cleanup h) = hk_chat h" "hk_chat (hook_run_effect b h) = hk_chat h"
  by (simp_all add: hook_connect_def ws_onopen_def schedule_reconnect_def ws_onclose_def ws_onerror_def
      hook_timer_def hook_cleanup_def hook_run_effect_def Let_def split: option.split)

interpretation hook_chat_of: observed_system hook_step hk_chat hook_machine
proof
  show "hk_chat t = hook_machine e (hk_chat s)" if "hook_step s e t" for s e t
    using that
    by (cases e) (auto simp: hook_step_iff hook_chat_frame hook_sendMessage_def split: sum.split option.split)
qed

lemma ws_onmessage_origin:
  assumes "m \<in> set (messages_of (ws_onmessage d chat) c)"
  shows "m \<in> set (messages_of chat c) \<or>
    (\<exists>raw. json_parse d = Some raw \<and> m = message_of_json raw \<and> ms_conversationId m = c)"
  using assms
  by (auto simp: ws_onmessage_def store_simps append_absent_iff split: option.splits if_splits)

lemma backend_frames_event: "f \<in> set (backend_frames es) \<Longrightarrow> Backend_Message f \<in> set es"
  by (induction es rule: backend_frames.induct) auto

lemma events_of_event: "e \<in> set (events_of i es) \<Longrightarrow> Socket i e \<in> set es"
  by (induction i es rule: events_of.induct) (auto split: if_splits)

lemma forwarded_frame:
  assumes "runs (server_step cf) [] es cs" "i < length cs" "f \<in> set (px_toBrowser (cn_pair (cs ! i)))"
  shows "Socket i (Backend_Message f) \<in> set es"
proof -
  have "runs pair_step pair_init (events_of i es) (cn_pair (cs ! i))"
    using runs_server [OF assms(1)] assms(2) by blast
  from runs_frames [OF this] have "subseq (px_toBrowser (cn_pair (cs ! i))) (backend_frames (events_of i es))"
    by (auto simp: pair_init_def)
  with assms(3) have "f \<in> set (backend_frames (events_of i es))" by (auto dest: list_emb_set)
  then show ?thesis by (intro events_of_event backend_frames_event)
qed

end
