(* ===== verification/Chat_Reconnect.thy ===== *)
theory Chat_Reconnect
  imports Chat_Socket
begin

text \<open>
  The reconnection of the chat hook over time: every timer the hook sets is due three seconds later
  (\<open>setTimeout(connect, 3_000)\<close>) and fires at that moment or after it. The events of the hook are extended by
  the passing of milliseconds; the lemmas bound how often a browser can knock at the server.
\<close>

definition reconnect_delay :: nat where
  "reconnect_delay = 3000"

record timed_hook =
  th_hook :: hook_state
  th_now :: nat
  th_due :: "nat \<Rightarrow> nat"

text \<open>An event of the hook: the timers it set are due after the delay.\<close>

definition set_timeouts :: "hook_state \<Rightarrow> timed_hook \<Rightarrow> timed_hook" where
  "set_timeouts h s = s\<lparr>th_hook := h, th_due := (\<lambda>t.
     if hk_nextTimer (th_hook s) \<le> t \<and> t < hk_nextTimer h then th_now s + reconnect_delay else th_due s t)\<rparr>"

datatype timed_event = Pass nat | Hook_Event hook_event

inductive timed_step :: "timed_hook \<Rightarrow> timed_event \<Rightarrow> timed_hook \<Rightarrow> bool" where
  tm_pass: "timed_step s (Pass d) (s\<lparr>th_now := th_now s + d\<rparr>)"
| tm_hook: "hook_step (th_hook s) e h \<Longrightarrow> (\<And>p. e = Timer_Fires p \<Longrightarrow> th_due s (fst p) \<le> th_now s) \<Longrightarrow>
     timed_step s (Hook_Event e) (set_timeouts h s)"

inductive_simps timed_step_simps:
  "timed_step s (Pass d) t"
  "timed_step s (Hook_Event e) t"

subsection \<open>Timers\<close>

lemma socket_count [simp]:
  "length (hk_sockets (ws_onopen i h)) = length (hk_sockets h)"
  "length (hk_sockets (ws_onclose i c h)) = length (hk_sockets h)"
  "length (hk_sockets (ws_onerror i h)) = length (hk_sockets h)"
  "length (hk_sockets (hook_cleanup h)) = length (hk_sockets h)"
  by (simp_all add: ws_onopen_def ws_onclose_def schedule_reconnect_def ws_onerror_def hook_cleanup_def Let_def
      split: option.split)

lemma next_timer [simp]:
  "hk_nextTimer (ws_onopen i h) = hk_nextTimer h" "hk_nextTimer (ws_onerror i h) = hk_nextTimer h"
  "hk_nextTimer (hook_cleanup h) = hk_nextTimer h" "hk_nextTimer (hook_timer p h) = hk_nextTimer h"
  by (simp_all add: ws_onopen_def ws_onerror_def hook_cleanup_def hook_timer_def hook_connect_def Let_def
      split: option.split)

text \<open>A live socket excludes a pending timer.\<close>

lemma handled_no_timer:
  assumes "hook_inv h" "i < length (hk_sockets h)" "sk_onclose (hk_sockets h ! i)" "sk_ready (hk_sockets h ! i) \<noteq> Closed"
  shows "hk_timers h = []"
  using hook_invD(1) [OF assms(1,2)] hook_invD(7) [OF assms(1)] assms(3,4) by (auto simp: live_socket_def)

text \<open>What an event other than a new effect does to the timers: it fires the pending one, sets one, or sets none.\<close>

lemma timer_events:
  assumes "hook_inv h" "hook_enabled e h" "\<And>b. e \<noteq> Run_Effect b"
  obtains (fires) p where "e = Timer_Fires p" "hk_timers h = [p]" "hk_timers (hook_apply e h) = []"
      "length (hk_sockets (hook_apply e h)) = Suc (length (hk_sockets h))" "hk_nextTimer (hook_apply e h) = hk_nextTimer h"
  | (sets) f where "hk_timers h = []" "hk_timers (hook_apply e h) = [(hk_nextTimer h, f)]"
      "length (hk_sockets (hook_apply e h)) = length (hk_sockets h)" "hk_nextTimer (hook_apply e h) = Suc (hk_nextTimer h)"
  | (none) "hk_timers (hook_apply e h) \<in> {[], hk_timers h}"
      "length (hk_sockets (hook_apply e h)) = length (hk_sockets h)" "hk_nextTimer (hook_apply e h) = hk_nextTimer h"
proof (cases e)
  case (Run_Effect b)
  with assms(3) show ?thesis by blast
next
  case Unmount
  with inv_cleanup [OF assms(1)] none show ?thesis by simp
next
  case (Socket_Open i)
  then have "i < length (hk_sockets h)" "sk_ready (hk_sockets h ! i) = Connecting" using assms(2) by auto
  then have "hk_timers h = []"
    using handled_no_timer [OF assms(1), of i] hook_invD(2) [OF assms(1), of i] by auto
  then have "hk_timers (ws_onopen i h) = []" by (simp add: ws_onopen_def clear_timer_def Let_def)
  with Socket_Open none show ?thesis by simp
next
  case (Socket_Message i d)
  with none show ?thesis by simp
next
  case (Socket_Close i c)
  show ?thesis
  proof (cases "sk_onclose (hk_sockets h ! i)")
    case False
    with Socket_Close none show ?thesis by (simp add: ws_onclose_def Let_def)
  next
    case True
    with Socket_Close assms(2) handled_no_timer [OF assms(1), of i] have "hk_timers h = []" by simp
    with True Socket_Close none sets show ?thesis
      by (cases "\<not> he_intentionalClose (hk_effects h ! sk_effect (hk_sockets h ! i)) \<and> c \<noteq> 1000")
        (auto simp: ws_onclose_def schedule_reconnect_def set_effect_def Let_def)
  qed
next
  case (Socket_Error i)
  with none show ?thesis by (simp add: ws_onerror_def)
next
  case (Timer_Fires p)
  then have "hk_timers h = [p]" using assms(2) hook_invD(7) [OF assms(1)] by auto
  with Timer_Fires fires show ?thesis by (simp add: hook_timer_def hook_connect_def)
next
  case (Send c t)
  with none show ?thesis by (simp add: hook_sendMessage_def split: sum.split option.split)
qed

subsection \<open>The next possible connection\<close>

text \<open>The earliest moment at which the hook could open another socket.\<close>

definition next_connect :: "timed_hook \<Rightarrow> nat" where
  "next_connect s = (case hk_timers (th_hook s) of
     [] \<Rightarrow> th_now s + reconnect_delay
   | p # _ \<Rightarrow> th_due s (fst p))"

definition timed_inv :: "nat \<Rightarrow> nat \<Rightarrow> timed_hook \<Rightarrow> bool" where
  "timed_inv n b s \<longleftrightarrow> hook_inv (th_hook s) \<and> next_connect s \<le> th_now s + reconnect_delay \<and>
     n \<le> length (hk_sockets (th_hook s)) \<and>
     b + reconnect_delay * (length (hk_sockets (th_hook s)) - n) \<le> next_connect s"

lemma timed_inv_step:
  assumes "timed_inv n b s" "timed_step s e t" "\<And>u. e \<noteq> Hook_Event (Run_Effect u)"
  shows "timed_inv n b t"
  using assms(2)
proof cases
  case (tm_pass d)
  with assms(1) show ?thesis
    by (auto simp: timed_inv_def next_connect_def split: list.splits)
next
  case (tm_hook e' h)
  let ?g = "th_hook s"
  have inv: "hook_inv ?g" using assms(1) by (simp add: timed_inv_def)
  have h: "h = hook_apply e' ?g" "hook_enabled e' ?g" using tm_hook(3) by (auto simp: hook_step_iff)
  have next': "hook_inv h" using hook_apply_inv [OF inv h(2)] h(1) by simp
  have eff: "e' \<noteq> Run_Effect u" for u using assms(3) tm_hook(1) by blast
  from inv h(2) eff show ?thesis
  proof (cases rule: timer_events)
    case (fires p)
    then have "th_due s (fst p) \<le> th_now s" using tm_hook(4) by blast
    with fires h(1) next' assms(1) tm_hook(2) show ?thesis
      by (simp add: timed_inv_def next_connect_def set_timeouts_def Suc_diff_le)
  next
    case (sets f)
    with h(1) next' assms(1) tm_hook(2) show ?thesis
      by (simp add: timed_inv_def next_connect_def set_timeouts_def)
  next
    case none
    have "next_connect s \<le> next_connect t" "next_connect t \<le> th_now t + reconnect_delay"
      using none h(1) assms(1) tm_hook(2)
      by (auto simp: timed_inv_def next_connect_def set_timeouts_def split: list.splits)
    with none h(1) next' assms(1) tm_hook(2) show ?thesis
      by (simp add: timed_inv_def set_timeouts_def)
  qed
qed

lemma runs_timed_inv:
  assumes "runs timed_step s es t" "timed_inv n b s" "\<And>u. Hook_Event (Run_Effect u) \<notin> set es"
  shows "timed_inv n b t"
proof (rule runs_keeps [OF assms(1), of "timed_inv n b"])
  fix u e v
  assume "timed_inv n b u" "timed_step u e v" "e \<in> set es"
  with assms(3) show "timed_inv n b v" by (metis timed_inv_step)
qed (rule assms(2))

subsection \<open>Properties\<close>

text \<open>
  C27. The hook reconnects in time and never faster than every three seconds: while one effect is mounted, the number
  of sockets it opens again is at most the number of full three-second periods that passed, however often its
  sockets fail; and a pending reconnection is due within three seconds, after which it opens a socket.
\<close>

theorem reconnect_rate_bounded:
  assumes "reachable (\<lambda>h. \<exists>c. h = hook_init c) hook_step (th_hook s)" "hk_timers (th_hook s) = []"
    and "runs timed_step s es t" "\<And>b. Hook_Event (Run_Effect b) \<notin> set es"
  shows "length (hk_sockets (th_hook t)) - length (hk_sockets (th_hook s)) \<le> (th_now t - th_now s) div 3000 \<and>
    (\<forall>p \<in> set (hk_timers (th_hook t)). th_due t (fst p) \<le> th_now t + 3000 \<and>
       (\<exists>u. runs timed_step t [Pass 3000, Hook_Event (Timer_Fires p)] u \<and>
          length (hk_sockets (th_hook u)) = Suc (length (hk_sockets (th_hook t)))))"
proof -
  let ?n = "length (hk_sockets (th_hook s))"
  have "timed_inv ?n (th_now s + reconnect_delay) s"
    using hook.inv_reachable [OF assms(1)] assms(2) by (simp add: timed_inv_def next_connect_def)
  from runs_timed_inv [OF assms(3) this assms(4)] have inv: "timed_inv ?n (th_now s + reconnect_delay) t" .
  then have "3000 * (length (hk_sockets (th_hook t)) - ?n) \<le> th_now t - th_now s"
    unfolding timed_inv_def reconnect_delay_def by linarith
  then have rate: "length (hk_sockets (th_hook t)) - ?n \<le> (th_now t - th_now s) div 3000"
    by (simp add: less_eq_div_iff_mult_less_eq mult.commute)
  have hook: "hook_inv (th_hook t)" using inv by (simp add: timed_inv_def)
  have fire: "th_due t (fst p) \<le> th_now t + 3000 \<and>
       (\<exists>u. runs timed_step t [Pass 3000, Hook_Event (Timer_Fires p)] u \<and>
          length (hk_sockets (th_hook u)) = Suc (length (hk_sockets (th_hook t))))"
    if p: "p \<in> set (hk_timers (th_hook t))" for p
  proof -
    from p hook_invD(7) [OF hook] have "hk_timers (th_hook t) = [p]" by auto
    with inv have due: "th_due t (fst p) \<le> th_now t + 3000"
      by (simp add: timed_inv_def next_connect_def reconnect_delay_def)
    with p show ?thesis
      by (auto simp: timed_step_simps hook_step_iff set_timeouts_def hook_timer_def hook_connect_def)
  qed
  from rate fire show ?thesis by blast
qed

theorem reconnect_rate_bounded_witness:
  "let s = \<lparr>th_hook = hook_run_effect ''b1'' (hook_init chat_init), th_now = 7, th_due = \<lambda>_. 0\<rparr> in
   \<exists>t. runs timed_step s [Hook_Event (Socket_Close 0 1006), Pass 3500, Hook_Event (Timer_Fires (0, 0))] t \<and>
     length (hk_sockets (th_hook s)) = 1 \<and> length (hk_sockets (th_hook t)) = 2 \<and>
     length (hk_sockets (th_hook t)) - length (hk_sockets (th_hook s)) \<le> (th_now t - th_now s) div 3000"
proof -
  let ?h = "hook_run_effect ''b1'' (hook_init chat_init)"
  let ?s = "\<lparr>th_hook = ?h, th_now = 7, th_due = \<lambda>_. 0\<rparr>"
  let ?es = "[Hook_Event (Socket_Close 0 1006), Pass 3500, Hook_Event (Timer_Fires (0, 0))]"
  have r: "reachable (\<lambda>h. \<exists>c. h = hook_init c) hook_step (th_hook ?s)"
    by (rule reach_step [of _ _ "hook_init chat_init" "Run_Effect ''b1''"], rule reach_start) (auto simp: hook_step_iff)
  note defs = hook_run_effect_def hook_cleanup_def hook_init_def hook_connect_def ws_onclose_def schedule_reconnect_def
    set_socket_def set_effect_def Let_def
  have e: "hk_timers (th_hook ?s) = []" by (simp add: defs)
  obtain t where t: "runs timed_step ?s ?es t" "length (hk_sockets (th_hook t)) = 2"
    by (simp add: timed_step_simps hook_step_iff set_timeouts_def reconnect_delay_def hook_timer_def)
      (simp add: defs reconnect_delay_def)
  have one: "length (hk_sockets ?h) = 1" by (simp add: defs)
  from reconnect_rate_bounded [OF r e t(1)] have
    "length (hk_sockets (th_hook t)) - length (hk_sockets (th_hook ?s)) \<le> (th_now t - th_now ?s) div 3000" by simp
  with t one show ?thesis unfolding Let_def by (intro exI [of _ t] conjI) simp_all
qed

end
