(* ===== verification/Chat_Scroll.thy ===== *)
theory Chat_Scroll
  imports Chat_Page
begin

text \<open>
  The scroll position of the chat page: the effect that brings the end of the list into view, run after a
  render that changes the number of messages shown, and the reference it needs, which exists only while the
  message list is on the page. A run of the page is extended by the number of times it scrolled.
\<close>

text \<open>\<open>scrollRef.current\<close> is the last element of the message list, \<open>null\<close> while the list is not rendered.\<close>

definition scroll_ref :: "chat_page \<Rightarrow> bool" where
  "scroll_ref p \<longleftrightarrow> cp_user p \<noteq> None \<and> \<not> cp_initialLoading p \<and> \<not> cp_accessDenied p"

lemma scroll_ref_shown: "scroll_ref p \<longleftrightarrow> (\<exists>a b c d e f. ChatPage time p = View_Chat a b c d e f)"
  by (auto simp: scroll_ref_def ChatPage_def Let_def split: option.split)

text \<open>The effect with the dependency \<open>convMessages.length\<close>: whether the page scrolls after this update.\<close>

definition scroll_effect :: "chat_page \<Rightarrow> chat_page \<Rightarrow> bool" where
  "scroll_effect old p \<longleftrightarrow> length (conv_messages p) \<noteq> length (conv_messages old) \<and> scroll_ref p"

inductive scroll_step :: "chat_page \<times> nat \<Rightarrow> page_event \<Rightarrow> chat_page \<times> nat \<Rightarrow> bool" where
  "page_step p e q \<Longrightarrow> scroll_step (p, n) e (q, if scroll_effect p q then Suc n else n)"

inductive_simps scroll_step_iff: "scroll_step (p, n) e z"

lemma scroll_run_page: "runs scroll_step s es t \<Longrightarrow> runs page_step (fst s) es (fst t)"
  by (induction es arbitrary: s) (auto elim!: scroll_step.cases)

lemma conv_messages_hook:
  "conv_messages (p\<lparr>cp_hook := (cp_hook p)\<lparr>hk_chat := s\<rparr>\<rparr>) =
     (if truthy (ct_active s) then messages_of s (nullish (ct_active s) []) else [])"
  by (simp add: conv_messages_def)

text \<open>The events of opening the page on a conversation of \<open>n\<close> messages to which nothing is added.\<close>

fun reopens :: "id \<Rightarrow> nat \<Rightarrow> page_event \<Rightarrow> bool" where
  "reopens c n PG_Mount = True"
| "reopens c n (PG_Workspace r) = True"
| "reopens c n (PG_Conversations r) = True"
| "reopens c n (PG_Draft v) = True"
| "reopens c n (PG_History q (Inr ms)) = (snd q = c \<longrightarrow> length ms = n)"
| "reopens c n (PG_History q (Inl e)) = True"
| "reopens c n e = False"

definition selected_with :: "id \<Rightarrow> nat \<Rightarrow> chat_page \<Rightarrow> bool" where
  "selected_with c n p \<longleftrightarrow> ct_active (page_chat p) = Some c \<and> length (messages_of (page_chat p) c) = n"

lemma selected_with_upd:
  "selected_with c n p \<Longrightarrow> ct_active (f (page_chat p)) = ct_active (page_chat p) \<Longrightarrow>
     ct_messages (f (page_chat p)) = ct_messages (page_chat p) \<Longrightarrow> selected_with c n (upd_chat f p)"
  by (simp add: selected_with_def)

lemma selected_with_fields [simp]:
  "selected_with c n (p\<lparr>cp_load := l\<rparr>) = selected_with c n p" "selected_with c n (p\<lparr>cp_initialLoading := i\<rparr>) = selected_with c n p"
  "selected_with c n (p\<lparr>cp_accessDenied := a\<rparr>) = selected_with c n p" "selected_with c n (p\<lparr>cp_draft := d\<rparr>) = selected_with c n p"
  "selected_with c n (p\<lparr>cp_history := h\<rparr>) = selected_with c n p" "selected_with c n (history_effect p) = selected_with c n p"
  "selected_with c n (after_render old p) = selected_with c n p"
  by (simp_all add: selected_with_def)

lemma selected_with_hook: "selected_with c n (p\<lparr>cp_hook := hook_run_effect b (cp_hook p)\<rparr>) = selected_with c n p"
  by (simp add: selected_with_def hook_run_effect_def hook_cleanup_def hook_connect_def Let_def split: option.split)

lemma selected_with_length: "selected_with c n p \<Longrightarrow> c \<noteq> [] \<Longrightarrow> length (conv_messages p) = n"
  by (simp add: selected_with_def conv_messages_def truthy_iff)

lemma reopens_shows:
  assumes "selected_with c n p" "c \<noteq> []" "reopens c n e"
  shows "selected_with c n (page_apply e p)"
proof (cases "(c, n, e)" rule: reopens.cases)
  case (1 c n)
  have "selected_with c' n' (load_begin q) = selected_with c' n' q" for c' n' q
    by (simp add: load_begin_def selected_with_def fetchWorkspace_begin_def)
  with 1 assms show ?thesis by (simp add: page_mount_def selected_with_hook)
next
  case (2 c n r)
  with assms show ?thesis
    by (auto simp: load_workspace_settled_def load_finally_def Let_def fetchWorkspace_end_def
        intro!: selected_with_upd split: option.split prod.split sum.split)
next
  case (3 c n r)
  have keep: "ct_active (fetchConversations_end b r s) = ct_active s"
    "ct_messages (fetchConversations_end b r s) = ct_messages s" if "ct_active s = Some c" for b s
    using that assms(2) 3 by (auto simp: fetchConversations_end_def auto_select_def truthy_iff split: sum.split)
  have "selected_with c n (upd_chat (fetchConversations_end (page_buId p) r) p)"
    using assms(1) 3 keep by (auto simp: selected_with_def)
  with 3 show ?thesis
    by (auto simp: load_conversations_settled_def load_finally_def Let_def assms(1)
        split: option.split prod.split sum.split) (use assms(1) in \<open>simp add: selected_with_def\<close>)
next
  case (5 c n q ms)
  with assms show ?thesis
    by (auto simp: history_settled_def selected_with_def fetchConversationMessages_end_def)
next
  case (6 c n q e)
  with assms show ?thesis
    by (simp add: history_settled_def selected_with_def fetchConversationMessages_end_def)
qed (use assms in simp_all)

subsection \<open>Properties\<close>

text \<open>
  A message that arrives over the socket scrolls the page exactly when the list is on the page and the message is
  a new one of the selected conversation.
\<close>

lemma arrival_scrolls:
  assumes "ct_active (page_chat p) = Some c" "c \<noteq> []"
  shows "scroll_effect p (upd_chat (appendMessage d m) p) \<longleftrightarrow>
     scroll_ref p \<and> d = c \<and> ms_messageId m \<notin> ms_messageId ` set (messages_of (page_chat p) c)"
proof -
  have "scroll_ref (upd_chat (appendMessage d m) p) = scroll_ref p" by (simp add: scroll_ref_def)
  moreover have "conv_messages (upd_chat (appendMessage d m) p) = messages_of (appendMessage d m (page_chat p)) c"
    "conv_messages p = messages_of (page_chat p) c"
    using assms by (simp_all add: conv_messages_def truthy_iff store_simps)
  ultimately show ?thesis by (auto simp: scroll_effect_def store_simps append_absent_iff)
qed

text \<open>
  Selecting another conversation scrolls exactly when the list is on the page and the two conversations differ in
  their number of messages: one with as many messages is shown where the other was scrolled to.
\<close>

lemma selection_scrolls:
  "c \<noteq> [] \<Longrightarrow> scroll_effect p (handleSelectConversation c p) \<longleftrightarrow>
     scroll_ref p \<and> length (messages_of (page_chat p) c) \<noteq> length (conv_messages p)"
proof -
  have "scroll_ref (handleSelectConversation c p) = scroll_ref p"
    by (simp add: scroll_ref_def handleSelectConversation_def)
  moreover have "c \<noteq> [] \<Longrightarrow> conv_messages (handleSelectConversation c p) = messages_of (page_chat p) c"
    by (simp add: conv_messages_def handleSelectConversation_def truthy_iff setActiveConversation_def)
  ultimately show "c \<noteq> [] \<Longrightarrow> ?thesis" by (auto simp: scroll_effect_def)
qed

text \<open>
  A reopened chat is not scrolled to its newest message: when the page is opened on a conversation whose
  messages are still in the store, and the answers for its history have as many messages, it shows them without
  ever scrolling, whatever the order in which its calls settle; the effect ran while the list was not there.
\<close>

lemma reopened_chat_not_scrolled:
  assumes "runs scroll_step (chat_page_init user (hook_init chat), 0) es (q, k)"
    and "ct_active chat = Some c" "c \<noteq> []"
    and "\<forall>e \<in> set es. reopens c (length (messages_of chat c)) e"
  shows "k = 0 \<and> length (conv_messages q) = length (messages_of chat c) \<and>
    (scroll_ref q \<longrightarrow> (\<exists>a b d f g i. ChatPage time q = View_Chat a b d f g i))"
proof -
  let ?n = "length (messages_of chat c)"
  have "(\<lambda>(p, k). selected_with c ?n p \<and> k = 0) (q, k)"
  proof (rule runs_keeps [OF assms(1)])
    show "(\<lambda>(p, k). selected_with c ?n p \<and> k = (0 :: nat)) (chat_page_init user (hook_init chat), 0)"
      using assms(2) by (simp add: selected_with_def chat_page_init_def hook_init_def)
    fix u e v
    assume u: "(\<lambda>(p, k). selected_with c ?n p \<and> k = (0 :: nat)) u" and "scroll_step u e v" "e \<in> set es"
    from this(2) obtain p m where s: "u = (p, m)" "v = (page_apply e p, if scroll_effect p (page_apply e p) then Suc m else m)"
      by cases (auto simp: page_step_iff)
    have "selected_with c ?n (page_apply e p)"
      using u s \<open>e \<in> set es\<close> assms(3,4) by (auto intro: reopens_shows)
    with u s show "(\<lambda>(p, k). selected_with c ?n p \<and> k = 0) v"
      using selected_with_length [OF _ assms(3)] by (auto simp: scroll_effect_def)
  qed
  then show ?thesis
    using selected_with_length [OF _ assms(3)] scroll_ref_shown [of q time] by simp
qed

definition reopened_chat :: chat_state where
  "reopened_chat = chat_init\<lparr>ct_active := Some ''c1'', ct_messages := [''c1'' \<mapsto> [sample_msg ''m1'']]\<rparr>"

definition reopened_user :: auth_user where
  "reopened_user = \<lparr>au_personId = ''p1'', au_buId = ''b1'', au_companyId = ''k1'', au_role = ''Staff'',
     au_firstName = ''Ann'', au_lastName = ''Lee''\<rparr>"

end
