(* ===== verification/Root_Layout.thy ===== *)
theory Root_Layout
  imports Protected_Layout
begin

text \<open>
  The root layout (\<open>app/layout.tsx\<close>): fonts, metadata, the theme it configures the component library with,
  and the user it hands to \<open>Providers\<close>; and what a full load of an address leaves in the auth store, which
  starts empty then. How the font loader names the classes it generates is its own affair and an argument.
\<close>

subsection \<open>Fonts, metadata and theme\<close>

record font_options =
  ft_subsets :: "string list"
  ft_variable :: string
  ft_weight :: "string list"
  ft_display :: string

definition playfair :: font_options where
  "playfair = \<lparr>ft_subsets = [''latin''], ft_variable = ''--font-display'',
     ft_weight = [''400'', ''500'', ''600'', ''700''], ft_display = ''swap''\<rparr>"

definition dmSans :: font_options where
  "dmSans = \<lparr>ft_subsets = [''latin''], ft_variable = ''--font-body'',
     ft_weight = [''300'', ''400'', ''500'', ''600''], ft_display = ''swap''\<rparr>"

record page_metadata =
  md_title :: string
  md_description :: string

definition metadata :: page_metadata where
  "metadata = \<lparr>md_title = ''Aura Wellness'', md_description = ''Aesthetic & Wellness Centre''\<rparr>"

definition theme_config :: json where
  "theme_config = JObj
     [(''token'', JObj
          [(''colorPrimary'', JStr ''#A87E50''),
           (''colorPrimaryHover'', JStr ''#C9A96E''),
           (''colorPrimaryActive'', JStr ''#8A6438''),
           (''colorBgLayout'', JStr ''#F8F5F0''),
           (''colorBgContainer'', JStr ''#FFFFFF''),
           (''colorBgElevated'', JStr ''#FFFFFF''),
           (''colorText'', JStr ''#2D2D2D''),
           (''colorTextSecondary'', JStr ''#7A7068''),
           (''colorTextDisabled'', JStr ''#B8AEA5''),
           (''colorBorder'', JStr ''#E8E0D5''),
           (''colorBorderSecondary'', JStr ''#F0EBE3''),
           (''borderRadius'', JNum ''4''),
           (''borderRadiusLG'', JNum ''8''),
           (''borderRadiusSM'', JNum ''3''),
           (''fontFamily'', JStr ''var(--font-body), DM Sans, Inter, system-ui, sans-serif''),
           (''fontSize'', JNum ''14''),
           (''boxShadow'', JStr ''0 2px 12px rgba(44, 32, 16, 0.08)''),
           (''boxShadowSecondary'', JStr ''0 1px 4px rgba(44, 32, 16, 0.06)'')]),
      (''components'', JObj
          [(''Layout'', JObj
               [(''siderBg'', JStr ''#1A1C1E''),
                (''triggerBg'', JStr ''#1A1C1E'')]),
           (''Menu'', JObj
               [(''darkItemBg'', JStr ''#1A1C1E''),
                (''darkSubMenuItemBg'', JStr ''#141618''),
                (''darkItemSelectedBg'', JStr ''rgba(168, 126, 80, 0.18)''),
                (''darkItemHoverBg'', JStr ''rgba(201, 169, 110, 0.10)''),
                (''darkItemSelectedColor'', JStr ''#C9A96E''),
                (''darkItemColor'', JStr ''rgba(248, 245, 240, 0.65)''),
                (''darkItemHoverColor'', JStr ''#F8F5F0''),
                (''itemBorderRadius'', JNum ''4'')]),
           (''Button'', JObj
               [(''borderRadius'', JNum ''4''),
                (''controlHeight'', JNum ''38''),
                (''paddingInline'', JNum ''20''),
                (''fontWeight'', JNum ''500'')]),
           (''Input'', JObj
               [(''controlHeight'', JNum ''38''),
                (''borderRadius'', JNum ''4''),
                (''colorBgContainer'', JStr ''#FDFCFA'')]),
           (''Card'', JObj
               [(''borderRadius'', JNum ''8''),
                (''colorBorderSecondary'', JStr ''#EDE8E0'')]),
           (''Table'', JObj
               [(''colorBgContainer'', JStr ''#FFFFFF''),
                (''headerBg'', JStr ''#F8F5F0''),
                (''headerColor'', JStr ''#7A7068'')])])]"

text \<open>The token a component is drawn with: its own, else the global one.\<close>

definition theme_token :: "string \<Rightarrow> string \<Rightarrow> json option" where
  "theme_token component k =
     (case Option.bind (Option.bind (js_prop theme_config ''components'') (\<lambda>v. js_prop v component)) (\<lambda>v. js_prop v k) of
        Some v \<Rightarrow> Some v
      | None \<Rightarrow> Option.bind (js_prop theme_config ''token'') (\<lambda>v. js_prop v k))"

text \<open>Buttons and inputs are drawn at one height and radius, cards with the large radius, the rest by default.\<close>

lemma theme_consistent:
  "theme_token ''Button'' ''controlHeight'' = theme_token ''Input'' ''controlHeight''"
  "theme_token ''Button'' ''borderRadius'' = theme_token ''Input'' ''borderRadius''"
  "theme_token ''Card'' ''borderRadius'' = theme_token ''Card'' ''borderRadiusLG''"
  "theme_token ''Select'' ''colorPrimary'' = Some (JStr ''#A87E50'')"
  by (simp_all add: theme_token_def theme_config_def)

subsection \<open>The layout\<close>

record root_layout =
  rl_lang :: string
  rl_className :: string
  rl_theme :: json
  rl_initialUser :: "json option"

definition RootLayout :: "(font_options \<Rightarrow> string) \<Rightarrow> nat \<Rightarrow> jar \<Rightarrow> root_layout" where
  "RootLayout font_class now j =
     (let user = getAuthUser now j in
      \<lparr>rl_lang = ''en'', rl_className = font_class playfair @ '' '' @ font_class dmSans, rl_theme = theme_config,
       rl_initialUser = user\<rparr>)"

text \<open>
  The auth store after the browser loaded an address from scratch, when the user cookie holds what its type
  says: the effects of the protected layout, if the page has it, and then of \<open>Providers\<close>. \<open>None\<close> if no page is
  shown at this address.
\<close>

definition page_load :: "(font_options \<Rightarrow> string) \<Rightarrow> nat \<Rightarrow> jar \<Rightarrow> string \<Rightarrow> auth_state option" where
  "page_load font_class now j path = (case visit now j path of
     Shown pg \<Rightarrow>
       (let initial = Option.bind (rl_initialUser (RootLayout font_class now j)) as_auth_user in
        if protected_page pg then
          map_option (\<lambda>user. first_mount user initial auth_init) (Option.bind (getAuthUser now j) as_auth_user)
        else Some (providers_effect initial auth_init))
   | _ \<Rightarrow> None)"

lemma first_mount_user: "first_mount user (Some user) s = setUser (Some user) s"
  by (simp add: first_mount_def providers_effect_def protected_layout_effect_def setUser_def)

lemma page_load_signed_in:
  assumes "truthy (cookie_value now j ''auth_token'')" "getAuthUser now j = Some (auth_user_json u)"
    and "map_of page_table path = Some pg" "protected_page pg"
  shows "visit now j path = Shown pg \<and> page_load font_class now j path = Some (setUser (Some u) auth_init)"
proof -
  have "opt_truthy (getAuthUser now j)" using assms(2) by (simp add: auth_user_json_def)
  from visit_menu_key [OF assms(1) this protected_path_cases [OF assms(3,4)]] assms(3)
  have "visit now j path = Shown pg" by auto
  with assms(2,4) show ?thesis
    by (simp add: page_load_def RootLayout_def Let_def first_mount_user)
qed

subsection \<open>Properties\<close>

text \<open>
  C14. Reloading keeps the session for its hour and no longer: after a successful login, loading any page behind the
  layout from scratch within 3600 seconds shows it and leaves exactly the user of the login, with the role flags
  of their role, in the empty store; from then on the address redirects to the login page, and loading that
  leaves no user.
\<close>

theorem reload_keeps_session:
  assumes "json_parse body = Some req" "backend (login_request env req) = Some res" "is_ok res"
    and "json_parse (rs_body res) = Some data" "as_auth_user data = Some u"
    and "js_prop data ''token'' = Some (JStr tok)" "tok \<noteq> []"
    and "\<not> opt_truthy (js_prop data ''requiresBuSelection'')"
    and "map_of page_table path = Some pg" "protected_page pg"
  shows "\<exists>r. login_post env backend body = Inr r \<and>
    (let j' = store_cookies now (nr_cookies r) j in
      if d < 3600 then
        visit (now + d) j' path = Shown pg \<and>
        (\<exists>s. page_load font_class (now + d) j' path = Some s \<and> as_user s = Some u \<and>
           (as_isOwner s \<longleftrightarrow> au_role u = role_name Owner) \<and>
           (as_isOwnerOrAdmin s \<longleftrightarrow> au_role u = role_name Owner \<or> au_role u = role_name Admin))
      else
        visit (now + d) j' path = Redirected ''/login'' \<and> page_load font_class (now + d) j' path = None \<and>
        page_load font_class (now + d) j' ''/login'' = Some auth_init)"
proof -
  from login_session [where backend = backend, OF assms(1-6,8), of now j d] obtain r where
    r: "login_post env backend body = Inr r" and
    user: "getAuthUser (now + d) (store_cookies now (nr_cookies r) j) = (if d < 3600 then Some (auth_user_json u) else None)" and
    token: "cookie_value (now + d) (store_cookies now (nr_cookies r) j) ''auth_token'' = (if d < 3600 then Some tok else None)"
    by (auto simp: Let_def)
  let ?j = "store_cookies now (nr_cookies r) j"
  show ?thesis
  proof (cases "d < 3600")
    case True
    with page_load_signed_in [OF _ _ assms(9,10), of "now + d" ?j u font_class] user token assms(7)
    have "visit (now + d) ?j path = Shown pg" "page_load font_class (now + d) ?j path = Some (setUser (Some u) auth_init)"
      by simp_all
    with r True show ?thesis by (simp add: setUser_def)
  next
    case False
    with token user have gone: "\<not> truthy (cookie_value (now + d) ?j ''auth_token'')" "getAuthUser (now + d) ?j = None"
      by simp_all
    have "visit (now + d) ?j path = Redirected ''/login''"
      using protected_paths [OF assms(9,10) gone(1)] by (simp add: visit_def)
    moreover have "page_load font_class (now + d) ?j ''/login'' = Some auth_init"
      using gone by (simp add: page_load_def view_simps RootLayout_def Let_def providers_effect_def)
    ultimately show ?thesis using r False by (simp add: page_load_def)
  qed
qed

theorem reload_keeps_session_witness:
  "\<exists>r s. login_post sample_env sample_backend (stringify (JObj [])) = Inr r \<and>
     page_load ft_variable 15 (store_cookies 10 (nr_cookies r) Map.empty) ''/chat'' = Some s \<and> as_user s = Some sample_user"
proof -
  have body: "json_parse (stringify (JObj [])) = Some (JObj [])" by (rule js.decode_encode) simp
  have reply: "json_parse (rs_body \<lparr>rs_status = 200, rs_body = stringify sample_reply\<rparr>) = Some sample_reply"
    using js.decode_encode [of sample_reply] by (simp add: sample_reply_def)
  have res: "sample_backend (login_request sample_env (JObj [])) = Some \<lparr>rs_status = 200, rs_body = stringify sample_reply\<rparr>"
    by (simp add: sample_backend_def)
  have ok: "is_ok \<lparr>rs_status = 200, rs_body = stringify sample_reply\<rparr>" by (simp add: is_ok_def)
  have data: "as_auth_user sample_reply = Some sample_user" "js_prop sample_reply ''token'' = Some (JStr ''jwt'')"
    "''jwt'' \<noteq> []" "\<not> opt_truthy (js_prop sample_reply ''requiresBuSelection'')"
    by (simp_all add: sample_reply_def as_auth_user_def sample_user_def)
  have path: "map_of page_table ''/chat'' = Some Chat_Page" "protected_page Chat_Page" by (simp_all add: page_table_def)
  from reload_keeps_session [where backend = sample_backend and now = 10 and j = Map.empty and d = 5 and font_class = ft_variable,
      OF body res ok reply data path]
  show ?thesis by (auto simp: Let_def)
qed

end
