(* ===== verification/Tab_Session.thy ===== *)
theory Tab_Session
  imports Root_Layout Login_Page Chat_Page
begin

text \<open>
  A browser tab over time: the address it shows, the user the frame of the protected pages was given, the auth
  store, and the cookie jar it shares with other tabs. Composes the route handlers, the middleware, the login
  page, the protected layout with its effect, signing out, the axios interceptor and full loads.
\<close>

record tab =
  tb_now :: nat
  tb_jar :: jar
  tb_at :: "(string \<times> page) option"
  tb_frame :: "auth_user option"
  tb_auth :: auth_state

text \<open>The user a server component reads from the cookie, when it has the type the code claims.\<close>

definition server_user :: "nat \<Rightarrow> jar \<Rightarrow> auth_user option" where
  "server_user now j = Option.bind (getAuthUser now j) as_auth_user"

text \<open>The address and page at which a navigation ends, with a bound on the redirects followed.\<close>

fun landing :: "nat \<Rightarrow> nat \<Rightarrow> jar \<Rightarrow> string \<Rightarrow> (string \<times> page) option" where
  "landing 0 now j path = None"
| "landing (Suc n) now j path = (case visit now j path of
     Redirected q \<Rightarrow> landing n now j q
   | Shown pg \<Rightarrow> Some (path, pg)
   | Not_Found \<Rightarrow> None)"

subsection \<open>Loading, navigating, refreshing\<close>

text \<open>A full load starts with an empty auth store, which the effects of the page then fill.\<close>

definition tab_load :: "string \<Rightarrow> tab \<Rightarrow> tab option" where
  "tab_load path s = (case landing 3 (tb_now s) (tb_jar s) path of
     None \<Rightarrow> None
   | Some (q, pg) \<Rightarrow>
       map_option
         (\<lambda>auth. s\<lparr>tb_at := Some (q, pg),
            tb_frame := (if protected_page pg then server_user (tb_now s) (tb_jar s) else None), tb_auth := auth\<rparr>)
         (page_load ft_variable (tb_now s) (tb_jar s) q))"

text \<open>
  The protected layout rendered with a user: its effect depends on \<open>user.personId\<close> alone, so it runs when the
  layout is mounted and when it is rendered with another person.
\<close>

definition layout_render :: "auth_user \<Rightarrow> tab \<Rightarrow> tab" where
  "layout_render user s =
     s\<lparr>tb_frame := Some user,
       tb_auth := (if map_option au_personId (tb_frame s) = Some (au_personId user) then tb_auth s
                   else protected_layout_effect user (tb_auth s))\<rparr>"

text \<open>
  A page shown inside the running application. Between two protected pages the framework may keep the layout
  or render it again with a user read anew, the flag \<open>fresh\<close>; a public page unmounts it.
\<close>

definition tab_show :: "bool \<Rightarrow> string \<times> page \<Rightarrow> tab \<Rightarrow> tab option" where
  "tab_show fresh to s =
     (let s1 = s\<lparr>tb_at := Some to\<rparr> in
      if \<not> protected_page (snd to) then Some (s1\<lparr>tb_frame := None\<rparr>)
      else if tb_frame s \<noteq> None \<and> \<not> fresh then Some s1
      else map_option (\<lambda>user. layout_render user s1) (server_user (tb_now s) (tb_jar s)))"

definition tab_push :: "bool \<Rightarrow> string \<Rightarrow> tab \<Rightarrow> tab option" where
  "tab_push fresh path s = Option.bind (landing 3 (tb_now s) (tb_jar s) path) (\<lambda>to. tab_show fresh to s)"

definition tab_refresh :: "tab \<Rightarrow> tab option" where
  "tab_refresh s = Option.bind (tb_at s) (\<lambda>at. tab_push True (fst at) s)"

subsection \<open>Signing in, signing out and calls\<close>

text \<open>What the pages ask of the auth store and the router, in their order.\<close>

fun tab_login_call :: "login_call \<Rightarrow> tab \<Rightarrow> tab option" where
  "tab_login_call (Store_User v) s =
     map_option (\<lambda>u. s\<lparr>tb_auth := setUser (Some u) (tb_auth s)\<rparr>) (Option.bind v as_auth_user)"
| "tab_login_call (Push path) s = tab_push True path s"
| "tab_login_call Refresh s = tab_refresh s"

fun tab_layout_effect :: "layout_effect \<Rightarrow> tab \<Rightarrow> tab option" where
  "tab_layout_effect (Goto path) s = tab_push True path s"
| "tab_layout_effect Refresh_Page s = tab_refresh s"
| "tab_layout_effect (Success_Message m) s = Some s"
| "tab_layout_effect (Error_Message m) s = Some s"

fun in_order :: "('c \<Rightarrow> 's \<Rightarrow> 's option) \<Rightarrow> 'c list \<Rightarrow> 's \<Rightarrow> 's option" where
  "in_order f [] s = Some s"
| "in_order f (c # cs) s = Option.bind (f c s) (in_order f cs)"

definition tab_cookies :: "next_response \<Rightarrow> tab \<Rightarrow> tab" where
  "tab_cookies r s = s\<lparr>tb_jar := store_cookies (tb_now s) (nr_cookies r) (tb_jar s)\<rparr>"

definition tab_login :: "bff_env \<Rightarrow> backend \<Rightarrow> string \<Rightarrow> tab \<Rightarrow> tab option" where
  "tab_login env backend body s =
     (let r = client_view (login_post env backend body) in
      in_order tab_login_call (lg_calls (login_settle (Some r) (login_begin login_init))) (tab_cookies r s))"

definition tab_logout :: "bff_env \<Rightarrow> unit awaited \<Rightarrow> tab \<Rightarrow> tab option" where
  "tab_logout env res s =
     (let s1 = (case res of Inl _ \<Rightarrow> s | Inr _ \<Rightarrow> tab_cookies (logout_post env) s);
          y = handleLogout res (layout_init (tb_auth s)) in
      in_order tab_layout_effect (ly_effects y) (s1\<lparr>tb_auth := ly_auth y\<rparr>))"

text \<open>A call of a page through the proxy; where the interceptor assigns an address, the browser loads it.\<close>

definition tab_call :: "bff_env \<Rightarrow> backend \<Rightarrow> in_request \<Rightarrow> string list \<Rightarrow> tab \<Rightarrow> tab option" where
  "tab_call env backend req path s =
     (let r = client_view (proxy_route env backend (cookie_value (tb_now s) (tb_jar s) ''auth_token'') req path);
          s1 = tab_cookies r s in
      case snd (axios_interceptor (axios_settle (Some r))) of None \<Rightarrow> Some s1 | Some target \<Rightarrow> tab_load target s1)"

subsection \<open>Transitions\<close>

datatype tab_event =
    T_Tick nat | T_Load string | T_Push bool string | T_Refresh | T_Login bff_env backend string
  | T_Logout bff_env "unit awaited" | T_Call bff_env backend in_request "string list" | T_Other_Tab

fun tab_apply :: "tab_event \<Rightarrow> tab \<Rightarrow> tab option" where
  "tab_apply (T_Tick d) s = Some (s\<lparr>tb_now := tb_now s + d\<rparr>)"
| "tab_apply (T_Load path) s = tab_load path s"
| "tab_apply (T_Push fresh path) s = (if tb_at s = None then None else tab_push fresh path s)"
| "tab_apply T_Refresh s = tab_refresh s"
| "tab_apply (T_Login env backend body) s =
     (if map_option snd (tb_at s) = Some Login_Page then tab_login env backend body s else None)"
| "tab_apply (T_Logout env res) s = (if tb_frame s = None then None else tab_logout env res s)"
| "tab_apply (T_Call env backend req path) s = (if tb_at s = None then None else tab_call env backend req path s)"
| "tab_apply T_Other_Tab s = None"

inductive tab_step :: "tab \<Rightarrow> tab_event \<Rightarrow> tab \<Rightarrow> bool" where
  tab_own: "tab_apply e s = Some t \<Longrightarrow> tab_step s e t"
| tab_other: "session_step (tb_now s, tb_jar s) e (now, j) \<Longrightarrow> tab_step s T_Other_Tab (s\<lparr>tb_now := now, tb_jar := j\<rparr>)"

inductive_cases tab_step_cases: "tab_step s e t"

definition tab_start :: "tab \<Rightarrow> bool" where
  "tab_start s \<longleftrightarrow> session_start (tb_now s, tb_jar s) \<and> tb_at s = None \<and> tb_frame s = None \<and> tb_auth s = auth_init"

text \<open>The steps of a browser in which only this tab signs in and out.\<close>

definition tab_alone :: "tab \<Rightarrow> tab_event \<Rightarrow> tab \<Rightarrow> bool" where
  "tab_alone s e t \<longleftrightarrow> tab_apply e s = Some t"

subsection \<open>What a tab shows belongs to one user\<close>

text \<open>The user cookie, while it is there, holds this user.\<close>

definition cookie_of :: "auth_user \<Rightarrow> jar \<Rightarrow> bool" where
  "cookie_of u j \<longleftrightarrow> (\<forall>info e. j ''user_info'' = Some (info, e) \<longrightarrow> info = stringify (auth_user_json u))"

definition frame_fits :: "tab \<Rightarrow> bool" where
  "frame_fits s \<longleftrightarrow> (tb_frame s \<noteq> None \<longleftrightarrow> (\<exists>to. tb_at s = Some to \<and> protected_page (snd to)))"

definition tab_fact :: "(jar \<Rightarrow> bool) \<Rightarrow> (auth_user \<Rightarrow> auth_user option \<Rightarrow> jar \<Rightarrow> bool) \<Rightarrow> tab \<Rightarrow> bool" where
  "tab_fact J R s \<longleftrightarrow> frame_fits s \<and> flags_agree (tb_auth s) \<and> J (tb_jar s) \<and>
     (\<forall>v. tb_frame s = Some v \<longrightarrow> R v (as_user (tb_auth s)) (tb_jar s))"

lemma json_parse_user [simp]: "json_parse (stringify (auth_user_json u)) = Some (auth_user_json u)"
  by (rule js.decode_encode) simp

lemma server_user_cookie: "cookie_of u j \<Longrightarrow> server_user now j \<in> {None, Some u}"
  by (auto simp: server_user_def getAuthUser_def cookie_of_def cookie_value_def Let_def
      simp del: stringify.simps split: option.splits if_splits)

lemma cookie_of_unique: "cookie_of u j \<Longrightarrow> cookie_of v j \<Longrightarrow> server_user now j = Some w \<Longrightarrow> w = u \<and> w = v"
  using server_user_cookie [of u j now] server_user_cookie [of v j now] by auto

lemma landing_shown: "landing n now j path = Some (q, pg) \<Longrightarrow> visit now j q = Shown pg"
  by (induction n arbitrary: path) (auto split: nav_result.splits)

lemma page_load_user:
  assumes "page_load fc now j q = Some auth" "visit now j q = Shown pg" "protected_page pg"
  shows "\<exists>u. server_user now j = Some u \<and> auth = setUser (Some u) auth_init"
  using assms by (auto simp: page_load_def RootLayout_def server_user_def Let_def first_mount_user)

lemma page_load_flags: "page_load fc now j q = Some auth \<Longrightarrow> flags_agree auth"
proof -
  have "flags_agree auth_init" by (rule auth.inv_start) simp
  then show "page_load fc now j q = Some auth \<Longrightarrow> ?thesis"
    by (auto simp: page_load_def first_mount_def providers_effect_def protected_layout_effect_def flags_setUser Let_def
        split: nav_result.splits if_splits option.splits)
qed

lemma tab_load_cases:
  assumes "tab_load path s = Some t"
  obtains q pg where "t = s\<lparr>tb_at := Some (q, pg), tb_frame := tb_frame t, tb_auth := tb_auth t\<rparr>"
    "flags_agree (tb_auth t)" "\<not> protected_page pg" "tb_frame t = None"
  | q pg u where "t = s\<lparr>tb_at := Some (q, pg), tb_frame := tb_frame t, tb_auth := tb_auth t\<rparr>"
    "flags_agree (tb_auth t)" "protected_page pg" "tb_frame t = Some u" "as_user (tb_auth t) = Some u"
    "server_user (tb_now s) (tb_jar s) = Some u"
proof -
  from assms obtain q pg auth where to: "landing 3 (tb_now s) (tb_jar s) path = Some (q, pg)"
    and load: "page_load ft_variable (tb_now s) (tb_jar s) q = Some auth"
    and t: "t = s\<lparr>tb_at := Some (q, pg),
      tb_frame := (if protected_page pg then server_user (tb_now s) (tb_jar s) else None), tb_auth := auth\<rparr>"
    by (auto simp: tab_load_def split: option.splits)
  show ?thesis
  proof (cases "protected_page pg")
    case True
    with page_load_user [OF load landing_shown [OF to]] t page_load_flags [OF load] that(2) show ?thesis by auto
  next
    case False
    with t page_load_flags [OF load] that(1) show ?thesis by auto
  qed
qed

lemma render_flags: "flags_agree (tb_auth s) \<Longrightarrow> flags_agree (tb_auth (layout_render u s))"
  by (simp add: layout_render_def protected_layout_effect_def flags_setUser)

lemma in_order_keeps:
  assumes "in_order f cs s = Some t" "P s" "\<And>c s t. c \<in> set cs \<Longrightarrow> P s \<Longrightarrow> f c s = Some t \<Longrightarrow> P t"
  shows "P t"
  using assms
proof (induction cs arbitrary: s)
  case (Cons c cs)
  from Cons.prems(1) obtain u where "f c s = Some u" "in_order f cs u = Some t"
    by (auto simp: Option.bind_eq_Some_conv)
  with Cons.IH [of u] Cons.prems(2,3) show ?case by (meson list.set_intros)
qed simp

text \<open>Replies that only delete cookies, and the reply of the login route.\<close>

lemma cookie_of_deleted: "cookie_of u j \<Longrightarrow> cookie_of u (j(''auth_token'' := None, ''user_info'' := None))"
  by (simp add: cookie_of_def)

lemma login_user_typed_iff: "as_auth_user (login_user data) = Some u \<Longrightarrow> login_user data = auth_user_json u"
proof -
  have keys: "js_prop (login_user data) k = js_prop data k"
    if "k \<in> {''personId'', ''buId'', ''companyId'', ''role'', ''firstName'', ''lastName''}" for k
    using that unfolding login_user_def json_obj_def js_prop.simps
    by (subst map_of_present) auto
  have "as_auth_user (login_user data) = as_auth_user data"
    unfolding as_auth_user_def by (simp add: keys)
  then show "as_auth_user (login_user data) = Some u \<Longrightarrow> ?thesis" using login_user_typed by metis
qed

lemma login_calls:
  "lg_calls (login_settle (Some r) (login_begin login_init)) \<in>
     {[], [Store_User (js_prop (nullish (nr_data r) JNull) ''user''), Push ''/dashboard'', Refresh]}"
  by (auto simp: login_defs login_init_def Let_def split: option.splits sum.splits)

text \<open>Replies that set no session leave the jar or delete the session cookies.\<close>

definition signed_out :: "jar \<Rightarrow> jar" where
  "signed_out j = j(''auth_token'' := None, ''user_info'' := None)"

lemma proxy_jar:
  "store_cookies now (nr_cookies (client_view (proxy_route env backend cookie req path))) j \<in> {j, signed_out j}"
proof (cases "proxy_route env backend cookie req path")
  case (Inr r)
  then have "nr_cookies r \<in> {[], [expired_cookie ''auth_token'', expired_cookie ''user_info'']}"
    by (auto simp: proxy_route_def dest!: proxyRequest_cookies split: if_splits)
  then show ?thesis
    by (auto simp: Inr client_view_def signed_out_def store_expired_cookies simp del: store_cookies_simps(2))
qed (simp add: client_view_def)

lemma logout_jar: "store_cookies now (nr_cookies (logout_post env)) j = signed_out j"
  by (simp add: logout_post_def store_session_cookies signed_out_def del: store_cookies_simps)

lemma signed_out_landing: "landing 3 now (signed_out j) ''/login'' = Some (''/login'', Login_Page)"
proof -
  have "\<not> truthy (cookie_value now (signed_out j) ''auth_token'')"
    by (simp add: cookie_value_def signed_out_def)
  then show ?thesis by (simp add: numeral_3_eq_3 view_simps)
qed

lemma login_jar:
  assumes "r = client_view (login_post env backend body)"
  obtains "nr_cookies r = []"
  | data where "nr_data r = Some (JObj [(''user'', login_user data)])"
    "lg_calls (login_settle (Some r) (login_begin login_init)) = [Store_User (Some (login_user data)), Push ''/dashboard'', Refresh]"
    "\<And>j now. store_cookies now (nr_cookies r) j = j(''auth_token'' \<mapsto> (cookie_text (js_prop data ''token''), now + cookie_max_age),
      ''user_info'' \<mapsto> (stringify (login_user data), now + cookie_max_age))"
proof (cases "login_post env backend body")
  case (Inr r')
  show ?thesis
  proof (cases "nr_cookies r' = []")
    case False
    with Inr obtain res where "login_reply env res = Inr r'"
      by (auto simp: login_post_def split: sum.splits option.splits)
    then show ?thesis
    proof (cases rule: login_reply_cases)
      case (session data)
      then show ?thesis
        using that(2) [of data] assms Inr
        by (simp add: client_view_def store_session_cookies cookie_max_age_def login_defs login_init_def res_ok_def
            del: store_cookies_simps)
    qed (use False in simp)
  qed (use that(1) assms Inr in \<open>simp add: client_view_def\<close>)
qed (use that(1) assms in \<open>simp add: client_view_def\<close>)

subsection \<open>Facts about the user of the frame\<close>

text \<open>
  The contract of a fact \<open>R\<close> that relates the user the frame was given, the user of the store and the jar: a
  layout that mounts establishes it, one rendered again for the same person keeps it, and so do replies that
  sign out. Proved once: every step of the tab itself keeps it.
\<close>

locale frame_law =
  fixes J :: "jar \<Rightarrow> bool"
    and R :: "auth_user \<Rightarrow> auth_user option \<Rightarrow> jar \<Rightarrow> bool"
  assumes mounted: "J j \<Longrightarrow> server_user now j = Some u \<Longrightarrow> R u (Some u) j"
    and rendered: "J j \<Longrightarrow> R v a j \<Longrightarrow> server_user now j = Some u \<Longrightarrow> au_personId u = au_personId v \<Longrightarrow> R u a j"
    and jar_out: "J j \<Longrightarrow> J (signed_out j)"
    and frame_out: "R v a j \<Longrightarrow> R v a (signed_out j)"
    and jar_in: "J (j(''auth_token'' := t, ''user_info'' \<mapsto> (stringify (auth_user_json u), e)))"
begin

lemma jar_law: "tab_fact J R s \<Longrightarrow> J (tb_jar s)"
  by (simp add: tab_fact_def)

lemma tick_law: "tab_fact J R s \<Longrightarrow> tab_fact J R (s\<lparr>tb_now := n\<rparr>)"
  by (simp add: tab_fact_def frame_fits_def)

lemma load_law: "tab_load path s = Some t \<Longrightarrow> J (tb_jar s) \<Longrightarrow> tab_fact J R t"
  by (erule tab_load_cases; cases t) (auto simp: tab_fact_def frame_fits_def intro: mounted)

lemma show_law:
  assumes "tab_show fresh to s = Some t" "flags_agree (tb_auth s)" "J (tb_jar s)"
    and "\<And>v. protected_page (snd to) \<Longrightarrow> tb_frame s = Some v \<Longrightarrow> R v (as_user (tb_auth s)) (tb_jar s)"
  shows "tab_fact J R t"
proof (cases "protected_page (snd to) \<and> (tb_frame s = None \<or> fresh)")
  case True
  with assms(1) obtain u where u: "server_user (tb_now s) (tb_jar s) = Some u" and t: "t = layout_render u (s\<lparr>tb_at := Some to\<rparr>)"
    by (auto simp: tab_show_def Let_def)
  have "R u (as_user (tb_auth t)) (tb_jar s)"
  proof (cases "map_option au_personId (tb_frame s) = Some (au_personId u)")
    case same: True
    then obtain v where "tb_frame s = Some v" "au_personId u = au_personId v" by auto
    with rendered [OF assms(3) _ u] assms(4) True same show ?thesis by (simp add: t layout_render_def)
  next
    case False
    with mounted [OF assms(3) u] show ?thesis by (auto simp: t layout_render_def protected_layout_effect_def)
  qed
  moreover have "flags_agree (tb_auth t)" using assms(2) unfolding t by (intro render_flags) simp
  ultimately show ?thesis
    using assms(3) True by (simp add: tab_fact_def frame_fits_def t layout_render_def)
next
  case False
  with assms show ?thesis
    by (cases to; cases "protected_page (snd to)") (auto simp: tab_show_def Let_def tab_fact_def frame_fits_def)
qed

lemma push_law:
  assumes "tab_fact J R s" "tab_push fresh path s = Some t"
  shows "tab_fact J R t"
proof -
  from assms(2) obtain to where "tab_show fresh to s = Some t"
    by (auto simp: tab_push_def Option.bind_eq_Some_conv)
  from show_law [OF this] assms(1) show ?thesis by (auto simp: tab_fact_def)
qed

lemma refresh_law: "tab_fact J R s \<Longrightarrow> tab_refresh s = Some t \<Longrightarrow> tab_fact J R t"
  by (auto simp: tab_refresh_def Option.bind_eq_Some_conv intro: push_law)

lemma out_law: "tab_fact J R s \<Longrightarrow> tab_fact J R (s\<lparr>tb_jar := signed_out (tb_jar s)\<rparr>)"
  by (auto simp: tab_fact_def frame_fits_def intro: jar_out frame_out)

lemma login_law:
  assumes "tab_fact J R s" "map_option snd (tb_at s) = Some Login_Page" "tab_login env backend body s = Some t"
  shows "tab_fact J R t"
proof -
  define r where "r = client_view (login_post env backend body)"
  let ?s = "tab_cookies r s"
  have frame: "tb_frame s = None" "frame_fits s" "J (tb_jar s)" "flags_agree (tb_auth s)"
    using assms(1,2) by (auto simp: tab_fact_def frame_fits_def)
  have t: "in_order tab_login_call (lg_calls (login_settle (Some r) (login_begin login_init))) ?s = Some t"
    using assms(3) by (simp add: tab_login_def r_def Let_def)
  have signed: "tab_fact J R t" if calls: "in_order tab_login_call [Store_User v, Push p, Refresh] ?s = Some t"
    and jar: "\<And>u. Option.bind v as_auth_user = Some u \<Longrightarrow> J (tb_jar ?s)" for v p
  proof -
    from calls obtain u s2 s3 where u: "Option.bind v as_auth_user = Some u"
      and s2: "s2 = ?s\<lparr>tb_auth := setUser (Some u) (tb_auth ?s)\<rparr>"
      and s3: "tab_push True p s2 = Some s3" "tab_refresh s3 = Some t"
      by (auto simp: Option.bind_eq_Some_conv)
    have "tab_fact J R s2"
      using frame jar [OF u] by (simp add: s2 tab_fact_def frame_fits_def tab_cookies_def flags_setUser)
    with s3 show ?thesis by (auto intro: push_law refresh_law)
  qed
  from r_def show ?thesis
  proof (cases rule: login_jar)
    case 1
    then have "?s = s" by (simp add: tab_cookies_def)
    with login_calls [of r] t signed frame assms(1) show ?thesis by (elim insertE emptyE) simp_all
  next
    case (2 data)
    show ?thesis
    proof (rule signed)
      show "in_order tab_login_call [Store_User (Some (login_user data)), Push ''/dashboard'', Refresh] ?s = Some t"
        using t unfolding 2(2) .
      show "J (tb_jar ?s)" if "Option.bind (Some (login_user data)) as_auth_user = Some u" for u
        using that login_user_typed_iff [of data u] jar_in by (simp add: tab_cookies_def 2(3) fun_upd_def)
    qed
  qed
qed

lemma logout_law:
  assumes "tab_fact J R s" "tab_logout env res s = Some t"
  shows "tab_fact J R t"
proof (cases res)
  case (Inl e)
  with assms show ?thesis
    by (simp add: tab_logout_def handleLogout_def layout_init_def auth_logout_def)
next
  case (Inr x)
  define s1 where "s1 = s\<lparr>tb_jar := signed_out (tb_jar s), tb_auth := snd (auth_logout (Inr ()) (tb_auth s))\<rparr>"
  from assms(2) Inr obtain s2 where s2: "tab_push True ''/login'' s1 = Some s2" "tab_refresh s2 = Some t"
    by (auto simp: tab_logout_def handleLogout_def layout_init_def auth_logout_def tab_cookies_def logout_jar s1_def Let_def
        Option.bind_eq_Some_conv)
  have "tab_show True (''/login'', Login_Page) s1 = Some s2"
    using s2(1) by (simp add: tab_push_def s1_def signed_out_landing)
  then have "tab_fact J R s2"
    by (rule show_law) (use assms(1) in \<open>auto simp: s1_def tab_fact_def auth_logout_def flags_agree_def intro: jar_out\<close>)
  then show ?thesis using s2(2) by (rule refresh_law)
qed

lemma call_law:
  assumes "tab_fact J R s" "tab_call env backend req path s = Some t"
  shows "tab_fact J R t"
proof -
  define r where "r = client_view (proxy_route env backend (cookie_value (tb_now s) (tb_jar s) ''auth_token'') req path)"
  have "tab_fact J R (tab_cookies r s)"
    using proxy_jar [of "tb_now s" env backend "cookie_value (tb_now s) (tb_jar s) ''auth_token''" req path "tb_jar s"] assms(1) out_law [OF assms(1)]
    by (auto simp: tab_cookies_def r_def)
  with assms(2) show ?thesis
    by (auto simp: tab_call_def r_def [symmetric] Let_def tab_fact_def [of J R "tab_cookies r s"] split: option.splits
        intro: load_law)
qed

lemma apply_law: "tab_fact J R s \<Longrightarrow> tab_apply e s = Some t \<Longrightarrow> tab_fact J R t"
  by (cases e) (auto intro: push_law refresh_law login_law logout_law call_law load_law jar_law tick_law split: if_splits)

end

text \<open>
  Two facts. When only this tab signs in and out, the frame, the store and the cookie name one user. When other tabs
  do so too, the frame and the store still name one person, though maybe with other data.
\<close>

interpretation one_user: frame_law "\<lambda>j. \<exists>u. cookie_of u j" "\<lambda>v a j. a = Some v \<and> cookie_of v j"
proof
  fix j v a u now
  show "\<exists>u. cookie_of u j \<Longrightarrow> server_user now j = Some u \<Longrightarrow> Some u = Some u \<and> cookie_of u j"
    using server_user_cookie [of _ j now] by auto
  show "a = Some v \<and> cookie_of v j \<Longrightarrow> server_user now j = Some u \<Longrightarrow> a = Some u \<and> cookie_of u j"
    using server_user_cookie [of v j now] by auto
qed (auto simp: cookie_of_def signed_out_def)

interpretation one_person: frame_law "\<lambda>j. True" "\<lambda>v a j. map_option au_personId a = Some (au_personId v)"
  by unfold_locales auto

abbreviation shows_one_user :: "tab \<Rightarrow> bool" where
  "shows_one_user \<equiv> tab_fact (\<lambda>j. \<exists>u. cookie_of u j) (\<lambda>v a j. a = Some v \<and> cookie_of v j)"

abbreviation shows_one_person :: "tab \<Rightarrow> bool" where
  "shows_one_person \<equiv> tab_fact (\<lambda>j. True) (\<lambda>v a j. map_option au_personId a = Some (au_personId v))"

lemma start_flags: "tab_start s \<Longrightarrow> frame_fits s \<and> flags_agree (tb_auth s) \<and> tb_frame s = None"
  using auth.inv_start by (simp add: tab_start_def frame_fits_def)

lemma other_tab_person: "shows_one_person s \<Longrightarrow> shows_one_person (s\<lparr>tb_now := now, tb_jar := j\<rparr>)"
  by (simp add: tab_fact_def frame_fits_def)

interpretation tab_alone: guarded_system tab_start tab_alone shows_one_user
proof
  show "tab_start s \<Longrightarrow> shows_one_user s" for s
    using start_flags [of s] by (simp add: tab_fact_def tab_start_def session_start_def cookie_of_def)
qed (auto simp: tab_alone_def intro: one_user.apply_law)

interpretation tab_shared: guarded_system tab_start tab_step shows_one_person
proof
  show "tab_start s \<Longrightarrow> shows_one_person s" for s
    using start_flags [of s] by (simp add: tab_fact_def)
  show "shows_one_person s \<Longrightarrow> tab_step s e t \<Longrightarrow> shows_one_person t" for s e t
    by (erule tab_step_cases, erule (1) one_person.apply_law, simp only: other_tab_person)
qed

subsection \<open>Properties\<close>

text \<open>
  C2. While only this tab signs in and out, what it shows belongs to one user: in every reachable state on a page
  behind the layout, the user the layout was given is the user of the auth store, the role flags are those of
  their role, and whenever a request can still read a user from the cookie, it is this one.
\<close>

theorem tab_shows_one_user:
  assumes "reachable tab_start tab_alone s" "tb_at s = Some (path, pg)" "protected_page pg"
  shows "\<exists>u. tb_frame s = Some u \<and> as_user (tb_auth s) = Some u \<and>
    (as_isOwner (tb_auth s) \<longleftrightarrow> au_role u = role_name Owner) \<and>
    (as_isOwnerOrAdmin (tb_auth s) \<longleftrightarrow> au_role u = role_name Owner \<or> au_role u = role_name Admin) \<and>
    (\<forall>now v. getAuthUser now (tb_jar s) = Some v \<longrightarrow> v = auth_user_json u)"
proof -
  from tab_alone.inv_reachable [OF assms(1)] assms(2,3) obtain u
    where u: "tb_frame s = Some u" "as_user (tb_auth s) = Some u" "cookie_of u (tb_jar s)" "flags_agree (tb_auth s)"
    by (auto simp: tab_fact_def frame_fits_def)
  have "v = auth_user_json u" if "getAuthUser now (tb_jar s) = Some v" for now v
    using that u(3) by (auto simp: getAuthUser_def cookie_of_def cookie_value_def Let_def simp del: stringify.simps
        split: option.splits if_splits)
  with u show ?thesis by (auto simp: flags_agree_def)
qed

text \<open>A login that the backend answers with a typed user, from the login page.\<close>

lemma tab_login_typed:
  assumes "json_parse body = Some req" "backend (login_request env req) = Some res" "is_ok res"
    and "json_parse (rs_body res) = Some data" "as_auth_user data = Some u"
    and "js_prop data ''token'' = Some (JStr tok)" "tok \<noteq> []"
    and "\<not> opt_truthy (js_prop data ''requiresBuSelection'')"
    and "tb_at s = Some (path, Login_Page)" "tb_frame s = None"
  shows "tab_apply (T_Login env backend body) s = Some
    (s\<lparr>tb_jar := (tb_jar s)(''auth_token'' \<mapsto> (tok, tb_now s + 3600),
         ''user_info'' \<mapsto> (stringify (auth_user_json u), tb_now s + 3600)),
       tb_at := Some (''/dashboard'', Dashboard_Page), tb_frame := Some u, tb_auth := setUser (Some u) (tb_auth s)\<rparr>)"
proof -
  let ?j = "(tb_jar s)(''auth_token'' \<mapsto> (tok, tb_now s + 3600),
      ''user_info'' \<mapsto> (stringify (auth_user_json u), tb_now s + 3600))"
  have "data \<noteq> JNull" using assms(6) by auto
  then have "login_post env backend body = Inr (set_cookies
     [session_cookie env ''auth_token'' tok cookie_max_age,
      session_cookie env ''user_info'' (stringify (auth_user_json u)) cookie_max_age]
     (json_response (JObj [(''user'', auth_user_json u)]) 200))"
    using assms by (simp add: route_simps login_user_typed)
  then obtain r where r: "client_view (login_post env backend body) = r"
    "lg_calls (login_settle (Some r) (login_begin login_init)) = [Store_User (Some (auth_user_json u)), Push ''/dashboard'', Refresh]"
    "tab_cookies r s = s\<lparr>tb_jar := ?j\<rparr>"
    by (auto simp: client_view_def login_defs login_init_def res_ok_def tab_cookies_def store_session_cookies
        cookie_max_age_def simp del: store_cookies_simps)
  have user: "getAuthUser (tb_now s) ?j = Some (auth_user_json u)" and token: "cookie_value (tb_now s) ?j ''auth_token'' = Some tok"
    using json_parse_user [of u] by (simp_all add: getAuthUser_def cookie_value_def auth_user_json_def Let_def)
  have "opt_truthy (Some (auth_user_json u))" by (simp add: auth_user_json_def)
  with user token assms(7) have land: "landing 3 (tb_now s) ?j ''/dashboard'' = Some (''/dashboard'', Dashboard_Page)"
    by (simp add: numeral_3_eq_3 view_simps)
  have server: "server_user (tb_now s) ?j = Some u" using user by (simp add: server_user_def)
  show ?thesis
    using assms(9,10) land server
    by (simp add: tab_login_def r tab_push_def tab_show_def layout_render_def
        tab_refresh_def protected_layout_effect_def setUser_def Let_def)
qed

text \<open>Examples: a fresh tab, and a backend that signs a given user in.\<close>

definition blank_tab :: tab where
  "blank_tab = \<lparr>tb_now = 0, tb_jar = Map.empty, tb_at = None, tb_frame = None, tb_auth = auth_init\<rparr>"

definition reply_for :: "auth_user \<Rightarrow> json" where
  "reply_for u = JObj [(''token'', JStr ''jwt''), (''personId'', JStr (au_personId u)), (''buId'', JStr (au_buId u)),
     (''companyId'', JStr (au_companyId u)), (''role'', JStr (au_role u)), (''firstName'', JStr (au_firstName u)),
     (''lastName'', JStr (au_lastName u))]"

definition backend_for :: "auth_user \<Rightarrow> backend" where
  "backend_for u req = Some \<lparr>rs_status = 200, rs_body = stringify (reply_for u)\<rparr>"

lemma reply_for_facts:
  "json_parse (stringify (JObj [])) = Some (JObj [])"
  "backend_for u (login_request sample_env (JObj [])) = Some \<lparr>rs_status = 200, rs_body = stringify (reply_for u)\<rparr>"
  "is_ok \<lparr>rs_status = 200, rs_body = b\<rparr>"
  "json_parse (rs_body \<lparr>rs_status = 200, rs_body = stringify (reply_for u)\<rparr>) = Some (reply_for u)"
  "as_auth_user (reply_for u) = Some u" "js_prop (reply_for u) ''token'' = Some (JStr ''jwt'')" "''jwt'' \<noteq> []"
  "\<not> opt_truthy (js_prop (reply_for u) ''requiresBuSelection'')"
proof -
  show "json_parse (stringify (JObj [])) = Some (JObj [])" by (rule js.decode_encode) simp
  show "json_parse (rs_body \<lparr>rs_status = 200, rs_body = stringify (reply_for u)\<rparr>) = Some (reply_for u)"
    using js.decode_encode [of "reply_for u"] by (simp add: reply_for_def)
qed (simp_all add: backend_for_def is_ok_def reply_for_def as_auth_user_def)

definition session_jar :: "auth_user \<Rightarrow> jar" where
  "session_jar u = [''auth_token'' \<mapsto> (''jwt'', 3600), ''user_info'' \<mapsto> (stringify (auth_user_json u), 3600)]"

definition signed_in_tab :: "auth_user \<Rightarrow> tab" where
  "signed_in_tab u = \<lparr>tb_now = 0, tb_jar = session_jar u, tb_at = Some (''/dashboard'', Dashboard_Page),
     tb_frame = Some u, tb_auth = setUser (Some u) auth_init\<rparr>"

lemma signed_in_steps:
  "tab_apply (T_Load ''/login'') blank_tab = Some (blank_tab\<lparr>tb_at := Some (''/login'', Login_Page)\<rparr>)"
  "tab_apply (T_Login sample_env (backend_for u) (stringify (JObj []))) (blank_tab\<lparr>tb_at := Some (''/login'', Login_Page)\<rparr>) =
     Some (signed_in_tab u)"
proof -
  have "getAuthUser 0 Map.empty = None" "cookie_value 0 Map.empty ''auth_token'' = None"
    by (simp_all add: getAuthUser_def cookie_value_def)
  then show "tab_apply (T_Load ''/login'') blank_tab = Some (blank_tab\<lparr>tb_at := Some (''/login'', Login_Page)\<rparr>)"
    by (simp add: tab_load_def blank_tab_def numeral_3_eq_3 view_simps page_load_def RootLayout_def providers_effect_def
        Let_def)
  have "tb_at (blank_tab\<lparr>tb_at := Some (''/login'', Login_Page)\<rparr>) = Some (''/login'', Login_Page)"
    "tb_frame (blank_tab\<lparr>tb_at := Some (''/login'', Login_Page)\<rparr>) = None" by (simp_all add: blank_tab_def)
  from tab_login_typed [where backend = "backend_for u", OF reply_for_facts(1,2,3) reply_for_facts(4) reply_for_facts(5-8) this]
  show "tab_apply (T_Login sample_env (backend_for u) (stringify (JObj []))) (blank_tab\<lparr>tb_at := Some (''/login'', Login_Page)\<rparr>) =
     Some (signed_in_tab u)"
    by (simp add: signed_in_tab_def session_jar_def blank_tab_def del: tab_apply.simps)
qed

lemma signed_in_reachable:
  "reachable tab_start tab_alone (signed_in_tab u)" "reachable tab_start tab_step (signed_in_tab u)"
proof -
  have "tab_start blank_tab" by (simp add: tab_start_def blank_tab_def session_start_def)
  then have "reachable tab_start tab_alone blank_tab" "reachable tab_start tab_step blank_tab" by (auto intro: reach_start)
  then show "reachable tab_start tab_alone (signed_in_tab u)" "reachable tab_start tab_step (signed_in_tab u)"
    using signed_in_steps(1) signed_in_steps(2) [of u] unfolding tab_alone_def by (meson reach_step tab_own tab_alone_def)+
qed

lemma session_jar_user:
  "getAuthUser 0 (session_jar u) = Some (auth_user_json u)" "cookie_value 0 (session_jar u) ''auth_token'' = Some ''jwt''"
  "server_user 0 (session_jar u) = Some u"
proof -
  show "getAuthUser 0 (session_jar u) = Some (auth_user_json u)"
    using json_parse_user [of u] by (simp add: getAuthUser_def cookie_value_def session_jar_def auth_user_json_def Let_def)
  then show "server_user 0 (session_jar u) = Some u" by (simp add: server_user_def)
qed (simp add: cookie_value_def session_jar_def)

theorem tab_shows_one_user_witness:
  "as_isOwner (tb_auth (signed_in_tab sample_user)) \<and> as_user (tb_auth (signed_in_tab sample_user)) = Some sample_user"
proof -
  have "tb_at (signed_in_tab sample_user) = Some (''/dashboard'', Dashboard_Page)" "protected_page Dashboard_Page"
    by (simp_all add: signed_in_tab_def)
  from tab_shows_one_user [OF signed_in_reachable(1) this] show ?thesis
    by (auto simp: signed_in_tab_def sample_user_def)
qed

text \<open>
  C18. Refreshing after another tab signed in: the layout is rendered with the user of the new cookie, but its effect
  depends on the person alone, so the store adopts that user only for another person. For the same person in
  another business unit or role the menu follows the new session while the store, and with it the chat page,
  stays with the old business unit; only a full load repairs it.
\<close>

theorem refresh_keeps_unit_of_same_person:
  assumes "reachable tab_start tab_step s" "tb_at s = Some (path, pg)" "map_of page_table path = Some pg" "protected_page pg"
    and "truthy (cookie_value (tb_now s) (tb_jar s) ''auth_token'')"
    and "getAuthUser (tb_now s) (tb_jar s) = Some (auth_user_json v)"
  shows "\<exists>u t l. as_user (tb_auth s) = Some u \<and> tab_refresh s = Some t \<and> tab_load path s = Some l \<and>
    tb_frame t = Some v \<and> as_user (tb_auth t) = Some (if au_personId v = au_personId u then u else v) \<and>
    page_buId (chat_page_init (as_user (tb_auth t)) h) = (if au_personId v = au_personId u then au_buId u else au_buId v) \<and>
    tb_frame l = Some v \<and> as_user (tb_auth l) = Some v"
proof -
  from tab_shared.inv_reachable [OF assms(1)] assms(2,4) obtain u v0 where u: "as_user (tb_auth s) = Some u"
    and v0: "tb_frame s = Some v0" "au_personId u = au_personId v0"
    by (auto simp: tab_fact_def frame_fits_def)
  from page_load_signed_in [OF assms(5,6,3,4), of ft_variable]
  have shown: "visit (tb_now s) (tb_jar s) path = Shown pg"
    and load: "page_load ft_variable (tb_now s) (tb_jar s) path = Some (setUser (Some v) auth_init)" by blast+
  have land: "landing 3 (tb_now s) (tb_jar s) path = Some (path, pg)" using shown by (simp add: numeral_3_eq_3)
  have server: "server_user (tb_now s) (tb_jar s) = Some v" using assms(6) by (simp add: server_user_def)
  have refresh: "tab_refresh s = Some (layout_render v (s\<lparr>tb_at := Some (path, pg)\<rparr>))"
    using assms(2,4) land server v0(1) by (simp add: tab_refresh_def tab_push_def tab_show_def Let_def)
  have loaded: "tab_load path s = Some (s\<lparr>tb_at := Some (path, pg), tb_frame := Some v, tb_auth := setUser (Some v) auth_init\<rparr>)"
    using land load server assms(4) by (simp add: tab_load_def)
  show ?thesis
    unfolding refresh loaded using u v0
    by (auto simp: layout_render_def protected_layout_effect_def page_buId_def chat_page_init_def)
qed

theorem refresh_keeps_unit_of_same_person_witness:
  "\<exists>s t. reachable tab_start tab_step s \<and> tab_refresh s = Some t \<and> map_option au_buId (tb_frame t) = Some ''b2'' \<and>
     map_option au_buId (as_user (tb_auth t)) = Some ''b1''"
proof -
  let ?v = "sample_user\<lparr>au_buId := ''b2''\<rparr>" and ?old = "signed_in_tab sample_user"
  from login_session [where backend = "backend_for ?v", OF reply_for_facts(1,2,3) reply_for_facts(4,5,6,8), of 0 "tb_jar ?old" 0]
  obtain r where r: "login_post sample_env (backend_for ?v) (stringify (JObj [])) = Inr r"
    "getAuthUser 0 (store_cookies 0 (nr_cookies r) (tb_jar ?old)) = Some (auth_user_json ?v)"
    "cookie_value 0 (store_cookies 0 (nr_cookies r) (tb_jar ?old)) ''auth_token'' = Some ''jwt''"
    by (auto simp: Let_def)
  let ?new = "?old\<lparr>tb_now := 0, tb_jar := store_cookies 0 (nr_cookies r) (tb_jar ?old)\<rparr>"
  have "tab_step ?old T_Other_Tab ?new"
    by (rule tab_other [of ?old Login_Reply]) (use ss_login [OF r(1), of 0] in \<open>simp add: signed_in_tab_def\<close>)
  with signed_in_reachable(2) have 1: "reachable tab_start tab_step ?new" by (rule reach_step)
  have 2: "tb_at ?new = Some (''/dashboard'', Dashboard_Page)" "map_of page_table ''/dashboard'' = Some Dashboard_Page"
    "protected_page Dashboard_Page" by (simp_all add: signed_in_tab_def page_table_def)
  have 3: "truthy (cookie_value (tb_now ?new) (tb_jar ?new) ''auth_token'')"
    "getAuthUser (tb_now ?new) (tb_jar ?new) = Some (auth_user_json ?v)"
    using r by simp_all
  have "as_user (tb_auth ?new) = Some sample_user" by (simp add: signed_in_tab_def)
  with refresh_keeps_unit_of_same_person [OF 1 2 3, of "hook_init chat_init"] obtain t where
    t: "tab_refresh ?new = Some t" "tb_frame t = Some ?v" "as_user (tb_auth t) = Some sample_user"
    by auto
  show ?thesis
    by (rule exI [of _ ?new], rule exI [of _ t]) (use 1 t in \<open>simp add: sample_user_def\<close>)
qed

end
