(* ===== verification/Chat_Answers.thy ===== *)
theory Chat_Answers
  imports Chat_Page Wire_Stores
begin

text \<open>
  The chat page behind the backend: its pending calls as requests of the container, sent through axios, the proxy
  and the backend, and the event with which each answer settles. Answers may arrive in any order.
\<close>

datatype page_call = PC_Workspace id | PC_Conversations id | PC_History id id | PC_DM id id | PC_Send id id string

fun page_request :: "page_call \<Rightarrow> container_call" where
  "page_request (PC_Workspace b) = Chat_getWorkspace b"
| "page_request (PC_Conversations b) = Chat_getConversations b"
| "page_request (PC_History b c) = Chat_getConversationMessages b c"
| "page_request (PC_DM b k) = Chat_createDM b k"
| "page_request (PC_Send b c t) = Chat_sendConversationMessage b c t"

text \<open>The event of an answer; \<open>None\<close> is a successful answer without the type the code claims.\<close>

fun page_answer :: "page_call \<Rightarrow> json option awaited \<Rightarrow> page_event option" where
  "page_answer (PC_Workspace b) r = map_option PG_Workspace (then_data as_workspace r)"
| "page_answer (PC_Conversations b) r = map_option PG_Conversations (then_list ''conversations'' as_conversation r)"
| "page_answer (PC_History b c) r = map_option (PG_History (b, c)) (then_list ''messages'' as_message r)"
| "page_answer (PC_DM b k) r = map_option (PG_DM (b, k)) (then_data as_conversation r)"
| "page_answer (PC_Send b c t) r = map_option (PG_Rest (b, c, t)) (then_data as_message r)"

fun load_calls :: "id \<Rightarrow> (settled \<times> settled) option \<Rightarrow> page_call list" where
  "load_calls b None = []"
| "load_calls b (Some (w, c)) =
     (if w = Waiting then [PC_Workspace b] else []) @ (if c = Waiting then [PC_Conversations b] else [])"

definition page_calls :: "chat_page \<Rightarrow> page_call list" where
  "page_calls p = load_calls (page_buId p) (cp_load p) @
     map (\<lambda>(b, c). PC_History b c) (cp_history p) @ map (\<lambda>(b, c, t). PC_Send b c t) (cp_rest p) @
     map (\<lambda>(b, k). PC_DM b k) (cp_dms p)"

text \<open>The answer of one pending call arrives.\<close>

inductive page_served ::
  "bff_env \<Rightarrow> backend \<Rightarrow> string \<Rightarrow> (string \<Rightarrow> string) \<Rightarrow> chat_page \<Rightarrow> page_call \<Rightarrow> chat_page \<Rightarrow> bool"
  for env backend tok enc where
  "q \<in> set (page_calls p) \<Longrightarrow> page_answer q (http_call env backend (Some tok) enc (page_request q)) = Some e \<Longrightarrow>
   page_served env backend tok enc p q (page_apply e p)"

inductive_cases page_served_cases: "page_served env backend tok enc p q t"

text \<open>What the code relies on: an answer fails, or its body has the type claimed for the call.\<close>

definition claimed_answer :: "page_call \<Rightarrow> http_response option \<Rightarrow> bool" where
  "claimed_answer q answer \<longleftrightarrow> failing_answer answer \<or>
     (\<exists>v. ok_answer v answer \<and> page_answer q (Inr (Some v)) \<noteq> None)"

subsection \<open>Answers are steps of the page\<close>

lemma load_calls_iff:
  "PC_Workspace b \<in> set (load_calls k l) \<longleftrightarrow> b = k \<and> (\<exists>c. l = Some (Waiting, c))"
  "PC_Conversations b \<in> set (load_calls k l) \<longleftrightarrow> b = k \<and> (\<exists>w. l = Some (w, Waiting))"
  "PC_History b c \<notin> set (load_calls k l)" "PC_Send b c t \<notin> set (load_calls k l)" "PC_DM b d \<notin> set (load_calls k l)"
  by (cases "(k, l)" rule: load_calls.cases; simp; blast)+

lemma page_calls_iff:
  "PC_Workspace b \<in> set (page_calls p) \<longleftrightarrow> b = page_buId p \<and> (\<exists>c. cp_load p = Some (Waiting, c))"
  "PC_Conversations b \<in> set (page_calls p) \<longleftrightarrow> b = page_buId p \<and> (\<exists>w. cp_load p = Some (w, Waiting))"
  "PC_History b c \<in> set (page_calls p) \<longleftrightarrow> (b, c) \<in> set (cp_history p)"
  "PC_Send b c t \<in> set (page_calls p) \<longleftrightarrow> (b, c, t) \<in> set (cp_rest p)"
  "PC_DM b k \<in> set (page_calls p) \<longleftrightarrow> (b, k) \<in> set (cp_dms p)"
  by (force simp: page_calls_def load_calls_iff)+

lemma answer_enabled:
  "q \<in> set (page_calls p) \<Longrightarrow> page_answer q r = Some e \<Longrightarrow> page_enabled e p"
  by (cases q) (auto simp: page_calls_iff)

lemma served_step: "page_served env backend tok enc p q t \<Longrightarrow> \<exists>e. page_step p e t"
  by (erule page_served_cases) (auto simp: page_step_iff dest: answer_enabled)

lemma served_reachable:
  assumes "runs (page_served env backend tok enc) p qs t" "reachable st page_step p"
  shows "reachable st page_step t"
  by (rule runs_keeps [OF assms(1), of "reachable st page_step"], rule assms(2)) (meson served_step reach_step)

lemma failed_answer: "\<exists>e. page_answer q (Inl x) = Some e"
  by (cases q) simp_all

lemma claimed_served:
  assumes "tok \<noteq> []" "CHR ''?'' \<notin> set (ac_path (container (page_request q)))"
    and "claimed_answer q (backend (call_request env tok enc (page_request q)))" "q \<in> set (page_calls p)"
  shows "\<exists>t. page_served env backend tok enc p q t"
proof -
  have "\<exists>e. page_answer q (http_call env backend (Some tok) enc (page_request q)) = Some e"
    using assms(3) http_call_failed [OF assms(1,2)] http_call_ok [OF assms(1,2)] failed_answer [of q]
    unfolding claimed_answer_def by (metis not_None_eq)
  with assms(4) show ?thesis by (auto intro: page_served.intros)
qed

subsection \<open>Work left\<close>

text \<open>
  A bound on the answers still to come: the conversations and a new direct conversation may select one and so
  ask for a history.
\<close>

definition page_work :: "chat_page \<Rightarrow> nat" where
  "page_work p =
     (case cp_load p of None \<Rightarrow> 0
      | Some (w, c) \<Rightarrow> (if w = Waiting then 1 else 0) + (if c = Waiting then 2 else 0)) +
     length (cp_history p) + length (cp_rest p) + 2 * length (cp_dms p)"

lemma history_effect_length: "length (cp_history (history_effect p)) \<le> Suc (length (cp_history p))"
  by (simp add: history_effect_def)

lemma after_render_length: "length (cp_history (after_render old p)) \<le> Suc (length (cp_history p))"
  by (simp add: after_render_def history_effect_length)

lemma load_settled_fields:
  "cp_rest (load_workspace_settled r p) = cp_rest p" "cp_dms (load_workspace_settled r p) = cp_dms p"
  "cp_history (load_workspace_settled r p) = cp_history p"
  "cp_rest (load_conversations_settled k p) = cp_rest p" "cp_dms (load_conversations_settled k p) = cp_dms p"
  by (simp_all add: load_workspace_settled_def load_conversations_settled_def load_finally_def Let_def
      split: option.split prod.split sum.split)

lemma dm_settled_fields:
  "cp_load (dm_settled q r p) = cp_load p" "cp_rest (dm_settled q r p) = cp_rest p"
  "cp_dms (dm_settled q r p) = remove1 q (cp_dms p)"
  "length (cp_history (dm_settled q r p)) \<le> Suc (length (cp_history p))"
proof -
  let ?p = "(upd_chat (createDM_end (fst q) r) p)\<lparr>cp_dms := remove1 q (cp_dms p)\<rparr>"
  show "length (cp_history (dm_settled q r p)) \<le> Suc (length (cp_history p))"
    using after_render_length [of p ?p] after_render_length [of p "?p\<lparr>cp_draft := [], cp_sendError := []\<rparr>"]
    by (cases r) (simp_all add: dm_settled_def Let_def)
qed (simp_all add: dm_settled_def Let_def split: sum.split)

lemma answer_decreases:
  assumes "q \<in> set (page_calls p)" "page_answer q r = Some e"
  shows "page_work (page_apply e p) < page_work p"
proof (cases q)
  case (PC_Workspace b)
  with assms obtain c k where "e = PG_Workspace k" "cp_load p = Some (Waiting, c)"
    by (auto simp: page_calls_iff)
  then show ?thesis
    by (simp add: page_work_def load_settled_fields)
      (simp add: load_workspace_settled_def load_finally_def Let_def)
next
  case (PC_Conversations b)
  with assms obtain w k where e: "e = PG_Conversations k" "cp_load p = Some (w, Waiting)"
    by (auto simp: page_calls_iff)
  have "length (cp_history (load_conversations_settled k p)) \<le> Suc (length (cp_history p))"
    using e after_render_length [of p "upd_chat (fetchConversations_end (page_buId p) k) p"]
    by (cases k) (auto simp: load_conversations_settled_def load_finally_def Let_def)
  moreover have "\<exists>c. cp_load (load_conversations_settled k p) = Some (w, c) \<and> c \<noteq> Waiting"
    using e by (simp add: load_conversations_settled_def load_finally_def Let_def split: sum.split)
  ultimately show ?thesis using e by (auto simp: page_work_def load_settled_fields)
next
  case (PC_History b c)
  with assms obtain k where "e = PG_History (b, c) k" "(b, c) \<in> set (cp_history p)"
    by (auto simp: page_calls_iff)
  then show ?thesis
    using length_pos_if_in_set [of "(b, c)" "cp_history p"]
    by (simp add: page_work_def history_settled_def length_remove1)
next
  case (PC_DM b d)
  with assms obtain k where e: "e = PG_DM (b, d) k" "(b, d) \<in> set (cp_dms p)"
    by (auto simp: page_calls_iff)
  then show ?thesis
    using length_pos_if_in_set [of "(b, d)" "cp_dms p"] dm_settled_fields [of "(b, d)" k p]
    by (simp add: page_work_def length_remove1 del: length_greater_0_conv)
next
  case (PC_Send b c t)
  with assms obtain k where "e = PG_Rest (b, c, t) k" "(b, c, t) \<in> set (cp_rest p)"
    by (auto simp: page_calls_iff)
  then show ?thesis
    using length_pos_if_in_set [of "(b, c, t)" "cp_rest p"]
    by (simp add: page_work_def rest_settled_def Let_def length_remove1 split: sum.split)
qed

lemma served_work:
  assumes "runs (page_served env backend tok enc) p qs t"
  shows "length qs + page_work t \<le> page_work p"
  using assms
proof (induction qs arbitrary: p)
  case (Cons q qs)
  from Cons.prems obtain u where "page_served env backend tok enc p q u" "runs (page_served env backend tok enc) u qs t"
    by auto
  with Cons.IH [of u] show ?case by (auto elim!: page_served_cases dest: answer_decreases)
qed simp

lemma load_stays: "cp_load p \<noteq> None \<Longrightarrow> page_served env backend tok enc p q t \<Longrightarrow> cp_load t \<noteq> None"
proof (erule page_served_cases)
  fix e
  assume "cp_load p \<noteq> None" "page_answer q (http_call env backend (Some tok) enc (page_request q)) = Some e"
    "t = page_apply e p"
  then show "cp_load t \<noteq> None"
    by (cases q)
      (auto simp: load_workspace_settled_def load_conversations_settled_def load_finally_def dm_settled_fields
        history_settled_def rest_settled_def Let_def split: sum.splits if_splits)
qed

lemma nothing_pending:
  assumes "page_calls p = []" "cp_load p \<noteq> None" "page_inv p"
  shows "\<not> cp_initialLoading p \<and> \<not> cp_sending p \<and> cp_history p = [] \<and> cp_rest p = [] \<and> cp_dms p = []"
proof -
  obtain w c where l: "cp_load p = Some (w, c)" using assms(2) by auto
  with assms(1) have "w \<noteq> Waiting" "c \<noteq> Waiting" "cp_history p = []" "cp_rest p = []" "cp_dms p = []"
    by (auto simp: page_calls_def split: if_splits)
  moreover from this assms(3) l have "\<not> cp_initialLoading p" "\<not> cp_sending p"
    by (cases w; cases c; simp add: page_inv_def load_ok_def sends_ok_def)+
  ultimately show ?thesis by simp
qed

subsection \<open>Properties\<close>

text \<open>
  C16. The chat page comes to rest: from any reachable state, however the answers of the backend are ordered, at
  most \<open>page_work\<close> of them arrive before the user acts again; as long as one is pending, the backend's answer to
  any of the pending calls is a step; and when none is, the page is neither loading nor sending.
\<close>

theorem chat_page_comes_to_rest:
  fixes enc :: "string \<Rightarrow> string"
  assumes "reachable (\<lambda>p. \<exists>u h. p = chat_page_init u h) page_step p" "cp_load p \<noteq> None" "tok \<noteq> []"
    and "\<And>q. claimed_answer q (backend (call_request env tok enc (page_request q)))"
    and "runs (page_served env backend tok enc) p qs t"
  shows "length qs + page_work t \<le> page_work p \<and>
    (\<forall>q \<in> set (page_calls t). CHR ''?'' \<notin> set (ac_path (container (page_request q))) \<longrightarrow>
       (\<exists>u. page_served env backend tok enc t q u)) \<and>
    (page_calls t = [] \<longrightarrow> \<not> cp_initialLoading t \<and> \<not> cp_sending t \<and> ChatPage time t \<noteq> View_Skeleton)"
proof (intro conjI impI ballI)
  show "length qs + page_work t \<le> page_work p" using assms(5) by (rule served_work)
  show "\<exists>u. page_served env backend tok enc t q u"
    if "q \<in> set (page_calls t)" "CHR ''?'' \<notin> set (ac_path (container (page_request q)))" for q
    using that by (intro claimed_served [where backend = backend] assms(3,4))
  have "page_inv t" using page.inv_reachable [OF served_reachable [OF assms(5,1)]] .
  moreover have "cp_load t \<noteq> None"
    by (rule runs_keeps [OF assms(5), of "\<lambda>p. cp_load p \<noteq> None"], rule assms(2)) (rule load_stays)
  ultimately show "\<not> cp_initialLoading t" "\<not> cp_sending t" "ChatPage time t \<noteq> View_Skeleton"
    if "page_calls t = []"
    using nothing_pending that by (auto simp: ChatPage_def Let_def split: option.split)
qed

definition opened_page :: "auth_user \<Rightarrow> chat_state \<Rightarrow> chat_page" where
  "opened_page u chat = page_mount (chat_page_init (Some u) (hook_init chat))"

lemma opened_reachable:
  assumes "au_buId u \<noteq> []"
  shows "reachable (\<lambda>p. \<exists>u h. p = chat_page_init u h) page_step (opened_page u chat)"
proof -
  have "page_enabled PG_Mount (chat_page_init (Some u) (hook_init chat))"
    using assms by (simp add: chat_page_init_def page_buId_def)
  then have "page_step (chat_page_init (Some u) (hook_init chat)) PG_Mount (opened_page u chat)"
    unfolding opened_page_def using page_step.intros [of PG_Mount] by simp
  with reachable_init [of "Some u" "hook_init chat"] show ?thesis by (rule reach_step)
qed

lemma opened_fields:
  assumes "au_buId u \<noteq> []" "ct_active chat = None"
  shows "cp_user (opened_page u chat) = Some u" "cp_load (opened_page u chat) = Some (Waiting, Waiting)"
    "cp_history (opened_page u chat) = []" "cp_rest (opened_page u chat) = []" "cp_dms (opened_page u chat) = []"
    "ct_active (page_chat (opened_page u chat)) = None" "cp_draft (opened_page u chat) = []"
    "\<not> cp_accessDenied (opened_page u chat)" "cp_sendError (opened_page u chat) = []"
proof -
  have "hk_chat (hook_run_effect b (hook_init chat)) = chat" for b
    by (simp add: hook_run_effect_def hook_cleanup_def hook_init_def hook_connect_def Let_def)
  then show "cp_user (opened_page u chat) = Some u" "cp_load (opened_page u chat) = Some (Waiting, Waiting)"
    "cp_history (opened_page u chat) = []" "cp_rest (opened_page u chat) = []" "cp_dms (opened_page u chat) = []"
    "ct_active (page_chat (opened_page u chat)) = None" "cp_draft (opened_page u chat) = []"
    "\<not> cp_accessDenied (opened_page u chat)" "cp_sendError (opened_page u chat) = []"
    using assms
    by (simp_all add: opened_page_def page_mount_def load_begin_def history_effect_def chat_page_init_def page_buId_def
        upd_chat_def fetchWorkspace_begin_def)
qed

lemma chat_page_comes_to_rest_witness:
  "\<exists>t. page_served sample_env (\<lambda>r. None) ''jwt'' (\<lambda>x. x) (opened_page sample_user chat_init) (PC_Workspace ''b1'') t"
proof -
  have b: "au_buId sample_user \<noteq> []" "ct_active chat_init = None" by (simp_all add: sample_user_def chat_init_def)
  have l: "cp_load (opened_page sample_user chat_init) \<noteq> None" by (simp add: opened_fields [OF b])
  have c: "claimed_answer q ((\<lambda>r. None) (call_request sample_env ''jwt'' (\<lambda>x. x) (page_request q)))" for q
    by (simp add: claimed_answer_def failing_answer_def)
  have q: "PC_Workspace ''b1'' \<in> set (page_calls (opened_page sample_user chat_init))"
    by (simp add: page_calls_iff opened_fields [OF b] page_buId_def) (simp add: sample_user_def)
  have "CHR ''?'' \<notin> set (ac_path (container (page_request (PC_Workspace ''b1''))))"
    by (simp add: use_case_defs api_defs)
  with chat_page_comes_to_rest [where backend = "\<lambda>r. None" and qs = "[]", OF opened_reachable [OF b(1)] l _ c] q
  show ?thesis by auto
qed

text \<open>The selection the code makes among the conversations: the first group, else the first of all.\<close>

definition chosen_conversation :: "chat_conversation list \<Rightarrow> chat_conversation" where
  "chosen_conversation cs = nullish (find (\<lambda>c. cv_type c = Group) cs) (cs ! 0)"

definition chosen :: "chat_conversation list \<Rightarrow> id" where
  "chosen cs = cv_conversationId (chosen_conversation cs)"

lemma chosen_found:
  assumes "cs \<noteq> []" "distinct (map cv_conversationId cs)"
  shows "find (\<lambda>c. cv_conversationId c = chosen cs) cs = Some (chosen_conversation cs)"
proof -
  have mem: "chosen_conversation cs \<in> set cs"
  proof (cases "find (\<lambda>c. cv_type c = Group) cs")
    case (Some c)
    then have "c \<in> set cs" by (auto simp: find_Some_iff)
    with Some show ?thesis by (simp add: chosen_conversation_def)
  qed (use assms(1) in \<open>simp add: chosen_conversation_def\<close>)
  have "find (\<lambda>c. cv_conversationId c = cv_conversationId d) xs = Some d"
    if "d \<in> set xs" "distinct (map cv_conversationId xs)" for d xs
    using that by (induction xs) (auto simp: image_iff)
  from this [OF mem assms(2)] show ?thesis by (simp add: chosen_def)
qed

text \<open>What is known of the page while the answers of a first opening arrive.\<close>

definition opening_with ::
  "auth_user \<Rightarrow> chat_workspace \<Rightarrow> chat_conversation list \<Rightarrow> chat_message list \<Rightarrow> chat_page \<Rightarrow> bool" where
  "opening_with u w cs ms p \<longleftrightarrow>
     cp_user p = Some u \<and> cp_rest p = [] \<and> cp_dms p = [] \<and> \<not> cp_accessDenied p \<and> cp_draft p = [] \<and> cp_sendError p = [] \<and>
     (\<exists>a b. cp_load p = Some (a, b) \<and> a \<in> {Waiting, Fulfilled} \<and> b \<in> {Waiting, Fulfilled} \<and>
        (a = Fulfilled \<longrightarrow> ct_workspaces (page_chat p) (au_buId u) = Some w) \<and>
        (b = Waiting \<longrightarrow> ct_active (page_chat p) = None \<and> cp_history p = []) \<and>
        (b = Fulfilled \<longrightarrow> ct_active (page_chat p) = Some (chosen cs) \<and>
           conversations_of (page_chat p) (au_buId u) = cs \<and>
           (cp_history p = [(au_buId u, chosen cs)] \<or>
            cp_history p = [] \<and> messages_of (page_chat p) (chosen cs) = ms)))"

lemma opening_start:
  assumes "au_buId u \<noteq> []" "ct_active chat = None"
  shows "opening_with u w cs ms (opened_page u chat)"
  by (simp add: opening_with_def opened_fields [OF assms])

lemma opening_workspace:
  assumes "opening_with u w cs ms p" "cp_load p = Some (Waiting, b)"
  shows "opening_with u w cs ms (load_workspace_settled (Inr w) p)"
  using assms
  by (auto simp: opening_with_def load_workspace_settled_def load_finally_def Let_def page_buId_def fetchWorkspace_end_def
      upd_chat_def)

lemma opening_conversations:
  assumes "opening_with u w cs ms p" "cp_load p = Some (a, Waiting)" "cs \<noteq> []" "chosen cs \<noteq> []" "au_buId u \<noteq> []"
  shows "opening_with u w cs ms (load_conversations_settled (Inr cs) p)"
proof -
  from assms(1,2) have p: "cp_user p = Some u" "ct_active (page_chat p) = None" "cp_history p = []"
    by (auto simp: opening_with_def)
  have b: "page_buId p = au_buId u" using p(1) by (simp add: page_buId_def)
  have sel: "fetchConversations_end (au_buId u) (Inr cs) (page_chat p) =
      (page_chat p)\<lparr>ct_conversations := (ct_conversations (page_chat p))(au_buId u \<mapsto> cs), ct_active := Some (chosen cs)\<rparr>"
    using p assms(3) by (simp add: fetchConversations_end_def auto_select_def chosen_def chosen_conversation_def truthy_iff)
  let ?q = "load_conversations_settled (Inr cs) p"
  have q: "page_chat ?q = fetchConversations_end (au_buId u) (Inr cs) (page_chat p)"
    "cp_history ?q = [(au_buId u, chosen cs)]"
    using assms(2,4,5) p b sel
    by (simp_all add: load_conversations_settled_def load_finally_def Let_def after_render_def history_effect_def truthy_iff)
  have "cp_load ?q = Some (a, Fulfilled)" "cp_user ?q = Some u" "cp_rest ?q = cp_rest p" "cp_dms ?q = cp_dms p"
    "cp_accessDenied ?q = cp_accessDenied p" "cp_draft ?q = cp_draft p" "cp_sendError ?q = cp_sendError p"
    using assms(2) p by (simp_all add: load_conversations_settled_def load_finally_def Let_def)
  with assms(1,2) q sel show ?thesis
    by (auto simp: opening_with_def)
qed

lemma opening_history:
  assumes "opening_with u w cs ms p" "(au_buId u, chosen cs) \<in> set (cp_history p)"
  shows "opening_with u w cs ms (history_settled (au_buId u, chosen cs) (Inr ms) p)"
  using assms
  by (auto simp: opening_with_def history_settled_def fetchConversationMessages_end_def upd_chat_def)

text \<open>The backend of a first opening: it answers the three calls with these data.\<close>

definition opening_backend ::
  "bff_env \<Rightarrow> backend \<Rightarrow> string \<Rightarrow> (string \<Rightarrow> string) \<Rightarrow> auth_user \<Rightarrow> chat_workspace \<Rightarrow> chat_conversation list \<Rightarrow> chat_message list \<Rightarrow> bool"
where
  "opening_backend env backend tok enc u w cs ms \<longleftrightarrow>
     ok_answer (workspace_json w) (backend (call_request env tok enc (Chat_getWorkspace (au_buId u)))) \<and>
     ok_answer (conversations_json cs) (backend (call_request env tok enc (Chat_getConversations (au_buId u)))) \<and>
     ok_answer (messages_json ms) (backend (call_request env tok enc (Chat_getConversationMessages (au_buId u) (chosen cs))))"

lemma opening_served:
  fixes enc :: "string \<Rightarrow> string"
  assumes "opening_with u w cs ms p" "q \<in> set (page_calls p)" "tok \<noteq> []"
    and "CHR ''?'' \<notin> set (au_buId u)" "CHR ''?'' \<notin> set (chosen cs)" "au_buId u \<noteq> []" "cs \<noteq> []" "chosen cs \<noteq> []"
    and "opening_backend env backend tok enc u w cs ms"
  shows "(\<exists>t. page_served env backend tok enc p q t) \<and>
    (\<forall>t. page_served env backend tok enc p q t \<longrightarrow> opening_with u w cs ms t)"
proof -
  note call = http_call_ok [where backend = backend and env = env and enc = enc, OF assms(3)]
  from assms(1) have b: "page_buId p = au_buId u" by (simp add: opening_with_def page_buId_def)
  have e: "\<exists>e. page_answer q (http_call env backend (Some tok) enc (page_request q)) = Some e \<and>
      opening_with u w cs ms (page_apply e p)"
  proof (cases q)
    case (PC_Workspace k)
    with assms(2) b obtain c where k: "k = au_buId u" "cp_load p = Some (Waiting, c)" by (auto simp: page_calls_iff)
    have "http_call env backend (Some tok) enc (Chat_getWorkspace (au_buId u)) = Inr (Some (workspace_json w))"
      using assms(4,9) by (intro call) (simp_all add: use_case_defs api_defs workspace.encode_wf opening_backend_def)
    with PC_Workspace k opening_workspace [OF assms(1)] show ?thesis by (simp add: workspace.dec_encode)
  next
    case (PC_Conversations k)
    with assms(2) b obtain a where k: "k = au_buId u" "cp_load p = Some (a, Waiting)" by (auto simp: page_calls_iff)
    have "http_call env backend (Some tok) enc (Chat_getConversations (au_buId u)) = Inr (Some (conversations_json cs))"
      using assms(4,9) by (intro call) (simp_all add: use_case_defs api_defs opening_backend_def)
    with PC_Conversations k opening_conversations [OF assms(1) _ assms(7,8,6)] show ?thesis
      by (simp add: then_list_conversations del: then_list.simps)
  next
    case (PC_History k c)
    with assms(1,2) have k: "k = au_buId u" "c = chosen cs" "(au_buId u, chosen cs) \<in> set (cp_history p)"
      by (auto simp: page_calls_iff opening_with_def)
    have "http_call env backend (Some tok) enc (Chat_getConversationMessages (au_buId u) (chosen cs)) = Inr (Some (messages_json ms))"
      using assms(4,5,9) by (intro call) (simp_all add: use_case_defs api_defs opening_backend_def)
    with PC_History k opening_history [OF assms(1)] show ?thesis
      by (simp add: then_list_messages del: then_list.simps)
  qed (use assms(1,2) in \<open>simp_all add: page_calls_iff opening_with_def\<close>)
  then show ?thesis using assms(2) by (auto intro: page_served.intros elim!: page_served_cases)
qed

lemma rest_reached:
  assumes "P p" "\<And>p q. P p \<Longrightarrow> q \<in> set (page_calls p) \<Longrightarrow> \<exists>t. page_served env backend tok enc p q t \<and> P t"
  shows "\<exists>qs t. runs (page_served env backend tok enc) p qs t \<and> page_calls t = []"
  using assms(1)
proof (induction "page_work p" arbitrary: p rule: less_induct)
  case less
  show ?case
  proof (cases "page_calls p")
    case Nil
    then show ?thesis by (intro exI [of _ "[]"] exI [of _ p]) simp
  next
    case (Cons q rest)
    with assms(2) [OF less.prems, of q] obtain t where t: "page_served env backend tok enc p q t" "P t" by auto
    then have "page_work t < page_work p" by (auto elim!: page_served_cases dest: answer_decreases)
    from less.hyps [OF this t(2)] obtain qs u where "runs (page_served env backend tok enc) t qs u" "page_calls u = []"
      by blast
    with t(1) show ?thesis by (intro exI [of _ "q # qs"] exI [of _ u]) auto
  qed
qed

text \<open>
  C4. Opening the chat shows what the backend holds: when the backend answers the calls with a workspace, its
  conversations and the history of the chosen one, the answers come to an end, and in whatever order they
  arrived the page then shows exactly these conversations with the chosen one (the first group, else the first)
  selected, the members of the workspace that can be written to, the chosen one's messages, its icon and label,
  an empty input that is ready and, beside a group, the panel with all members of the workspace.
\<close>

theorem chat_page_opens:
  fixes enc :: "string \<Rightarrow> string"
  assumes "au_buId u \<noteq> []" "ct_active chat = None" "tok \<noteq> []" "cs \<noteq> []" "chosen cs \<noteq> []"
    and "plain_segment (au_buId u)" "plain_segment (chosen cs)" "distinct (map cv_conversationId cs)"
    and "opening_backend env backend tok enc u w cs ms"
  shows "(\<exists>qs t. runs (page_served env backend tok enc) (opened_page u chat) qs t \<and> page_calls t = []) \<and>
    (\<forall>qs t. runs (page_served env backend tok enc) (opened_page u chat) qs t \<and> page_calls t = [] \<longrightarrow>
      (let c = chosen_conversation cs; dm = (cv_type c = Dm) in
       ChatPage time t = View_Chat
        (ConversationList cs (Some (cv_conversationId c)) (au_personId u) (ws_buName w) (availableDMTargets (Some w)))
        (if dm then Person_Icon else Team_Icon) (if dm then dm_label (Some (au_personId u)) c else ws_buName w)
        (MessageList time ms (au_personId u)) (MessageInput [] False [])
        (if dm then None else Some (MemberList (ws_members w) (au_personId u)))))"
proof (intro conjI allI impI)
  note served = opening_served [where backend = backend,
      OF _ _ assms(3) plain_segment_no_query [OF assms(6)] plain_segment_no_query [OF assms(7)] assms(1,4,5,9)]
  show "\<exists>qs t. runs (page_served env backend tok enc) (opened_page u chat) qs t \<and> page_calls t = []"
    by (rule rest_reached [where P = "opening_with u w cs ms"], rule opening_start [OF assms(1,2)]) (use served in blast)
  fix qs t
  assume t: "runs (page_served env backend tok enc) (opened_page u chat) qs t \<and> page_calls t = []"
  then have run: "runs (page_served env backend tok enc) (opened_page u chat) qs t" by blast
  have o: "opening_with u w cs ms t"
    by (rule runs_keeps [OF run, of "opening_with u w cs ms"], rule opening_start [OF assms(1,2)])
      (use served in \<open>blast elim: page_served_cases\<close>)
  have "page_inv t" using page.inv_reachable [OF served_reachable [OF run opened_reachable [OF assms(1)]]] .
  moreover have "cp_load t \<noteq> None" using o by (auto simp: opening_with_def)
  ultimately have "\<not> cp_initialLoading t" "\<not> cp_sending t" "cp_history t = []"
    using nothing_pending t by blast+
  moreover from t o have "cp_load t = Some (Fulfilled, Fulfilled)"
    by (auto simp: opening_with_def page_calls_def)
  ultimately have shown: "cp_user t = Some u" "page_buId t = au_buId u" "\<not> cp_accessDenied t" "cp_draft t = []"
    "cp_sendError t = []" "ct_workspaces (page_chat t) (au_buId u) = Some w" "ct_active (page_chat t) = Some (chosen cs)"
    "conversations_of (page_chat t) (au_buId u) = cs" "messages_of (page_chat t) (chosen cs) = ms"
    using o by (auto simp: opening_with_def page_buId_def)
  then have active: "active_conversation t = Some (chosen_conversation cs)"
    by (simp add: active_conversation_def chosen_found [OF assms(4,8)])
  then have "active_is_dm t \<longleftrightarrow> cv_type (chosen_conversation cs) = Dm"
    by (simp add: active_is_dm_def)
  moreover have "header_label t = (if cv_type (chosen_conversation cs) = Dm
      then dm_label (Some (au_personId u)) (chosen_conversation cs) else ws_buName w)"
    using active shown by (simp add: header_label_def Let_def)
  moreover have "conv_messages t = ms"
    using shown assms(5) by (simp add: conv_messages_def)
  ultimately show "let c = chosen_conversation cs; dm = (cv_type c = Dm) in
       ChatPage time t = View_Chat
        (ConversationList cs (Some (cv_conversationId c)) (au_personId u) (ws_buName w) (availableDMTargets (Some w)))
        (if dm then Person_Icon else Team_Icon) (if dm then dm_label (Some (au_personId u)) c else ws_buName w)
        (MessageList time ms (au_personId u)) (MessageInput [] False [])
        (if dm then None else Some (MemberList (ws_members w) (au_personId u)))"
    using shown \<open>\<not> cp_initialLoading t\<close> \<open>\<not> cp_sending t\<close>
    by (simp add: ChatPage_def Let_def chosen_def)
qed

definition team_workspace :: chat_workspace where
  "team_workspace = \<lparr>ws_workspaceId = ''w1'', ws_buId = ''b1'', ws_buName = ''Spa'', ws_members = []\<rparr>"

definition team_conversation :: chat_conversation where
  "team_conversation = \<lparr>cv_conversationId = ''c1'', cv_type = Group, cv_workspaceId = ''w1'', cv_participants = []\<rparr>"

definition team_backend :: backend where
  "team_backend req = Some \<lparr>rs_status = 200, rs_body = stringify
     (if req = call_request sample_env ''jwt'' (\<lambda>x. x) (Chat_getWorkspace ''b1'') then workspace_json team_workspace
      else if req = call_request sample_env ''jwt'' (\<lambda>x. x) (Chat_getConversations ''b1'')
      then conversations_json [team_conversation]
      else messages_json [sample_msg ''m1''])\<rparr>"

lemma team_requests:
  "call_request sample_env ''jwt'' (\<lambda>x. x) (Chat_getConversations ''b1'') \<noteq> call_request sample_env ''jwt'' (\<lambda>x. x) (Chat_getWorkspace ''b1'')"
  "call_request sample_env ''jwt'' (\<lambda>x. x) (Chat_getConversationMessages ''b1'' ''c1'') \<noteq> call_request sample_env ''jwt'' (\<lambda>x. x) (Chat_getWorkspace ''b1'')"
  "call_request sample_env ''jwt'' (\<lambda>x. x) (Chat_getConversationMessages ''b1'' ''c1'') \<noteq> call_request sample_env ''jwt'' (\<lambda>x. x) (Chat_getConversations ''b1'')"
  by (simp_all add: call_request_def use_case_defs api_defs query_text_def)

lemma team_opening:
  "chosen [team_conversation] = ''c1''"
  "opening_backend sample_env team_backend ''jwt'' (\<lambda>x. x) sample_user team_workspace [team_conversation] [sample_msg ''m1'']"
proof -
  show c: "chosen [team_conversation] = ''c1''" by (simp add: chosen_def chosen_conversation_def team_conversation_def)
  have b: "au_buId sample_user = ''b1''" by (simp add: sample_user_def)
  have ok: "ok_answer v (Some \<lparr>rs_status = 200, rs_body = stringify v\<rparr>)" 
    if "wf_json v" for v using that by (rule ok_written)
  show "opening_backend sample_env team_backend ''jwt'' (\<lambda>x. x) sample_user team_workspace [team_conversation] [sample_msg ''m1'']"
    unfolding opening_backend_def b c team_backend_def using team_requests ok workspace.encode_wf by simp
qed

lemma chat_page_opens_witness:
  "\<exists>qs t. runs (page_served sample_env team_backend ''jwt'' (\<lambda>x. x)) (opened_page sample_user chat_init) qs t \<and>
     ChatPage (\<lambda>d. d) t = View_Chat
       (ConversationList [team_conversation] (Some ''c1'') ''p1'' ''Spa'' (availableDMTargets (Some team_workspace)))
       Team_Icon ''Spa'' (MessageList (\<lambda>d. d) [sample_msg ''m1''] ''p1'') (MessageInput [] False [])
       (Some (MemberList [] ''p1''))"
proof -
  have plain: "plain_segment (au_buId sample_user)" "plain_segment (chosen [team_conversation])"
    unfolding team_opening(1)
    by (simp_all add: sample_user_def plain_segment_def plain_char_def lower_char_def Let_def)
  have u: "au_buId sample_user \<noteq> []" "ct_active chat_init = None" "''jwt'' \<noteq> []" "[team_conversation] \<noteq> []"
    "chosen [team_conversation] \<noteq> []"
    unfolding team_opening(1) by (simp_all add: sample_user_def chat_init_def)
  have d: "distinct (map cv_conversationId [team_conversation])" by simp
  have c: "chosen_conversation [team_conversation] = team_conversation"
    by (simp add: chosen_conversation_def team_conversation_def)
  have fields: "cv_conversationId team_conversation = ''c1''" "cv_type team_conversation = Group"
    "au_personId sample_user = ''p1''" "ws_buName team_workspace = ''Spa''" "ws_members team_workspace = []"
    by (simp_all add: team_conversation_def sample_user_def team_workspace_def)
  from chat_page_opens [where backend = team_backend, OF u plain d team_opening(2), of "\<lambda>d. d"]
  show ?thesis unfolding c by (auto simp: Let_def fields)
qed

end
