(* ===== verification/Markup.thy ===== *)
theory Markup
  imports Forms
begin

text \<open>
  The tree of elements a component returns: elements under the names of the sources, their properties and
  children, element-valued properties as slots, and what a reader or a test of the page looks for in it. Numbers
  are given by their text, handlers by the action they start. Text beyond ASCII is in UTF-8.
\<close>

datatype 'a attr =
    Attr string string
  | Flag string bool
  | Value string "json option"
  | Style "(string \<times> string) list"
  | Rules "(form_rule \<times> string option) list"
  | Initial "(string \<times> string) list"
  | Items "(string \<times> string \<times> string) list"
  | On string 'a

datatype 'a markup =
    Text string
  | Expr "json option"
  | Elem string "'a attr list" "'a markup list"
  | Slot string "'a markup list"

text \<open>\<open>{cond && (...)}\<close>.\<close>

definition shown_if :: "bool \<Rightarrow> 'b \<Rightarrow> 'b list" where
  "shown_if b x = (if b then [x] else [])"

subsection \<open>Looking into a tree\<close>

text \<open>Every element in document order, with its properties and children.\<close>

fun elements :: "'a markup \<Rightarrow> (string \<times> 'a attr list \<times> 'a markup list) list" where
  "elements (Text s) = []"
| "elements (Expr v) = []"
| "elements (Elem tag attrs kids) = (tag, attrs, kids) # concat (map elements kids)"
| "elements (Slot name kids) = concat (map elements kids)"

definition tagged :: "string \<Rightarrow> 'a markup \<Rightarrow> ('a attr list \<times> 'a markup list) list" where
  "tagged tag t = map snd (filter (\<lambda>e. fst e = tag) (elements t))"

fun attr_text :: "string \<Rightarrow> 'a attr list \<Rightarrow> string option" where
  "attr_text n [] = None"
| "attr_text n (Attr m s # as) = (if m = n then Some s else attr_text n as)"
| "attr_text n (_ # as) = attr_text n as"

fun attr_flag :: "string \<Rightarrow> 'a attr list \<Rightarrow> bool" where
  "attr_flag n [] = False"
| "attr_flag n (Flag m b # as) = (if m = n then b else attr_flag n as)"
| "attr_flag n (_ # as) = attr_flag n as"

fun attr_value :: "string \<Rightarrow> 'a attr list \<Rightarrow> json option" where
  "attr_value n [] = None"
| "attr_value n (Value m v # as) = (if m = n then v else attr_value n as)"
| "attr_value n (_ # as) = attr_value n as"

fun attr_rules :: "'a attr list \<Rightarrow> form_rule list" where
  "attr_rules [] = []"
| "attr_rules (Rules rs # as) = map fst rs"
| "attr_rules (_ # as) = attr_rules as"

fun attr_items :: "'a attr list \<Rightarrow> (string \<times> string) list" where
  "attr_items [] = []"
| "attr_items (Items is # as) = map (\<lambda>(k, icon, label). (k, label)) is"
| "attr_items (_ # as) = attr_items as"

fun attr_action :: "string \<Rightarrow> 'a attr list \<Rightarrow> 'a option" where
  "attr_action n [] = None"
| "attr_action n (On m a # as) = (if m = n then Some a else attr_action n as)"
| "attr_action n (_ # as) = attr_action n as"

text \<open>The text directly inside an element, and the value of the expressions there.\<close>

fun own_text :: "'a markup list \<Rightarrow> string" where
  "own_text [] = []"
| "own_text (Text s # ks) = s @ own_text ks"
| "own_text (_ # ks) = own_text ks"

fun own_value :: "'a markup list \<Rightarrow> json option" where
  "own_value [] = None"
| "own_value (Expr v # ks) = v"
| "own_value (_ # ks) = own_value ks"

text \<open>Alerts, links, and the named fields of the form with the element that edits each.\<close>

definition alerts :: "'a markup \<Rightarrow> (string \<times> string) list" where
  "alerts t = map (\<lambda>(as, ks). (nullish (attr_text ''type'' as) [], nullish (attr_text ''message'' as) [])) (tagged ''Alert'' t)"

definition hrefs :: "'a markup \<Rightarrow> string list" where
  "hrefs t = map (\<lambda>(as, ks). nullish (attr_text ''href'' as) []) (tagged ''Link'' t)"

fun editor :: "'a markup list \<Rightarrow> string" where
  "editor (Elem tag as ks # _) = tag"
| "editor _ = []"

definition form_fields :: "'a markup \<Rightarrow> (form_item \<times> string) list" where
  "form_fields t = map (\<lambda>(as, ks). (\<lparr>fi_label = nullish (attr_text ''label'' as) [], fi_name = nullish (attr_text ''name'' as) [],
       fi_rules = attr_rules as\<rparr>, editor ks)) (filter (\<lambda>(as, ks). attr_text ''name'' as \<noteq> None) (tagged ''Form.Item'' t))"

definition buttons :: "'a markup \<Rightarrow> (string \<times> bool \<times> 'a option) list" where
  "buttons t = map (\<lambda>(as, ks). (own_text ks, attr_flag ''loading'' as, attr_action ''onClick'' as)) (tagged ''Button'' t)"

text \<open>The fields whose input does not show what is typed.\<close>

definition masked_fields :: "'a markup \<Rightarrow> string list" where
  "masked_fields t = map (\<lambda>(i, tag). fi_name i) (filter (\<lambda>(i, tag). tag = ''Input.Password'') (form_fields t))"

lemma tagged_simps [simp]:
  "tagged tag (Text s) = []" "tagged tag (Expr v) = []"
  "tagged tag (Elem n as ks) = (if n = tag then [(as, ks)] else []) @ concat (map (tagged tag) ks)"
  "tagged tag (Slot n ks) = concat (map (tagged tag) ks)"
proof -
  have c: "map snd (filter (\<lambda>e. fst e = tag) (concat (map elements ks))) = concat (map (tagged tag) ks)"
    by (induction ks) (simp_all add: tagged_def)
  show "tagged tag (Elem n as ks) = (if n = tag then [(as, ks)] else []) @ concat (map (tagged tag) ks)"
    "tagged tag (Slot n ks) = concat (map (tagged tag) ks)"
    using c by (simp_all add: tagged_def)
qed (simp_all add: tagged_def)

text \<open>Congruences that keep the simplifier out of properties and styles until they are looked at.\<close>

lemma elem_cong: "ks = ks' \<Longrightarrow> Elem n as ks = Elem n as ks'"
  by simp

lemma slot_cong: "ks = ks' \<Longrightarrow> Slot n ks = Slot n ks'"
  by simp

lemma style_cong: "Style x = Style x" "Text y = Text y"
  by simp_all

lemmas markup_cong = elem_cong slot_cong style_cong

lemma shown_if_simps [simp]: "shown_if True x = [x]" "shown_if False x = []"
  by (simp_all add: shown_if_def)

lemma concat_shown_if [simp]: "concat (shown_if b xs) = (if b then xs else [])"
  by (simp add: shown_if_def)

lemma set_shown_if [simp]: "set (shown_if b x) = (if b then {x} else {})"
  by (cases b) simp_all

lemma map_shown_if [simp]: "map f (shown_if b x) = shown_if b (f x)"
  by (cases b) simp_all

subsection \<open>ErrorAlert\<close>

text \<open>
  The component \<open>presentation/components/ui/ErrorAlert.tsx\<close>; a missing class name is no property. The pages write
  the same alert inline.
\<close>

definition ErrorAlert :: "string \<Rightarrow> string option \<Rightarrow> 'a markup" where
  "ErrorAlert message className =
     Elem ''Alert'' ([Attr ''message'' message, Attr ''type'' ''error'', Flag ''showIcon'' True] @
       (case className of None \<Rightarrow> [] | Some c \<Rightarrow> [Attr ''className'' c])) []"

lemma ErrorAlert_alerts: "alerts (ErrorAlert m c) = [(''error'', m)]"
  by (simp add: ErrorAlert_def alerts_def)

end
