(* ===== verification/Page_Markup.thy ===== *)
theory Page_Markup
  imports Markup Login_Page Onboard_Page Change_Password_Page Protected_Layout
begin

text \<open>
  What four pages return, element by element: the login page, the registration page, the page for changing
  the password and the frame of the protected pages. The trees are related to the records in which the
  theories of these pages say what is shown.
\<close>

datatype page_action = Submit | Close_Notice | Open_Item | Ask_Reset reset_kind | Sign_Out

text \<open>The characters beyond ASCII, in UTF-8: the star of the divider, a bullet, an en space, and e grave.\<close>

definition four_star :: string where
  "four_star = [CHR 0xE2, CHR 0x9C, CHR 0xA6]"

definition bullet :: string where
  "bullet = [CHR 0xE2, CHR 0x80, CHR 0xA2]"

definition en_space :: string where
  "en_space = [CHR 0xE2, CHR 0x80, CHR 0x82]"

definition e_grave :: string where
  "e_grave = [CHR 0xC3, CHR 0xA8]"

subsection \<open>The login page\<close>

definition gold_divider :: "'a markup" where
  "gold_divider =
  Elem ''div'' [Style [(''display'', ''flex''), (''alignItems'', ''center''), (''margin'', ''20px 0'')]] [
    Elem ''div'' [Style [(''flex'', ''1''), (''height'', ''1''), (''background'', ''#E8E0D5'')]] [],
    Elem ''span'' [Style [(''padding'', ''0 12px''), (''color'', ''#C9A96E''), (''fontSize'', ''14''),
        (''lineHeight'', ''1'')]] [
      Text four_star],
    Elem ''div'' [Style [(''flex'', ''1''), (''height'', ''1''), (''background'', ''#E8E0D5'')]] []]"

definition login_header :: "'a markup" where
  "login_header =
  Elem ''div'' [Style [(''textAlign'', ''center''), (''marginBottom'', ''36'')]] [
    Elem ''div'' [Style [(''width'', ''60''), (''height'', ''60''), (''borderRadius'', ''50%''), (''background'',
        ''linear-gradient(135deg, #C9A96E 0%, #A87E50 100%)''), (''display'', ''inline-flex''), (''alignItems'',
        ''center''), (''justifyContent'', ''center''), (''marginBottom'', ''16''), (''boxShadow'',
        ''0 4px 20px rgba(168,126,80,0.28)'')]] [
      Elem ''span'' [Style [(''color'', ''#fff''), (''fontSize'', ''26''), (''fontWeight'', ''700''),
          (''fontFamily'', ''var(--font-display)'')]] [
        Text ''A'']],
    Elem ''Title'' [Attr ''level'' ''3'', Style [(''margin'', ''0''), (''color'', ''#1A1C1E''), (''fontFamily'',
        ''var(--font-display)''), (''letterSpacing'', ''0.05em''), (''fontWeight'', ''600'')]] [
      Text ''Aura Wellness''],
    Elem ''Text'' [Style [(''color'', ''#A87E50''), (''fontSize'', ''11''), (''letterSpacing'', ''0.16em''),
        (''textTransform'', ''uppercase''), (''display'', ''block''), (''marginTop'', ''5'')]] [
      Text ''Aesthetic & Wellness Centre'']]"

definition demo_credentials :: "'a markup" where
  "demo_credentials =
  Elem ''div'' [Style [(''background'', ''#FDFAF4''), (''border'', ''1px solid #E8D9B8''), (''borderRadius'',
      ''8''), (''padding'', ''8px 12px''), (''marginBottom'', ''16''), (''fontSize'', ''12''), (''color'',
      ''#7A6040''), (''lineHeight'', ''1.6'')]] [
    Elem ''span'' [Style [(''fontWeight'', ''600''), (''color'', ''#A87E50'')]] [
      Text ''Demo credentials''],
    Elem ''br'' [] [],
    Text ''Email: '',
    Elem ''code'' [Style [(''background'', ''#F0E8D8''), (''padding'', ''0 4px''), (''borderRadius'', ''3'')]] [
      Text ''Welcome@example.com''],
    Text (en_space @ ''Password: ''),
    Elem ''code'' [Style [(''background'', ''#F0E8D8''), (''padding'', ''0 4px''), (''borderRadius'', ''3'')]] [
      Text ''P@ssw0rd'']]"

definition login_email_item :: "login_page \<Rightarrow> 'a markup" where
  "login_email_item s =
  Elem ''Form.Item'' [Attr ''label'' ''Email Address'', Attr ''name'' ''email'', Rules [(Type_Email, None)]] [
    Elem ''Input'' [Flag ''disabled'' (opt_truthy (lg_buChoices s)), Attr ''autoComplete'' ''off'',
        Attr ''placeholder'' ''you@example.com'', Style [(''background'', ''#FDFCFA'')]] []]"

definition login_password_item :: "'a markup" where
  "login_password_item =
  Elem ''Form.Item'' [Attr ''label'' ''Password'', Attr ''name'' ''password'', Rules [(Required,
      Some ''Password required'')]] [
    Elem ''Input.Password'' [Attr ''autoComplete'' ''off'', Attr ''placeholder'' (concat (replicate 8 bullet)),
        Style [(''background'', ''#FDFCFA'')]] []]"

definition login_unit_item :: "login_page \<Rightarrow> 'a markup" where
  "login_unit_item s =
  Elem ''Form.Item'' [Attr ''label'' ''Select Business Unit'', Attr ''name'' ''buId'', Rules [(Required,
      Some ''Please select a business unit'')]] [
    Elem ''Select'' []
      (map (\<lambda>c. Elem ''Select.Option'' [Value ''key'' (js_prop c ''buId''),
          Value ''value'' (js_prop c ''buId'')]
         [Expr (js_prop c ''buName'')]) (json_items (json_nullish (lg_buChoices s) JNull)))]"

definition login_submit_item :: "login_page \<Rightarrow> 'a markup" where
  "login_submit_item s =
  Elem ''Form.Item'' [Style [(''marginBottom'', ''8''), (''marginTop'', ''8'')]] [
    Elem ''Button'' [Attr ''type'' ''primary'', Attr ''htmlType'' ''submit'', Flag ''loading'' (lg_loading s),
        Flag ''block'' True, Style [(''height'', ''42''), (''fontSize'', ''14''), (''letterSpacing'', ''0.04em''),
        (''fontWeight'', ''500'')]] [
      Text (if opt_truthy (lg_buChoices s) then ''Continue'' else ''Sign In'')]]"

definition login_register_link :: "'a markup" where
  "login_register_link =
  Elem ''Text'' [Style [(''textAlign'', ''center''), (''display'', ''block''), (''marginTop'', ''20''), (''color'',
      ''#7A7068''), (''fontSize'', ''13'')]] [
    Text ''New clinic?'',
    Text '' '',
    Elem ''Link'' [Attr ''href'' ''/onboard'', Style [(''color'', ''#A87E50''), (''fontWeight'', ''500'')]] [
      Text ''Register here'']]"

definition login_form :: "login_page \<Rightarrow> page_action markup" where
  "login_form s =
  Elem ''Form'' [Attr ''layout'' ''vertical'', On ''onFinish'' Submit,
      Initial [(''email'', ''Welcome@example.com''), (''password'', ''P@ssw0rd'')]]
    ([login_email_item s, login_password_item] @
     shown_if (opt_truthy (lg_buChoices s)) (login_unit_item s) @
     [login_submit_item s])"

definition login_card :: "login_page \<Rightarrow> page_action markup" where
  "login_card s =
  Elem ''Card'' [Attr ''variant'' ''borderless'', Style [(''borderRadius'', ''12''), (''boxShadow'',
      ''0 8px 40px rgba(44,32,16,0.10)''), (''border'', ''1px solid #EDE8E0'')]]
    ([
      Elem ''Title'' [Attr ''level'' ''5'', Style [(''margin'', ''0 0 4px''), (''color'', ''#2D2D2D''),
          (''fontFamily'', ''var(--font-display)''), (''letterSpacing'', ''0.02em'')]] [
        Text ''Welcome back''],
      Elem ''Text'' [Style [(''color'', ''#7A7068''), (''fontSize'', ''13'')]] [
        Text ''Sign in to your workspace''],
      gold_divider,
      demo_credentials] @
     shown_if (lg_error s \<noteq> [])
       (Elem ''Alert'' [Attr ''message'' (lg_error s), Attr ''type'' ''error'', Flag ''showIcon'' True,
         Attr ''className'' ''mb-4''] []) @
     [login_form s])"

definition LoginMarkup :: "login_page \<Rightarrow> page_action markup" where
  "LoginMarkup s =
  Elem ''div'' [Style [(''height'', ''100vh''), (''overflow'', ''hidden''), (''background'',
      ''linear-gradient(160deg, #F8F5F0 0%, #EDE8E0 55%, #F0EBE3 100%)''), (''display'', ''flex''), (''alignItems'',
      ''center''), (''justifyContent'', ''center''), (''padding'', ''24px'')]] [
    Elem ''div'' [Style [(''width'', ''100%''), (''maxWidth'', ''420'')]] [
      login_header, login_card s, login_register_link]]"

subsection \<open>The registration page\<close>

definition pageWrapStyle :: "(string \<times> string) list" where
  "pageWrapStyle =
    [(''height'', ''100vh''), (''overflowY'', ''auto''),
     (''background'', ''linear-gradient(160deg, #F8F5F0 0%, #EDE8E0 55%, #F0EBE3 100%)''),
     (''display'', ''flex''), (''alignItems'', ''center''), (''justifyContent'', ''center''),
     (''padding'', ''40px 24px'')]"

definition sectionLabelStyle :: "(string \<times> string) list" where
  "sectionLabelStyle =
    [(''display'', ''block''), (''marginBottom'', ''12''), (''color'', ''#A87E50''), (''fontSize'', ''10''),
     (''fontWeight'', ''600''), (''letterSpacing'', ''0.18em''), (''textTransform'', ''uppercase'')]"

definition registered_notice :: "'a markup" where
  "registered_notice =
  Elem ''div'' [Style pageWrapStyle] [
    Elem ''Card'' [Attr ''variant'' ''borderless'', Style [(''width'', ''100%''), (''maxWidth'', ''480''),
        (''borderRadius'', ''12''), (''boxShadow'', ''0 8px 40px rgba(44,32,16,0.10)''), (''border'',
        ''1px solid #EDE8E0''), (''textAlign'', ''center'')]] [
      Elem ''Result'' [Attr ''status'' ''success'',
          Attr ''subTitle'' ''Your workspace is ready. Sign in with the credentials you provided.''] [
        Slot ''title'' [
          Elem ''span'' [Style [(''fontFamily'', ''var(--font-display)''), (''letterSpacing'', ''0.03em'')]] [
            Text ''Clinic Registered'']],
        Slot ''extra'' [
          Elem ''Link'' [Attr ''href'' ''/login''] [
            Elem ''Button'' [Attr ''type'' ''primary'', Flag ''block'' True, Style [(''height'', ''42''),
                (''letterSpacing'', ''0.04em''), (''fontWeight'', ''500'')]] [
              Text ''Go to Sign In'']]]]]]"

definition onboard_header :: "'a markup" where
  "onboard_header =
  Elem ''div'' [Style [(''textAlign'', ''center''), (''marginBottom'', ''36'')]] [
    Elem ''div'' [Style [(''width'', ''60''), (''height'', ''60''), (''borderRadius'', ''50%''), (''background'',
        ''linear-gradient(135deg, #C9A96E 0%, #A87E50 100%)''), (''display'', ''inline-flex''), (''alignItems'',
        ''center''), (''justifyContent'', ''center''), (''marginBottom'', ''16''), (''boxShadow'',
        ''0 4px 20px rgba(168,126,80,0.28)'')]] [
      Elem ''span'' [Style [(''color'', ''#fff''), (''fontSize'', ''26''), (''fontWeight'', ''700''),
          (''fontFamily'', ''var(--font-display)'')]] [
        Text ''A'']],
    Elem ''Title'' [Attr ''level'' ''3'', Style [(''margin'', ''0''), (''color'', ''#1A1C1E''), (''fontFamily'',
        ''var(--font-display)''), (''letterSpacing'', ''0.05em''), (''fontWeight'', ''600'')]] [
      Text ''Aura Wellness''],
    Elem ''Text'' [Style [(''color'', ''#A87E50''), (''fontSize'', ''11''), (''letterSpacing'', ''0.16em''),
        (''textTransform'', ''uppercase''), (''display'', ''block''), (''marginTop'', ''5'')]] [
      Text ''Aesthetic & Wellness Centre'']]"

definition onboard_clinic_items :: "'a markup list" where
  "onboard_clinic_items =
   [
    Elem ''Text'' [Style sectionLabelStyle] [
      Text ''Clinic Information''],
    Elem ''Form.Item'' [Attr ''label'' ''Clinic / Company Name'', Attr ''name'' ''companyName'', Rules [(Required,
        None)]] [
      Elem ''Input'' [Attr ''placeholder'' (''e.g. Lumi'' @ e_grave @ ''re Aesthetic Clinic''),
          Style [(''background'', ''#FDFCFA'')]] []],
    Elem ''Form.Item'' [Attr ''label'' ''Address'', Attr ''name'' ''address'', Rules [(Required, None)]] [
      Elem ''Input'' [Attr ''placeholder'' ''e.g. 123 Wellness Ave, Suite 200'', Style [(''background'',
          ''#FDFCFA'')]] []],
    Elem ''Form.Item'' [Attr ''label'' ''Contact Number'', Attr ''name'' ''contactNumber'', Rules [(Required,
        None)]] [
      Elem ''Input'' [Attr ''placeholder'' ''e.g. 555-0100'', Style [(''background'', ''#FDFCFA'')]] []]]"

definition onboard_owner_items :: "'a markup list" where
  "onboard_owner_items =
   [
    Elem ''Text'' [Style (sectionLabelStyle @ [(''marginTop'', ''8'')])] [
      Text ''Owner Account''],
    Elem ''Form.Item'' [Attr ''label'' ''First Name'', Attr ''name'' ''ownerFirstName'', Rules [(Required, None)]] [
      Elem ''Input'' [Attr ''placeholder'' ''Your first name'', Style [(''background'', ''#FDFCFA'')]] []],
    Elem ''Form.Item'' [Attr ''label'' ''Last Name'', Attr ''name'' ''ownerLastName'', Rules [(Required, None)]] [
      Elem ''Input'' [Attr ''placeholder'' ''Your last name'', Style [(''background'', ''#FDFCFA'')]] []],
    Elem ''Form.Item'' [Attr ''label'' ''Email Address'', Attr ''name'' ''ownerEmail'', Rules [(Required, None),
        (Type_Email, None)]] [
      Elem ''Input'' [Attr ''placeholder'' ''owner@clinic.com'', Style [(''background'', ''#FDFCFA'')]] []]]"

definition onboard_password_items :: "'a markup list" where
  "onboard_password_items =
   [
    Elem ''Form.Item'' [Attr ''label'' ''Password'', Attr ''name'' ''ownerPassword'', Rules [(Required,
        Some ''Password required''), (Min 8, Some ''Minimum 8 characters'')]] [
      Elem ''Input.Password'' [Attr ''placeholder'' ''Minimum 8 characters'', Style [(''background'',
          ''#FDFCFA'')]] []],
    Elem ''Form.Item'' [Attr ''label'' ''Confirm Password'', Attr ''name'' ''ownerConfirmPassword'',
        Attr ''dependencies'' ''ownerPassword'', Rules [(Required, Some ''Please confirm your password''),
        (Confirms ''ownerPassword'', Some ''Passwords do not match'')]] [
      Elem ''Input.Password'' [Attr ''placeholder'' ''Repeat password'', Style [(''background'', ''#FDFCFA'')]] []]]"

definition onboard_submit_item :: "onboard_page \<Rightarrow> 'a markup" where
  "onboard_submit_item s =
  Elem ''Form.Item'' [Style [(''marginBottom'', ''8''), (''marginTop'', ''8'')]] [
    Elem ''Button'' [Attr ''type'' ''primary'', Attr ''htmlType'' ''submit'', Flag ''loading'' (ob_loading s),
        Flag ''block'' True, Style [(''height'', ''42''), (''fontSize'', ''14''), (''letterSpacing'', ''0.04em''),
        (''fontWeight'', ''500'')]] [
      Text ''Register Clinic'']]"

definition onboard_form :: "onboard_page \<Rightarrow> page_action markup" where
  "onboard_form s =
  Elem ''Form'' [Attr ''layout'' ''vertical'', On ''onFinish'' Submit]
    (onboard_clinic_items @ onboard_owner_items @ onboard_password_items @ [onboard_submit_item s])"

definition onboard_card :: "onboard_page \<Rightarrow> page_action markup" where
  "onboard_card s =
  Elem ''Card'' [Attr ''variant'' ''borderless'', Style [(''borderRadius'', ''12''), (''boxShadow'',
      ''0 8px 40px rgba(44,32,16,0.10)''), (''border'', ''1px solid #EDE8E0'')]]
    ([
      Elem ''Title'' [Attr ''level'' ''5'', Style [(''margin'', ''0 0 2px''), (''color'', ''#2D2D2D''),
          (''fontFamily'', ''var(--font-display)''), (''letterSpacing'', ''0.02em'')]] [
        Text ''Register Your Clinic''],
      Elem ''Text'' [Style [(''color'', ''#7A7068''), (''fontSize'', ''13''), (''display'', ''block''),
          (''marginBottom'', ''24'')]] [
        Text ''Create your workspace to get started'']] @
     shown_if (ob_error s \<noteq> [])
       (Elem ''Alert'' [Attr ''message'' (ob_error s), Attr ''type'' ''error'', Flag ''showIcon'' True,
         Attr ''className'' ''mb-4''] []) @
     [onboard_form s])"

definition onboard_login_link :: "'a markup" where
  "onboard_login_link =
  Elem ''Text'' [Style [(''textAlign'', ''center''), (''display'', ''block''), (''marginTop'', ''20''), (''color'',
      ''#7A7068''), (''fontSize'', ''13'')]] [
    Text ''Already have an account?'',
    Text '' '',
    Elem ''Link'' [Attr ''href'' ''/login'', Style [(''color'', ''#A87E50''), (''fontWeight'', ''500'')]] [
      Text ''Sign in'']]"

definition OnboardMarkup :: "onboard_page \<Rightarrow> page_action markup" where
  "OnboardMarkup s =
  (if ob_success s then registered_notice
   else Elem ''div'' [Style pageWrapStyle] [
     Elem ''div'' [Style [(''width'', ''100%''), (''maxWidth'', ''520'')]] [
       onboard_header, onboard_card s, onboard_login_link]])"

subsection \<open>Changing the password\<close>

definition change_password_form :: "change_password_page \<Rightarrow> page_action markup" where
  "change_password_form s =
  Elem ''Form'' [Attr ''layout'' ''vertical'', On ''onFinish'' Submit] [
    Elem ''Form.Item'' [Attr ''label'' ''Current Password'', Attr ''name'' ''currentPassword'', Rules [(Required,
        Some ''Current password is required'')]] [
      Elem ''Input.Password'' [Attr ''autoComplete'' ''current-password''] []],
    Elem ''Form.Item'' [Attr ''label'' ''New Password'', Attr ''name'' ''newPassword'', Rules [(Required,
        Some ''New password is required''), (Min 6, Some ''Password must be at least 6 characters'')]] [
      Elem ''Input.Password'' [Attr ''autoComplete'' ''new-password''] []],
    Elem ''Form.Item'' [Attr ''label'' ''Confirm New Password'', Attr ''name'' ''confirmPassword'',
        Rules [(Required, Some ''Please confirm your new password'')]] [
      Elem ''Input.Password'' [Attr ''autoComplete'' ''new-password''] []],
    Elem ''Button'' [Attr ''type'' ''primary'', Attr ''htmlType'' ''submit'', Flag ''loading'' (pw_loading s)] [
      Text ''Change Password'']]"

definition ChangePasswordMarkup :: "change_password_page \<Rightarrow> page_action markup" where
  "ChangePasswordMarkup s =
  Elem ''div'' [] [
    Elem ''Title'' [Attr ''level'' ''3'', Style [(''marginBottom'', ''24'')]] [
      Text ''Change Password''],
    Elem ''Card'' [Style [(''maxWidth'', ''480'')]]
     (shown_if (pw_success s)
       (Elem ''Alert'' [Attr ''message'' ''Password changed successfully.'', Attr ''type'' ''success'',
           Flag ''showIcon'' True,
         Attr ''className'' ''mb-4'', Flag ''closable'' True, On ''onClose'' Close_Notice] []) @
      shown_if (pw_error s \<noteq> [])
       (Elem ''Alert'' [Attr ''message'' (pw_error s), Attr ''type'' ''error'', Flag ''showIcon'' True,
         Attr ''className'' ''mb-4''] []) @
      [change_password_form s])]"

subsection \<open>The frame of the protected pages\<close>

definition roleTagStyle :: "(string \<times> string) list" where
  "roleTagStyle =
    [(''borderRadius'', ''3''), (''fontSize'', ''10''), (''fontWeight'', ''600''), (''letterSpacing'', ''0.08em''),
     (''textTransform'', ''uppercase''), (''border'', ''1px solid rgba(201,169,110,0.35)''),
     (''background'', ''rgba(201,169,110,0.08)''), (''color'', ''#C9A96E''), (''padding'', ''0 7px'')]"

definition menu_icons :: "auth_user \<Rightarrow> (string \<times> string \<times> string) list" where
  "menu_icons u =
    [(''/dashboard'', ''DashboardOutlined'', ''Dashboard''),
     (''/business-units'', ''BankOutlined'', ''Business Units'')] @
    (if is_owner_or_admin u then [(''/staff'', ''TeamOutlined'', ''Staff Management'')] else []) @
    [(''/chat'', ''CommentOutlined'', ''Chat'')] @
    (if is_owner u then [(''/chat-access'', ''MessageOutlined'', ''Chat Access'')] else []) @
    [(''/change-password'', ''LockOutlined'', ''Change Password'')]"

definition layout_brand :: "'a markup" where
  "layout_brand =
  Elem ''div'' [Style [(''display'', ''flex''), (''alignItems'', ''center''), (''gap'', ''12''), (''marginBottom'',
      ''14'')]] [
    Elem ''div'' [Style [(''width'', ''36''), (''height'', ''36''), (''borderRadius'', ''50%''), (''background'',
        ''linear-gradient(135deg, #C9A96E 0%, #A87E50 100%)''), (''display'', ''flex''), (''alignItems'',
        ''center''), (''justifyContent'', ''center''), (''flexShrink'', ''0''), (''boxShadow'',
        ''0 2px 8px rgba(168,126,80,0.4)'')]] [
      Elem ''span'' [Style [(''color'', ''#fff''), (''fontSize'', ''15''), (''fontWeight'', ''700''),
          (''fontFamily'', ''var(--font-display)''), (''letterSpacing'', ''0.02em'')]] [
        Text ''A'']],
    Elem ''div'' [] [
      Elem ''div'' [Style [(''color'', ''#F8F5F0''), (''fontSize'', ''16''), (''fontWeight'', ''600''),
          (''fontFamily'', ''var(--font-display)''), (''letterSpacing'', ''0.04em''), (''lineHeight'', ''1.2'')]] [
        Text ''Aura Wellness''],
      Elem ''div'' [Style [(''color'', ''rgba(201,169,110,0.7)''), (''fontSize'', ''9''), (''letterSpacing'',
          ''0.14em''), (''textTransform'', ''uppercase''), (''marginTop'', ''2'')]] [
        Text ''Aesthetic & Wellness Centre'']]]"

definition layout_user :: "auth_user \<Rightarrow> 'a markup list" where
  "layout_user u =
   [
    Elem ''Text'' [Style [(''color'', ''rgba(248,245,240,0.55)''), (''fontSize'', ''13''), (''display'', ''block''),
        (''marginBottom'', ''6'')]] [
      Text (au_firstName u),
      Text '' '',
      Text (au_lastName u)],
    Elem ''Tag'' [Style roleTagStyle] [
      Text (au_role u)]]"

definition layout_menu :: "auth_user \<Rightarrow> string \<Rightarrow> page_action markup" where
  "layout_menu u pathname =
  Elem ''Menu'' [Attr ''theme'' ''dark'', Attr ''mode'' ''inline'', Attr ''selectedKeys'' pathname,
      Items (menu_icons u), On ''onClick'' Open_Item, Style [(''flex'', ''1''), (''borderRight'', ''0''),
      (''background'', ''transparent''), (''padding'', ''8px 0'')]] []"

definition layout_buttons :: "auth_user \<Rightarrow> layout_state \<Rightarrow> page_action markup" where
  "layout_buttons u s =
  Elem ''div'' [Style [(''padding'', ''16px 16px 24px'')]]
    (shown_if (is_owner u)
       (Elem ''Button'' [Flag ''danger'' True, Flag ''loading'' (ly_resetting s),
           On ''onClick'' (Ask_Reset Reset_Db), Flag ''block'' True,
         Style [(''marginBottom'', ''8''), (''fontSize'', ''13'')]] [Text ''Reset DB to Init'']) @
     shown_if (is_owner u)
       (Elem ''Button'' [Flag ''danger'' True, Flag ''loading'' (ly_resettingRedis s),
           On ''onClick'' (Ask_Reset Reset_Redis),
         Flag ''block'' True, Style [(''marginBottom'', ''8''), (''fontSize'', ''13'')]] [Text ''Reset Redis'']) @
     [Elem ''Button'' [On ''onClick'' Sign_Out, Flag ''block'' True, Attr ''type'' ''text'', Style [(''color'',
         ''rgba(248,245,240,0.45)''), (''textAlign'', ''left''), (''fontSize'', ''13''), (''height'', ''38'')]] [
        Slot ''icon'' [Elem ''LogoutOutlined'' [] []], Text ''Sign Out'']])"

definition LayoutMarkup :: "auth_user \<Rightarrow> string \<Rightarrow> layout_state \<Rightarrow> page_action markup list \<Rightarrow> page_action markup" where
  "LayoutMarkup u pathname s children =
  Elem ''Layout'' [Style [(''height'', ''100vh'')]] [
    Elem ''Sider'' [Attr ''width'' ''260'', Attr ''theme'' ''dark'', Style [(''background'', ''#1A1C1E''),
        (''borderRight'', ''none''), (''display'', ''flex''), (''flexDirection'', ''column''), (''boxShadow'',
        ''2px 0 16px rgba(0,0,0,0.18)'')]] [
      Elem ''div'' [Style [(''padding'', ''28px 24px 22px''), (''borderBottom'',
          ''1px solid rgba(201,169,110,0.15)'')]]
        (layout_brand # layout_user u),
      layout_menu u pathname,
      layout_buttons u s],
    Elem ''Layout'' [Style [(''background'', ''#F8F5F0'')]] [
      Elem ''Content'' [Style [(''padding'', ''36px 40px''), (''height'', ''100%''), (''overflowY'',
          ''auto'')]] children]]"

subsection \<open>What is read off the trees\<close>

definition first_alert :: "'a markup \<Rightarrow> string option" where
  "first_alert t = (case alerts t of [] \<Rightarrow> None | (kind, m) # _ \<Rightarrow> Some m)"

definition first_button :: "'a markup \<Rightarrow> string \<times> bool" where
  "first_button t = (case buttons t of [] \<Rightarrow> ([], False) | (caption, loading, _) # _ \<Rightarrow> (caption, loading))"

definition first_of :: "string \<Rightarrow> 'a markup \<Rightarrow> 'a attr list \<times> 'a markup list" where
  "first_of tag t = (case tagged tag t of [] \<Rightarrow> ([], []) | e # _ \<Rightarrow> e)"

definition login_view_of :: "'a markup \<Rightarrow> login_view" where
  "login_view_of t =
     \<lparr>lv_alert = first_alert t,
      lv_emailDisabled = attr_flag ''disabled'' (fst (first_of ''Input'' t)),
      lv_options = (if tagged ''Select'' t = [] then None
        else Some (map (\<lambda>(as, ks). (attr_value ''value'' as, own_value ks)) (tagged ''Select.Option'' t))),
      lv_loading = snd (first_button t), lv_button = fst (first_button t)\<rparr>"

definition onboard_view_of :: "'a markup \<Rightarrow> onboard_view" where
  "onboard_view_of t =
     (if tagged ''Form'' t = [] then Registered
      else Registration_Form (first_alert t) (map fst (form_fields t)) (snd (first_button t)))"

definition alert_of_kind :: "string \<Rightarrow> 'a markup \<Rightarrow> string option" where
  "alert_of_kind kind t = map_of (alerts t) kind"

fun reset_button :: "string \<times> bool \<times> page_action option \<Rightarrow> (reset_kind \<times> bool) option" where
  "reset_button (caption, loading, Some (Ask_Reset k)) = Some (k, loading)"
| "reset_button _ = None"

definition layout_view_of :: "page_action markup \<Rightarrow> layout_view" where
  "layout_view_of t =
     \<lparr>yv_name = own_text (snd (first_of ''Text'' t)), yv_roleTag = own_text (snd (first_of ''Tag'' t)),
      yv_menu = attr_items (fst (first_of ''Menu'' t)),
      yv_selected = nullish (attr_text ''selectedKeys'' (fst (first_of ''Menu'' t))) [],
      yv_resets = List.map_filter reset_button (buttons t)\<rparr>"

lemma concat_map_empty [simp]: "concat (map (\<lambda>x. []) xs) = []"
  by (induction xs) simp_all

lemmas login_markup_defs = LoginMarkup_def login_header_def login_card_def login_form_def login_email_item_def
  login_password_item_def login_unit_item_def login_submit_item_def login_register_link_def gold_divider_def
  demo_credentials_def

lemmas onboard_markup_defs = OnboardMarkup_def registered_notice_def onboard_header_def onboard_card_def onboard_form_def
  onboard_clinic_items_def onboard_owner_items_def onboard_password_items_def onboard_submit_item_def onboard_login_link_def

lemmas change_markup_defs = ChangePasswordMarkup_def change_password_form_def

lemmas layout_markup_defs = LayoutMarkup_def layout_brand_def layout_user_def layout_menu_def layout_buttons_def

lemma login_tagged:
  "hrefs (LoginMarkup s) = [''/onboard'']"
  "tagged ''Alert'' (LoginMarkup s) = shown_if (lg_error s \<noteq> []) ([Attr ''message'' (lg_error s), Attr ''type'' ''error'',
     Flag ''showIcon'' True, Attr ''className'' ''mb-4''], [])"
  "attr_flag ''disabled'' (fst (first_of ''Input'' (LoginMarkup s))) = opt_truthy (lg_buChoices s)"
  "first_button (LoginMarkup s) = ((if opt_truthy (lg_buChoices s) then ''Continue'' else ''Sign In''), lg_loading s)"
  "tagged ''Select'' (LoginMarkup s) = [] \<longleftrightarrow> \<not> opt_truthy (lg_buChoices s)"
  "opt_truthy (lg_buChoices s) \<Longrightarrow> map (\<lambda>(as, ks). (attr_value ''value'' as, own_value ks)) (tagged ''Select.Option'' (LoginMarkup s)) =
     map (\<lambda>c. (js_prop c ''buId'', js_prop c ''buName'')) (json_items (json_nullish (lg_buChoices s) JNull))"
  by (simp_all add: login_markup_defs hrefs_def first_of_def first_button_def buttons_def comp_def if_distrib
      cong: markup_cong)

lemma login_form_fields:
  "form_fields (LoginMarkup s) = [(\<lparr>fi_label = ''Email Address'', fi_name = ''email'', fi_rules = [Type_Email]\<rparr>, ''Input''),
     (\<lparr>fi_label = ''Password'', fi_name = ''password'', fi_rules = [Required]\<rparr>, ''Input.Password'')] @
     shown_if (opt_truthy (lg_buChoices s)) (\<lparr>fi_label = ''Select Business Unit'', fi_name = ''buId'', fi_rules = [Required]\<rparr>, ''Select'')"
  by (simp add: login_markup_defs form_fields_def comp_def cong: markup_cong)

lemma onboard_tagged:
  "hrefs (OnboardMarkup s) = [''/login'']"
  "ob_success s \<Longrightarrow> tagged ''Form'' (OnboardMarkup s) = []"
  "\<not> ob_success s \<Longrightarrow> tagged ''Form'' (OnboardMarkup s) \<noteq> []"
  "\<not> ob_success s \<Longrightarrow> tagged ''Alert'' (OnboardMarkup s) = shown_if (ob_error s \<noteq> []) ([Attr ''message'' (ob_error s), Attr ''type'' ''error'',
     Flag ''showIcon'' True, Attr ''className'' ''mb-4''], [])"
  "\<not> ob_success s \<Longrightarrow> first_button (OnboardMarkup s) = (''Register Clinic'', ob_loading s)"
  by (simp_all add: onboard_markup_defs hrefs_def first_button_def buttons_def cong: markup_cong)

lemma onboard_form_fields:
  "\<not> ob_success s \<Longrightarrow> form_fields (OnboardMarkup s) = zip onboard_items
     [''Input'', ''Input'', ''Input'', ''Input'', ''Input'', ''Input'', ''Input.Password'', ''Input.Password'']"
  by (simp add: onboard_markup_defs form_fields_def onboard_items_def cong: markup_cong)

lemma change_tagged:
  "tagged ''Alert'' (ChangePasswordMarkup s) =
     shown_if (pw_success s) ([Attr ''message'' ''Password changed successfully.'', Attr ''type'' ''success'', Flag ''showIcon'' True,
       Attr ''className'' ''mb-4'', Flag ''closable'' True, On ''onClose'' Close_Notice], []) @
     shown_if (pw_error s \<noteq> []) ([Attr ''message'' (pw_error s), Attr ''type'' ''error'', Flag ''showIcon'' True,
       Attr ''className'' ''mb-4''], [])"
  "first_button (ChangePasswordMarkup s) = (''Change Password'', pw_loading s)"
  "form_fields (ChangePasswordMarkup s) = map (\<lambda>i. (i, ''Input.Password'')) change_password_items"
  by (simp_all add: change_markup_defs first_button_def buttons_def form_fields_def change_password_items_def cong: markup_cong)

lemma layout_tagged:
  "own_text (snd (first_of ''Text'' (LayoutMarkup u path s kids))) = au_firstName u @ '' '' @ au_lastName u"
  "own_text (snd (first_of ''Tag'' (LayoutMarkup u path s kids))) = au_role u"
  "first_of ''Menu'' (LayoutMarkup u path s kids) = ([Attr ''theme'' ''dark'', Attr ''mode'' ''inline'', Attr ''selectedKeys'' path,
     Items (menu_icons u), On ''onClick'' Open_Item,
     Style [(''flex'', ''1''), (''borderRight'', ''0''), (''background'', ''transparent''), (''padding'', ''8px 0'')]], [])"
  "buttons (LayoutMarkup u path s []) = (if is_owner u then [(''Reset DB to Init'', ly_resetting s, Some (Ask_Reset Reset_Db)),
     (''Reset Redis'', ly_resettingRedis s, Some (Ask_Reset Reset_Redis))] else []) @ [(''Sign Out'', False, Some Sign_Out)]"
  by (simp_all add: layout_markup_defs first_of_def buttons_def cong: markup_cong)

lemma menu_icons_items: "map (\<lambda>(k, icon, label). (k, label)) (menu_icons u) = menuItems u"
  by (simp add: menu_icons_def menuItems_def)

subsection \<open>Properties\<close>

text \<open>
  The four trees refine the records in which their pages are specified: what is read off a tree (its alerts, the
  fields of its form with labels and rules, disabled inputs, offered units, captions, busy buttons, menu entries,
  the selected one and the reset buttons with what they ask for) is the view of the page, in every state.
\<close>

lemma markup_refines_views:
  "login_view_of (LoginMarkup l) = LoginPage l \<and> map fst (form_fields (LoginMarkup l)) = login_items l \<and>
   onboard_view_of (OnboardMarkup r) = OnboardPage r \<and>
   (alert_of_kind ''success'' (ChangePasswordMarkup c), alert_of_kind ''error'' (ChangePasswordMarkup c)) = ChangePasswordPage c \<and>
   map fst (form_fields (ChangePasswordMarkup c)) = change_password_items \<and> snd (first_button (ChangePasswordMarkup c)) = pw_loading c \<and>
   layout_view_of (LayoutMarkup u path y []) = ProtectedLayout u path y"
proof (intro conjI)
  have alert: "first_alert (LoginMarkup l) = error_alert (lg_error l)"
    by (simp add: first_alert_def alerts_def login_tagged shown_if_def error_alert_def)
  show "login_view_of (LoginMarkup l) = LoginPage l"
    by (simp add: login_view_of_def LoginPage_def alert login_tagged)
  show "map fst (form_fields (LoginMarkup l)) = login_items l"
    by (simp add: login_form_fields login_items_def shown_if_def)
  show "onboard_view_of (OnboardMarkup r) = OnboardPage r"
  proof (cases "ob_success r")
    case False
    then have "first_alert (OnboardMarkup r) = error_alert (ob_error r)"
      by (simp add: first_alert_def alerts_def onboard_tagged shown_if_def error_alert_def)
    moreover have "map fst (form_fields (OnboardMarkup r)) = onboard_items"
      using False by (simp add: onboard_form_fields) (simp add: onboard_items_def)
    ultimately show ?thesis using False by (simp add: onboard_view_of_def OnboardPage_def onboard_tagged)
  qed (simp add: onboard_view_of_def OnboardPage_def onboard_tagged)
  show "(alert_of_kind ''success'' (ChangePasswordMarkup c), alert_of_kind ''error'' (ChangePasswordMarkup c)) = ChangePasswordPage c"
    by (simp add: alert_of_kind_def alerts_def change_tagged shown_if_def error_alert_def ChangePasswordPage_def)
  show "map fst (form_fields (ChangePasswordMarkup c)) = change_password_items"
    "snd (first_button (ChangePasswordMarkup c)) = pw_loading c"
    by (simp_all add: change_tagged comp_def)
  show "layout_view_of (LayoutMarkup u path y []) = ProtectedLayout u path y"
    by (simp add: layout_view_of_def ProtectedLayout_def layout_tagged menu_icons_items List.map_filter_simps)
qed

text \<open>
  No password is typed in clear: in the forms for signing in, registering and changing the password, a field is
  masked exactly if its name ends in \<open>password\<close>, in every state of the page.
\<close>

definition holds_password :: "string \<Rightarrow> bool" where
  "holds_password k \<longleftrightarrow> drop (length k - 7) k = ''assword''"

lemma passwords_masked:
  "masked_fields (LoginMarkup l) = filter holds_password (map fi_name (login_items l)) \<and>
   masked_fields (OnboardMarkup r) = (if ob_success r then [] else filter holds_password (map fi_name onboard_items)) \<and>
   masked_fields (ChangePasswordMarkup c) = filter holds_password (map fi_name change_password_items)"
proof (intro conjI)
  show "masked_fields (LoginMarkup l) = filter holds_password (map fi_name (login_items l))"
    by (simp add: masked_fields_def login_form_fields login_items_def holds_password_def shown_if_def)
  have "masked_fields (OnboardMarkup r) = []" if "ob_success r"
    using that by (simp add: masked_fields_def form_fields_def onboard_markup_defs cong: markup_cong)
  moreover have "masked_fields (OnboardMarkup r) = filter holds_password (map fi_name onboard_items)" if "\<not> ob_success r"
    using that by (simp add: masked_fields_def onboard_form_fields) (simp add: onboard_items_def holds_password_def)
  ultimately show "masked_fields (OnboardMarkup r) = (if ob_success r then [] else filter holds_password (map fi_name onboard_items))"
    by simp
  show "masked_fields (ChangePasswordMarkup c) = filter holds_password (map fi_name change_password_items)"
    by (simp add: masked_fields_def change_tagged change_password_items_def holds_password_def)
qed

text \<open>
  No link leads astray: for a visitor who is not signed in, every link on the login page and on either state of
  the registration page shows a public page at once; for one who is, each such link leads to the dashboard and
  every entry of the menu in the frame shows a page behind the layout at once.
\<close>

lemma links_lead_to_pages:
  "(\<not> truthy (cookie_value now j ''auth_token'') \<longrightarrow>
     (\<forall>h \<in> set (hrefs (LoginMarkup l) @ hrefs (OnboardMarkup r)). \<exists>pg. visit now j h = Shown pg \<and> \<not> protected_page pg)) \<and>
   (truthy (cookie_value now j ''auth_token'') \<and> opt_truthy (getAuthUser now j) \<longrightarrow>
     (\<forall>h \<in> set (hrefs (LoginMarkup l) @ hrefs (OnboardMarkup r)). navigate 2 now j h = Some (Shown Dashboard_Page)) \<and>
     (\<forall>h \<in> fst ` set (attr_items (fst (first_of ''Menu'' (LayoutMarkup u path y kids)))).
        \<exists>pg. visit now j h = Shown pg \<and> protected_page pg))"
proof (intro conjI impI ballI; (elim conjE)?)
  fix h
  assume "\<not> truthy (cookie_value now j ''auth_token'')" "h \<in> set (hrefs (LoginMarkup l) @ hrefs (OnboardMarkup r))"
  then show "\<exists>pg. visit now j h = Shown pg \<and> \<not> protected_page pg"
    by (auto simp: login_tagged onboard_tagged view_simps)
next
  fix h
  assume token: "truthy (cookie_value now j ''auth_token'')" "opt_truthy (getAuthUser now j)"
    and h: "h \<in> set (hrefs (LoginMarkup l) @ hrefs (OnboardMarkup r))"
  have "visit now j ''/onboard'' = Redirected ''/dashboard''"
    using token by (simp add: visit_def run_middleware_def middleware_def starts_with_def public_paths_def)
  with token h show "navigate 2 now j h = Some (Shown Dashboard_Page)"
    by (auto simp: login_tagged onboard_tagged view_simps numeral_2_eq_2)
next
  fix h
  assume token: "truthy (cookie_value now j ''auth_token'')" "opt_truthy (getAuthUser now j)"
    and "h \<in> fst ` set (attr_items (fst (first_of ''Menu'' (LayoutMarkup u path y kids))))"
  then have "h \<in> menu_keys u" by (simp add: layout_tagged menu_icons_items menu_keys_def)
  then have "h \<in> {''/dashboard'', ''/business-units'', ''/chat'', ''/change-password'', ''/staff'', ''/chat-access''}"
    by (auto simp: menu_keys_def menuItems_def split: if_splits)
  from visit_menu_key [OF token this] show "\<exists>pg. visit now j h = Shown pg \<and> protected_page pg" by blast
qed

end
