(* ===== verification/Chat_Outage.thy ===== *)
theory Chat_Outage
  imports Chat_Page Chat_Delivery
begin

text \<open>
  What a chat page can learn while a conversation stays selected. Its history is asked for by an effect that
  depends on the business unit and the selection only, so nothing the connection does, no answer and no further
  click on the selected conversation asks for it again: what the service sent while the socket was down is
  found only after another conversation was selected.
\<close>

subsection \<open>Steps that keep the selection\<close>

inductive steady_step :: "chat_page \<Rightarrow> page_event \<Rightarrow> chat_page \<Rightarrow> bool" where
  "page_step p e t \<Longrightarrow> ct_active (page_chat t) = ct_active (page_chat p) \<Longrightarrow> steady_step p e t"

inductive_simps steady_step_iff: "steady_step p e t"

text \<open>The messages of a conversation an event brings: a frame, the answer to a message sent, or a history.\<close>

fun brought :: "id \<Rightarrow> page_event \<Rightarrow> chat_message list" where
  "brought c (PG_Hook (Socket_Message i d)) = (case json_parse d of
     None \<Rightarrow> []
   | Some raw \<Rightarrow> if ms_conversationId (message_of_json raw) = c then [message_of_json raw] else [])"
| "brought c (PG_Rest q (Inr m)) = (if fst (snd q) = c then [m] else [])"
| "brought c (PG_History q (Inr ms)) = (if snd q = c then ms else [])"
| "brought c e = []"

text \<open>Frames and the answers to the user's own messages: what can arrive with no history asked for.\<close>

fun live_message :: "id \<Rightarrow> chat_message \<Rightarrow> page_event \<Rightarrow> bool" where
  "live_message c m (PG_Hook (Socket_Message i d)) = (m \<in> set (brought c (PG_Hook (Socket_Message i d))))"
| "live_message c m (PG_Rest q r) = (m \<in> set (brought c (PG_Rest q r)))"
| "live_message c m e = False"

lemma brought_live:
  "m \<in> set (brought c e) \<Longrightarrow> live_message c m e \<or> (\<exists>q r. e = PG_History q r)"
  by (induction c e rule: brought.induct) auto

lemma after_render_same: "ct_active (page_chat p) = ct_active (page_chat old) \<Longrightarrow> after_render old p = p"
  by (simp add: after_render_def)

lemma hook_messages:
  assumes "hook_enabled e h" "m \<in> set (messages_of (hk_chat (hook_apply e h)) c)"
  shows "m \<in> set (messages_of (hk_chat h) c) \<or> m \<in> set (brought c (PG_Hook e))"
proof -
  have "hk_chat (hook_apply e h) = hook_machine e (hk_chat h)"
    using assms(1) by (intro hook_chat_of.observe_step) (simp add: hook_step_iff)
  with assms(2) show ?thesis by (cases e) (auto dest: ws_onmessage_origin)
qed

lemma settled_messages:
  "messages_of (page_chat (page_mount p)) c = messages_of (page_chat p) c"
  "messages_of (page_chat (load_workspace_settled w p)) c = messages_of (page_chat p) c"
  "messages_of (page_chat (load_conversations_settled k p)) c = messages_of (page_chat p) c"
  "messages_of (page_chat (dm_settled q d p)) c = messages_of (page_chat p) c"
  "messages_of (page_chat (handleSend p)) c = messages_of (page_chat p) c"
  by (auto simp: page_mount_def load_begin_def fetchWorkspace_begin_def hook_chat_frame
      load_workspace_settled_def load_conversations_settled_def load_finally_def dm_settled_def
      handleSend_def hook_sendMessage_def fetchWorkspace_end_def fetchConversations_end_def createDM_end_def
      auto_select_def Let_def split: option.split sum.split prod.split)

lemma page_messages:
  assumes "page_step p e t" "m \<in> set (messages_of (page_chat t) c)"
  shows "m \<in> set (messages_of (page_chat p) c) \<or> m \<in> set (brought c e)"
proof (cases e)
  case (PG_Hook h)
  with assms show ?thesis by (auto simp: page_step_iff dest!: hook_messages)
next
  case (PG_History q r)
  with assms show ?thesis
    by (cases r) (auto simp: page_step_iff history_settled_def fetchConversationMessages_end_def split: if_splits)
next
  case (PG_Rest q r)
  with assms show ?thesis
    by (cases r) (auto simp: page_step_iff rest_settled_def Let_def store_simps append_absent_iff split: if_splits)
next
  case (PG_Select d)
  with assms show ?thesis by (simp add: page_step_iff handleSelectConversation_def setActiveConversation_def)
next
  case (PG_Start_DM d)
  with assms show ?thesis by (simp add: page_step_iff handleStartDM_def split: if_splits)
next
  case (PG_Key k b)
  with assms show ?thesis by (simp add: page_step_iff handleKeyDown_def settled_messages split: if_splits)
qed (use assms in \<open>auto simp: page_step_iff settled_messages\<close>)

lemma steady_history:
  assumes "steady_step p e t" "cp_load p \<noteq> None" "cp_history p = []"
  shows "cp_history t = [] \<and> cp_load t \<noteq> None \<and> page_buId t = page_buId p \<and> (\<forall>q r. e \<noteq> PG_History q r)"
  using assms
  by (cases e)
    (auto simp: steady_step_iff page_step_iff after_render_same page_buId_def load_workspace_settled_def
      load_conversations_settled_def load_finally_def dm_settled_def handleSend_def handleKeyDown_def rest_settled_def
      handleSelectConversation_def handleStartDM_def Let_def split: sum.splits option.splits if_splits)

text \<open>Along a run that keeps the selection.\<close>

definition settled_on :: "id option \<Rightarrow> id \<Rightarrow> chat_page \<Rightarrow> bool" where
  "settled_on a b p \<longleftrightarrow>
     ct_active (page_chat p) = a \<and> cp_history p = [] \<and> cp_load p \<noteq> None \<and> page_buId p = b"

lemma steady_settled: "settled_on a b p \<Longrightarrow> steady_step p e t \<Longrightarrow> settled_on a b t"
  using steady_history [of p e t] by (auto simp: settled_on_def steady_step_iff)

lemma steady_runs:
  "runs steady_step p es t \<Longrightarrow> settled_on a b p \<Longrightarrow> settled_on a b t \<and>
     (\<forall>m \<in> set (messages_of (page_chat t) c).
        m \<in> set (messages_of (page_chat p) c) \<or> (\<exists>e \<in> set es. live_message c m e))"
proof (induction es arbitrary: p)
  case (Cons e es)
  then obtain u where u: "steady_step p e u" "runs steady_step u es t" by auto
  have p: "cp_load p \<noteq> None" "cp_history p = []" using Cons.prems by (simp_all add: settled_on_def)
  have "m \<in> set (messages_of (page_chat p) c) \<or> live_message c m e"
    if "m \<in> set (messages_of (page_chat u) c)" for m
    using page_messages [of p e u m c] that u(1) p(1) steady_history [OF u(1) p] brought_live [of m c e]
    by (auto simp: steady_step_iff)
  with Cons.IH [OF u(2) steady_settled [OF Cons.prems(2) u(1)]] show ?case by fastforce
qed simp

lemma select_history:
  "cp_history (handleSelectConversation c p) =
     (if ct_active (page_chat p) \<noteq> Some c \<and> page_buId p \<noteq> [] \<and> c \<noteq> [] then cp_history p @ [(page_buId p, c)]
      else cp_history p)"
  by (auto simp: handleSelectConversation_def after_render_def history_effect_def setActiveConversation_def
      page_buId_def upd_chat_def truthy_iff)

subsection \<open>Properties\<close>

text \<open>
  C23. A conversation that stays selected is not fetched again: once its history has been answered, whatever then
  happens (the connection drops and comes back any number of times, answers arrive, the user writes, sends and
  clicks on the selected conversation), no history is asked for and every message the page shows was there
  before, came in a frame, or is the answer to a message the user sent. What the service sent while the
  connection was down is missing until another conversation is selected and then this one again.
\<close>

theorem outage_not_fetched:
  assumes "runs steady_step p es t" and "cp_load p \<noteq> None" and "cp_history p = []"
    and "ct_active (page_chat p) = Some c" and "c \<noteq> []" and "page_buId p \<noteq> []"
  shows "cp_history t = [] \<and> cp_history (handleSelectConversation c t) = [] \<and>
    (\<forall>m \<in> set (conv_messages t). m \<in> set (conv_messages p) \<or> (\<exists>e \<in> set es. live_message c m e)) \<and>
    (\<forall>d. d \<noteq> [] \<and> d \<noteq> c \<longrightarrow>
       cp_history (handleSelectConversation c (handleSelectConversation d t)) = [(page_buId p, d), (page_buId p, c)])"
proof -
  have "settled_on (Some c) (page_buId p) p" using assms(2-4) by (simp add: settled_on_def)
  from steady_runs [OF assms(1) this, of c] have t: "settled_on (Some c) (page_buId p) t"
    and ms: "\<forall>m \<in> set (messages_of (page_chat t) c).
        m \<in> set (messages_of (page_chat p) c) \<or> (\<exists>e \<in> set es. live_message c m e)"
    by blast+
  have shown: "conv_messages u = messages_of (page_chat u) c" if "ct_active (page_chat u) = Some c" for u
    using that assms(5) by (simp add: conv_messages_def)
  have "ct_active (page_chat (handleSelectConversation d t)) = Some d" "page_buId (handleSelectConversation d t) = page_buId t" for d
    by (simp_all add: handleSelectConversation_def setActiveConversation_def page_buId_def)
  then show ?thesis
    using t ms assms(4-6) by (simp add: settled_on_def select_history shown)
qed

text \<open>A page whose connection has dropped, with its reconnection pending.\<close>

definition dropped_page :: chat_page where
  "dropped_page = (chat_page_init (Some sample_user)
     \<lparr>hk_sockets = [\<lparr>sk_url = ''/api/chat/ws/b1'', sk_effect = 0, sk_ready = Closed, sk_onclose = True\<rparr>],
      hk_effects = [\<lparr>he_buId = ''b1'', he_reconnectTimer = Some 0, he_intentionalClose = False\<rparr>],
      hk_timers = [(0, 0)], hk_nextTimer = 1, hk_wsRef = None, hk_mounted = Some 0, hk_sent = [],
      hk_chat = setActiveConversation ''c1'' chat_init\<rparr>)\<lparr>cp_load := Some (Fulfilled, Fulfilled)\<rparr>"

lemma sample_frame_parsed:
  "\<exists>raw. json_parse (service_frame (sample_msg k)) = Some raw \<and> raw \<noteq> JNull \<and> message_of_json raw = sample_msg k"
  by (simp add: message_of_service_frame message_of_json_def sample_msg_def)

theorem outage_not_fetched_witness:
  "\<exists>t. runs steady_step dropped_page
      [PG_Hook (Timer_Fires (0, 0)), PG_Hook (Socket_Open 1),
       PG_Hook (Socket_Message 1 (service_frame (sample_msg ''m2'')))] t \<and>
     cp_history t = [] \<and> sample_msg ''m1'' \<notin> set (conv_messages t)"
proof -
  let ?f = "service_frame (sample_msg ''m2'')"
  let ?es = "[PG_Hook (Timer_Fires (0, 0)), PG_Hook (Socket_Open 1), PG_Hook (Socket_Message 1 ?f)]"
  note hook = hook_timer_def hook_connect_def ws_onopen_def set_socket_def set_effect_def clear_timer_def Let_def
  have active: "ct_active (ws_onmessage d ch) = ct_active ch" for d ch
    by (simp add: ws_onmessage_def store_simps split: option.split)
  obtain t where run: "runs steady_step dropped_page ?es t"
    by (simp add: steady_step_iff page_step_iff dropped_page_def chat_page_init_def hook active)
  have p: "cp_load dropped_page \<noteq> None" "cp_history dropped_page = []"
    "ct_active (page_chat dropped_page) = Some ''c1''" "page_buId dropped_page \<noteq> []"
    "conv_messages dropped_page = []"
    by (simp_all add: dropped_page_def chat_page_init_def setActiveConversation_def page_buId_def sample_user_def
        conv_messages_def chat_init_def)
  have "\<forall>e \<in> set ?es. \<not> live_message ''c1'' (sample_msg ''m1'') e"
    using sample_frame_parsed [of "''m2''"] by (auto simp: sample_msg_def)
  moreover have "''c1'' \<noteq> []" by simp
  note outage_not_fetched [OF run p(1-3) this p(4)]
  ultimately have "cp_history t = [] \<and> sample_msg ''m1'' \<notin> set (conv_messages t)"
    unfolding p(5) list.set(1) by blast
  with run show ?thesis by blast
qed

end
