(* ===== verification/Socket_Session.thy ===== *)
theory Socket_Session
  imports Session_Lifetime Ws_Server
begin

text \<open>
  The session of a browser next to the connections of its chat. The custom server reads the token once, from the
  cookies of the upgrade request: when the session is over it refuses further requests, and the connections it
  has accepted go on.
\<close>

subsection \<open>A session that is over\<close>

lemma logout_clears: "session_step s Logout_Reply t \<Longrightarrow> expiry_le 0 (snd t)"
  by (auto elim!: session_step_elims simp: logout_post_def store_session_cookies expiry_le_cleared
      simp del: store_cookies_simps)

lemma session_over:
  assumes "reachable session_start session_step (now, j)" "runs session_step (now, j) es (now', j')"
    and "Login_Reply \<notin> set es" "now + 3600 \<le> now' \<or> Logout_Reply \<in> set es"
  shows "cookie_value now' j' ''auth_token'' = None"
proof -
  have "\<exists>b \<le> now'. expiry_le b j'"
  proof (cases "Logout_Reply \<in> set es")
    case True
    then obtain xs ys where es: "es = xs @ Logout_Reply # ys" by (auto simp: in_set_conv_decomp)
    with assms(2) obtain s t where "session_step s Logout_Reply t" "runs session_step t ys (now', j')"
      by (auto simp: runs_append)
    with runs_expiry_le [of t ys "(now', j')" 0] logout_clears assms(3) es show ?thesis by auto
  next
    case False
    with assms(4) have "now + 3600 \<le> now'" by simp
    moreover have "expiry_le (now + 3600) j"
      using lifetime.inv_reachable [OF assms(1)] by (simp add: lifetime_bounded_def cookie_max_age_def)
    ultimately show ?thesis using runs_expiry_le [OF assms(2)] assms(3) by auto
  qed
  then show ?thesis by (auto intro: expired_cookie_value)
qed

subsection \<open>Connections that stay open\<close>

lemma open_messages:
  assumes "px_browser s = Open" "px_backend s = Open" "list_all is_message ms"
  shows "\<exists>t. runs pair_step s ms t"
  using assms
proof (induction ms arbitrary: s)
  case (Cons e ms)
  let ?u = "pair_apply e s"
  have "px_browser ?u = Open" "px_backend ?u = Open" "pair_step s e ?u"
    using Cons.prems by (cases e; simp add: pair_step_iff on_browser_message_def on_backend_message_def)+
  with Cons.IH [of ?u] Cons.prems show ?case by auto
qed auto

lemma socket_run:
  "runs pair_step (cn_pair (cs ! i)) ms p \<Longrightarrow> i < length cs \<Longrightarrow>
   \<exists>ds. runs (server_step cf) cs (map (Socket i) ms) ds \<and> i < length ds \<and> cn_pair (ds ! i) = p \<and>
     credentials (ds ! i) = credentials (cs ! i)"
proof (induction ms arbitrary: cs)
  case (Cons e ms)
  then obtain q where q: "pair_step (cn_pair (cs ! i)) e q" "runs pair_step q ms p" by auto
  let ?cs = "cs[i := (cs ! i)\<lparr>cn_pair := q\<rparr>]"
  have "server_step cf cs (Socket i e) ?cs" by (rule sv_socket [OF Cons.prems(2) q(1)])
  with Cons.IH [of ?cs] q(2) Cons.prems(2) show ?case by auto
qed auto

lemma refused_upgrade:
  assumes "cf_parseCookies cf (nullish (ug_cookie r) []) ''auth_token'' = None"
  shows "server_upgrade cf r cs = cs"
    and "match_ws_path (parse_pathname (nullish (ug_url r) [])) \<noteq> None \<Longrightarrow>
      on_upgrade (cf_serviceUrl cf) (cf_parseCookies cf) (ug_url r) (ug_cookie r) = Rejected_401"
  using assms by (auto simp: server_upgrade_def accept_def on_upgrade_def Let_def split: option.split)

subsection \<open>Properties\<close>

text \<open>
  C24. A connection outlives its session. Once the user has signed out, or an hour has passed without a login, the
  server refuses every upgrade request of the browser, with status 401 where the address is the chat's; but
  every connection that is open goes on to relay each frame in both directions, under the token it was
  accepted with.
\<close>

theorem connection_outlives_session:
  assumes "reachable session_start session_step (now, j)" and "runs session_step (now, j) es (now', j')"
    and "Login_Reply \<notin> set es" and "now + 3600 \<le> now' \<or> Logout_Reply \<in> set es"
    and "cf_parseCookies cf (nullish (ug_cookie r) []) ''auth_token'' = cookie_value now' j' ''auth_token''"
    and "runs (server_step cf) [] us cs" and "i < length cs"
    and "px_browser (cn_pair (cs ! i)) = Open" and "px_backend (cn_pair (cs ! i)) = Open"
    and "list_all is_message ms"
  shows "server_upgrade cf r cs = cs \<and>
    (match_ws_path (parse_pathname (nullish (ug_url r) [])) \<noteq> None \<longrightarrow>
       on_upgrade (cf_serviceUrl cf) (cf_parseCookies cf) (ug_url r) (ug_cookie r) = Rejected_401) \<and>
    (\<exists>ds. runs (server_step cf) cs (Upgrade r # map (Socket i) ms) ds \<and> cn_auth (ds ! i) = cn_auth (cs ! i) \<and>
       px_toBackend (cn_pair (ds ! i)) = px_toBackend (cn_pair (cs ! i)) @ browser_frames ms \<and>
       px_toBrowser (cn_pair (ds ! i)) = px_toBrowser (cn_pair (cs ! i)) @ backend_frames ms)"
proof -
  have over: "cf_parseCookies cf (nullish (ug_cookie r) []) ''auth_token'' = None"
    using session_over [OF assms(1-4)] assms(5) by simp
  note refused = refused_upgrade [OF over]
  obtain p where p: "runs pair_step (cn_pair (cs ! i)) ms p" using open_messages [OF assms(8-10)] by blast
  obtain ds where ds: "runs (server_step cf) cs (map (Socket i) ms) ds" "cn_pair (ds ! i) = p"
    "credentials (ds ! i) = credentials (cs ! i)"
    using socket_run [OF p assms(7)] by blast
  have "pair_inv (cn_pair (cs ! i))"
    using server.inv_runs [OF _ assms(6)] assms(7) by (simp add: server_inv_def list_all_length)
  with assms(9) have "px_wired (cn_pair (cs ! i))" by (simp add: pair_inv_def)
  note frames = runs_open_frames [OF p this assms(8-10)]
  have "runs (server_step cf) cs (Upgrade r # map (Socket i) ms) ds"
    using ds(1) refused(1) by (auto simp: server_step_simps)
  then have "\<exists>ds. runs (server_step cf) cs (Upgrade r # map (Socket i) ms) ds \<and> cn_auth (ds ! i) = cn_auth (cs ! i) \<and>
       px_toBackend (cn_pair (ds ! i)) = px_toBackend (cn_pair (cs ! i)) @ browser_frames ms \<and>
       px_toBrowser (cn_pair (ds ! i)) = px_toBrowser (cn_pair (cs ! i)) @ backend_frames ms"
    using ds(2,3) frames by (intro exI [of _ ds]) (simp add: credentials_def)
  with refused show ?thesis by blast
qed

text \<open>A browser that opened its chat with the token \<open>t1\<close>, signs out and sends no cookie any more.\<close>

definition cookie_config :: server_config where
  "cookie_config = \<lparr>cf_serviceUrl = chat_service_default,
     cf_parseCookies = (\<lambda>h. if h = [] then Map.empty else [''auth_token'' \<mapsto> h])\<rparr>"

lemma cookie_accept: "accept cookie_config (sample_request ''t1'') = accept sample_config (sample_request ''t1'')"
  by (simp add: accept_def on_upgrade_def sample_request_def sample_config_def cookie_config_def)

theorem connection_outlives_session_witness:
  "\<exists>cs ds. runs (server_step cookie_config) [] [Upgrade (sample_request ''t1''), Socket 0 Backend_Open] cs \<and>
     server_upgrade cookie_config (sample_request []) cs = cs \<and>
     runs (server_step cookie_config) cs [Upgrade (sample_request []), Socket 0 (Backend_Message ''hi'')] ds \<and>
     px_toBrowser (cn_pair (ds ! 0)) = [''hi'']"
proof -
  let ?us = "[Upgrade (sample_request ''t1''), Socket 0 Backend_Open]"
  obtain cs where run: "runs (server_step cookie_config) [] ?us cs"
    and cs: "length cs = 1" "cn_pair (cs ! 0) = on_backend_open pair_init"
    by (simp add: server_step_simps server_upgrade_def cookie_accept sample_accept pair_step_iff)
      (simp add: pair_init_def)
  have 1: "reachable session_start session_step (0, Map.empty)"
    by (rule reach_start) (simp add: session_start_def)
  have 2: "runs session_step (0, Map.empty) [Logout_Reply] (0, store_cookies 0 (nr_cookies (logout_post sample_env)) Map.empty)"
    using ss_logout by auto
  have 3: "cf_parseCookies cookie_config (nullish (ug_cookie (sample_request [])) []) ''auth_token'' =
      cookie_value 0 (store_cookies 0 (nr_cookies (logout_post sample_env)) Map.empty) ''auth_token''"
    by (simp add: cookie_config_def sample_request_def logout_post_def store_session_cookies cookie_value_def
        del: store_cookies_simps)
  have 4: "0 < length cs" "px_browser (cn_pair (cs ! 0)) = Open" "px_backend (cn_pair (cs ! 0)) = Open"
    "px_toBrowser (cn_pair (cs ! 0)) = []"
    by (simp_all add: cs) (simp_all add: on_backend_open_def pair_init_def)
  from connection_outlives_session [OF 1 2 _ _ 3 run 4(1-3), of "[Backend_Message ''hi'']"] 4(4)
  have "server_upgrade cookie_config (sample_request []) cs = cs \<and>
    (\<exists>ds. runs (server_step cookie_config) cs [Upgrade (sample_request []), Socket 0 (Backend_Message ''hi'')] ds \<and>
       px_toBrowser (cn_pair (ds ! 0)) = [''hi''])"
    by auto
  with run show ?thesis by blast
qed

end
