(* ===== verification/Chat_Origin.thy ===== *)
theory Chat_Origin
  imports Chat_Outage Chat_Answers
begin

text \<open>
  Where the messages on a chat page come from: the frames of the browser's own connection to the custom server,
  and the bodies of answers to its own requests. The requests and answers of the browser are a set of exchanges,
  so the backend may answer the same request differently at different times.
\<close>

type_synonym exchange = "http_request \<times> http_response option"

text \<open>The call settles with this event because of one of the exchanges.\<close>

definition settles_by ::
  "bff_env \<Rightarrow> string \<Rightarrow> (string \<Rightarrow> string) \<Rightarrow> exchange set \<Rightarrow> page_call \<Rightarrow> page_event \<Rightarrow> bool" where
  "settles_by env tok enc log q e \<longleftrightarrow> plain_path (ac_path (container (page_request q))) \<and>
     (\<exists>backend. (call_request env tok enc (page_request q), backend (call_request env tok enc (page_request q))) \<in> log \<and>
        page_answer q (http_call env backend (Some tok) enc (page_request q)) = Some e)"

text \<open>
  What can happen to the page of a browser with this token, these forwarded frames and these exchanges: its
  socket delivers one of the frames, and a call that may bring messages settles by one of the exchanges.
\<close>

fun own_event ::
  "bff_env \<Rightarrow> string \<Rightarrow> (string \<Rightarrow> string) \<Rightarrow> exchange set \<Rightarrow> string set \<Rightarrow> page_event \<Rightarrow> bool" where
  "own_event env tok enc log frames (PG_Hook (Socket_Message k d)) \<longleftrightarrow> d \<in> frames"
| "own_event env tok enc log frames (PG_History q r) \<longleftrightarrow>
     settles_by env tok enc log (PC_History (fst q) (snd q)) (PG_History q r)"
| "own_event env tok enc log frames (PG_Rest q r) \<longleftrightarrow>
     settles_by env tok enc log (PC_Send (fst q) (fst (snd q)) (snd (snd q))) (PG_Rest q r)"
| "own_event env tok enc log frames e \<longleftrightarrow> True"

text \<open>A message in the body of a successful answer to a request that carries the token.\<close>

definition answered_to :: "string \<Rightarrow> exchange set \<Rightarrow> chat_message \<Rightarrow> bool" where
  "answered_to tok log m \<longleftrightarrow> (\<exists>req res v. (req, Some res) \<in> log \<and> is_ok res \<and>
     (''Authorization'', ''Bearer '' @ tok) \<in> set (rq_headers req) \<and> json_parse (rs_body res) = Some v \<and>
     (as_message v = Some m \<or> (\<exists>ms. field (rows as_message) v ''messages'' = Some ms \<and> m \<in> set ms)))"

subsection \<open>From an event back to its exchange\<close>

lemma http_call_body:
  assumes "tok \<noteq> []" "CHR ''?'' \<notin> set (ac_path (container c))"
    and "http_call env backend (Some tok) enc c = Inr (Some v)"
  shows "\<exists>res. backend (call_request env tok enc c) = Some res \<and> is_ok res \<and> json_parse (rs_body res) = Some v"
proof (cases "backend (call_request env tok enc c)")
  case None
  with assms show ?thesis by (simp add: http_call_answer handler_response_def axios_settle_def is_ok_def)
next
  case (Some res)
  with assms show ?thesis
    by (auto simp: http_call_answer handler_response_def axios_settle_def is_ok_def proxy_reply_def body_json_def
        split: if_splits option.splits)
qed

lemma then_list_member:
  assumes "then_list k dec r = Some (Inr xs)" "x \<in> set xs"
  shows "\<exists>v. r = Inr (Some v) \<and> field (rows dec) v k = Some xs"
proof (cases r)
  case (Inr w)
  with assms obtain v where v: "w = Some v" by (cases w) auto
  with Inr assms(1) have "v \<noteq> JNull" by auto
  with Inr v assms have read: "rows dec (json_nullish (js_prop v k) (JArr [])) = Some xs"
    by (auto simp: get_prop_js_prop)
  with assms(2) have "json_nullish (js_prop v k) (JArr []) \<noteq> JArr []" by auto
  then obtain u where "js_prop v k = Some u" "json_nullish (js_prop v k) (JArr []) = u"
    by (cases "js_prop v k"; cases "the (js_prop v k)") auto
  with read Inr v show ?thesis by (simp add: field_def)
qed (use assms in simp)

lemma then_data_value:
  assumes "then_data dec r = Some (Inr x)" "dec (JStr []) = None"
  shows "\<exists>v. r = Inr (Some v) \<and> dec v = Some x"
  using assms by (cases "(dec, r)" rule: then_data.cases) auto

lemma no_message [simp]: "as_message (JStr s) = None"
  by (simp add: as_message_def field_def)

lemma call_bearer: "(''Authorization'', ''Bearer '' @ tok) \<in> set (rq_headers (call_request env tok enc c))"
  by (simp add: call_request_def)

lemma own_event_origin:
  assumes "own_event env tok enc log frames e" "tok \<noteq> []" "m \<in> set (brought c e)"
  shows "(\<exists>d raw. d \<in> frames \<and> json_parse d = Some raw \<and> m = message_of_json raw \<and> ms_conversationId m = c) \<or>
    answered_to tok log m"
  using assms(1,3)
proof (induction c e rule: brought.induct)
  case (1 c k d)
  then obtain raw where "json_parse d = Some raw" "m = message_of_json raw" "ms_conversationId m = c"
    by (cases "json_parse d") (auto split: if_splits)
  with 1 show ?case by (intro disjI1 exI [of _ d] exI [of _ raw]) simp
next
  case (2 c q msg)
  let ?q = "PC_Send (fst q) (fst (snd q)) (snd (snd q))"
  from 2 obtain backend where b: "plain_path (ac_path (container (page_request ?q)))"
    "(call_request env tok enc (page_request ?q), backend (call_request env tok enc (page_request ?q))) \<in> log"
    "then_data as_message (http_call env backend (Some tok) enc (page_request ?q)) = Some (Inr m)"
    by (auto simp: settles_by_def split: if_splits)
  then obtain v where v: "http_call env backend (Some tok) enc (page_request ?q) = Inr (Some v)" "as_message v = Some m"
    using then_data_value [OF b(3)] by auto
  with http_call_body [OF assms(2) plain_path_no_query [OF b(1)] v(1)] b(2) call_bearer show ?case
    unfolding answered_to_def by metis
next
  case (3 c q ms)
  let ?q = "PC_History (fst q) (snd q)"
  from 3 obtain backend where b: "plain_path (ac_path (container (page_request ?q)))"
    "(call_request env tok enc (page_request ?q), backend (call_request env tok enc (page_request ?q))) \<in> log"
    "then_list ''messages'' as_message (http_call env backend (Some tok) enc (page_request ?q)) = Some (Inr ms)"
    by (auto simp: settles_by_def)
  from 3 have m: "m \<in> set ms" by (simp split: if_splits)
  from then_list_member [OF b(3) m] obtain v where v: "http_call env backend (Some tok) enc (page_request ?q) = Inr (Some v)"
    "field (rows as_message) v ''messages'' = Some ms"
    by blast
  with http_call_body [OF assms(2) plain_path_no_query [OF b(1)] v(1)] b(2) call_bearer m show ?case
    unfolding answered_to_def by metis
qed simp_all

lemma page_runs_messages:
  assumes "runs page_step p es t" "m \<in> set (messages_of (page_chat t) c)"
  shows "m \<in> set (messages_of (page_chat p) c) \<or> (\<exists>e \<in> set es. m \<in> set (brought c e))"
  using assms
proof (induction es arbitrary: p)
  case (Cons e es)
  then obtain u where "page_step p e u" "runs page_step u es t" by auto
  with Cons.IH [of u] Cons.prems(2) page_messages [of p e u m c] show ?case by auto
qed simp

subsection \<open>Properties\<close>

text \<open>
  C13. A user sees only what was meant for them: with the custom server serving any number of connections at once,
  every message that appears in the chat store of a browser was either sent by the chat service, in a frame, on
  the browser's own connection and is filed under the conversation it names, or was in the body of a successful
  answer to a request that carries the browser's own token, the token its connection was accepted with.
\<close>

theorem shown_messages_are_own:
  assumes "runs (server_step cf) [] es cs" and "i < length cs" and "cn_auth (cs ! i) = ''Bearer '' @ tok"
    and "\<forall>f. Socket i (Backend_Message f) \<in> set es \<longrightarrow> (\<exists>n. f = service_frame n)"
    and "runs page_step p hs p'"
    and "\<forall>e \<in> set hs. own_event env tok enc log (set (px_toBrowser (cn_pair (cs ! i)))) e"
    and "m \<in> set (messages_of (page_chat p') c)" and "m \<notin> set (messages_of (page_chat p) c)"
  shows "(Socket i (Backend_Message (service_frame m)) \<in> set es \<and> ms_conversationId m = c \<or> answered_to tok log m) \<and>
    (\<exists>r. Upgrade r \<in> set es \<and> cf_parseCookies cf (nullish (ug_cookie r) []) ''auth_token'' = Some tok)"
proof -
  from server_connections_origin [OF assms(1,2)] assms(3) obtain r where
    r: "Upgrade r \<in> set es" "cf_parseCookies cf (nullish (ug_cookie r) []) ''auth_token'' = Some tok" "tok \<noteq> []"
    by auto
  from page_runs_messages [OF assms(5,7)] assms(8) obtain e where e: "e \<in> set hs" "m \<in> set (brought c e)" by blast
  have "own_event env tok enc log (set (px_toBrowser (cn_pair (cs ! i)))) e" using assms(6) e(1) by blast
  from own_event_origin [OF this r(3) e(2)] show ?thesis
  proof (elim disjE exE conjE)
    fix d raw
    assume d: "d \<in> set (px_toBrowser (cn_pair (cs ! i)))" "json_parse d = Some raw" "m = message_of_json raw"
      "ms_conversationId m = c"
    from forwarded_frame [OF assms(1,2) d(1)] have sent: "Socket i (Backend_Message d) \<in> set es" .
    with assms(4) obtain n where n: "d = service_frame n" by blast
    with d(2,3) have "m = n" by (simp add: service_frame_message)
    with n sent d(4) r(1,2) show ?thesis by blast
  qed (use r in blast)
qed

text \<open>A page whose socket is open.\<close>

definition open_page :: chat_page where
  "open_page = chat_page_init (Some sample_user)
     \<lparr>hk_sockets = [\<lparr>sk_url = ''/api/chat/ws/b1'', sk_effect = 0, sk_ready = Open, sk_onclose = True\<rparr>],
      hk_effects = [\<lparr>he_buId = ''b1'', he_reconnectTimer = None, he_intentionalClose = False\<rparr>],
      hk_timers = [], hk_nextTimer = 0, hk_wsRef = Some 0, hk_mounted = Some 0, hk_sent = [], hk_chat = chat_init\<rparr>"

theorem shown_messages_are_own_witness:
  "\<exists>cs p. runs (server_step sample_config) [] [Upgrade (sample_request ''t1''), Socket 0 Backend_Open,
       Socket 0 (Backend_Message (service_frame (sample_msg ''m1'')))] cs \<and>
     runs page_step open_page [PG_Hook (Socket_Message 0 (service_frame (sample_msg ''m1'')))] p \<and>
     sample_msg ''m1'' \<in> set (messages_of (page_chat p) ''c1'') \<and> ms_conversationId (sample_msg ''m1'') = ''c1''"
proof -
  let ?m = "sample_msg ''m1''" and ?f = "service_frame (sample_msg ''m1'')"
  let ?es = "[Upgrade (sample_request ''t1''), Socket 0 Backend_Open, Socket 0 (Backend_Message ?f)]"
  let ?hs = "[PG_Hook (Socket_Message 0 ?f)]"
  obtain cs where run: "runs (server_step sample_config) [] ?es cs"
    and cs: "length cs = 1" "px_toBrowser (cn_pair (cs ! 0)) = [?f]" "cn_auth (cs ! 0) = ''Bearer '' @ ''t1''"
    by (simp add: server_step_simps server_upgrade_def sample_accept pair_step_iff pair_init_def on_backend_open_def
        on_backend_message_def)
  have fs: "\<forall>f. Socket 0 (Backend_Message f) \<in> set ?es \<longrightarrow> (\<exists>n. f = service_frame n)" by auto
  let ?p = "open_page\<lparr>cp_hook := (cp_hook open_page)\<lparr>hk_chat := ws_onmessage ?f (page_chat open_page)\<rparr>\<rparr>"
  have page: "runs page_step open_page ?hs ?p"
    by (simp add: page_step_iff) (simp add: open_page_def chat_page_init_def)
  have own: "\<forall>e \<in> set ?hs. own_event sample_env ''t1'' id {} (set (px_toBrowser (cn_pair (cs ! 0)))) e"
    by (simp add: cs(2))
  have chat: "page_chat open_page = chat_init" by (simp add: open_page_def chat_page_init_def)
  have "ws_onmessage ?f chat_init = appendMessage ''c1'' ?m chat_init"
    by (simp add: ws_onmessage_def message_of_service_frame message_of_json_def sample_msg_def)
  then have new: "?m \<in> set (messages_of (page_chat ?p) ''c1'')" "?m \<notin> set (messages_of (page_chat open_page) ''c1'')"
    by (simp_all add: chat store_simps append_absent_def) (simp_all add: chat_init_def)
  have "\<not> answered_to ''t1'' {} ?m" by (simp add: answered_to_def)
  with shown_messages_are_own [OF run _ cs(3) fs page own new] cs(1) run page new(1) show ?thesis by auto
qed

end
