(* ===== verification/Service_Reader.thy ===== *)
theory Service_Reader
  imports Chat_Page
begin

text \<open>
  The other end of a chat connection as far as the browser's messages depend on it: the read loop of the chat
  service (\<open>internal/transport/ws/handler.go\<close>), with its limit on the size of a frame. How the service
  recognises an identifier (\<open>uuid.Parse\<close>) is an argument.
\<close>

subsection \<open>The read loop\<close>

text \<open>The bytes of a text on the wire, in UTF-8, and \<open>conn.SetReadLimit(4096)\<close>.\<close>

definition frame_bytes :: "string \<Rightarrow> nat" where
  "frame_bytes s = sum_list (map (\<lambda>c. if (of_char c :: nat) < 128 then 1 else 2) s)"

definition read_limit :: nat where
  "read_limit = 4096"

text \<open>
  \<open>json.Unmarshal\<close> of a member into a field of type string: names are compared without regard to case, \<open>null\<close>
  leaves the field as it is, any other type is an error, and a later member wins.
\<close>

fun go_set :: "string option \<Rightarrow> json \<Rightarrow> string option" where
  "go_set None v = None"
| "go_set (Some t) JNull = Some t"
| "go_set (Some t) (JStr s) = Some s"
| "go_set (Some t) v = None"

definition go_field :: "string \<Rightarrow> (string \<times> json) list \<Rightarrow> string option" where
  "go_field k ms = foldl (\<lambda>t (n, v). if js_lower n = js_lower k then go_set t v else t) (Some []) ms"

record inbound_message =
  ib_Type :: string
  ib_ConversationID :: string
  ib_Content :: string

definition unmarshal_inbound :: "string \<Rightarrow> inbound_message option" where
  "unmarshal_inbound raw = (case json_parse raw of
     Some (JObj ms) \<Rightarrow> (case (go_field ''type'' ms, go_field ''conversationId'' ms, go_field ''content'' ms) of
         (Some t, Some c, Some x) \<Rightarrow> Some \<lparr>ib_Type = t, ib_ConversationID = c, ib_Content = x\<rparr>
       | _ \<Rightarrow> None)
   | Some JNull \<Rightarrow> Some \<lparr>ib_Type = [], ib_ConversationID = [], ib_Content = []\<rparr>
   | _ \<Rightarrow> None)"

text \<open>What one turn of the loop does with a frame: a failed read ends it and closes the connection.\<close>

datatype service_read = Read_Fails | Frame_Ignored | Send_Message string string

definition service_reads :: "(string \<Rightarrow> string option) \<Rightarrow> string \<Rightarrow> service_read" where
  "service_reads parse_uuid raw =
     (if read_limit < frame_bytes raw then Read_Fails
      else (case unmarshal_inbound raw of
          None \<Rightarrow> Frame_Ignored
        | Some inbound \<Rightarrow>
            if ib_Type inbound \<noteq> ''send_message'' then Frame_Ignored
            else (case parse_uuid (ib_ConversationID inbound) of
                None \<Rightarrow> Frame_Ignored
              | Some convID \<Rightarrow> Send_Message convID (ib_Content inbound))))"

subsection \<open>The size of a frame\<close>

lemma frame_bytes_simps [simp]:
  "frame_bytes [] = 0" "frame_bytes (c # s) = (if (of_char c :: nat) < 128 then 1 else 2) + frame_bytes s"
  "frame_bytes (s @ t) = frame_bytes s + frame_bytes t"
  by (simp_all add: frame_bytes_def)

lemma hex_digit_byte: "d < 16 \<Longrightarrow> (of_char (hex_digit d) :: nat) < 128"
  by (auto simp: hex_digit_def)

lemma quote_char_bytes: "1 \<le> frame_bytes (quote_char c)" "frame_bytes (quote_char c) \<le> 6"
  by (auto simp: quote_char_def Let_def hex_digit_byte)

lemma quote_bytes: "length s + 2 \<le> frame_bytes (quote s)" "frame_bytes (quote s) \<le> 6 * length s + 2"
proof -
  have "length s \<le> frame_bytes (concat (map quote_char s)) \<and> frame_bytes (concat (map quote_char s)) \<le> 6 * length s"
  proof (induction s)
    case (Cons c s)
    with quote_char_bytes [of c] show ?case by simp
  qed simp
  then show "length s + 2 \<le> frame_bytes (quote s)" "frame_bytes (quote s) \<le> 6 * length s + 2"
    by (simp_all add: quote_def)
qed

lemma send_frame_bytes: "frame_bytes (send_frame c t) = frame_bytes (quote c) + frame_bytes (quote t) + 52"
  by (simp add: send_frame_def quote_def) (simp add: quote_char_def Let_def)

lemma send_frame_read:
  "service_reads parse_uuid (send_frame c t) =
     (if read_limit < frame_bytes (send_frame c t) then Read_Fails
      else case parse_uuid c of None \<Rightarrow> Frame_Ignored | Some k \<Rightarrow> Send_Message k t)"
proof -
  have parsed: "json_parse (send_frame c t) = Some (JObj
     [(''type'', JStr ''send_message''), (''conversationId'', JStr c), (''content'', JStr t)])"
    unfolding send_frame_def by (rule js.decode_encode) simp
  have names: "js_lower ''type'' = ''type''" "js_lower ''conversationId'' = ''conversationid''"
    "js_lower ''content'' = ''content''" by code_simp+
  have "unmarshal_inbound (send_frame c t) =
      Some \<lparr>ib_Type = ''send_message'', ib_ConversationID = c, ib_Content = t\<rparr>"
    by (simp add: unmarshal_inbound_def parsed go_field_def names)
  then show ?thesis by (simp add: service_reads_def split: option.split)
qed

text \<open>What sending a draft over the open socket does to the page.\<close>

lemma draft_sent:
  assumes "hook_isConnected (cp_hook p)" "js_trim (cp_draft p) \<noteq> []" "\<not> cp_sending p" "ct_active (page_chat p) = Some c" "c \<noteq> []"
  obtains i where "hk_wsRef (cp_hook p) = Some i"
    "cp_hook (handleSend p) = (cp_hook p)\<lparr>hk_sent := hk_sent (cp_hook p) @ [(i, send_frame c (js_trim (cp_draft p)))]\<rparr>"
    "cp_draft (handleSend p) = []" "cp_rest (handleSend p) = cp_rest p" "\<not> cp_sending (handleSend p)" "cp_sendError (handleSend p) = []"
proof -
  obtain i where "hk_wsRef (cp_hook p) = Some i"
    using assms(1) by (auto simp: hook_isConnected_def split: option.splits)
  with assms that show ?thesis by (simp add: handleSend_branches truthy_iff)
qed

subsection \<open>Properties\<close>

text \<open>
  C32. From the keyboard to the chat service: a draft sent on an open connection leaves as one frame, which the
  open pair forwards, and from which the service reads the selected conversation and exactly the trimmed draft,
  if the frame has at most 4096 bytes; the draft is cleared and nothing is sent by REST. A draft of at most
  600 characters in a conversation named by at most 36 always fits, whatever has to be escaped.
\<close>

theorem draft_reaches_service:
  assumes "hook_isConnected (cp_hook p)" and "js_trim (cp_draft p) \<noteq> []" and "\<not> cp_sending p"
    and "ct_active (page_chat p) = Some c" and "c \<noteq> []"
    and "px_wired s" and "px_browser s = Open" and "px_backend s = Open"
    and "parse_uuid c = Some k"
  shows "\<exists>i f. hk_sent (cp_hook (handleSend p)) = hk_sent (cp_hook p) @ [(i, f)] \<and> hk_wsRef (cp_hook p) = Some i \<and>
    px_toBackend (on_browser_message f s) = px_toBackend s @ [f] \<and>
    (frame_bytes f \<le> 4096 \<longrightarrow> service_reads parse_uuid f = Send_Message k (js_trim (cp_draft p))) \<and>
    (length (js_trim (cp_draft p)) \<le> 600 \<and> length c \<le> 36 \<longrightarrow> frame_bytes f \<le> 4096) \<and>
    cp_draft (handleSend p) = [] \<and> cp_rest (handleSend p) = cp_rest p \<and> \<not> cp_sending (handleSend p)"
proof -
  let ?t = "js_trim (cp_draft p)"
  obtain i where sent: "hk_wsRef (cp_hook p) = Some i"
    "cp_hook (handleSend p) = (cp_hook p)\<lparr>hk_sent := hk_sent (cp_hook p) @ [(i, send_frame c ?t)]\<rparr>"
    "cp_draft (handleSend p) = []" "cp_rest (handleSend p) = cp_rest p" "\<not> cp_sending (handleSend p)"
    by (rule draft_sent [OF assms(1-5)])
  have "frame_bytes (send_frame c ?t) \<le> 4096" if "length ?t \<le> 600" "length c \<le> 36"
    using that quote_bytes(2) [of c] quote_bytes(2) [of ?t] by (simp add: send_frame_bytes)
  then show ?thesis
    using sent assms(6-9)
    by (intro exI [of _ i] exI [of _ "send_frame c ?t"]) (simp add: on_browser_message_def send_frame_read read_limit_def)
qed

definition draft_page :: "string \<Rightarrow> chat_page" where
  "draft_page d = (chat_page_init (Some sample_user)
     (ws_onopen 0 (hook_run_effect ''b1'' (hook_init (chat_init\<lparr>ct_active := Some ''c1''\<rparr>)))))\<lparr>cp_draft := d\<rparr>"

lemma draft_page_facts:
  "hook_isConnected (cp_hook (draft_page d))" "cp_draft (draft_page d) = d" "\<not> cp_sending (draft_page d)"
  "ct_active (page_chat (draft_page d)) = Some ''c1''"
  "reachable (\<lambda>h. \<exists>c. h = hook_init c) hook_step (cp_hook (draft_page d))"
proof -
  let ?start = "hook_init (chat_init\<lparr>ct_active := Some ''c1''\<rparr>)"
  let ?h = "hook_run_effect ''b1'' ?start"
  have h: "length (hk_sockets ?h) = 1" "sk_ready (hk_sockets ?h ! 0) = Connecting"
    by (simp_all add: hook_run_effect_def hook_cleanup_def hook_init_def hook_connect_def Let_def)
  have "reachable (\<lambda>h. \<exists>c. h = hook_init c) hook_step ?h"
    by (rule reach_step [of _ _ ?start "Run_Effect ''b1''"], rule reach_start) (auto simp: hook_step_iff)
  then have "reachable (\<lambda>h. \<exists>c. h = hook_init c) hook_step (ws_onopen 0 ?h)"
    by (rule reach_step [of _ _ _ "Socket_Open 0"]) (simp add: hook_step_iff h)
  then show "reachable (\<lambda>h. \<exists>c. h = hook_init c) hook_step (cp_hook (draft_page d))"
    by (simp add: draft_page_def chat_page_init_def)
  show "hook_isConnected (cp_hook (draft_page d))" "ct_active (page_chat (draft_page d)) = Some ''c1''"
    by (simp_all add: draft_page_def chat_page_init_def hook_isConnected_def ws_onopen_def hook_run_effect_def hook_cleanup_def
        hook_init_def hook_connect_def Let_def)
qed (simp_all add: draft_page_def chat_page_init_def)

lemma opened_pair:
  "reachable (\<lambda>s. s = pair_init) pair_step (on_backend_open pair_init)" "px_wired (on_backend_open pair_init)"
  "px_browser (on_backend_open pair_init) = Open" "px_backend (on_backend_open pair_init) = Open"
  by (rule reach_step [of _ _ pair_init Backend_Open], rule reach_start)
    (simp_all add: pair_step_iff pair_init_def on_backend_open_def)

theorem draft_reaches_service_witness:
  "\<exists>i f. hk_sent (cp_hook (handleSend (draft_page ''hi''))) = hk_sent (cp_hook (draft_page ''hi'')) @ [(i, f)] \<and>
     service_reads Some f = Send_Message ''c1'' ''hi''"
proof -
  have t: "js_trim ''hi'' = ''hi''" by code_simp
  have d: "js_trim (cp_draft (draft_page ''hi'')) \<noteq> []" "''c1'' \<noteq> []" "Some ''c1'' = Some ''c1''"
    by (simp_all add: draft_page_facts t)
  note page = draft_page_facts [of "''hi''"]
  from draft_reaches_service [where parse_uuid = Some, OF page(1) d(1) page(3,4) d(2) opened_pair(2-4) d(3)]
  show ?thesis by (auto simp: draft_page_facts t)
qed


lemma js_trim_replicate: "js_trim (replicate n CHR ''a'') = replicate n CHR ''a''"
  by (cases "n = 0") (simp_all add: js_trim_def js_space_def dropWhile_eq_self_iff)


end
