(* ===== verification/Tab_Stores.thy ===== *)
theory Tab_Stores
  imports Tab_Session Chat_Page
begin

text \<open>
  The stores of a tab next to its session. A store is created by a module of the application and lives as long as
  the loaded application does: until the browser loads an address from scratch. Signing in and out inside the
  application changes the auth store alone.
\<close>

record tab_chat =
  tc_tab :: tab
  tc_chat :: chat_state

text \<open>
  The chat store after an event of the tab: \<open>useChatStore = create(...)\<close> runs again with a full load, which is
  also how the interceptor leaves the application; \<open>logout\<close> of the auth store sets the fields of that store only,
  and navigating, refreshing and signing in do not touch the chat store either.
\<close>

fun chat_after :: "tab_event \<Rightarrow> tab \<Rightarrow> chat_state \<Rightarrow> chat_state" where
  "chat_after (T_Load path) s chat = chat_init"
| "chat_after (T_Call env backend req path) s chat =
     (case snd (axios_interceptor (axios_settle (Some (client_view
         (proxy_route env backend (cookie_value (tb_now s) (tb_jar s) ''auth_token'') req path))))) of
        None \<Rightarrow> chat | Some target \<Rightarrow> chat_init)"
| "chat_after (T_Logout env res) s chat = chat"
| "chat_after e s chat = chat"

definition tab_chat_apply :: "tab_event \<Rightarrow> tab_chat \<Rightarrow> tab_chat option" where
  "tab_chat_apply e s =
     map_option (\<lambda>t. \<lparr>tc_tab = t, tc_chat = chat_after e (tc_tab s) (tc_chat s)\<rparr>) (tab_apply e (tc_tab s))"

definition tab_chat_step :: "tab_chat \<Rightarrow> tab_event \<Rightarrow> tab_chat \<Rightarrow> bool" where
  "tab_chat_step s e t \<longleftrightarrow> tab_chat_apply e s = Some t"

text \<open>The events with which the application stays loaded, whatever the answers.\<close>

fun stays_loaded :: "tab_event \<Rightarrow> bool" where
  "stays_loaded (T_Load path) = False"
| "stays_loaded (T_Call env backend req path) = False"
| "stays_loaded e = True"

text \<open>The chat page opened in the tab: the user of the auth store, the chat store as it is, and new refs.\<close>

definition open_chat :: "tab_chat \<Rightarrow> chat_page" where
  "open_chat s = chat_page_init (as_user (tb_auth (tc_tab s))) (hook_init (tc_chat s))"

subsection \<open>The chat store along a run\<close>

lemma chat_kept: "stays_loaded e \<Longrightarrow> chat_after e s chat = chat"
  by (cases e) simp_all

lemma runs_chat_kept:
  "runs tab_chat_step s es t \<Longrightarrow> list_all stays_loaded es \<Longrightarrow> tc_chat t = tc_chat s"
proof (induction es arbitrary: s)
  case (Cons e es)
  then obtain u where u: "tab_chat_step s e u" "runs tab_chat_step u es t" by auto
  have "tc_chat u = tc_chat s"
    using u(1) Cons.prems(2) chat_kept by (auto simp: tab_chat_step_def tab_chat_apply_def)
  with Cons.IH [OF u(2)] Cons.prems(2) show ?case by simp
qed simp

lemma logout_tab:
  assumes "tab_apply (T_Logout env (Inr ())) s = Some t"
  shows "as_user (tb_auth t) = None \<and> tb_frame t = None \<and> tb_at t = Some (''/login'', Login_Page) \<and>
    tb_jar t = signed_out (tb_jar s)"
proof -
  define s1 where "s1 = s\<lparr>tb_jar := signed_out (tb_jar s), tb_auth := snd (auth_logout (Inr ()) (tb_auth s))\<rparr>"
  let ?t = "s1\<lparr>tb_at := Some (''/login'', Login_Page), tb_frame := None\<rparr>"
  have push: "tab_push True ''/login'' x = Some (x\<lparr>tb_at := Some (''/login'', Login_Page), tb_frame := None\<rparr>)"
    if "tb_jar x = signed_out (tb_jar s)" for x
    using that by (simp add: tab_push_def signed_out_landing tab_show_def)
  have "in_order tab_layout_effect [Goto ''/login'', Refresh_Page] s1 = Some ?t"
    by (simp add: push tab_refresh_def s1_def)
  with assms have "t = ?t"
    by (simp add: tab_logout_def handleLogout_def layout_init_def auth_logout_def tab_cookies_def logout_jar s1_def Let_def
        split: if_splits)
  then show ?thesis by (simp add: s1_def auth_logout_def)
qed

lemma stale_selection:
  assumes "ct_active chat = Some c" and "c \<noteq> []" and "au_buId v \<noteq> []"
    and "c \<notin> cv_conversationId ` set cs"
  shows "let p = page_mount (chat_page_init (Some v) (hook_init chat));
             q = load_conversations_settled (Inr cs) (load_workspace_settled (Inr w) p) in
    cp_history p = [(au_buId v, c)] \<and> cp_history q = [(au_buId v, c)] \<and> ct_active (page_chat q) = Some c \<and>
    active_conversation q = None \<and> conv_messages q = messages_of chat c \<and> header_label q = ws_buName w \<and>
    (js_trim d \<noteq> [] \<longrightarrow> cp_rest (handleSend (q\<lparr>cp_draft := d\<rparr>)) = [(au_buId v, c, js_trim d)])"
proof -
  let ?i = "chat_page_init (Some v) (hook_init chat)"
  let ?p = "page_mount ?i"
  let ?q1 = "load_workspace_settled (Inr w) ?p"
  let ?q = "load_conversations_settled (Inr cs) ?q1"
  have hook: "hk_chat (hook_run_effect b (hook_init ch)) = ch" "\<not> hook_isConnected (hook_run_effect b (hook_init ch))"
    for b ch
    by (simp_all add: hook_run_effect_def hook_cleanup_def hook_init_def hook_connect_def hook_isConnected_def Let_def)
  have chat_p: "page_chat ?p = fetchWorkspace_begin chat"
    using assms(3) hook by (simp add: page_mount_def load_begin_def chat_page_init_def page_buId_def upd_chat_def)
  have p: "cp_history ?p = [(au_buId v, c)]" "cp_load ?p = Some (Waiting, Waiting)" "page_buId ?p = au_buId v"
    "cp_rest ?p = []" "\<not> cp_sending ?p"
    using assms(1-3) hook
    by (simp_all add: page_mount_def load_begin_def history_effect_def chat_page_init_def page_buId_def upd_chat_def
        fetchWorkspace_begin_def)
  have conn [simp]: "hook_isConnected (h\<lparr>hk_chat := x\<rparr>) = hook_isConnected h" for h x
    by (simp add: hook_isConnected_def split: option.split)
  have conn_p: "\<not> hook_isConnected (cp_hook ?p)"
    using assms(3) hook
    by (simp add: page_mount_def load_begin_def chat_page_init_def page_buId_def upd_chat_def)
  have chat_q1: "page_chat ?q1 = fetchWorkspace_end (au_buId v) (Inr w) (fetchWorkspace_begin chat)"
    using p chat_p by (simp add: load_workspace_settled_def load_finally_def Let_def)
  have q1: "cp_history ?q1 = [(au_buId v, c)]" "cp_load ?q1 = Some (Fulfilled, Waiting)" "page_buId ?q1 = au_buId v"
    "cp_rest ?q1 = []" "\<not> cp_sending ?q1" "ct_active (page_chat ?q1) = Some c" "\<not> hook_isConnected (cp_hook ?q1)"
    using p chat_p conn_p assms(1)
    by (simp_all add: load_workspace_settled_def load_finally_def Let_def page_buId_def fetchWorkspace_end_def
        fetchWorkspace_begin_def upd_chat_def)
  have sel: "ct_active (fetchConversations_end b (Inr cs) s) = Some c" if "ct_active s = Some c" for b s
    using that assms(2) by (simp add: fetchConversations_end_def auto_select_def truthy_iff)
  have chat_q: "page_chat ?q = fetchConversations_end (au_buId v) (Inr cs) (page_chat ?q1)"
    using q1 by (simp add: load_conversations_settled_def load_finally_def Let_def)
  have q: "cp_history ?q = [(au_buId v, c)]" "page_buId ?q = au_buId v" "cp_rest ?q = []" "\<not> cp_sending ?q"
    "\<not> hook_isConnected (cp_hook ?q)" "ct_active (page_chat ?q) = Some c"
    using q1 sel
    by (simp_all add: load_conversations_settled_def load_finally_def after_render_def Let_def page_buId_def upd_chat_def)
  have conv: "conversations_of (page_chat ?q) (au_buId v) = cs"
    unfolding chat_q by (simp add: fetchConversations_end_def store_simps)
  have none: "active_conversation ?q = None"
    using assms(4) q conv by (auto simp: active_conversation_def find_None_iff)
  have msgs: "conv_messages ?q = messages_of chat c"
    using q assms(2) unfolding conv_messages_def
    by (simp add: truthy_iff) (simp add: chat_q chat_q1 fetchConversations_end_def store_simps fetchWorkspace_end_def fetchWorkspace_begin_def)
  have ws: "ct_workspaces (page_chat ?q) (au_buId v) = Some w"
    by (simp add: chat_q chat_q1 fetchConversations_end_def store_simps fetchWorkspace_end_def)
  have head: "header_label ?q = ws_buName w"
    using none ws q by (simp add: header_label_def Let_def)
  have send: "js_trim d \<noteq> [] \<Longrightarrow> cp_rest (handleSend (?q\<lparr>cp_draft := d\<rparr>)) = [(au_buId v, c, js_trim d)]"
    using q assms(2) by (simp add: handleSend_branches truthy_iff page_buId_def)
  show ?thesis
    using p q none msgs head send by (simp add: Let_def)
qed

subsection \<open>Properties\<close>

text \<open>
  C29. The chat store outlives the session. After signing out the tab shows the login page without a user, but with
  the chat store as it was; and when, without a full load, another user has signed in and opens the chat, they
  find the selection of the one before: the page asks for that conversation's history in the new user's business
  unit, keeps the selection when the new user's conversations arrive, shows the other user's messages under the
  business unit's name and sends drafts to the other user's conversation.
\<close>

theorem stale_selection_after_login:
  assumes "tab_chat_step s (T_Logout env (Inr ())) m" and "runs tab_chat_step m es t" and "list_all stays_loaded es"
    and "as_user (tb_auth (tc_tab t)) = Some v" and "au_buId v \<noteq> []"
    and "ct_active (tc_chat s) = Some c" and "c \<noteq> []" and "c \<notin> cv_conversationId ` set cs"
  shows "as_user (tb_auth (tc_tab m)) = None \<and> tb_at (tc_tab m) = Some (''/login'', Login_Page) \<and> tc_chat m = tc_chat s \<and>
    (let p = page_mount (open_chat t);
         q = load_conversations_settled (Inr cs) (load_workspace_settled (Inr w) p) in
     cp_history p = [(au_buId v, c)] \<and> cp_history q = [(au_buId v, c)] \<and> ct_active (page_chat q) = Some c \<and>
     active_conversation q = None \<and> conv_messages q = messages_of (tc_chat s) c \<and> header_label q = ws_buName w \<and>
     (js_trim d \<noteq> [] \<longrightarrow> cp_rest (handleSend (q\<lparr>cp_draft := d\<rparr>)) = [(au_buId v, c, js_trim d)]))"
proof -
  have m: "tab_apply (T_Logout env (Inr ())) (tc_tab s) = Some (tc_tab m)" "tc_chat m = tc_chat s"
    using assms(1) by (auto simp: tab_chat_step_def tab_chat_apply_def simp del: tab_apply.simps)
  have "tc_chat t = tc_chat s" using runs_chat_kept [OF assms(2,3)] m(2) by simp
  then have "open_chat t = chat_page_init (Some v) (hook_init (tc_chat s))" by (simp add: open_chat_def assms(4))
  with stale_selection [OF assms(6,7,5,8), of w d] logout_tab [OF m(1)] m(2) show ?thesis by (simp add: Let_def)
qed

definition other_user :: auth_user where
  "other_user = sample_user\<lparr>au_personId := ''p2'', au_buId := ''b2''\<rparr>"

theorem stale_selection_after_login_witness:
  "\<exists>m t. tab_chat_step \<lparr>tc_tab = signed_in_tab sample_user, tc_chat = chat_init\<lparr>ct_active := Some ''c1''\<rparr>\<rparr>
       (T_Logout sample_env (Inr ())) m \<and>
     tab_chat_step m (T_Login sample_env (backend_for other_user) (stringify (JObj []))) t \<and>
     cp_history (page_mount (open_chat t)) = [(''b2'', ''c1'')]"
proof -
  let ?s = "\<lparr>tc_tab = signed_in_tab sample_user, tc_chat = chat_init\<lparr>ct_active := Some ''c1''\<rparr>\<rparr>"
  have out: "\<exists>n. tab_apply (T_Logout sample_env (Inr ())) (signed_in_tab sample_user) = Some n"
  proof -
    have push: "tab_push True ''/login'' x = Some (x\<lparr>tb_at := Some (''/login'', Login_Page), tb_frame := None\<rparr>)"
      if "tb_jar x = signed_out j" for x j
      using that by (simp add: tab_push_def signed_out_landing tab_show_def)
    show ?thesis
      by (simp add: tab_logout_def handleLogout_def layout_init_def auth_logout_def tab_cookies_def logout_jar Let_def
          push tab_refresh_def) (simp add: signed_in_tab_def)
  qed
  then obtain n where n: "tab_apply (T_Logout sample_env (Inr ())) (signed_in_tab sample_user) = Some n" by blast
  define m where "m = \<lparr>tc_tab = n, tc_chat = tc_chat ?s\<rparr>"
  have m: "tab_chat_step ?s (T_Logout sample_env (Inr ())) m"
    "tab_apply (T_Logout sample_env (Inr ())) (signed_in_tab sample_user) = Some (tc_tab m)"
    using n by (simp_all add: tab_chat_step_def tab_chat_apply_def m_def del: tab_apply.simps)
  from logout_tab [OF m(2)] have at: "tb_at (tc_tab m) = Some (''/login'', Login_Page)" "tb_frame (tc_tab m) = None" by auto
  note login = tab_login_typed [where backend = "backend_for other_user", OF reply_for_facts(1,2,3) reply_for_facts(4) reply_for_facts(5-8) at]
  then obtain t where t: "tab_chat_step m (T_Login sample_env (backend_for other_user) (stringify (JObj []))) t"
    "as_user (tb_auth (tc_tab t)) = Some other_user"
    by (simp add: tab_chat_step_def tab_chat_apply_def setUser_def del: tab_apply.simps)
  have run: "runs tab_chat_step m [T_Login sample_env (backend_for other_user) (stringify (JObj []))] t" using t(1) by simp
  have rest: "list_all stays_loaded [T_Login sample_env (backend_for other_user) (stringify (JObj []))]"
    "au_buId other_user \<noteq> []" "ct_active (tc_chat ?s) = Some ''c1''" "''c1'' \<noteq> []" "''c1'' \<notin> cv_conversationId ` set []"
    by (simp_all add: other_user_def)
  from stale_selection_after_login [OF m(1) run rest(1) t(2) rest(2-5)]
  have "cp_history (page_mount (open_chat t)) = [(au_buId other_user, ''c1'')]" by (simp add: Let_def)
  with m(1) t(1) show ?thesis by (auto simp: other_user_def)
qed

end
