(* ===== verification/Layout_Guard.thy ===== *)
theory Layout_Guard
  imports Session_Navigation
begin

text \<open>
  Navigation without the middleware. The framework documents that \<open>middleware.ts\<close> lies beside the directory
  \<open>app\<close>, which here is \<open>src/app\<close>, while the file of the repository lies one level above it; where the framework
  follows its documentation the file does not run. The pages are then guarded by the layout alone.
\<close>

definition visit_page :: "nat \<Rightarrow> jar \<Rightarrow> string \<Rightarrow> nav_result" where
  "visit_page now j path = (case map_of page_table path of
     None \<Rightarrow> Not_Found
   | Some pg \<Rightarrow> render_page now j pg)"

fun navigate_pages :: "nat \<Rightarrow> nat \<Rightarrow> jar \<Rightarrow> string \<Rightarrow> nav_result option" where
  "navigate_pages 0 now j path = None"
| "navigate_pages (Suc n) now j path = (case visit_page now j path of
     Redirected q \<Rightarrow> navigate_pages n now j q
   | r \<Rightarrow> Some r)"

lemma visit_page_simps:
  "visit_page now j ''/login'' = Shown Login_Page" "visit_page now j ''/'' = Redirected ''/dashboard''"
  "map_of page_table path = Some pg \<Longrightarrow> protected_page pg \<Longrightarrow>
     visit_page now j path = (if opt_truthy (getAuthUser now j) then Shown pg else Redirected ''/login'')"
  "map_of page_table path = Some pg \<Longrightarrow> \<not> protected_page pg \<Longrightarrow> pg \<noteq> Root_Page \<Longrightarrow> visit_page now j path = Shown pg"
proof -
  have "map_of page_table ''/login'' = Some Login_Page" "map_of page_table ''/'' = Some Root_Page"
    by (simp_all add: page_table_def)
  then show "visit_page now j ''/login'' = Shown Login_Page" "visit_page now j ''/'' = Redirected ''/dashboard''"
    by (simp_all add: visit_page_def render_page_def rootPage_def)
qed (auto simp: visit_page_def render_page_def protectedLayout_def)

lemma dashboard_path: "map_of page_table ''/dashboard'' = Some Dashboard_Page"
  by (simp add: page_table_def)

subsection \<open>Properties\<close>

text \<open>
  C37. Without the middleware the layout still keeps every visitor without a readable user cookie from the pages
  behind it, and with any jar, reachable or not, a navigation ends after at most two redirects: a page behind
  the layout is shown to a user and is the login page for anyone else, the root is the dashboard or the login
  page, and a public page is shown at once to everyone, signed in or not. A token is not asked for.
\<close>

theorem layout_guards_alone:
  assumes "map_of page_table path = Some pg"
  shows "(protected_page pg \<longrightarrow>
      navigate_pages 2 now j path = Some (Shown (if opt_truthy (getAuthUser now j) then pg else Login_Page))) \<and>
    (pg = Root_Page \<longrightarrow>
      navigate_pages 3 now j path = Some (Shown (if opt_truthy (getAuthUser now j) then Dashboard_Page else Login_Page))) \<and>
    (\<not> protected_page pg \<and> pg \<noteq> Root_Page \<longrightarrow> navigate_pages 1 now j path = Some (Shown pg))"
proof -
  note steps = visit_page_simps(1,2) visit_page_simps(3) [OF dashboard_path] numeral_2_eq_2 numeral_3_eq_3
  have "path = ''/''" if "pg = Root_Page" using assms root_path that by simp
  then show ?thesis
    using visit_page_simps(3,4) [OF assms, of now j] by (auto simp: steps)
qed

theorem layout_guards_alone_witness:
  "navigate_pages 2 0 Map.empty ''/staff'' = Some (Shown Login_Page) \<and>
   navigate_pages 2 0 sample_jar ''/staff'' = Some (Shown Staff_Page)"
proof -
  have staff: "map_of page_table ''/staff'' = Some Staff_Page" by (simp add: page_table_def)
  have "getAuthUser 0 Map.empty = None" by (simp add: getAuthUser_def cookie_value_def)
  with layout_guards_alone [OF staff, of 0 Map.empty] layout_guards_alone [OF staff, of 0 sample_jar]
  show ?thesis by (simp add: sample_jar_user)
qed

end
