(* ===== verification/Spec2Isabelle.thy ===== *)
theory Spec2Isabelle
  imports Session_Navigation Api_Client Auth_Store Business_Unit_Store Staff_Store Chat_Store Ws_Proxy
    Chat_Socket Chat_Page Login_Page Onboard_Page Change_Password_Page Business_Units_Page Staff_Page
    Chat_Access_Page Server_Pages Protected_Layout Session_Lifetime Ws_Server Chat_Refinement Wire_Stores Server_Client
    Chat_Delivery Chat_Reconnect Chat_Scroll Root_Layout Tab_Session Chat_Answers Page_Markup
    Chat_Outage Socket_Session Chat_Origin Service_Reader Tab_Stores Layout_Guard
begin

text \<open>
  The frontend of Aura Wellness (\<open>src/frontend\<close>): a web application for a company with business units, their
  staff and a team chat. Browser pages keep their data in stores and call route handlers of the same server,
  which hold the session in cookies and forward to a backend; a custom server proxies the chat's WebSocket to
  the chat service. The development models the TypeScript of that frontend; the backend and the chat service
  are other programs and appear as arguments and as the events they cause; of the chat service the frame it
  writes and its read loop are modelled too.

  The theories, in the order in which they build on each other:

  \<^item> \<open>Js_Prelude\<close>: what the code uses of the language (truthiness, \<open>??\<close>, \<open>trim\<close>, \<open>split\<close>, case, \<open>includes\<close>), the
    errors an awaited call can reject with, keyed lists, and labelled transition systems with the locales
    \<open>guarded_system\<close> (an invariant holds in every reachable state and along every run) and
    \<open>observed_system\<close> (what is observed of a run is what an abstract machine computes from its labels).
  \<^item> \<open>Json_Codec\<close>: JSON values, \<open>JSON.stringify\<close> and a parser with fuel. The fuel \<open>2 * length + 2\<close> is enough for
    every text that was written (\<open>parse_stringify\<close>), since each nested call consumes a character. The locale
    \<open>json_codec\<close> carries the round trip to its users. \<open>Go_Json\<close>: how the chat service writes a struct, with its
    own escapes, and that it is read back as the same value.
  \<^item> \<open>Entities\<close>, \<open>Http_Model\<close>: the records of \<open>domain/entities\<close>; requests, responses, \<open>Set-Cookie\<close> and the jar.
  \<^item> \<open>Bff_Routes\<close>: the route handlers of \<open>app/api\<close> (login, logout, onboarding, proxy), with every branch.
  \<^item> \<open>Session_Navigation\<close>: \<open>getAuthUser\<close>, \<open>middleware.ts\<close>, the guard of the protected layout, redirects. A
    navigation is followed with fuel; \<open>navigation_settles\<close> shows that 2 steps are enough with any jar the
    handlers produce, and \<open>navigation_loops_without_user\<close> that no fuel is with another one.
  \<^item> \<open>Layout_Guard\<close>: navigation where the middleware does not run. \<open>Session_Navigation\<close> takes it to run before every
    page, as \<open>middleware.ts\<close> is written for; the framework documents another place for the file, and then the
    guard of the layout is what remains.
  \<^item> \<open>Session_Lifetime\<close>: the bound on the expiry of the session cookies, as a second invariant of the jar.
  \<^item> \<open>Api_Client\<close>: the axios client with its interceptor, the repositories, use cases and container, and the
    fetch of the server components. How axios escapes parameters is an argument.
  \<^item> \<open>Wire_Types\<close>: the types the code claims for the backend's answers, as readers and writers of every entity
    with the locale \<open>wire_type\<close>, and a call of the container from axios through the proxy to the backend and back.
  \<^item> \<open>Async_Resource\<close>, \<open>Auth_Store\<close>, \<open>Business_Unit_Store\<close>, \<open>Staff_Store\<close>, \<open>Chat_Store\<close>: the stores of
    \<open>application/stores\<close>. An operation that awaits is its update before and its update after the call; the
    locale \<open>async_resource\<close> is the contract of the loaders, \<open>keyed_log\<close> that of the message and conversation
    lists. The chat store also has a transition system that interleaves calls, messages and selections.
  \<^item> \<open>Chat_Refinement\<close>: the specification of the chat store, one abstract machine per conversation, business unit
    and selection, and the refinement; \<open>Wire_Stores\<close>: the stores fed by typed answers of the backend;
    \<open>Server_Client\<close>: the server components and the stores read the same data.
  \<^item> \<open>Ws_Proxy\<close>: \<open>server.ts\<close>, the upgrade decision and the pair of sockets with its listeners as a transition
    system. The cookie parser is an argument. \<open>Ws_Server\<close>: the whole server, its port and its connections.
    \<open>Socket_Session\<close>: connections next to the session of their browser.
  \<^item> \<open>Chat_Socket\<close>: \<open>useChatWebSocket.ts\<close>, its sockets, timers, cleanup and frames as a transition system.
    \<open>Service_Reader\<close>: the read loop at the other end (\<open>handler.go\<close>), with its limit of 4096 bytes for a frame.
    \<open>Chat_Reconnect\<close>: its timers over time. \<open>Chat_Delivery\<close>: the store behind the hook and the connection
    of the server that feeds it.
  \<^item> \<open>Chat_View\<close>, \<open>Chat_Page\<close>, \<open>Chat_Scroll\<close>: the chat components, the page with its effects, handlers and
    pending calls, and when it scrolls to the newest message. \<open>Chat_Answers\<close>: the page's calls sent through the
    proxy to the backend, with \<open>page_work\<close> as the bound on the answers still to come. \<open>Chat_Outage\<close>: what the
    page can learn while a conversation stays selected. \<open>Chat_Origin\<close>: where every message on the page comes from,
    the browser's own connection or an answer to its own requests.
  \<^item> \<open>Forms\<close>: rules of forms and the locale \<open>submission\<close>, the contract of the handlers that submit one; the
    rules of the form library are an argument, with \<open>documented_rules\<close> as what is relied on.
  \<^item> \<open>Login_Page\<close>, \<open>Onboard_Page\<close>, \<open>Change_Password_Page\<close>, \<open>Business_Units_Page\<close>, \<open>Staff_Page\<close>,
    \<open>Chat_Access_Page\<close>, \<open>Server_Pages\<close>, \<open>Protected_Layout\<close>, \<open>Root_Layout\<close>: the pages and layouts of \<open>app\<close>, their state, handlers and
    the content they show. A rendered component is a record of what depends on data; constant styles,
    icons and decoration are left out there.
  \<^item> \<open>Tab_Session\<close>: a browser tab over time, composed of the routes, the middleware, the layouts and the login
    page, with other tabs that share the cookies. The locale \<open>frame_law\<close> is the contract of a fact about the
    user the frame shows; it is interpreted for one user and for one person. Navigations follow at most 3
    visits, which \<open>navigation_settles\<close> shows to be enough. \<open>Tab_Stores\<close>: the chat store next to the session of
    the tab.
  \<^item> \<open>Markup\<close>, \<open>Page_Markup\<close>: element trees, and those of four pages with their styles, related to the records
    above by what is read off them.

  Conventions: a field has the prefix of its record; \<open>undefined\<close> and \<open>null\<close> are \<open>None\<close>; \<open>'a awaited\<close> is a
  rejected or resolved call; a definition has the name of the function it models, or that name with a suffix
  for the part before or after an \<open>await\<close> (\<open>_begin\<close>, \<open>_end\<close>, \<open>_settled\<close>). Strings are lists of 8-bit
  characters. Business units and persons are identified by strings, dates are texts, and formatting them
  belongs to the browser. An address is the text the code writes; the browser and the framework
  leave it as it is when its segments consist of plain characters (\<open>plain_segment\<close>: letters, digits and the
  marks that no address escapes, not the segments of dots), and identifiers of the backend do.

  What is shown: the session cookies are paired in every reachable jar, so navigation settles; calls reach the
  backend as written and an expired session ends at the login page; no session outlives its hour; answers of the
  claimed type are never stuck; a tab shows one user as long as no other tab signs in; the chat page comes to rest
  and then shows what the backend sent; the stores keep their lists free of duplicates under every interleaving and the
  chat store follows its specification; connections of the server are isolated from each other; the hook never has two connections and is silent after its cleanup;
  the proxy relays in order; a connection outlives the session it was opened in, and what was sent while it
  was down is not asked for again, nor is a draft that was too long for the service reported; the chat store outlives
  the session of its user; each page ends a submission ready for the next, with the right error. Below are
  the properties that span components: messages from the service to the store, a dropped connection, access and
  targets, and signing out.

  Not modelled: configuration files, constant styles and decoration of the pages but four, the contents of log lines,
  handing plain requests to the framework, and the two other programs. The backend enters as a function from
  requests to answers; where a property needs more of it (that a successful answer has the claimed type, with
  unique ids), that is a hypothesis of the property. React's scheduling is modelled as far as the code relies on it: an
  effect runs after the update that changes its dependencies, and handlers run one at a time.
\<close>

section \<open>Properties that span components\<close>

subsection \<open>The chat connection\<close>

lemma close_codes:
  "runs pair_step pair_init es t \<Longrightarrow> px_browserCode t = Some c \<Longrightarrow> c = 1000 \<or> c = 1011 \<and> pair_event.Backend_Error \<in> set es"
proof (induction es arbitrary: t rule: rev_induct)
  case Nil
  then show ?case by (simp add: pair_init_def)
next
  case (snoc e es)
  then obtain u where u: "runs pair_step pair_init es u" "pair_step u e t" by (auto simp: runs_snoc)
  then have t: "t = pair_apply e u" by (simp add: pair_step_iff)
  show ?case
  proof (cases "px_browserCode t = px_browserCode u")
    case True
    with snoc.IH [OF u(1)] snoc.prems(2) show ?thesis by auto
  next
    case False
    with t snoc.prems(2) show ?thesis by (cases e) (auto simp: pair_defs split: if_splits ready.splits)
  qed
qed

text \<open>
  C25. A connection the chat service drops is not re-established: whatever code the service closes an open pair
  with, even an abnormal one, the proxy closes the browser with 1000, and from then on, whatever happens until the
  page mounts the hook anew, the hook opens no socket, schedules no reconnection, stays disconnected and receives
  nothing. The proxy closes a browser with another code, 1011, which makes the hook reconnect, only after an
  error event of the backend socket.
\<close>

theorem dropped_connection_stays_down:
  assumes "reachable (\<lambda>s. s = pair_init) pair_step s" and "px_browser s = Open" and "px_backend s = Open"
    and "reachable (\<lambda>h. \<exists>c. h = hook_init c) hook_step h" and "hk_wsRef h = Some i"
    and "runs hook_step (ws_onclose i 1000 h) hs h'" and "\<forall>b. Run_Effect b \<notin> set hs"
  shows "px_browserCode (on_backend_close code s) = Some 1000 \<and>
    length (hk_sockets h') = length (hk_sockets h) \<and> hk_timers h' = [] \<and> hk_wsRef h' = None \<and>
    \<not> hook_isConnected h' \<and> hk_chat h' = hk_chat h \<and> hk_sent h' = hk_sent h \<and>
    (\<forall>es t c. runs pair_step pair_init es t \<and> px_browserCode t = Some c \<and> c \<noteq> 1000 \<longrightarrow>
       c = 1011 \<and> pair_event.Backend_Error \<in> set es) \<and>
    hk_timers (ws_onclose i 1011 h) \<noteq> []"
proof -
  have "px_wired s" using pair.inv_reachable [OF assms(1)] assms(3) by (simp add: pair_inv_def)
  then have code: "px_browserCode (on_backend_close code s) = Some 1000"
    using assms(2) by (simp add: pair_defs)
  have inv: "hook_inv h" by (rule hook.inv_reachable [OF assms(4)])
  note closed = ws_onclose_current [OF inv assms(5), of 1000] ws_onclose_current [OF inv assms(5), of 1011]
  have "hook_dead h (ws_onclose i 1000 h)" by (rule hook_dead_closed [OF inv assms(5)])
  from hook_dead_runs [OF assms(6) this assms(7)] have "hook_dead h h'" .
  then show ?thesis
    using code closed close_codes by (auto simp: hook_dead_def hook_isConnected_def Let_def)
qed

lemma dropped_connection_stays_down_witness:
  "\<exists>h'. runs hook_step (ws_onclose 0 1000 (hook_run_effect ''b1'' (hook_init chat_init))) [Unmount] h' \<and>
     hk_timers h' = [] \<and> hk_wsRef h' = None"
proof -
  let ?h = "hook_run_effect ''b1'' (hook_init chat_init)"
  have p: "reachable (\<lambda>s. s = pair_init) pair_step (on_backend_open pair_init)"
    by (rule reach_step [of _ _ pair_init Backend_Open], rule reach_start) (simp_all add: pair_step_iff pair_init_def)
  have o: "px_browser (on_backend_open pair_init) = Open" "px_backend (on_backend_open pair_init) = Open"
    by (simp_all add: on_backend_open_def pair_init_def)
  have r: "reachable (\<lambda>h. \<exists>c. h = hook_init c) hook_step ?h"
    by (rule reach_step [of _ _ "hook_init chat_init" "Run_Effect ''b1''"], rule reach_start) (auto simp: hook_step_iff)
  have w: "hk_wsRef ?h = Some 0"
    by (simp add: hook_run_effect_def hook_cleanup_def hook_init_def hook_connect_def Let_def)
  have u: "runs hook_step (ws_onclose 0 1000 ?h) [Unmount] (hook_cleanup (ws_onclose 0 1000 ?h))"
    by (simp add: hook_step_iff)
  from dropped_connection_stays_down [OF p o r w u, of 1006] u show ?thesis by auto
qed

lemma fold_service_frames:
  "fold ws_onmessage (map service_frame ms) chat = fold (\<lambda>m. appendMessage (ms_conversationId m) m) ms chat"
proof (induction ms arbitrary: chat)
  case (Cons m ms)
  have "ws_onmessage (service_frame m) chat = appendMessage (ms_conversationId m) m chat"
    by (cases m) (simp add: ws_onmessage_def message_of_service_frame message_of_json_def)
  with Cons show ?case by simp
qed simp

lemma messages_fold_append:
  "messages_of (fold (\<lambda>m. appendMessage (ms_conversationId m) m) ms chat) c =
     fold (append_absent ms_messageId) (filter (\<lambda>m. ms_conversationId m = c) ms) (messages_of chat c)"
  by (induction ms arbitrary: chat) (auto simp: store_simps)

lemma backend_frames_map: "backend_frames (map Backend_Message fs) = fs"
  by (induction fs) auto

text \<open>
  C3. A conversation end to end, from the chat service to the screen: the frames of any messages the service
  writes while the pair is open reach the hook in order, and each conversation's list then is its old list with
  the new messages of that conversation added in order, each once, the lists still free of duplicates.
\<close>

theorem service_messages_reach_store:
  assumes "reachable (\<lambda>s. s = pair_init) pair_step s" and "px_browser s = Open" and "px_backend s = Open"
    and "runs pair_step s (map (\<lambda>m. Backend_Message (service_frame m)) ms) t"
    and "distinct (map ms_messageId (messages_of chat c))"
  shows "\<exists>fs. px_toBrowser t = px_toBrowser s @ fs \<and>
    messages_of (fold ws_onmessage fs chat) c =
      fold (append_absent ms_messageId) (filter (\<lambda>m. ms_conversationId m = c) ms) (messages_of chat c) \<and>
    distinct (map ms_messageId (messages_of (fold ws_onmessage fs chat) c)) \<and>
    ms_messageId ` set (messages_of (fold ws_onmessage fs chat) c) =
      ms_messageId ` set (messages_of chat c) \<union> ms_messageId ` {m \<in> set ms. ms_conversationId m = c}"
proof -
  have wired: "px_wired s" using pair.inv_reachable [OF assms(1)] assms(3) by (simp add: pair_inv_def)
  let ?es = "map (\<lambda>m. Backend_Message (service_frame m)) ms"
  have "list_all is_message ?es" by (simp add: list_all_iff)
  with runs_open_frames [OF assms(4) wired assms(2,3)]
  have "px_toBrowser t = px_toBrowser s @ backend_frames ?es" by simp
  moreover have "backend_frames ?es = map service_frame ms"
    using backend_frames_map [of "map service_frame ms"] by (simp add: comp_def)
  moreover have "messages_of (fold ws_onmessage (map service_frame ms) chat) c =
      fold (append_absent ms_messageId) (filter (\<lambda>m. ms_conversationId m = c) ms) (messages_of chat c)"
    by (simp add: fold_service_frames messages_fold_append)
  ultimately show ?thesis
    by (intro exI [of _ "map service_frame ms"])
      (simp add: message_log.keys_fold message_log.unique_fold [OF assms(5)])
qed

lemma service_messages_reach_store_witness:
  "\<exists>fs. ms_messageId ` set (messages_of (fold ws_onmessage fs chat_init) ''c1'') = {''m1''}"
proof -
  let ?s = "on_backend_open pair_init" and ?m = "(sample_msg ''m1'')\<lparr>ms_conversationId := ''c1''\<rparr>"
  have p: "reachable (\<lambda>s. s = pair_init) pair_step ?s"
    by (rule reach_step [of _ _ pair_init Backend_Open], rule reach_start) (simp_all add: pair_step_iff pair_init_def)
  have o: "px_browser ?s = Open" "px_backend ?s = Open" by (simp_all add: on_backend_open_def pair_init_def)
  have r: "runs pair_step ?s (map (\<lambda>m. Backend_Message (service_frame m)) [?m]) (on_backend_message (service_frame ?m) ?s)"
    using o by (simp add: pair_step_iff)
  have "distinct (map ms_messageId (messages_of chat_init ''c1''))" by (simp add: chat_init_def)
  from service_messages_reach_store [OF p o r this] obtain fs where
    fs: "ms_messageId ` set (messages_of (fold ws_onmessage fs chat_init) ''c1'') =
      ms_messageId ` set (messages_of chat_init ''c1'') \<union> ms_messageId ` {m \<in> set [?m]. ms_conversationId m = ''c1''}"
    by blast
  have "{m \<in> set [?m]. ms_conversationId m = ''c1''} = {?m}" by auto
  with fs show ?thesis
    by (intro exI [of _ fs]) (simp add: chat_init_def sample_msg_def)
qed

subsection \<open>Users and access\<close>

text \<open>
  C34. Revoking or granting access on the access page decides who can be written to on the chat page: a member
  of the workspace is offered for a new conversation exactly if access was granted and no direct conversation
  with them exists; what is offered for everyone else does not change.
\<close>

theorem access_decides_targets:
  assumes "cp_user p = Some u" and "ct_workspaces (page_chat p) (au_buId u) = Some w"
    and "k \<in> mb_personId ` set (ws_members w)" and "k \<noteq> au_personId u"
    and "ChatPage time p = View_Chat before i1 l1 m1 n1 o1"
    and "ChatPage time (upd_chat (updateAccess_end (au_buId u) k granted (Inr ())) p) = View_Chat entries i2 l2 m2 n2 o2"
  shows "(Start_DM k \<in> ci_onClick ` set (list_items entries) \<longleftrightarrow> granted \<and>
      (\<forall>d \<in> set (conversations_of (page_chat p) (au_buId u)). cv_type d = Dm \<longrightarrow> k \<notin> pt_personId ` set (cv_participants d))) \<and>
    (\<forall>j. j \<noteq> k \<longrightarrow> (Start_DM j \<in> ci_onClick ` set (list_items entries) \<longleftrightarrow>
                   Start_DM j \<in> ci_onClick ` set (list_items before)))"
proof -
  have b: "page_buId p = au_buId u" using assms(1) by (simp add: page_buId_def)
  let ?w = "w\<lparr>ws_members := map (\<lambda>m. if mb_personId m = k then m\<lparr>mb_hasAccess := granted\<rparr> else m) (ws_members w)\<rparr>"
  have conv: "ct_conversations (updateAccess_end (au_buId u) k granted (Inr ()) s) = ct_conversations s" for s
    by (simp add: updateAccess_end_def split: option.split)
  have new: "entries = ConversationList (conversations_of (page_chat p) (au_buId u))
      (ct_active (updateAccess_end (au_buId u) k granted (Inr ()) (page_chat p))) (au_personId u) (ws_buName w) (availableDMTargets (Some ?w))"
    using assms(1,6) b updateAccess_workspace [OF assms(2), of k granted]
    by (simp add: ChatPage_def Let_def conv split: if_split_asm)
  have old: "before = ConversationList (conversations_of (page_chat p) (au_buId u))
      (ct_active (page_chat p)) (au_personId u) (ws_buName w) (availableDMTargets (Some w))"
    using assms(1,2,5) b by (simp add: ChatPage_def Let_def split: if_splits)
  have upd: "(\<exists>m \<in> set (ws_members ?w). mb_personId m = j \<and> mb_hasAccess m) \<longleftrightarrow>
      (\<exists>m \<in> set (ws_members w). mb_personId m = j \<and> (if j = k then granted else mb_hasAccess m))" for j
  proof -
    let ?f = "\<lambda>m. if mb_personId m = k then m\<lparr>mb_hasAccess := granted\<rparr> else m"
    have f: "mb_personId (?f m) = mb_personId m" "mb_hasAccess (?f m) = (if mb_personId m = k then granted else mb_hasAccess m)"
      for m by simp_all
    have w: "ws_members ?w = map ?f (ws_members w)" by simp
    have "(\<exists>m \<in> set (ws_members ?w). mb_personId m = j \<and> mb_hasAccess m) \<longleftrightarrow>
        (\<exists>m \<in> set (ws_members w). mb_personId (?f m) = j \<and> mb_hasAccess (?f m))"
      unfolding w set_map by (rule bex_simps)
    also have "\<dots> \<longleftrightarrow> (\<exists>m \<in> set (ws_members w). mb_personId m = j \<and> (if j = k then granted else mb_hasAccess m))"
      unfolding f by (intro bex_cong refl) auto
    finally show ?thesis .
  qed
  have k: "k \<in> tg_personId ` set (availableDMTargets (Some ?w)) \<longleftrightarrow> granted"
    unfolding target_ids upd using assms(3) by auto
  have j: "j \<in> tg_personId ` set (availableDMTargets (Some ?w)) \<longleftrightarrow> j \<in> tg_personId ` set (availableDMTargets (Some w))"
    if "j \<noteq> k" for j
    unfolding target_ids upd using that by simp
  show ?thesis
    unfolding new old start_dm_click using k j assms(4) by blast
qed

definition sample_chat_page :: chat_page where
  "sample_chat_page = (chat_page_init (Some (sample_user\<lparr>au_personId := ''p1'', au_buId := ''b''\<rparr>))
     (hook_init (chat_init\<lparr>ct_workspaces := [''b'' \<mapsto> sample_workspace]\<rparr>)))\<lparr>cp_initialLoading := False\<rparr>"

lemma access_decides_targets_witness:
  "\<exists>entries i l m n v. ChatPage (\<lambda>t. t) (upd_chat (updateAccess_end ''b'' ''p2'' False (Inr ())) sample_chat_page) =
     View_Chat entries i l m n v \<and> Start_DM ''p2'' \<notin> ci_onClick ` set (list_items entries)"
proof -
  let ?u = "sample_user\<lparr>au_personId := ''p1'', au_buId := ''b''\<rparr>"
  have b: "cp_user sample_chat_page = Some ?u" "page_chat sample_chat_page = chat_init\<lparr>ct_workspaces := [''b'' \<mapsto> sample_workspace]\<rparr>"
    "\<not> cp_initialLoading sample_chat_page" "\<not> cp_accessDenied sample_chat_page"
    by (simp_all add: sample_chat_page_def chat_page_init_def hook_init_def)
  have shown: "\<exists>a i l m n v. ChatPage (\<lambda>t. t) q = View_Chat a i l m n v"
    if "cp_user q = Some ?u" "\<not> cp_initialLoading q" "\<not> cp_accessDenied q" for q
    using that by (simp add: ChatPage_def Let_def)
  obtain a i l m n v where 1: "ChatPage (\<lambda>t. t) sample_chat_page = View_Chat a i l m n v"
    using shown b by blast
  obtain a' i' l' m' n' v' where
    2: "ChatPage (\<lambda>t. t) (upd_chat (updateAccess_end (au_buId ?u) ''p2'' False (Inr ())) sample_chat_page) = View_Chat a' i' l' m' n' v'"
    using shown [of "upd_chat (updateAccess_end (au_buId ?u) ''p2'' False (Inr ())) sample_chat_page"] b by auto
  have 3: "ct_workspaces (page_chat sample_chat_page) (au_buId ?u) = Some sample_workspace"
    "''p2'' \<in> mb_personId ` set (ws_members sample_workspace)" "''p2'' \<noteq> au_personId ?u"
    using b by (simp_all add: sample_workspace_def)
  from access_decides_targets [OF b(1) 3 1 2] 2 show ?thesis by auto
qed

text \<open>
  C30. Signing out clears the browser and the store together: after the logout route's answer every page behind
  the layout redirects to the login page, which is shown, at every later time, and the store has no user and no
  role. If the route cannot be reached nothing changes: user, cookies and page stay, without a message.
\<close>

theorem logout_signs_out:
  assumes "map_of page_table k = Some pg" and "protected_page pg"
  shows "let j' = store_cookies now (nr_cookies (logout_post env)) j; s' = handleLogout (Inr ()) s in
    (\<forall>t. getAuthUser t j' = None \<and> visit t j' k = Redirected ''/login'' \<and> visit t j' ''/login'' = Shown Login_Page) \<and>
    as_user (ly_auth s') = None \<and> \<not> as_isOwner (ly_auth s') \<and> \<not> as_isOwnerOrAdmin (ly_auth s') \<and>
    ly_effects s' = ly_effects s @ [Goto ''/login'', Refresh_Page] \<and>
    handleLogout (Inl e) s = s"
proof -
  let ?j = "store_cookies now (nr_cookies (logout_post env)) j"
  have j: "?j = j(''auth_token'' := None, ''user_info'' := None)"
    by (simp add: logout_post_def store_session_cookies del: store_cookies_simps)
  have c: "cookie_value t ?j ''auth_token'' = None" "cookie_value t ?j ''user_info'' = None" for t
    unfolding j by (simp_all add: cookie_value_def)
  have k: "run_middleware k None = Mw_Redirect ''/login''"
    using assms unfolding page_table_def
    by (auto simp: run_middleware_def middleware_def public_paths_def starts_with_def Let_def split: if_splits)
  have l: "run_middleware ''/login'' None = Mw_Next" "map_of page_table ''/login'' = Some Login_Page"
    by (simp_all add: run_middleware_def middleware_def public_paths_def starts_with_def page_table_def Let_def)
  show ?thesis
    using c k l
    by (simp add: visit_def getAuthUser_def render_page_def handleLogout_def auth_logout_def Let_def)
qed

lemma logout_signs_out_witness:
  "visit 0 (store_cookies 0 (nr_cookies (logout_post sample_env)) sample_jar) ''/staff'' = Redirected ''/login''"
proof -
  have "map_of page_table ''/staff'' = Some Staff_Page" "protected_page Staff_Page" by (simp_all add: page_table_def)
  from logout_signs_out [OF this, of 0 sample_env sample_jar "layout_init auth_init" No_Response]
  show ?thesis by (auto simp: Let_def)
qed

end
